(* ===== verification/Prelude.thy ===== *)
theory Prelude
  imports Main "HOL-Library.Product_Lexorder"
begin

section \<open>Prelude: Go values, errors and rows of a table\<close>

text \<open>
  What every component shares: Go's \<open>error\<close> values with the wrapping that
  \<open>fmt.Errorf\<close> does, decimal printing, the order of \<open>ORDER BY created_at DESC\<close>, and the
  row operations (\<open>WHERE id = $1\<close>) with their laws. The laws are stated once, as the locale
  \<open>row_store\<close>, and the tables of the schema interpret it.
\<close>

type_synonym time = int \<comment> \<open>nanoseconds since the Unix epoch\<close>

subsection \<open>Go errors\<close>

text \<open>
  An \<open>error\<close> of the code is the sentinel \<open>sql.ErrNoRows\<close>, an error of the driver or of the
  server (class and text), a failed \<open>Scan\<close>, or the result of \<open>fmt.Errorf\<close>: its formatted
  text and the error it wraps (\<open>%w\<close>), if any. Comparison with \<open>==\<close> is equality of values here,
  so a wrapped \<open>ErrNoRows\<close> differs from \<open>ErrNoRows\<close>, as in Go.
\<close>

datatype pq_class =
    InvalidText        \<comment> \<open>22P02, a malformed uuid\<close>
  | OutOfRange         \<comment> \<open>22003, 22008: an integer or a timestamp the column type does not hold\<close>
  | BadEncoding        \<comment> \<open>22021, text that is not valid in the database encoding\<close>
  | ForeignKeyViolation string
  | UniqueViolation string

datatype go_error =
    ErrNoRows
  | DriverError string             \<comment> \<open>connection, timeout or context error\<close>
  | PqError pq_class string
  | ScanError string
  | Errorf string "go_error option"

fun error_text :: "go_error \<Rightarrow> string" where
  "error_text ErrNoRows = ''sql: no rows in result set''"
| "error_text (DriverError m) = m"
| "error_text (PqError _ m) = m"
| "error_text (ScanError m) = m"
| "error_text (Errorf m _) = m"

text \<open>\<open>fmt.Errorf(prefix + "%w", e)\<close> and \<open>fmt.Errorf(text)\<close>.\<close>

definition errorf_w :: "string \<Rightarrow> go_error \<Rightarrow> go_error" where
  "errorf_w prefix e = Errorf (prefix @ error_text e) (Some e)"

definition errorf :: "string \<Rightarrow> go_error" where
  "errorf m = Errorf m None"

lemma errorf_neq_ErrNoRows [simp]:
  "errorf m \<noteq> ErrNoRows" "ErrNoRows \<noteq> errorf m"
  "errorf_w p e \<noteq> ErrNoRows" "ErrNoRows \<noteq> errorf_w p e"
  by (simp_all add: errorf_def errorf_w_def)

lemma error_text_errorf [simp]:
  "error_text (errorf m) = m" "error_text (errorf_w p e) = p @ error_text e"
  by (simp_all add: errorf_def errorf_w_def)

lemma errorf_inject [simp]:
  "errorf m = errorf n \<longleftrightarrow> m = n"
  "errorf m \<noteq> errorf_w p e" "errorf_w p e \<noteq> errorf m"
  by (simp_all add: errorf_def errorf_w_def)

subsection \<open>Decimal printing\<close>

fun digits10 :: "nat \<Rightarrow> string" where
  "digits10 n = (if n < 10 then [char_of (48 + n)]
                 else digits10 (n div 10) @ [char_of (48 + n mod 10)])"

declare digits10.simps [simp del]

definition itoa :: "int \<Rightarrow> string" where
  "itoa i = (if i < 0 then CHR ''-'' # digits10 (nat (- i)) else digits10 (nat i))"

text \<open>\<open>%q\<close> of a string without special characters.\<close>

definition quoted :: "string \<Rightarrow> string" where
  "quoted s = CHR 0x22 # s @ [CHR 0x22]"

lemma digits10_nonempty [simp]: "digits10 n \<noteq> []"
  by (subst digits10.simps) simp

subsection \<open>\<open>ORDER BY created_at DESC\<close>\<close>

text \<open>
  Descending order puts NULL first. Rows with equal keys stay in table order: SQL leaves their
  order open, and nothing below depends on it.
\<close>

definition desc_key :: "time option \<Rightarrow> bool \<times> int" where
  "desc_key t = (case t of None \<Rightarrow> (False, 0) | Some x \<Rightarrow> (True, - x))"

definition order_desc :: "('r \<Rightarrow> time option) \<Rightarrow> 'r list \<Rightarrow> 'r list" where
  "order_desc f rows = sort_key (\<lambda>r. desc_key (f r)) rows"

lemma desc_key_le [simp]:
  "desc_key None \<le> desc_key t" "desc_key (Some a) \<le> desc_key (Some b) \<longleftrightarrow> b \<le> a"
  "desc_key (Some a) \<le> desc_key None \<longleftrightarrow> False"
  by (auto simp: desc_key_def less_eq_prod_def split: option.split)

lemma set_order_desc [simp]: "set (order_desc f rows) = set rows"
  by (simp add: order_desc_def)

lemma length_order_desc [simp]: "length (order_desc f rows) = length rows"
  by (simp add: order_desc_def)

lemma sorted_order_desc: "sorted (map (\<lambda>r. desc_key (f r)) (order_desc f rows))"
  by (simp add: order_desc_def)

lemma sorted_order_desc_nth:
  assumes "i < j" and "j < length rows"
  shows "desc_key (f (order_desc f rows ! i)) \<le> desc_key (f (order_desc f rows ! j))"
  using sorted_nth_mono [OF sorted_order_desc [of f rows], of i j] assms by simp

lemma filter_order_desc: "filter P (order_desc f rows) = order_desc f (filter P rows)"
  by (simp add: order_desc_def filter_sort)

subsection \<open>Rows of a table by primary key\<close>

text \<open>
  \<open>SELECT ... WHERE id = $1\<close>, \<open>UPDATE ... WHERE id = $1\<close>, \<open>DELETE ... WHERE id = $1\<close> on a
  table held as the list of its rows.
\<close>

definition find_row :: "('r \<Rightarrow> string) \<Rightarrow> string \<Rightarrow> 'r list \<Rightarrow> 'r option" where
  "find_row key k rows = List.find (\<lambda>r. key r = k) rows"

definition update_rows :: "('r \<Rightarrow> bool) \<Rightarrow> ('r \<Rightarrow> 'r) \<Rightarrow> 'r list \<Rightarrow> 'r list" where
  "update_rows P f rows = map (\<lambda>r. if P r then f r else r) rows"

definition delete_rows :: "('r \<Rightarrow> bool) \<Rightarrow> 'r list \<Rightarrow> 'r list" where
  "delete_rows P rows = filter (\<lambda>r. \<not> P r) rows"

lemma find_row_simps [simp]:
  "find_row key k [] = None"
  "find_row key k (r # rows) = (if key r = k then Some r else find_row key k rows)"
  by (simp_all add: find_row_def)

lemma find_row_Some: "find_row key k rows = Some r \<Longrightarrow> r \<in> set rows \<and> key r = k"
  by (induction rows) (auto split: if_splits)

lemma find_row_None: "find_row key k rows = None \<longleftrightarrow> k \<notin> key ` set rows"
  by (induction rows) auto

lemma find_row_append [simp]:
  "find_row key k (xs @ ys) =
     (case find_row key k xs of None \<Rightarrow> find_row key k ys | Some r \<Rightarrow> Some r)"
  by (induction xs) auto

lemma find_row_in_set:
  "distinct (map key rows) \<Longrightarrow> r \<in> set rows \<Longrightarrow> find_row key (key r) rows = Some r"
  by (induction rows) auto

lemma find_row_update:
  assumes "\<And>r. key (f r) = key r"
  shows "find_row key k (update_rows P f rows) =
           map_option (\<lambda>r. if P r then f r else r) (find_row key k rows)"
  using assms by (induction rows) (auto simp: update_rows_def)

lemma find_row_delete:
  "find_row key k (delete_rows (\<lambda>r. key r = j) rows) =
     (if k = j then None else find_row key k rows)"
  by (induction rows) (auto simp: delete_rows_def)

lemma map_key_update:
  assumes "\<And>r. key (f r) = key r"
  shows "map key (update_rows P f rows) = map key rows"
  using assms by (auto simp: update_rows_def)

lemma set_update_rows:
  "set (update_rows P f rows) = (\<lambda>r. if P r then f r else r) ` set rows"
  by (simp add: update_rows_def)

lemma update_rows_none: "(\<And>r. r \<in> set rows \<Longrightarrow> \<not> P r) \<Longrightarrow> update_rows P f rows = rows"
  by (induction rows) (auto simp: update_rows_def)

lemma set_delete_rows [simp]: "set (delete_rows P rows) = {r \<in> set rows. \<not> P r}"
  by (auto simp: delete_rows_def)

text \<open>
  The contract of a table that a service relies on: what a lookup by primary key returns after an
  insert and after an update of one row. A service's lemmas about its rows are proved from these
  laws, for every table that meets them.
\<close>

locale row_store =
  fixes key :: "'r \<Rightarrow> string"
    and get :: "string \<Rightarrow> 's \<Rightarrow> 'r option"
    and ins :: "'r \<Rightarrow> 's \<Rightarrow> 's"
    and upd :: "string \<Rightarrow> ('r \<Rightarrow> 'r) \<Rightarrow> 's \<Rightarrow> 's"
  assumes get_key: "get k s = Some r \<Longrightarrow> key r = k"
    and get_ins: "get (key r) s = None \<Longrightarrow> get k (ins r s) = (if k = key r then Some r else get k s)"
    and get_upd: "(\<And>r. key (f r) = key r) \<Longrightarrow>
          get k (upd j f s) = (if k = j then map_option f (get k s) else get k s)"
begin

lemma get_ins_same: "get (key r) s = None \<Longrightarrow> get (key r) (ins r s) = Some r"
  by (simp add: get_ins)

lemma get_ins_mono: "get (key r) s = None \<Longrightarrow> get k s = Some q \<Longrightarrow> get k (ins r s) = Some q"
  by (auto simp: get_ins)

lemma get_upd_mono:
  assumes "\<And>r. key (f r) = key r" and "get k s = Some q"
  shows "get k (upd j f s) = Some (if k = j then f q else q)"
  using assms by (cases "k = j") (simp_all add: get_upd)

lemma get_upd_missing:
  assumes "\<And>r. key (f r) = key r" and "get j s = None"
  shows "get k (upd j f s) = get k s"
  using assms by (cases "k = j") (simp_all add: get_upd)

lemma get_upd_upd:
  assumes "\<And>r. key (f r) = key r" and "\<And>r. key (g r) = key r"
  shows "get k (upd j g (upd j f s)) = get k (upd j (g \<circ> f) s)"
proof -
  have "\<And>r. key ((g \<circ> f) r) = key r" using assms by simp
  then show ?thesis
    using assms by (simp add: get_upd option.map_comp)
qed

end

text \<open>A table from which rows are also deleted.\<close>

locale row_store_del = row_store +
  fixes del :: "string \<Rightarrow> 's \<Rightarrow> 's"
  assumes get_del: "get k (del j s) = (if k = j then None else get k s)"
begin

lemma get_del_ins:
  assumes "get (key r) s = None"
  shows "get k (del (key r) (ins r s)) = get k s"
  using assms by (simp add: get_del get_ins)

lemma get_del_upd:
  assumes "\<And>r. key (f r) = key r"
  shows "get k (del j (upd j f s)) = get k (del j s)"
  using assms by (simp add: get_del get_upd)

end

end
