(* ===== verification/Strconv.thy ===== *)
theory Strconv
  imports Prelude
begin

section \<open>Go's \<open>strconv\<close>: decimal integers\<close>

text \<open>
  \<open>strconv.Atoi\<close> as the standard library writes it: an optional sign, then \<open>ParseUint\<close>, which
  reports a bad character or an overflow of \<open>uint64\<close>, whichever comes first from the left, then the
  range of \<open>int\<close> (64 bits). \<open>Quote\<close> is \<open>strconv.Quote\<close>, which formats the text in an error, on the
  ASCII range; bytes above it are kept, as for printable UTF-8.
\<close>

subsection \<open>The value of a string of digits\<close>

definition is_digit :: "char \<Rightarrow> bool" where
  "is_digit ch \<longleftrightarrow> 48 \<le> (of_char ch :: nat) \<and> (of_char ch :: nat) < 58"

definition digit_val :: "char \<Rightarrow> nat" where
  "digit_val ch = of_char ch - 48"

definition digits_val :: "string \<Rightarrow> nat" where
  "digits_val s = foldl (\<lambda>n ch. 10 * n + digit_val ch) 0 s"

lemma digit_char [simp]:
  assumes "n < 10"
  shows "digit_val (char_of (48 + n)) = n" "is_digit (char_of (48 + n))"
  using assms by (simp_all add: digit_val_def is_digit_def of_char_of)

lemma digits_val_snoc [simp]: "digits_val (s @ [ch]) = 10 * digits_val s + digit_val ch"
  by (simp add: digits_val_def)

lemma digits_val_digits10 [simp]: "digits_val (digits10 n) = n"
proof (induction n rule: digits10.induct)
  case (1 n)
  then show ?case
    by (subst digits10.simps) (auto simp: digits_val_def digits_val_snoc [unfolded digits_val_def])
qed

lemma digits10_digits: "ch \<in> set (digits10 n) \<Longrightarrow> is_digit ch"
proof (induction n rule: digits10.induct)
  case (1 n)
  then show ?case by (subst (asm) (2) digits10.simps) (auto split: if_splits)
qed

lemma digits10_inject [simp]: "digits10 m = digits10 n \<longleftrightarrow> m = n"
  by (metis digits_val_digits10)

lemma length_digits10: "n < 10 ^ w \<Longrightarrow> 0 < w \<Longrightarrow> length (digits10 n) \<le> w"
proof (induction n arbitrary: w rule: digits10.induct)
  case (1 n)
  show ?case
  proof (cases "n < 10")
    case True
    then show ?thesis using 1(3) by (subst digits10.simps) simp
  next
    case False
    with 1(2,3) obtain v where v: "w = Suc v" "0 < v" by (cases w; cases "w - 1") auto
    with 1(2) have "n div 10 < 10 ^ v" by (simp add: less_mult_imp_div_less)
    with 1(1) [OF False this v(2)] show ?thesis
      using False v by (subst digits10.simps) simp
  qed
qed

text \<open>Zero padding, as the layouts of \<open>time.Format\<close> use it.\<close>

definition pad :: "nat \<Rightarrow> nat \<Rightarrow> string" where
  "pad w n = replicate (w - length (digits10 n)) (CHR ''0'') @ digits10 n"

lemma length_pad: "n < 10 ^ w \<Longrightarrow> 0 < w \<Longrightarrow> length (pad w n) = w"
  using length_digits10 [of n w] by (simp add: pad_def)

lemma digits_val_zeros: "digits_val (replicate k (CHR ''0'') @ s) = digits_val s"
  by (induction k) (simp_all add: digits_val_def digit_val_def)

lemma digits_val_pad [simp]: "digits_val (pad w n) = n"
  by (simp add: pad_def digits_val_zeros)

lemma pad_inject [simp]: "pad w m = pad w n \<longleftrightarrow> m = n"
  by (metis digits_val_pad)

subsection \<open>\<open>Atoi\<close>\<close>

datatype parse_error = ErrSyntax | ErrRange

definition maxUint64 :: int where "maxUint64 = 2 ^ 64 - 1"

definition uint_cutoff :: int where "uint_cutoff = maxUint64 div 10 + 1"

text \<open>The loop of \<open>ParseUint\<close> in base 10.\<close>

fun parse_uint_loop :: "int \<Rightarrow> string \<Rightarrow> parse_error + int" where
  "parse_uint_loop n [] = Inr n"
| "parse_uint_loop n (ch # cs) =
    (if \<not> is_digit ch then Inl ErrSyntax
     else if uint_cutoff \<le> n then Inl ErrRange
     else if maxUint64 < n * 10 + int (digit_val ch) then Inl ErrRange
     else parse_uint_loop (n * 10 + int (digit_val ch)) cs)"

definition ParseUint :: "string \<Rightarrow> parse_error + int" where
  "ParseUint s = (if s = [] then Inl ErrSyntax else parse_uint_loop 0 s)"

definition ParseInt :: "string \<Rightarrow> parse_error + int" where
  "ParseInt s =
    (if s = [] then Inl ErrSyntax
     else
      (let neg = (hd s = CHR ''-''); body = (if hd s = CHR ''+'' \<or> hd s = CHR ''-'' then tl s else s) in
       case ParseUint body of
         Inl e \<Rightarrow> Inl e
       | Inr un \<Rightarrow>
          (if \<not> neg \<and> 2 ^ 63 \<le> un then Inl ErrRange
           else if neg \<and> 2 ^ 63 < un then Inl ErrRange
           else Inr (if neg then - un else un))))"

text \<open>\<open>strconv.Quote\<close> on ASCII.\<close>

definition hex_digit :: "nat \<Rightarrow> char" where
  "hex_digit n = (if n < 10 then char_of (48 + n) else char_of (87 + n))"

definition quote_char :: "char \<Rightarrow> string" where
  "quote_char ch =
    (let n = (of_char ch :: nat); bs = CHR 0x5C in
     if n = 34 \<or> n = 92 then [bs, ch]
     else if n = 7 then bs # ''a'' else if n = 8 then bs # ''b'' else if n = 12 then bs # ''f''
     else if n = 10 then bs # ''n'' else if n = 13 then bs # ''r'' else if n = 9 then bs # ''t''
     else if n = 11 then bs # ''v''
     else if n < 32 \<or> n = 127 then bs # CHR ''x'' # hex_digit (n div 16) # [hex_digit (n mod 16)]
     else [ch])"

definition Quote :: "string \<Rightarrow> string" where
  "Quote s = quoted (concat (map quote_char s))"

definition parse_error_text :: "parse_error \<Rightarrow> string" where
  "parse_error_text e = (case e of ErrSyntax \<Rightarrow> ''invalid syntax'' | ErrRange \<Rightarrow> ''value out of range'')"

definition Atoi :: "string \<Rightarrow> go_error + int" where
  "Atoi s =
    (case ParseInt s of
       Inl e \<Rightarrow> Inl (errorf (''strconv.Atoi: parsing '' @ Quote s @ '': '' @ parse_error_text e))
     | Inr n \<Rightarrow> Inr n)"

lemma parse_uint_digits:
  assumes "\<And>ch. ch \<in> set s \<Longrightarrow> is_digit ch"
    and "0 \<le> n" and "int (foldl (\<lambda>n ch. 10 * n + digit_val ch) (nat n) s) \<le> maxUint64"
  shows "parse_uint_loop n s = Inr (int (foldl (\<lambda>n ch. 10 * n + digit_val ch) (nat n) s))"
  using assms
proof (induction s arbitrary: n)
  case (Cons ch cs)
  let ?n = "n * 10 + int (digit_val ch)"
  have mono: "m \<le> foldl (\<lambda>n ch. 10 * n + digit_val ch) m t" for m :: nat and t
  proof (induction t arbitrary: m)
    case (Cons c t)
    have "m \<le> 10 * m + digit_val c" by simp
    also have "\<dots> \<le> foldl (\<lambda>n ch. 10 * n + digit_val ch) (10 * m + digit_val c) t" by (rule Cons.IH)
    finally show ?case by simp
  qed simp
  have nat: "nat ?n = 10 * nat n + digit_val ch" using Cons.prems(2) by (simp add: nat_add_distrib nat_mult_distrib)
  with Cons.prems(3) mono [of "nat ?n" cs] have le: "?n \<le> maxUint64"
    using Cons.prems(2) by simp
  then have "n < uint_cutoff" by (simp add: uint_cutoff_def maxUint64_def)
  with le Cons.prems Cons.IH [of ?n] nat show ?case by simp
qed simp

lemma parse_uint_digits10:
  assumes "n < 2 ^ 64"
  shows "parse_uint_loop 0 (digits10 n) = Inr (int n)"
proof -
  have "foldl (\<lambda>n ch. 10 * n + digit_val ch) 0 (digits10 n) = n"
    using digits_val_digits10 [of n] by (simp add: digits_val_def)
  then show ?thesis
    using parse_uint_digits [of "digits10 n" 0] assms by (simp add: digits10_digits maxUint64_def)
qed

lemma Atoi_digits:
  assumes "0 \<le> i" and "i < 2 ^ 63"
  shows "Atoi (digits10 (nat i)) = Inr i"
proof -
  obtain ch cs where s: "digits10 (nat i) = ch # cs" by (cases "digits10 (nat i)") simp_all
  then have "is_digit ch" using digits10_digits [of ch "nat i"] by simp
  then have sign: "ch \<noteq> CHR ''-''" "ch \<noteq> CHR ''+''" by (auto simp: is_digit_def)
  have "parse_uint_loop 0 (digits10 (nat i)) = Inr i"
    using parse_uint_digits10 [of "nat i"] assms by simp
  then show ?thesis
    using assms sign s by (simp add: Atoi_def ParseInt_def ParseUint_def)
qed

lemma Atoi_itoa:
  assumes "- (2 ^ 63) \<le> i" and "i < 2 ^ 63"
  shows "Atoi (itoa i) = Inr i"
proof (cases "i < 0")
  case True
  have "parse_uint_loop 0 (digits10 (nat (- i))) = Inr (- i)"
    using parse_uint_digits10 [of "nat (- i)"] assms True by simp
  then show ?thesis
    using assms True by (simp add: itoa_def Atoi_def ParseInt_def ParseUint_def)
next
  case False
  then show ?thesis using assms Atoi_digits [of i] by (simp add: itoa_def)
qed

text \<open>What \<open>Atoi\<close> accepts lies in the range of a 64-bit \<open>int\<close>.\<close>

lemma parse_uint_loop_bounds: "parse_uint_loop n s = Inr m \<Longrightarrow> 0 \<le> n \<Longrightarrow> 0 \<le> m"
  by (induction n s rule: parse_uint_loop.induct) (auto split: if_splits)

lemma Atoi_range: "Atoi s = Inr i \<Longrightarrow> - (2 ^ 63) \<le> i \<and> i < 2 ^ 63"
  by (auto simp: Atoi_def ParseInt_def ParseUint_def Let_def split: sum.splits if_splits
        dest: parse_uint_loop_bounds)

end
