(* ===== verification/Go_Time.thy ===== *)
theory Go_Time
  imports Strconv "HOL-Library.Word"
begin

section \<open>Go's \<open>time\<close>\<close>

text \<open>
  \<open>Unix\<close>, durations in minutes (64-bit nanoseconds, wrapping) and the two layouts the code formats
  with. Dates follow the proleptic Gregorian calendar, computed by 400-year cycles, then year by
  year and month by month. A time is an instant; the zone it is printed in is its offset from UTC
  in seconds.
\<close>

subsection \<open>Instants and durations\<close>

definition second :: time where "second = 1000000000"

definition Unix :: "time \<Rightarrow> int" where
  "Unix t = t div second"

text \<open>\<open>uint64(t.Unix())\<close>\<close>

definition unix64 :: "time \<Rightarrow> 64 word" where
  "unix64 t = word_of_int (Unix t)"

text \<open>\<open>time.Duration(m) * time.Minute\<close>\<close>

definition minutes :: "int \<Rightarrow> time" where
  "minutes m = sint (word_of_int m * word_of_int (60 * second) :: 64 word)"

lemma sint_word_of_int_64:
  assumes "- (2 ^ 63) \<le> i" and "i < 2 ^ 63"
  shows "sint (word_of_int i :: 64 word) = i"
  using assms by (simp add: sint_sbintrunc' signed_take_bit_int_eq_self)

lemma minutes_exact:
  assumes "0 \<le> m" and "m \<le> 525600"
  shows "minutes m = m * 60 * second"
proof -
  have "(word_of_int m * word_of_int (60 * second) :: 64 word) = word_of_int (m * 60 * second)"
    by (simp add: wi_hom_mult mult.assoc)
  then have "minutes m = sint (word_of_int (m * 60 * second) :: 64 word)"
    by (simp only: minutes_def)
  also have "\<dots> = m * 60 * second"
    using assms by (intro sint_word_of_int_64) (simp_all add: second_def)
  finally show ?thesis .
qed

lemma uint_unix64:
  assumes "0 \<le> t" and "Unix t < 2 ^ 64"
  shows "uint (unix64 t) = Unix t"
  using assms by (simp add: unix64_def Unix_def uint_word_of_int second_def pos_imp_zdiv_nonneg_iff)

lemma Unix_mono: "s \<le> t \<Longrightarrow> Unix s \<le> Unix t"
  by (simp add: Unix_def second_def zdiv_mono1)

lemma Unix_add_seconds: "Unix (t + n * second) = Unix t + n"
  by (simp add: Unix_def second_def)

subsection \<open>The calendar\<close>

definition leap_year :: "nat \<Rightarrow> bool" where
  "leap_year y \<longleftrightarrow> 4 dvd y \<and> (\<not> 100 dvd y \<or> 400 dvd y)"

definition year_days :: "nat \<Rightarrow> nat" where
  "year_days y = (if leap_year y then 366 else 365)"

definition month_lengths :: "nat \<Rightarrow> nat list" where
  "month_lengths y = [31, if leap_year y then 29 else 28, 31, 30, 31, 30, 31, 31, 30, 31, 30, 31]"

lemma year_days_pos [simp]: "0 < year_days y" "365 \<le> year_days y" "year_days y \<noteq> 0"
  by (simp_all add: year_days_def)

function year_of :: "nat \<Rightarrow> nat \<Rightarrow> nat \<times> nat" where
  "year_of y n = (if n < year_days y then (y, n) else year_of (y + 1) (n - year_days y))"
  by auto
termination
proof (relation "measure snd")
  fix y n :: nat
  assume "\<not> n < year_days y"
  then show "((y + 1, n - year_days y), y, n) \<in> measure snd"
    using year_days_pos(2) [of y] by (simp del: year_days_pos)
qed simp

declare year_of.simps [simp del]

fun month_of :: "nat list \<Rightarrow> nat \<Rightarrow> nat \<Rightarrow> nat \<times> nat" where
  "month_of [] m n = (m, n)"
| "month_of (l # ls) m n = (if n < l then (m, n) else month_of ls (m + 1) (n - l))"

text \<open>Year, month and day of a day counted from 1 January of the year 1.\<close>

definition civil :: "nat \<Rightarrow> nat \<times> nat \<times> nat" where
  "civil days =
    (case year_of 1 (days mod 146097) of (y, yday) \<Rightarrow>
      (case month_of (month_lengths y) 1 yday of (m, mday) \<Rightarrow>
         (y + 400 * (days div 146097), m, mday + 1)))"

text \<open>Days from 1 January of year 1 to 1 January 1970.\<close>

definition unix_epoch_days :: int where "unix_epoch_days = 719162"

definition date_of :: "int \<Rightarrow> nat \<times> nat \<times> nat" where
  "date_of local_seconds = civil (nat (local_seconds div 86400 + unix_epoch_days))"

subsection \<open>Layouts\<close>

text \<open>Layout \<open>20060102150405\<close>, at the given zone offset.\<close>

definition format_stamp :: "int \<Rightarrow> time \<Rightarrow> string" where
  "format_stamp offset t =
    (let s = Unix t + offset; sod = nat (s mod 86400) in
     case date_of s of (y, m, d) \<Rightarrow>
       pad 4 y @ pad 2 m @ pad 2 d @ pad 2 (sod div 3600) @ pad 2 (sod div 60 mod 60) @ pad 2 (sod mod 60))"

text \<open>The zone of RFC 3339.\<close>

definition format_zone :: "int \<Rightarrow> string" where
  "format_zone offset =
    (if offset = 0 then ''Z''
     else (let zone = nat (\<bar>offset\<bar> div 60) in
       (if offset < 0 then ''-'' else ''+'') @ pad 2 (zone div 60) @ '':'' @ pad 2 (zone mod 60)))"

definition format_RFC3339 :: "int \<Rightarrow> time \<Rightarrow> string" where
  "format_RFC3339 offset t =
    (let s = Unix t + offset; sod = nat (s mod 86400) in
     case date_of s of (y, m, d) \<Rightarrow>
       pad 4 y @ ''-'' @ pad 2 m @ ''-'' @ pad 2 d @ ''T'' @ pad 2 (sod div 3600) @ '':'' @
       pad 2 (sod div 60 mod 60) @ '':'' @ pad 2 (sod mod 60) @ format_zone offset)"

subsection \<open>Dates count days\<close>

text \<open>The inverse: the days before a year, a month, a day.\<close>

definition days_before_year :: "nat \<Rightarrow> nat" where
  "days_before_year y = sum_list (map year_days [1..<y])"

lemma year_of_days:
  "year_of y n = (y', r) \<Longrightarrow> 0 < y \<Longrightarrow> days_before_year y' + r = days_before_year y + n \<and> r < year_days y' \<and> y \<le> y'"
proof (induction y n rule: year_of.induct)
  case (1 y n)
  show ?case
  proof (cases "n < year_days y")
    case True
    with 1(2) show ?thesis by (subst (asm) year_of.simps) auto
  next
    case False
    from 1(2) False have "year_of (y + 1) (n - year_days y) = (y', r)"
      by (subst (asm) year_of.simps) simp
    from 1(1) [OF False this] 1(3) False show ?thesis by (auto simp: days_before_year_def)
  qed
qed

lemma month_of_days:
  "month_of ls m n = (m', r) \<Longrightarrow> n < sum_list ls \<Longrightarrow>
     m \<le> m' \<and> m' - m < length ls \<and> sum_list (take (m' - m) ls) + r = n \<and> r < ls ! (m' - m)"
proof (induction ls m n rule: month_of.induct)
  case (2 l ls m n)
  show ?case
  proof (cases "n < l")
    case True
    with 2(2) show ?thesis by auto
  next
    case False
    with 2 have "m + 1 \<le> m' \<and> m' - (m + 1) < length ls \<and>
        sum_list (take (m' - (m + 1)) ls) + r = n - l \<and> r < ls ! (m' - (m + 1))" by simp
    moreover from this have "m' - m = Suc (m' - (m + 1))" by linarith
    ultimately show ?thesis using False by (auto simp: not_less)
  qed
qed simp

lemma sum_month_lengths: "sum_list (month_lengths y) = year_days y"
  by (simp add: month_lengths_def year_days_def)

lemma month_length_le: "i < 12 \<Longrightarrow> month_lengths y ! i \<le> 31"
  by (auto simp: month_lengths_def nth_Cons' less_Suc_eq_0_disj)

lemma days_before_year_formula:
  "days_before_year (Suc n) + n div 100 = 365 * n + n div 4 + n div 400"
proof (induction n)
  case 0
  show ?case by (simp add: days_before_year_def)
next
  case (Suc n)
  have step: "days_before_year (Suc (Suc n)) = days_before_year (Suc n) + year_days (Suc n)"
    by (simp add: days_before_year_def)
  have divs: "Suc n div k = n div k + (if k dvd Suc n then 1 else 0)" for k
    by (simp add: div_Suc dvd_eq_mod_eq_0)
  have "4 dvd Suc n" if "100 dvd Suc n" using that dvd_trans [of 4 100 "Suc n"] by simp
  moreover have "100 dvd Suc n" if "400 dvd Suc n" using that dvd_trans [of 100 400 "Suc n"] by simp
  ultimately show ?case
    using Suc by (auto simp: step divs [of 4] divs [of 100] divs [of 400] year_days_def leap_year_def)
qed

lemma cycle_days: "days_before_year 401 = 146097"
  using days_before_year_formula [of 400] by simp

lemma days_before_year_mono: "y \<le> z \<Longrightarrow> days_before_year y \<le> days_before_year z"
proof (induction rule: dec_induct)
  case (step n)
  then show ?case by (simp add: days_before_year_def)
qed simp

text \<open>The day a date stands for, counted from 1 January of the year 1.\<close>

definition day_number :: "nat \<times> nat \<times> nat \<Rightarrow> nat" where
  "day_number date =
    (case date of (y, m, d) \<Rightarrow>
      (let c = (y - 1) div 400; y0 = (y - 1) mod 400 + 1 in
       146097 * c + days_before_year y0 + sum_list (take (m - 1) (month_lengths y0)) + (d - 1)))"

text \<open>\<open>civil\<close> is right: the date it gives is that of the day it was given.\<close>

lemma civil_day_number:
  assumes "civil n = (y, m, d)"
  shows "day_number (y, m, d) = n \<and> 1 \<le> m \<and> m \<le> 12 \<and> 1 \<le> d \<and> d \<le> 31 \<and> 1 \<le> y"
proof -
  obtain y0 yday where y0: "year_of 1 (n mod 146097) = (y0, yday)" by fastforce
  obtain m' mday where m': "month_of (month_lengths y0) 1 yday = (m', mday)" by fastforce
  have ymd: "y = y0 + 400 * (n div 146097)" "m = m'" "d = mday + 1"
    using assms y0 m' by (simp_all add: civil_def)
  have days: "days_before_year y0 + yday = n mod 146097" "yday < year_days y0" "1 \<le> y0"
    using year_of_days [OF y0] by (auto simp: days_before_year_def)
  have "y0 \<le> 400"
  proof (rule ccontr)
    assume "\<not> y0 \<le> 400"
    then have "146097 \<le> days_before_year y0"
      using days_before_year_mono [of 401 y0] cycle_days by simp
    moreover have "n mod 146097 < 146097" by simp
    ultimately show False using days(1) by linarith
  qed
  then obtain k where k: "y0 = Suc k" "k < 400" using days(3) by (cases y0) auto
  then have "y - 1 = k + 400 * (n div 146097)" using ymd(1) by simp
  with k have cy: "(y - 1) div 400 = n div 146097" "(y - 1) mod 400 + 1 = y0" by simp_all
  have months: "1 \<le> m" "m - 1 < 12" "sum_list (take (m - 1) (month_lengths y0)) + mday = yday"
      "mday < month_lengths y0 ! (m - 1)"
  proof -
    have "length (month_lengths y0) = 12" by (simp add: month_lengths_def)
    then show "1 \<le> m" "m - 1 < 12" "sum_list (take (m - 1) (month_lengths y0)) + mday = yday"
        "mday < month_lengths y0 ! (m - 1)"
      using month_of_days [OF m'] days(2) ymd(2) by (simp_all add: sum_month_lengths)
  qed
  have "day_number (y, m, d) = n"
    using months(3) days(1) mult_div_mod_eq [of 146097 n]
    by (simp only: day_number_def cy ymd(3) Let_def prod.case)
  moreover have "d \<le> 31" using months(2,4) month_length_le [of "m - 1" y0] ymd(3) by simp
  ultimately show ?thesis using months ymd days(3) by auto
qed

lemma civil_inject: "civil m = civil n \<longleftrightarrow> m = n"
  by (metis civil_day_number prod_cases3)

text \<open>
  Years 1 to 9999, the range in which the layouts are of fixed width: for a time in it the stamp
  determines the second.
\<close>

definition in_layout_range :: "int \<Rightarrow> time \<Rightarrow> bool" where
  "in_layout_range offset t \<longleftrightarrow>
     0 \<le> (Unix t + offset) div 86400 + unix_epoch_days \<and> fst (date_of (Unix t + offset)) < 10000"

text \<open>The years from 1970 to far beyond 9000 are in the range.\<close>

lemma civil_year_bound: "civil n = (y, m, d) \<Longrightarrow> 365 * (y - 1) \<le> n"
proof -
  assume date: "civil n = (y, m, d)"
  define c k where "c = (y - 1) div 400" and "k = (y - 1) mod 400"
  have "365 * k \<le> days_before_year (Suc k)"
    using days_before_year_formula [of k] div_le_mono2 [of 4 100 k] by simp
  then have "146097 * c + 365 * k \<le> day_number (y, m, d)"
    by (simp add: day_number_def c_def k_def Let_def)
  moreover have "day_number (y, m, d) = n" using civil_day_number [OF date] by simp
  moreover have "y - 1 = 400 * c + k" by (simp add: c_def k_def)
  ultimately show ?thesis by simp
qed

lemma in_layout_rangeI:
  assumes "0 \<le> Unix t + offset" and "Unix t + offset \<le> 86400 * 2900000"
  shows "in_layout_range offset t"
proof -
  let ?days = "(Unix t + offset) div 86400 + unix_epoch_days"
  obtain y m d where ymd: "date_of (Unix t + offset) = (y, m, d)" by (metis prod_cases3)
  have "0 \<le> (Unix t + offset) div 86400" "(Unix t + offset) div 86400 \<le> 2900000"
    using assms by (simp_all add: pos_imp_zdiv_nonneg_iff div_le_dividend)
  then have days: "0 \<le> ?days" "nat ?days \<le> 3619162" by (simp_all add: unix_epoch_days_def)
  have "365 * (y - 1) \<le> nat ?days"
    using civil_year_bound [OF ymd [unfolded date_of_def]] .
  with days(2) have "y < 10000" by simp
  with days(1) ymd show ?thesis by (simp add: in_layout_range_def)
qed

lemma hms: "k = 3600 * (k div 3600) + 60 * (k div 60 mod 60) + k mod (60::nat)"
proof -
  have "k div 60 = 60 * (k div 3600) + k div 60 mod 60"
    using mult_div_mod_eq [of 60 "k div 60"] by (simp add: div_mult2_eq [of k 60 60, simplified])
  then show ?thesis using mult_div_mod_eq [of 60 k] by linarith
qed

lemma hms_inject:
  fixes j k :: nat
  assumes "j div 3600 = k div 3600" and "j div 60 mod 60 = k div 60 mod 60" and "j mod 60 = k mod 60"
  shows "j = k"
proof -
  have "j = 3600 * (j div 3600) + 60 * (j div 60 mod 60) + j mod 60" by (rule hms)
  also have "\<dots> = 3600 * (k div 3600) + 60 * (k div 60 mod 60) + k mod 60" by (simp only: assms)
  also have "\<dots> = k" by (rule hms [symmetric])
  finally show ?thesis .
qed

lemma pad_append_inject:
  assumes "m < 10 ^ w" and "n < 10 ^ w" and "0 < w"
  shows "pad w m @ xs = pad w n @ ys \<longleftrightarrow> m = n \<and> xs = ys"
proof -
  have "length (pad w m) = length (pad w n)" using assms by (simp add: length_pad)
  then show ?thesis by simp
qed

lemma stamp_fields:
  assumes "y < 10000" "y' < 10000" "m < 100" "m' < 100" "d < 100" "d' < 100" "h < 100" "h' < 100"
    "i < 100" "i' < 100"
  shows "pad 4 y @ pad 2 m @ pad 2 d @ pad 2 h @ pad 2 i @ pad 2 s =
      pad 4 y' @ pad 2 m' @ pad 2 d' @ pad 2 h' @ pad 2 i' @ pad 2 s' \<longleftrightarrow>
    y = y' \<and> m = m' \<and> d = d' \<and> h = h' \<and> i = i' \<and> s = s'"
  using assms by (simp add: pad_append_inject)

lemma format_stamp_inject:
  assumes "in_layout_range offset s" and "in_layout_range offset t"
  shows "format_stamp offset s = format_stamp offset t \<longleftrightarrow> Unix s = Unix t"
proof
  assume eq: "format_stamp offset s = format_stamp offset t"
  define a where "a = Unix s + offset"
  define b where "b = Unix t + offset"
  obtain y m d where yd: "date_of a = (y, m, d)" by (metis prod_cases3)
  obtain y' m' d' where yd': "date_of b = (y', m', d')" by (metis prod_cases3)
  have small: "y < 10000" "y' < 10000" "m < 100" "m' < 100" "d < 100" "d' < 100"
    using assms civil_day_number [OF yd [unfolded date_of_def]] civil_day_number [OF yd' [unfolded date_of_def]]
    by (auto simp: in_layout_range_def a_def [symmetric] b_def [symmetric] yd yd')
  let ?x = "nat (a mod 86400)" and ?x' = "nat (b mod 86400)"
  have "?x < 86400" "?x' < 86400" by simp_all
  then have sod: "?x div 3600 < 100" "?x' div 3600 < 100" by linarith+
  have m60: "k mod 60 < 100" for k :: nat by (rule less_trans [of _ 60]) simp_all
  have "pad 4 y @ pad 2 m @ pad 2 d @ pad 2 (?x div 3600) @ pad 2 (?x div 60 mod 60) @ pad 2 (?x mod 60) =
      pad 4 y' @ pad 2 m' @ pad 2 d' @ pad 2 (?x' div 3600) @ pad 2 (?x' div 60 mod 60) @ pad 2 (?x' mod 60)"
    using eq by (simp add: format_stamp_def Let_def a_def [symmetric] b_def [symmetric] yd yd')
  then have "y = y'" "m = m'" "d = d'" "?x div 3600 = ?x' div 3600" "?x div 60 mod 60 = ?x' div 60 mod 60"
    "?x mod 60 = ?x' mod 60"
    using small sod m60 by (simp_all only: stamp_fields)
  moreover from this(4-6) have "?x = ?x'"
    by (rule hms_inject)
  ultimately have same: "date_of a = date_of b" "a mod 86400 = b mod 86400"
    using yd yd' by (simp_all add: nat_eq_iff)
  from same(1) assms have "a div 86400 = b div 86400"
    by (simp add: date_of_def civil_inject in_layout_range_def eq_nat_nat_iff a_def [symmetric] b_def [symmetric])
  with same(2) have "a = b" by (metis div_mult_mod_eq)
  then show "Unix s = Unix t" by (simp add: a_def b_def)
qed (simp add: format_stamp_def)

end
