(* ===== verification/Terminal.thy ===== *)
theory Terminal
  imports Go_Time
begin

section \<open>The WebSocket terminal\<close>

text \<open>
  \<open>internal/handlers/websocket.go\<close>: the greeting, then a loop that reads a message and answers it,
  in echo mode. The WebSocket connection is third-party code: what the peer does is a list of timed
  events (a decoded message, a pong, or a read that fails because the connection closed or the text
  was not JSON), after which it stays silent, and whether a write succeeds is a function of the
  frames sent before it. Reads fail once the read deadline has passed.
\<close>

subsection \<open>Messages, frames and the connection\<close>

record TerminalMessage =
  tm_Type :: string
  tm_Data :: string
  tm_Cols :: int
  tm_Rows :: int

datatype frame = TextFrame TerminalMessage | CloseFrame

text \<open>
  \<open>ReadFails unexpected err\<close>: \<open>unexpected\<close> is what \<open>websocket.IsUnexpectedCloseError\<close> says of the
  error with the two close codes of the code.
\<close>

datatype client_event = Message TerminalMessage | Pong | ReadFails bool go_error

type_synonym write_result = "frame list \<Rightarrow> frame \<Rightarrow> go_error option"

record TerminalSession =
  ts_sessionID :: string
  ts_echo :: bool
  ts_deadline :: time
  ts_sent :: "frame list"
  ts_log :: "string list"

definition crlf :: string where "crlf = [CHR 0x0D, CHR 0x0A]"

definition read_timeout :: time where "read_timeout = 60 * second"

text \<open>A write appends its frame when it succeeds.\<close>

definition send_frame :: "write_result \<Rightarrow> frame \<Rightarrow> TerminalSession \<Rightarrow> TerminalSession \<times> go_error option" where
  "send_frame wr f ts =
    (case wr (ts_sent ts) f of
       None \<Rightarrow> (ts\<lparr>ts_sent := ts_sent ts @ [f]\<rparr>, None)
     | Some err \<Rightarrow> (ts, Some err))"

definition sendMessage :: "write_result \<Rightarrow> string \<Rightarrow> string \<Rightarrow> TerminalSession \<Rightarrow> TerminalSession \<times> go_error option" where
  "sendMessage wr msgType data ts =
     send_frame wr (TextFrame \<lparr>tm_Type = msgType, tm_Data = data, tm_Cols = 0, tm_Rows = 0\<rparr>) ts"

definition sendOutput :: "write_result \<Rightarrow> string \<Rightarrow> TerminalSession \<Rightarrow> TerminalSession \<times> go_error option" where
  "sendOutput wr data ts =
     send_frame wr (TextFrame \<lparr>tm_Type = ''output'', tm_Data = data, tm_Cols = 0, tm_Rows = 0\<rparr>) ts"

subsection \<open>Handlers of one message\<close>

definition is_exit :: "string \<Rightarrow> bool" where
  "is_exit data \<longleftrightarrow> data = ''exit'' @ [CHR 0x0D] \<or> data = ''exit'' @ [CHR 0x0A]"

definition is_newline :: "string \<Rightarrow> bool" where
  "is_newline data \<longleftrightarrow> data = [CHR 0x0D] \<or> data = [CHR 0x0A] \<or> data = crlf"

definition handleTerminalInput :: "write_result \<Rightarrow> TerminalMessage \<Rightarrow> TerminalSession \<Rightarrow> TerminalSession" where
  "handleTerminalInput wr msg ts =
    (if tm_Data msg = [] then ts
     else if ts_echo ts then
      (if is_exit (tm_Data msg)
       then fst (send_frame wr CloseFrame (fst (sendOutput wr (crlf @ ''Goodbye!'' @ crlf) ts)))
       else
        (let ts' = fst (sendOutput wr (tm_Data msg) ts) in
         if is_newline (tm_Data msg) then fst (sendOutput wr ''$ '' ts') else ts'))
     else fst (sendOutput wr (''(SSH mode not yet implemented)'' @ crlf) ts))"

definition handleTerminalResize :: "TerminalMessage \<Rightarrow> TerminalSession \<Rightarrow> TerminalSession" where
  "handleTerminalResize msg ts =
    (if tm_Cols msg = 0 \<or> tm_Rows msg = 0
     then ts\<lparr>ts_log := ts_log ts @ [''Invalid resize dimensions for session '' @ ts_sessionID ts @ '': cols='' @
            itoa (tm_Cols msg) @ '' rows='' @ itoa (tm_Rows msg)]\<rparr>
     else ts\<lparr>ts_log := ts_log ts @ [''Terminal resize for session '' @ ts_sessionID ts @ '': '' @
            itoa (tm_Cols msg) @ ''x'' @ itoa (tm_Rows msg)]\<rparr>)"

subsection \<open>The session\<close>

text \<open>How the session ended, and when.\<close>

datatype term_end = WelcomeFailed time | TimedOut time | ReadFailed time | ClientClosed time

text \<open>
  One turn of the read loop, for an event at time \<open>t\<close>: the session to go on with, or how it ended.
\<close>

fun terminal_turn ::
  "write_result \<Rightarrow> time \<times> client_event \<Rightarrow> TerminalSession \<Rightarrow> TerminalSession + (TerminalSession \<times> term_end)" where
  "terminal_turn wr (t, ev) ts =
    (if ts_deadline ts < t then Inr (ts, TimedOut (ts_deadline ts))
     else
      (case ev of
         Pong \<Rightarrow> Inl (ts\<lparr>ts_deadline := t + read_timeout\<rparr>)
       | ReadFails unexpected err \<Rightarrow>
          Inr ((if unexpected
                then ts\<lparr>ts_log := ts_log ts @ [''WebSocket error for session '' @ ts_sessionID ts @ '': '' @ error_text err]\<rparr>
                else ts), ReadFailed t)
       | Message msg \<Rightarrow>
          (if tm_Type msg = ''input'' then Inl (handleTerminalInput wr msg ts)
           else if tm_Type msg = ''resize'' then Inl (handleTerminalResize msg ts)
           else if tm_Type msg = ''close''
           then Inr (fst (sendOutput wr (crlf @ ''Disconnecting...'' @ crlf) ts), ClientClosed t)
           else Inl (fst (sendOutput wr (''Unknown message type: '' @ tm_Type msg @ crlf) ts)))))"

text \<open>After its last event the client stays silent, so the next read runs into the deadline.\<close>

fun terminal_loop ::
  "write_result \<Rightarrow> (time \<times> client_event) list \<Rightarrow> TerminalSession \<Rightarrow> TerminalSession \<times> term_end" where
  "terminal_loop wr [] ts = (ts, TimedOut (ts_deadline ts))"
| "terminal_loop wr (e # evs) ts =
    (case terminal_turn wr e ts of Inl ts' \<Rightarrow> terminal_loop wr evs ts' | Inr res \<Rightarrow> res)"

definition greeting :: "string list" where
  "greeting = [crlf @ ''Welcome to JennGate Terminal (Phase 3a - Echo Mode)'' @ crlf,
              ''Type '' @ [CHR 0x27] @ ''exit'' @ [CHR 0x27] @ '' to disconnect'' @ crlf @ crlf]"

definition handleTerminalSession ::
  "write_result \<Rightarrow> time \<Rightarrow> (time \<times> client_event) list \<Rightarrow> TerminalSession \<Rightarrow> TerminalSession \<times> term_end" where
  "handleTerminalSession wr start evs ts =
    (case sendOutput wr (greeting ! 0) (ts\<lparr>ts_deadline := start + read_timeout\<rparr>) of
       (ts1, Some err) \<Rightarrow>
         (ts1\<lparr>ts_log := ts_log ts1 @ [''Failed to send welcome message for session '' @ ts_sessionID ts @ '': '' @ error_text err]\<rparr>, WelcomeFailed start)
     | (ts1, None) \<Rightarrow>
        (case sendOutput wr (greeting ! 1) ts1 of
           (ts2, Some err) \<Rightarrow>
             (ts2\<lparr>ts_log := ts_log ts2 @ [''Failed to send instructions for session '' @ ts_sessionID ts @ '': '' @ error_text err]\<rparr>, WelcomeFailed start)
         | (ts2, None) \<Rightarrow> terminal_loop wr evs ts2))"

text \<open>
  \<open>WebSocketUpgrader\<close>: its buffer sizes and its \<open>CheckOrigin\<close>, which accepts every Origin header.
\<close>

record upgrader =
  up_CheckOrigin :: "string option \<Rightarrow> bool"
  up_ReadBufferSize :: int
  up_WriteBufferSize :: int

definition WebSocketUpgrader :: upgrader where
  "WebSocketUpgrader = \<lparr>up_CheckOrigin = (\<lambda>_. True), up_ReadBufferSize = 1024, up_WriteBufferSize = 1024\<rparr>"

text \<open>
  \<open>TerminalBridge\<close>: the upgrade fails when the origin is refused or for a reason of its own
  (\<open>handshake\<close> False); then the answer is a status 400 and no session runs.
\<close>

definition TerminalBridge ::
  "bool \<Rightarrow> string option \<Rightarrow> write_result \<Rightarrow> time \<Rightarrow> (time \<times> client_event) list \<Rightarrow> string \<Rightarrow>
   (int \<times> string) + (TerminalSession \<times> term_end)" where
  "TerminalBridge handshake origin wr start evs sessionID =
    (if \<not> (up_CheckOrigin WebSocketUpgrader origin \<and> handshake) then Inl (400, ''websocket upgrade failed'')
     else Inr (handleTerminalSession wr start evs
            \<lparr>ts_sessionID = sessionID, ts_echo = True, ts_deadline = 0, ts_sent = [], ts_log = []\<rparr>))"

subsection \<open>What is kept while answering\<close>

lemma send_kept [simp]:
  "ts_deadline (fst (send_frame wr f ts)) = ts_deadline ts" "ts_echo (fst (send_frame wr f ts)) = ts_echo ts"
  "ts_deadline (fst (sendOutput wr s ts)) = ts_deadline ts" "ts_echo (fst (sendOutput wr s ts)) = ts_echo ts"
  by (simp_all add: send_frame_def sendOutput_def split: option.split)

lemma input_kept [simp]:
  "ts_deadline (handleTerminalInput wr m ts) = ts_deadline ts"
  "ts_echo (handleTerminalInput wr m ts) = ts_echo ts"
  by (simp_all add: handleTerminalInput_def Let_def)

lemma resize_kept [simp]:
  "ts_deadline (handleTerminalResize m ts) = ts_deadline ts" "ts_echo (handleTerminalResize m ts) = ts_echo ts"
  "ts_sent (handleTerminalResize m ts) = ts_sent ts"
  by (simp_all add: handleTerminalResize_def)

fun end_time :: "term_end \<Rightarrow> time" where
  "end_time (WelcomeFailed t) = t"
| "end_time (TimedOut t) = t"
| "end_time (ReadFailed t) = t"
| "end_time (ClientClosed t) = t"

subsection \<open>Properties\<close>

lemma loop_no_pong:
  assumes "\<forall>e \<in> set evs. snd e \<noteq> Pong"
  shows "terminal_loop wr evs ts = terminal_loop wr (takeWhile (\<lambda>e. fst e \<le> ts_deadline ts) evs) ts \<and>
    end_time (snd (terminal_loop wr evs ts)) \<le> ts_deadline ts"
  using assms
proof (induction evs arbitrary: ts)
  case (Cons e evs)
  obtain t ev where e: "e = (t, ev)" by (cases e) auto
  show ?case
  proof (cases ev)
    case (Message msg)
    with Cons.prems Cons.IH [of "handleTerminalInput wr msg ts"] Cons.IH [of "handleTerminalResize msg ts"]
      Cons.IH [of "fst (sendOutput wr (''Unknown message type: '' @ tm_Type msg @ crlf) ts)"] e
    show ?thesis by auto
  next
    case Pong
    with Cons.prems e show ?thesis by simp
  next
    case (ReadFails unexpected err)
    with e show ?thesis by simp
  qed
qed simp

text \<open>
  Only a pong moves the read deadline, and the server never sends a ping: unless the client
  sends pongs unasked, the session ends at most 60 seconds after it began, however busy it is, and
  nothing that arrives later is read.
\<close>

theorem terminal_one_minute:
  assumes "\<forall>e \<in> set evs. snd e \<noteq> Pong"
  shows "end_time (snd (handleTerminalSession wr start evs ts)) \<le> start + read_timeout \<and>
    handleTerminalSession wr start evs ts =
      handleTerminalSession wr start (takeWhile (\<lambda>e. fst e \<le> start + 60 * second) evs) ts"
proof -
  have kept: "ts_deadline (fst (sendOutput wr (greeting ! 1) (fst (sendOutput wr (greeting ! 0)
      (ts\<lparr>ts_deadline := start + read_timeout\<rparr>))))) = start + read_timeout" by simp
  have pos: "start \<le> start + read_timeout" by (simp add: read_timeout_def second_def)
  show ?thesis
    using loop_no_pong [OF assms, of wr "fst (sendOutput wr (greeting ! 1) (fst (sendOutput wr (greeting ! 0)
      (ts\<lparr>ts_deadline := start + read_timeout\<rparr>))))"] pos
    unfolding handleTerminalSession_def kept
    by (auto simp: read_timeout_def split: prod.splits option.splits)
qed

definition ex_input :: "string \<Rightarrow> TerminalMessage" where
  "ex_input s = \<lparr>tm_Type = ''input'', tm_Data = s, tm_Cols = 0, tm_Rows = 0\<rparr>"

definition ex_terminal :: TerminalSession where
  "ex_terminal = \<lparr>ts_sessionID = ''s'', ts_echo = True, ts_deadline = 0, ts_sent = [], ts_log = []\<rparr>"

theorem terminal_one_minute_witness:
  "handleTerminalSession (\<lambda>_ _. None) 0 [(30 * second, Message (ex_input ''a'')), (61 * second, Message (ex_input ''b''))] ex_terminal =
   handleTerminalSession (\<lambda>_ _. None) 0 [(30 * second, Message (ex_input ''a''))] ex_terminal"
  using terminal_one_minute [of "[(30 * second, Message (ex_input ''a'')), (61 * second, Message (ex_input ''b''))]"
      "\<lambda>_ _. None" 0 ex_terminal]
  by (simp add: second_def)

text \<open>The frames that answer a message when every write succeeds.\<close>

definition out :: "string \<Rightarrow> frame" where
  "out s = TextFrame \<lparr>tm_Type = ''output'', tm_Data = s, tm_Cols = 0, tm_Rows = 0\<rparr>"

definition reply :: "TerminalMessage \<Rightarrow> frame list" where
  "reply msg =
    (if tm_Type msg = ''resize'' then []
     else if tm_Type msg \<noteq> ''input'' then [out (''Unknown message type: '' @ tm_Type msg @ crlf)]
     else if tm_Data msg = [] then []
     else if is_exit (tm_Data msg) then [out (crlf @ ''Goodbye!'' @ crlf), CloseFrame]
     else if is_newline (tm_Data msg) then [out (tm_Data msg), out ''$ '']
     else [out (tm_Data msg)])"

lemma send_ok [simp]: "ts_sent (fst (sendOutput (\<lambda>_ _. None) s ts)) = ts_sent ts @ [out s]"
  "snd (sendOutput (\<lambda>_ _. None) s ts) = None"
  by (simp_all add: sendOutput_def send_frame_def out_def)

lemma close_ok [simp]: "ts_sent (fst (send_frame (\<lambda>_ _. None) f ts)) = ts_sent ts @ [f]"
  by (simp add: send_frame_def)

lemma loop_reply:
  assumes "ts_echo ts" and "\<forall>e \<in> set msgs. fst e \<le> ts_deadline ts \<and> tm_Type (snd e) \<noteq> ''close''"
    and "t_close \<le> ts_deadline ts"
  shows "let (ts', fin) = terminal_loop (\<lambda>_ _. None)
      (map (\<lambda>(t, m). (t, Message m)) msgs @ (t_close, Message \<lparr>tm_Type = ''close'', tm_Data = s, tm_Cols = c, tm_Rows = r\<rparr>) # rest) ts
    in ts_sent ts' = ts_sent ts @ concat (map (reply \<circ> snd) msgs) @ [out (crlf @ ''Disconnecting...'' @ crlf)] \<and>
       fin = ClientClosed t_close"
  using assms
proof (induction msgs arbitrary: ts)
  case Nil
  then show ?case by simp
next
  case (Cons e msgs)
  obtain t m where e: "e = (t, m)" by (cases e) auto
  have sent: "ts_sent (handleTerminalInput (\<lambda>_ _. None) m ts) = ts_sent ts @ reply m" if "tm_Type m = ''input''"
    using that Cons.prems(1) by (simp add: handleTerminalInput_def reply_def Let_def)
  let ?u = "fst (sendOutput (\<lambda>_ _. None) (''Unknown message type: '' @ tm_Type m @ crlf) ts)"
  consider "tm_Type m = ''input''" | "tm_Type m = ''resize''" | "tm_Type m \<notin> {''input'', ''resize'', ''close''}"
    using Cons.prems(2) e by auto
  then show ?case
  proof cases
    case 1
    with Cons.IH [of "handleTerminalInput (\<lambda>_ _. None) m ts"] Cons.prems e sent show ?thesis
      by (auto simp: Let_def split: prod.splits)
  next
    case 2
    then have "reply m = []" by (simp add: reply_def)
    with 2 Cons.IH [of "handleTerminalResize m ts"] Cons.prems e show ?thesis
      by (auto simp: Let_def split: prod.splits)
  next
    case 3
    then have "reply m = [out (''Unknown message type: '' @ tm_Type m @ crlf)]" by (simp add: reply_def)
    with 3 Cons.IH [of ?u] Cons.prems e show ?thesis
      by (auto simp: Let_def split: prod.splits)
  qed
qed



text \<open>Documented of the connection: after a close frame nothing more can be written.\<close>

definition close_is_final :: "write_result \<Rightarrow> bool" where
  "close_is_final wr \<longleftrightarrow> (\<forall>sent f. CloseFrame \<in> set sent \<longrightarrow> wr sent f \<noteq> None)"

lemma send_after_close:
  assumes "close_is_final wr" and "CloseFrame \<in> set (ts_sent ts)"
  shows "fst (send_frame wr f ts) = ts"
  using assms by (auto simp: send_frame_def close_is_final_def split: option.split)

lemma loop_after_close:
  assumes "close_is_final wr" and "CloseFrame \<in> set (ts_sent ts)"
  shows "ts_sent (fst (terminal_loop wr evs ts)) = ts_sent ts"
  using assms(2)
proof (induction evs arbitrary: ts)
  case (Cons e evs)
  obtain t ev where e: "e = (t, ev)" by (cases e) auto
  note quiet = send_after_close [OF assms(1)]
  show ?case
  proof (cases ev)
    case (Message msg)
    have "handleTerminalInput wr msg ts = ts"
      using Cons.prems by (simp add: handleTerminalInput_def sendOutput_def quiet)
    with Message Cons e show ?thesis by (auto simp: sendOutput_def quiet)
  qed (use Cons e in auto)
qed simp

lemma exit_end:
  assumes "ts_deadline ts' = ts_deadline ts"
  shows "snd (terminal_loop wr evs ts') = snd (terminal_loop wr evs ts)"
  using assms
proof (induction evs arbitrary: ts ts')
  case (Cons e evs)
  obtain t ev where e: "e = (t, ev)" by (cases e) auto
  show ?case
  proof (cases ev)
    case (Message msg)
    show ?thesis
      using Cons.prems
        Cons.IH [of "handleTerminalInput wr msg ts'" "handleTerminalInput wr msg ts"]
        Cons.IH [of "handleTerminalResize msg ts'" "handleTerminalResize msg ts"]
        Cons.IH [of "fst (sendOutput wr (''Unknown message type: '' @ tm_Type msg @ crlf) ts')"
                    "fst (sendOutput wr (''Unknown message type: '' @ tm_Type msg @ crlf) ts)"]
      by (simp add: e Message)
  next
    case Pong
    show ?thesis
      using Cons.prems Cons.IH [of "ts'\<lparr>ts_deadline := t + read_timeout\<rparr>" "ts\<lparr>ts_deadline := t + read_timeout\<rparr>"]
      by (simp add: e Pong)
  qed (use Cons.prems e in simp)
qed simp

text \<open>
  C30. Typing \<open>exit\<close> sends a farewell and a close frame but does not end the session: the server
  goes on reading exactly as if the message had not come, until the client closes or the deadline
  passes, and none of the further messages is answered.
\<close>

theorem exit_keeps_reading:
  assumes "close_is_final wr" and "is_exit (tm_Data m)" and "tm_Type m = ''input''" and "ts_echo ts"
    and "t \<le> ts_deadline ts"
    and "wr (ts_sent ts) (out (crlf @ ''Goodbye!'' @ crlf)) = None"
    and "wr (ts_sent ts @ [out (crlf @ ''Goodbye!'' @ crlf)]) CloseFrame = None"
  shows "snd (terminal_loop wr ((t, Message m) # evs) ts) = snd (terminal_loop wr evs ts) \<and>
    ts_sent (fst (terminal_loop wr ((t, Message m) # evs) ts)) =
      ts_sent ts @ [out (crlf @ ''Goodbye!'' @ crlf), CloseFrame]"
proof -
  have "tm_Data m \<noteq> []" using assms(2) by (auto simp: is_exit_def)
  then have sent: "ts_sent (handleTerminalInput wr m ts) = ts_sent ts @ [out (crlf @ ''Goodbye!'' @ crlf), CloseFrame]"
    using assms by (simp add: handleTerminalInput_def sendOutput_def send_frame_def out_def)
  have loop: "terminal_loop wr ((t, Message m) # evs) ts = terminal_loop wr evs (handleTerminalInput wr m ts)"
    using assms by simp
  have "snd (terminal_loop wr evs (handleTerminalInput wr m ts)) = snd (terminal_loop wr evs ts)"
    by (rule exit_end) simp
  moreover have "ts_sent (fst (terminal_loop wr evs (handleTerminalInput wr m ts))) = ts_sent (handleTerminalInput wr m ts)"
    by (rule loop_after_close [OF assms(1)]) (simp add: sent)
  ultimately show ?thesis unfolding loop sent by simp
qed

definition ex_writes :: write_result where
  "ex_writes sent f = (if CloseFrame \<in> set sent then Some (errorf ''websocket: close sent'') else None)"

theorem exit_keeps_reading_witness:
  "snd (terminal_loop ex_writes [(1, Message (ex_input (''exit'' @ [CHR 0x0D]))), (2, Message (ex_input ''ls''))]
      (ex_terminal\<lparr>ts_deadline := 60\<rparr>)) = TimedOut 60"
proof -
  have "close_is_final ex_writes" by (simp add: close_is_final_def ex_writes_def)
  from exit_keeps_reading [OF this, of "ex_input (''exit'' @ [CHR 0x0D])" "ex_terminal\<lparr>ts_deadline := 60\<rparr>" 1
      "[(2, Message (ex_input ''ls''))]"]
  show ?thesis by (simp add: ex_input_def ex_terminal_def ex_writes_def is_exit_def out_def)
qed

end
