(* ===== verification/Terminal_Streams.thy ===== *)
theory Terminal_Streams
  imports Terminal "HOL-Library.Stream"
begin

section \<open>Terminals of clients that never stop sending\<close>

text \<open>
  \<open>handleTerminalSession\<close> reads in a \<open>for\<close> loop without a bound. Here the client is an infinite stream
  of timed events and the loop is a partial function, None when it never returns: whether it ends is
  a question of its own, which only the read deadline answers.
\<close>

subsection \<open>The loop on a stream\<close>

partial_function (option) terminal_run ::
  "write_result \<Rightarrow> (time \<times> client_event) stream \<Rightarrow> TerminalSession \<Rightarrow> (TerminalSession \<times> term_end) option" where
  "terminal_run wr evs ts =
    (case terminal_turn wr (shd evs) ts of
       Inl ts' \<Rightarrow> terminal_run wr (stl evs) ts'
     | Inr res \<Rightarrow> Some res)"

text \<open>\<open>handleTerminalSession\<close> with that loop.\<close>

definition terminal_session_run ::
  "write_result \<Rightarrow> time \<Rightarrow> (time \<times> client_event) stream \<Rightarrow> TerminalSession \<Rightarrow>
   (TerminalSession \<times> term_end) option" where
  "terminal_session_run wr start evs ts =
    (case sendOutput wr (greeting ! 0) (ts\<lparr>ts_deadline := start + read_timeout\<rparr>) of
       (ts1, Some err) \<Rightarrow>
         Some (ts1\<lparr>ts_log := ts_log ts1 @ [''Failed to send welcome message for session '' @ ts_sessionID ts @ '': '' @ error_text err]\<rparr>, WelcomeFailed start)
     | (ts1, None) \<Rightarrow>
        (case sendOutput wr (greeting ! 1) ts1 of
           (ts2, Some err) \<Rightarrow>
             Some (ts2\<lparr>ts_log := ts_log ts2 @ [''Failed to send instructions for session '' @ ts_sessionID ts @ '': '' @ error_text err]\<rparr>, WelcomeFailed start)
         | (ts2, None) \<Rightarrow> terminal_run wr evs ts2))"

text \<open>The first \<open>n\<close> turns: the session after them, or how it ended on the way.\<close>

fun turns :: "write_result \<Rightarrow> (time \<times> client_event) list \<Rightarrow> TerminalSession \<Rightarrow>
    TerminalSession + (TerminalSession \<times> term_end)" where
  "turns wr [] ts = Inl ts"
| "turns wr (e # evs) ts =
    (case terminal_turn wr e ts of Inl ts' \<Rightarrow> turns wr evs ts' | Inr res \<Rightarrow> Inr res)"

lemma turns_loop: "turns wr evs ts = Inr res \<Longrightarrow> terminal_loop wr evs ts = res"
  by (induction evs arbitrary: ts) (auto simp del: terminal_turn.simps split: sum.splits)

lemma turns_run: "turns wr (stake n evs) ts = Inr res \<Longrightarrow> terminal_run wr evs ts = Some res"
proof (induction n arbitrary: evs ts)
  case (Suc n)
  then show ?case
    by (subst terminal_run.simps) (auto simp del: terminal_turn.simps split: sum.splits)
qed simp

text \<open>The loop returns exactly when finitely many turns end the session.\<close>

lemma run_turns:
  assumes "terminal_run wr evs ts = Some res"
  shows "\<exists>n. turns wr (stake n evs) ts = Inr res"
  using assms
proof (rule terminal_run.raw_induct [where P = "\<lambda>wr evs ts res. \<exists>n. turns wr (stake n evs) ts = Inr res", rotated])
  fix run :: "write_result \<Rightarrow> (time \<times> client_event) stream \<Rightarrow> TerminalSession \<Rightarrow> (TerminalSession \<times> term_end) option"
    and wr evs ts res
  assume IH: "\<And>wr evs ts res. run wr evs ts = Some res \<Longrightarrow> \<exists>n. turns wr (stake n evs) ts = Inr res"
    and turn: "(case terminal_turn wr (shd evs) ts of Inl ts' \<Rightarrow> run wr (stl evs) ts' | Inr r \<Rightarrow> Some r) = Some res"
  show "\<exists>n. turns wr (stake n evs) ts = Inr res"
  proof (cases "terminal_turn wr (shd evs) ts")
    case (Inl ts')
    with turn IH [of wr "stl evs" ts' res] obtain n where "turns wr (stake n (stl evs)) ts' = Inr res" by auto
    with Inl have "turns wr (stake (Suc n) evs) ts = Inr res" by (simp del: terminal_turn.simps)
    then show ?thesis ..
  next
    case (Inr r)
    with turn have "turns wr (stake (Suc 0) evs) ts = Inr res" by (simp del: terminal_turn.simps)
    then show ?thesis ..
  qed
qed

lemma terminal_run_iff:
  "terminal_run wr evs ts = Some res \<longleftrightarrow> (\<exists>n. turns wr (stake n evs) ts = Inr res)"
  using run_turns turns_run by blast

subsection \<open>Without pongs the loop ends\<close>

lemma turn_deadline:
  "terminal_turn wr (t, ev) ts = Inl ts' \<Longrightarrow> ev \<noteq> Pong \<Longrightarrow> ts_deadline ts' = ts_deadline ts \<and> t \<le> ts_deadline ts"
  by (auto split: if_splits client_event.splits)

lemma turns_past_deadline:
  assumes "\<forall>e \<in> set es. snd e \<noteq> Pong" and "\<exists>e \<in> set es. ts_deadline ts < fst e"
  shows "\<exists>res. turns wr es ts = Inr res"
  using assms
proof (induction es arbitrary: ts)
  case (Cons e es)
  obtain t ev where e: "e = (t, ev)" by (cases e) auto
  show ?case
  proof (cases "terminal_turn wr (t, ev) ts")
    case (Inl ts')
    then have "ts_deadline ts' = ts_deadline ts" "t \<le> ts_deadline ts"
      using turn_deadline [OF Inl] Cons.prems(1) e by auto
    with Cons.prems Cons.IH [of ts'] Inl e show ?thesis by (auto simp del: terminal_turn.simps)
  qed (simp add: e del: terminal_turn.simps)
qed simp

lemma terminal_run_ends:
  assumes "\<And>e. e \<in> sset evs \<Longrightarrow> snd e \<noteq> Pong" and "ts_deadline ts < fst (evs !! n)"
  shows "terminal_run wr evs ts = Some (terminal_loop wr (stake (Suc n) evs) ts)"
proof -
  have "\<forall>e \<in> set (stake (Suc n) evs). snd e \<noteq> Pong"
    using assms(1) by (metis UnI1 set_append sset_shift stake_sdrop)
  moreover have "evs !! n \<in> set (stake (Suc n) evs)"
    by (metis length_stake lessI nth_mem stake_nth)
  ultimately obtain res where res: "turns wr (stake (Suc n) evs) ts = Inr res"
    using turns_past_deadline [of "stake (Suc n) evs" ts wr] assms(2) by blast
  show ?thesis using turns_run [OF res] turns_loop [OF res] by simp
qed

lemma welcomed_deadline:
  assumes "sendOutput wr (greeting ! 0) (ts\<lparr>ts_deadline := start + read_timeout\<rparr>) = (ts1, None)"
    and "sendOutput wr (greeting ! 1) ts1 = (ts2, None)"
  shows "ts_deadline ts2 = start + read_timeout"
  using assms send_kept(3) [of wr "greeting ! 1" ts1]
    send_kept(3) [of wr "greeting ! 0" "ts\<lparr>ts_deadline := start + read_timeout\<rparr>"] by simp

text \<open>A client that never pongs is cut off, however fast it sends, once an event comes too late.\<close>

lemma terminal_ends:
  assumes "\<And>e. e \<in> sset evs \<Longrightarrow> snd e \<noteq> Pong" and "start + read_timeout < fst (evs !! n)"
  shows "terminal_session_run wr start evs ts = Some (handleTerminalSession wr start (stake (Suc n) evs) ts)"
proof -
  have "terminal_run wr evs ts' = Some (terminal_loop wr (stake (Suc n) evs) ts')"
    if "ts_deadline ts' = start + read_timeout" for ts'
    using terminal_run_ends [of evs ts' n wr] assms that by simp
  then show ?thesis
    unfolding terminal_session_run_def handleTerminalSession_def
    by (auto simp: welcomed_deadline split: prod.splits option.splits)
qed

subsection \<open>When it runs forever\<close>

text \<open>
  The clients that keep a terminal open whose deadline is \<open>dl\<close>: every event comes in time, only
  pongs move the deadline, and no message asks to close.
\<close>

coinductive kept_open :: "time \<Rightarrow> (time \<times> client_event) stream \<Rightarrow> bool" where
  pong: "t \<le> dl \<Longrightarrow> kept_open (t + read_timeout) evs \<Longrightarrow> kept_open dl ((t, Pong) ## evs)"
| message: "t \<le> dl \<Longrightarrow> tm_Type m \<noteq> ''close'' \<Longrightarrow> kept_open dl evs \<Longrightarrow> kept_open dl ((t, Message m) ## evs)"

lemma kept_open_turn:
  assumes "kept_open (ts_deadline ts) evs"
  obtains ts' where "terminal_turn wr (shd evs) ts = Inl ts'" "kept_open (ts_deadline ts') (stl evs)"
  using assms
proof (cases rule: kept_open.cases)
  case (pong t evs')
  then show thesis using that [of "ts\<lparr>ts_deadline := t + read_timeout\<rparr>"] by simp
next
  case (message t m evs')
  then show thesis
    using that [of "handleTerminalInput wr m ts"] that [of "handleTerminalResize m ts"]
      that [of "fst (sendOutput wr (''Unknown message type: '' @ tm_Type m @ crlf) ts)"]
    by (cases "tm_Type m = ''input''"; cases "tm_Type m = ''resize''") simp_all
qed

lemma kept_open_turns: "kept_open (ts_deadline ts) evs \<Longrightarrow> \<exists>ts'. turns wr (stake n evs) ts = Inl ts'"
proof (induction n arbitrary: evs ts)
  case (Suc n)
  from Suc.prems obtain ts' where "terminal_turn wr (shd evs) ts = Inl ts'" "kept_open (ts_deadline ts') (stl evs)"
    by (rule kept_open_turn)
  with Suc.IH show ?case by (simp del: terminal_turn.simps)
qed simp

lemma run_None_turn:
  assumes "terminal_run wr evs ts = None"
  obtains ts' where "terminal_turn wr (shd evs) ts = Inl ts'" "terminal_run wr (stl evs) ts' = None"
  using assms by (subst (asm) terminal_run.simps) (auto simp del: terminal_turn.simps split: sum.splits)

lemma run_None_kept_open:
  assumes "terminal_run wr evs ts = None"
  shows "kept_open (ts_deadline ts) evs"
proof -
  have "\<exists>ts. dl = ts_deadline ts \<and> terminal_run wr evs ts = None \<Longrightarrow> kept_open dl evs" for dl
  proof (coinduction arbitrary: dl evs)
    case kept_open
    then obtain ts where dl: "dl = ts_deadline ts" and none: "terminal_run wr evs ts = None" by blast
    obtain t ev evs' where evs: "evs = (t, ev) ## evs'" by (metis prod.exhaust stream.collapse)
    from none obtain ts' where turn: "terminal_turn wr (t, ev) ts = Inl ts'"
      and rest: "terminal_run wr evs' ts' = None"
      by (rule run_None_turn) (simp add: evs)
    show ?case
    proof (cases ev)
      case (Message m)
      with turn have "t \<le> dl" "tm_Type m \<noteq> ''close''" by (auto simp: dl split: if_splits)
      moreover have "ts_deadline ts' = dl"
        using turn_deadline [OF turn] Message by (simp add: dl)
      ultimately show ?thesis using rest Message evs by auto
    next
      case Pong
      with turn have "t \<le> dl" "ts_deadline ts' = t + read_timeout" by (auto simp: dl split: if_splits)
      with rest Pong evs show ?thesis by (intro disjI1) metis
    next
      case (ReadFails u err)
      with turn show ?thesis by (simp split: if_splits)
    qed
  qed
  with assms show ?thesis by blast
qed

lemma terminal_run_None_iff: "terminal_run wr evs ts = None \<longleftrightarrow> kept_open (ts_deadline ts) evs"
proof
  assume "kept_open (ts_deadline ts) evs"
  then show "terminal_run wr evs ts = None"
    using kept_open_turns run_turns by (metis Inl_Inr_False not_Some_eq)
qed (rule run_None_kept_open)


text \<open>Such clients exist: a pong every half minute is enough.\<close>

lemma pongs_keep_open: "kept_open (60 * second) (smap (\<lambda>i. (int i * 30 * second, Pong)) nats)"
proof -
  have "int k * 30 * second \<le> dl \<Longrightarrow> kept_open dl (smap (\<lambda>i. (int i * 30 * second, Pong)) (fromN k))" for k dl
  proof (coinduction arbitrary: k dl)
    case kept_open
    have "fromN k = k ## fromN (Suc k)" by (subst siterate.code) simp
    with kept_open show ?case
      by (intro disjI1) (auto simp: read_timeout_def second_def intro!: exI [of _ "Suc k"])
  qed
  from this [of 0] show ?thesis by (simp add: second_def)
qed

end
