(* ===== verification/Database.thy ===== *)
theory Database
  imports Prelude
begin

section \<open>The PostgreSQL schema and the execution of a statement\<close>

text \<open>
  The tables of \<open>migrations/001_init_schema.up.sql\<close> and \<open>002_add_gui_session_fields.up.sql\<close>
  as lists of rows (a column without NOT NULL is an \<open>option\<close>), and how one statement runs:
  parameters are converted to the column types first, then the statement reads or writes the
  tables, and the connection may fail before the server ran it or after (\<open>IoFail\<close>, \<open>IoLost\<close>).
  PostgreSQL's conversions of text to \<open>uuid\<close> and of a Go time to \<open>timestamp\<close>, and the texts of
  its errors, are not code of this repository: they are the parameter \<open>pg\<close>.
\<close>

subsection \<open>Rows\<close>

record device_row =
  dr_id :: string
  dr_device_name :: string
  dr_device_type :: string
  dr_state :: string
  dr_approved_at :: "time option"
  dr_decommissioned_at :: "time option"
  dr_decommissioned_by :: "string option"
  dr_daemon_version :: "string option"
  dr_public_key_pem :: string
  dr_created_at :: "time option"
  dr_updated_at :: "time option"

record session_row =
  sr_id :: string
  sr_user_id :: string
  sr_device_id :: string
  sr_state :: string
  sr_cert_serial :: "string option"
  sr_cert_expires_at :: "time option"
  sr_started_at :: time
  sr_connected_at :: "time option"
  sr_disconnected_at :: "time option"
  sr_ssh_port :: "int option"
  sr_recording_id :: "string option"
  sr_disconnect_reason :: "string option"
  sr_created_at :: "time option"
  sr_updated_at :: "time option"
  sr_enable_gui :: "bool option"
  sr_gui_protocol :: "string option"
  sr_x11_display_port :: "int option"
  sr_vnc_port :: "int option"
  sr_gui_session_started_at :: "time option"
  sr_gui_session_ended_at :: "time option"

record recording_row =
  rr_id :: string
  rr_session_id :: string
  rr_user_id :: string
  rr_device_id :: string
  rr_file_path :: string
  rr_timing_path :: "string option"
  rr_byte_size :: "int option"
  rr_duration_seconds :: "int option"
  rr_started_at :: time
  rr_completed_at :: "time option"
  rr_created_at :: "time option"

record ca_key_row =
  kr_id :: string
  kr_key_type :: string
  kr_public_key_pem :: string
  kr_private_key_pem_encrypted :: string
  kr_key_serial :: string
  kr_rotated_at :: "time option"
  kr_expires_at :: "time option"
  kr_created_at :: "time option"

record audit_row =
  ar_id :: string
  ar_event_type :: string
  ar_actor_id :: "string option"
  ar_actor_type :: "string option"
  ar_resource_type :: "string option"
  ar_resource_id :: "string option"
  ar_details :: "string option"
  ar_created_at :: "time option"

record database =
  devices :: "device_row list"
  gate_sessions :: "session_row list"
  gate_recordings :: "recording_row list"
  gate_ca_keys :: "ca_key_row list"
  gate_audit_log :: "audit_row list"

text \<open>
  What the schema enforces: primary keys are unique, and \<open>device_id\<close> and \<open>session_id\<close>
  reference rows that exist.
\<close>

definition schema_ok :: "database \<Rightarrow> bool" where
  "schema_ok d \<longleftrightarrow>
     distinct (map dr_id (devices d)) \<and>
     distinct (map sr_id (gate_sessions d)) \<and>
     distinct (map rr_id (gate_recordings d)) \<and>
     sr_device_id ` set (gate_sessions d) \<subseteq> dr_id ` set (devices d) \<and>
     rr_device_id ` set (gate_recordings d) \<subseteq> dr_id ` set (devices d) \<and>
     rr_session_id ` set (gate_recordings d) \<subseteq> sr_id ` set (gate_sessions d)"

subsection \<open>Parameters of a statement\<close>

text \<open>
  \<open>uuid_in\<close> is the input conversion of type \<open>uuid\<close> (the canonical text, or None for malformed
  text), \<open>ts_in\<close> what a \<open>timestamp\<close> column holds for a Go time, \<open>text_ok\<close> whether text is valid
  in the database encoding, \<open>pq_msg\<close> the text of an error the driver reports.
\<close>

record pg_conv =
  uuid_in :: "string \<Rightarrow> string option"
  ts_in :: "time \<Rightarrow> time option"
  text_ok :: "string \<Rightarrow> bool"
  pq_msg :: "pq_class \<Rightarrow> string"

datatype sql_param = PUuid string | PText string | PInt int | PTime time

text \<open>\<open>INTEGER\<close> is a 32-bit column.\<close>

definition int4_ok :: "int \<Rightarrow> bool" where
  "int4_ok i \<longleftrightarrow> - (2 ^ 31) \<le> i \<and> i < 2 ^ 31"

fun param_class :: "pg_conv \<Rightarrow> sql_param \<Rightarrow> pq_class option" where
  "param_class pg (PUuid s) = (case uuid_in pg s of None \<Rightarrow> Some InvalidText | Some _ \<Rightarrow> None)"
| "param_class pg (PText s) = (if text_ok pg s then None else Some BadEncoding)"
| "param_class pg (PInt i) = (if int4_ok i then None else Some OutOfRange)"
| "param_class pg (PTime t) = (case ts_in pg t of None \<Rightarrow> Some OutOfRange | Some _ \<Rightarrow> None)"

text \<open>The error of the first parameter that does not convert.\<close>

fun bind_params :: "pg_conv \<Rightarrow> sql_param list \<Rightarrow> go_error option" where
  "bind_params pg [] = None"
| "bind_params pg (p # ps) =
     (case param_class pg p of
        Some c \<Rightarrow> Some (PqError c (pq_msg pg c))
      | None \<Rightarrow> bind_params pg ps)"

text \<open>A statement: its parameters are converted, then it runs.\<close>

definition bound :: "pg_conv \<Rightarrow> sql_param list \<Rightarrow> go_error + 'a \<Rightarrow> go_error + 'a" where
  "bound pg ps v = (case bind_params pg ps of Some e \<Rightarrow> Inl e | None \<Rightarrow> v)"

definition uuid_of :: "pg_conv \<Rightarrow> string \<Rightarrow> string" where
  "uuid_of pg s = (case uuid_in pg s of Some u \<Rightarrow> u | None \<Rightarrow> s)"

definition ts_of :: "pg_conv \<Rightarrow> time \<Rightarrow> time" where
  "ts_of pg t = (case ts_in pg t of Some u \<Rightarrow> u | None \<Rightarrow> t)"

text \<open>Documented behaviour of the conversions that properties below name as a hypothesis.\<close>

definition uuid_canonical :: "pg_conv \<Rightarrow> bool" where
  "uuid_canonical pg \<longleftrightarrow> (\<forall>s u. uuid_in pg s = Some u \<longrightarrow> uuid_in pg u = Some u)"

definition ts_mono :: "pg_conv \<Rightarrow> bool" where
  "ts_mono pg \<longleftrightarrow> (\<forall>s t s' t'. ts_in pg s = Some s' \<longrightarrow> ts_in pg t = Some t' \<longrightarrow> s \<le> t \<longrightarrow> s' \<le> t')"

lemma bind_params_None [simp]:
  "bind_params pg (p # ps) = None \<longleftrightarrow> param_class pg p = None \<and> bind_params pg ps = None"
  by (auto split: option.split)

lemma param_class_None [simp]:
  "param_class pg (PUuid s) = None \<longleftrightarrow> (\<exists>u. uuid_in pg s = Some u)"
  "param_class pg (PText s) = None \<longleftrightarrow> text_ok pg s"
  "param_class pg (PInt i) = None \<longleftrightarrow> int4_ok i"
  "param_class pg (PTime t) = None \<longleftrightarrow> (\<exists>u. ts_in pg t = Some u)"
  by (auto split: option.split)

declare bind_params.simps(2) [simp del] param_class.simps [simp del]

lemma bound_Inr [simp]: "bound pg ps v = Inr x \<longleftrightarrow> bind_params pg ps = None \<and> v = Inr x"
  by (auto simp: bound_def split: option.split)

lemma uuid_of_eq: "uuid_in pg s = Some u \<Longrightarrow> uuid_of pg s = u"
  by (simp add: uuid_of_def)

lemma ts_of_eq: "ts_in pg t = Some u \<Longrightarrow> ts_of pg t = u"
  by (simp add: ts_of_def)

lemma uuid_of_canonical: "uuid_canonical pg \<Longrightarrow> uuid_in pg s = Some u \<Longrightarrow> uuid_of pg (uuid_of pg s) = uuid_of pg s"
  by (auto simp: uuid_canonical_def uuid_of_def split: option.splits)

lemma bind_params_neq_ErrNoRows [simp]: "bind_params pg ps \<noteq> Some ErrNoRows"
  by (induction ps) (auto simp: bind_params.simps split: option.split)

lemma bound_neq_ErrNoRows: "v \<noteq> Inl ErrNoRows \<Longrightarrow> bound pg ps v \<noteq> Inl ErrNoRows"
  using bind_params_neq_ErrNoRows [of pg ps] by (auto simp: bound_def split: option.split)

subsection \<open>Running one statement\<close>

text \<open>
  What the connection does to a call: nothing, fail before the server ran the statement, or fail
  after it ran (the reply is lost, the context expired). In the last case the effect stays.
\<close>

datatype io = IoOk | IoFail string | IoLost string

definition run_stmt ::
  "io \<Rightarrow> (database \<Rightarrow> go_error + (database \<times> 'a)) \<Rightarrow> database \<Rightarrow> database \<times> (go_error + 'a)" where
  "run_stmt i f d =
     (case i of
        IoFail m \<Rightarrow> (d, Inl (DriverError m))
      | IoLost m \<Rightarrow> (case f d of
            Inl e \<Rightarrow> (d, Inl (DriverError m))
          | Inr (d', r) \<Rightarrow> (d', Inl (DriverError m)))
      | IoOk \<Rightarrow> (case f d of
            Inl e \<Rightarrow> (d, Inl e)
          | Inr (d', r) \<Rightarrow> (d', Inr r)))"

text \<open>
  The surroundings of one service call: \<open>time.Now()\<close>, the server's \<open>NOW()\<close>,
  \<open>uuid.New().String()\<close>, the connection's behaviour for the first, second, ... statement, and whether
  the iteration over a result breaks off after so many rows (\<open>rows.Err()\<close>).
\<close>

record call_env =
  go_now :: time
  db_now :: time
  new_uuid :: string
  conn_io :: "nat \<Rightarrow> io"
  rows_break :: "(nat \<times> string) option"

lemma run_stmt_IoOk [simp]:
  "run_stmt IoOk f d = (case f d of Inl e \<Rightarrow> (d, Inl e) | Inr (d', r) \<Rightarrow> (d', Inr r))"
  by (simp add: run_stmt_def)

lemma run_stmt_IoFail [simp]: "run_stmt (IoFail m) f d = (d, Inl (DriverError m))"
  by (simp add: run_stmt_def)

lemma run_stmt_Inr:
  "run_stmt i f d = (d', Inr r) \<longleftrightarrow> i = IoOk \<and> f d = Inr (d', r)"
  by (auto simp: run_stmt_def split: io.splits sum.splits)

text \<open>A statement either left the database as it was or ran and its effect stayed.\<close>

lemma run_stmt_cases:
  obtains (unchanged) "fst (run_stmt i f d) = d"
  | (ran) d' r where "f d = Inr (d', r)" and "fst (run_stmt i f d) = d'"
  by (cases i; cases "f d") (auto simp: run_stmt_def)

lemma run_stmt_inv:
  assumes "P d" and "\<And>d' r. f d = Inr (d', r) \<Longrightarrow> P d'"
  shows "P (fst (run_stmt i f d))"
  using assms by (cases rule: run_stmt_cases [of i f d]) auto

text \<open>\<open>_, err := db.ExecContext(...)\<close>, the error wrapped and returned, nil otherwise.\<close>

definition exec_stmt ::
  "string \<Rightarrow> io \<Rightarrow> (database \<Rightarrow> go_error + (database \<times> unit)) \<Rightarrow> database \<Rightarrow> database \<times> go_error option" where
  "exec_stmt prefix i f d =
    (case run_stmt i f d of
       (d', Inl e) \<Rightarrow> (d', Some (errorf_w prefix e))
     | (d', Inr _) \<Rightarrow> (d', None))"

lemma fst_exec_stmt [simp]: "fst (exec_stmt prefix i f d) = fst (run_stmt i f d)"
  by (simp add: exec_stmt_def split: prod.split sum.split)

lemma exec_stmt_None:
  "exec_stmt prefix i f d = (d', None) \<longleftrightarrow> i = IoOk \<and> f d = Inr (d', ())"
  by (auto simp: exec_stmt_def run_stmt_def split: io.splits sum.splits)

lemma exec_stmt_inv:
  assumes "P d" and "\<And>d'. f d = Inr (d', ()) \<Longrightarrow> P d'"
  shows "P (fst (exec_stmt prefix i f d))"
  using assms by (simp add: run_stmt_inv)

lemma exec_stmt_error:
  assumes "exec_stmt prefix i f d = (d', Some e)"
  shows "(\<exists>e'. e = errorf_w prefix e') \<and> (d' = d \<or> (\<exists>m. i = IoLost m))"
  using assms by (auto simp: exec_stmt_def run_stmt_def split: io.splits sum.splits)

text \<open>A SELECT: it has no effect, so only its result depends on the connection.\<close>

definition run_query :: "io \<Rightarrow> (database \<Rightarrow> go_error + 'a) \<Rightarrow> database \<Rightarrow> go_error + 'a" where
  "run_query i f d =
     (case i of IoOk \<Rightarrow> f d | IoFail m \<Rightarrow> Inl (DriverError m) | IoLost m \<Rightarrow> Inl (DriverError m))"

lemma run_query_IoOk [simp]: "run_query IoOk f d = f d"
  by (simp add: run_query_def)

lemma run_query_Inr [simp]: "run_query i f d = Inr r \<longleftrightarrow> i = IoOk \<and> f d = Inr r"
  by (auto simp: run_query_def split: io.splits)

subsection \<open>Scanning\<close>

definition scan_null :: "nat \<Rightarrow> string \<Rightarrow> string \<Rightarrow> go_error" where
  "scan_null i col why =
     ScanError (''sql: Scan error on column index '' @ itoa (int i) @ '', name '' @ quoted col @ '': '' @ why)"

lemma scan_null_neq_ErrNoRows [simp]: "scan_null i col why \<noteq> ErrNoRows" "ErrNoRows \<noteq> scan_null i col why"
  by (simp_all add: scan_null_def)

text \<open>\<open>QueryRow(...).Scan(...)\<close>: no row is \<open>sql.ErrNoRows\<close>.\<close>

definition scan_one :: "('r \<Rightarrow> go_error + 'a) \<Rightarrow> go_error + 'r option \<Rightarrow> go_error + 'a" where
  "scan_one scan q =
     (case q of Inl e \<Rightarrow> Inl e | Inr None \<Rightarrow> Inl ErrNoRows | Inr (Some r) \<Rightarrow> scan r)"

lemma scan_one_Inr: "scan_one scan q = Inr x \<longleftrightarrow> (\<exists>r. q = Inr (Some r) \<and> scan r = Inr x)"
  by (auto simp: scan_one_def split: sum.splits option.splits)

text \<open>The loop over \<open>rows.Next()\<close>: it stops at the first row that does not scan.\<close>

fun scan_rows :: "('r \<Rightarrow> go_error + 'a) \<Rightarrow> 'r list \<Rightarrow> go_error + 'a list" where
  "scan_rows scan [] = Inr []"
| "scan_rows scan (r # rs) =
     (case scan r of
        Inl e \<Rightarrow> Inl e
      | Inr x \<Rightarrow> (case scan_rows scan rs of Inl e \<Rightarrow> Inl e | Inr xs \<Rightarrow> Inr (x # xs)))"

lemma scan_rows_Inr:
  "scan_rows scan rs = Inr xs \<longleftrightarrow> list_all2 (\<lambda>r x. scan r = Inr x) rs xs"
proof (induction rs arbitrary: xs)
  case Nil
  then show ?case by (cases xs) auto
next
  case (Cons r rs)
  then show ?case by (cases xs) (auto simp flip: Cons.IH split: sum.splits)
qed

text \<open>
  A method that lists: the query, the loop over its rows, and \<open>rows.Err()\<close> after the loop. The
  three texts are the prefixes of the errors of the three places.
\<close>

definition delivered :: "call_env \<Rightarrow> 'r list \<Rightarrow> 'r list \<times> string option" where
  "delivered c rows =
    (case rows_break c of
       None \<Rightarrow> (rows, None)
     | Some (n, m) \<Rightarrow> (if n \<le> length rows then (take n rows, Some m) else (rows, None)))"

definition query_all ::
  "string \<Rightarrow> string \<Rightarrow> string \<Rightarrow> ('r \<Rightarrow> go_error + 'a) \<Rightarrow> call_env \<Rightarrow>
   (database \<Rightarrow> go_error + 'r list) \<Rightarrow> database \<Rightarrow> go_error + 'a list" where
  "query_all queryErr scanErr iterErr scan c query d =
    (case run_query (conn_io c 0) query d of
       Inl err \<Rightarrow> Inl (errorf_w queryErr err)
     | Inr rows \<Rightarrow>
        (case delivered c rows of (got, broke) \<Rightarrow>
          (case scan_rows scan got of
             Inl err \<Rightarrow> Inl (errorf_w scanErr err)
           | Inr xs \<Rightarrow>
              (case broke of
                 Some m \<Rightarrow> Inl (errorf_w iterErr (DriverError m))
               | None \<Rightarrow> Inr xs))))"

lemma query_all_Inr:
  "query_all qe se ie scan c query d = Inr xs \<longleftrightarrow>
     (\<exists>rows. conn_io c 0 = IoOk \<and> query d = Inr rows \<and> delivered c rows = (rows, None) \<and>
        list_all2 (\<lambda>r x. scan r = Inr x) rows xs)"
  by (auto simp: query_all_def delivered_def run_query_def simp flip: scan_rows_Inr
           split: sum.splits option.splits prod.splits if_splits io.splits)

lemma query_all_Inl: "query_all qe se ie scan c query d \<noteq> Inl ErrNoRows"
  by (auto simp: query_all_def split: sum.splits option.splits prod.splits)

end
