(* ===== verification/Session_Service.thy ===== *)
theory Session_Service
  imports Database
begin

section \<open>The session service\<close>

text \<open>
  \<open>internal/services/session_service.go\<close>: sessions are rows of \<open>gate_sessions\<close>, and every
  method of \<open>SessionService\<close> is one or two SQL statements with the checks the Go code makes
  between them. This theory holds the methods as functions of the database, each with its error
  branches, and the facts about one call. A call's two statements run without another call in
  between here; \<open>Session_Concurrency\<close> drops that.
\<close>

subsection \<open>The session states and the \<open>Session\<close> struct\<close>

definition StateRequested :: string where "StateRequested = ''REQUESTED''"
definition StateAuthorized :: string where "StateAuthorized = ''AUTHORIZED''"
definition StateActive :: string where "StateActive = ''ACTIVE''"
definition StateDisconnected :: string where "StateDisconnected = ''DISCONNECTED''"

lemmas state_consts = StateRequested_def StateAuthorized_def StateActive_def StateDisconnected_def

lemma states_distinct [simp]:
  "StateRequested \<noteq> StateAuthorized" "StateRequested \<noteq> StateActive"
  "StateRequested \<noteq> StateDisconnected" "StateAuthorized \<noteq> StateRequested"
  "StateAuthorized \<noteq> StateActive" "StateAuthorized \<noteq> StateDisconnected"
  "StateActive \<noteq> StateRequested" "StateActive \<noteq> StateAuthorized"
  "StateActive \<noteq> StateDisconnected" "StateDisconnected \<noteq> StateRequested"
  "StateDisconnected \<noteq> StateAuthorized" "StateDisconnected \<noteq> StateActive"
  by (simp_all add: state_consts)

record session =
  ses_ID :: string
  ses_UserID :: string
  ses_DeviceID :: string
  ses_State :: string
  ses_CertSerial :: string
  ses_CertExpiresAt :: time
  ses_StartedAt :: time
  ses_ConnectedAt :: "time option"
  ses_DisconnectedAt :: "time option"
  ses_SSHPort :: int
  ses_RecordingID :: "string option"
  ses_DisconnectReason :: "string option"
  ses_GUIProtocol :: "string option"
  ses_X11DisplayPort :: "int option"
  ses_VNCPort :: "int option"
  ses_GUISessionStartedAt :: "time option"
  ses_GUISessionEndedAt :: "time option"
  ses_CreatedAt :: time
  ses_UpdatedAt :: time

text \<open>
  \<open>Scan\<close> of the nineteen selected columns: a NULL is an error for a field that is not a pointer,
  and the first such column, in the order of the SELECT list, is reported.
\<close>

definition scan_session :: "session_row \<Rightarrow> go_error + session" where
  "scan_session r =
    (case sr_cert_serial r of
       None \<Rightarrow> Inl (scan_null 4 ''cert_serial'' ''converting NULL to string is unsupported'')
     | Some serial \<Rightarrow>
    (case sr_cert_expires_at r of
       None \<Rightarrow> Inl (scan_null 5 ''cert_expires_at''
                 ''unsupported Scan, storing driver.Value type <nil> into type *time.Time'')
     | Some expires \<Rightarrow>
    (case sr_ssh_port r of
       None \<Rightarrow> Inl (scan_null 9 ''ssh_port'' ''converting NULL to int is unsupported'')
     | Some port \<Rightarrow>
    (case sr_created_at r of
       None \<Rightarrow> Inl (scan_null 17 ''created_at''
                 ''unsupported Scan, storing driver.Value type <nil> into type *time.Time'')
     | Some created \<Rightarrow>
    (case sr_updated_at r of
       None \<Rightarrow> Inl (scan_null 18 ''updated_at''
                 ''unsupported Scan, storing driver.Value type <nil> into type *time.Time'')
     | Some updated \<Rightarrow>
         Inr \<lparr>ses_ID = sr_id r, ses_UserID = sr_user_id r, ses_DeviceID = sr_device_id r,
              ses_State = sr_state r, ses_CertSerial = serial, ses_CertExpiresAt = expires,
              ses_StartedAt = sr_started_at r, ses_ConnectedAt = sr_connected_at r,
              ses_DisconnectedAt = sr_disconnected_at r, ses_SSHPort = port,
              ses_RecordingID = sr_recording_id r, ses_DisconnectReason = sr_disconnect_reason r,
              ses_GUIProtocol = sr_gui_protocol r, ses_X11DisplayPort = sr_x11_display_port r,
              ses_VNCPort = sr_vnc_port r,
              ses_GUISessionStartedAt = sr_gui_session_started_at r,
              ses_GUISessionEndedAt = sr_gui_session_ended_at r,
              ses_CreatedAt = created, ses_UpdatedAt = updated\<rparr>)))))"

subsection \<open>The table\<close>

definition session_get :: "string \<Rightarrow> database \<Rightarrow> session_row option" where
  "session_get k d = find_row sr_id k (gate_sessions d)"

definition session_ins :: "session_row \<Rightarrow> database \<Rightarrow> database" where
  "session_ins r d = d\<lparr>gate_sessions := gate_sessions d @ [r]\<rparr>"

definition session_upd :: "string \<Rightarrow> (session_row \<Rightarrow> session_row) \<Rightarrow> database \<Rightarrow> database" where
  "session_upd k f d = d\<lparr>gate_sessions := update_rows (\<lambda>r. sr_id r = k) f (gate_sessions d)\<rparr>"

interpretation sessions: row_store sr_id session_get session_ins session_upd
proof
  show "sr_id r = k" if "session_get k s = Some r" for k s r
    using find_row_Some [of sr_id k] that by (auto simp: session_get_def)
next
  show "session_get k (session_ins r s) = (if k = sr_id r then Some r else session_get k s)"
    if "session_get (sr_id r) s = None" for r s k
    using that by (auto simp: session_get_def session_ins_def split: option.split)
next
  show "session_get k (session_upd j f s) = (if k = j then map_option f (session_get k s) else session_get k s)"
    if "\<And>r. sr_id (f r) = sr_id r" for f k j s
    using that find_row_Some [of sr_id k]
    by (cases "session_get k s") (auto simp: session_get_def session_upd_def find_row_update)
qed

subsection \<open>\<open>CreateSession\<close>\<close>

definition sql_insert_session ::
  "pg_conv \<Rightarrow> string \<Rightarrow> string \<Rightarrow> string \<Rightarrow> string \<Rightarrow> string \<Rightarrow> time \<Rightarrow> time \<Rightarrow> int \<Rightarrow> database \<Rightarrow>
   go_error + (database \<times> session_row)" where
  "sql_insert_session pg sid uid did st serial expires now port d =
    bound pg [PUuid sid, PUuid uid, PUuid did, PText st, PText serial, PTime expires, PTime now, PInt port, PTime now, PTime now]
        (let row = \<lparr>sr_id = uuid_of pg sid, sr_user_id = uuid_of pg uid,
                    sr_device_id = uuid_of pg did, sr_state = st, sr_cert_serial = Some serial,
                    sr_cert_expires_at = Some (ts_of pg expires), sr_started_at = ts_of pg now,
                    sr_connected_at = None, sr_disconnected_at = None, sr_ssh_port = Some port,
                    sr_recording_id = None, sr_disconnect_reason = None,
                    sr_created_at = Some (ts_of pg now), sr_updated_at = Some (ts_of pg now),
                    sr_enable_gui = Some False, sr_gui_protocol = None,
                    sr_x11_display_port = None, sr_vnc_port = None,
                    sr_gui_session_started_at = None, sr_gui_session_ended_at = None\<rparr>
         in if session_get (uuid_of pg sid) d \<noteq> None
            then Inl (PqError (UniqueViolation ''gate_sessions_pkey'')
                        (pq_msg pg (UniqueViolation ''gate_sessions_pkey'')))
            else if uuid_of pg did \<notin> dr_id ` set (devices d)
            then Inl (PqError (ForeignKeyViolation ''gate_sessions_device_id_fkey'')
                        (pq_msg pg (ForeignKeyViolation ''gate_sessions_device_id_fkey'')))
            else Inr (session_ins row d, row))"

definition CreateSession ::
  "pg_conv \<Rightarrow> call_env \<Rightarrow> string \<Rightarrow> string \<Rightarrow> string \<Rightarrow> time \<Rightarrow> database \<Rightarrow>
   database \<times> (go_error + session)" where
  "CreateSession pg c userID deviceID certSerial certExpiresAt d =
    (let sessionID = new_uuid c; now = go_now c in
     case run_stmt (conn_io c 0)
            (sql_insert_session pg sessionID userID deviceID StateRequested certSerial
               certExpiresAt now 2222) d of
       (d', Inl e) \<Rightarrow> (d', Inl (errorf_w ''failed to create session: '' e))
     | (d', Inr row) \<Rightarrow>
        (case scan_session row of
           Inl e \<Rightarrow> (d', Inl (errorf_w ''failed to create session: '' e))
         | Inr session \<Rightarrow> (d', Inr session)))"

subsection \<open>\<open>GetSession\<close>\<close>

definition sql_select_session :: "pg_conv \<Rightarrow> string \<Rightarrow> database \<Rightarrow> go_error + session_row option" where
  "sql_select_session pg sid d =
    bound pg [PUuid sid]
      (Inr (session_get (uuid_of pg sid) d))"

definition GetSession :: "pg_conv \<Rightarrow> call_env \<Rightarrow> string \<Rightarrow> database \<Rightarrow> go_error + session" where
  "GetSession pg c sessionID d =
    (case scan_one scan_session (run_query (conn_io c 0) (sql_select_session pg sessionID) d) of
       Inl err \<Rightarrow>
         if err = ErrNoRows then Inl (errorf (''session not found: '' @ sessionID))
         else Inl (errorf_w ''failed to get session: '' err)
     | Inr session \<Rightarrow> Inr session)"

subsection \<open>State changes\<close>

definition validStates :: "string \<rightharpoonup> bool" where
  "validStates = [StateRequested \<mapsto> True, StateAuthorized \<mapsto> True, StateActive \<mapsto> True,
                  StateDisconnected \<mapsto> True]"

definition validTransitions :: "string \<rightharpoonup> (string \<rightharpoonup> bool)" where
  "validTransitions =
     [StateRequested \<mapsto> [StateAuthorized \<mapsto> True, StateDisconnected \<mapsto> True],
      StateAuthorized \<mapsto> [StateActive \<mapsto> True, StateDisconnected \<mapsto> True],
      StateActive \<mapsto> [StateDisconnected \<mapsto> True],
      StateDisconnected \<mapsto> Map.empty]"

text \<open>Indexing a Go \<open>map[string]bool\<close>: a missing key reads as \<open>false\<close>.\<close>

definition map_bool :: "(string \<rightharpoonup> bool) \<Rightarrow> string \<Rightarrow> bool" where
  "map_bool m k = (case m k of None \<Rightarrow> False | Some b \<Rightarrow> b)"

definition transition_allowed :: "string \<Rightarrow> string \<Rightarrow> bool" where
  "transition_allowed currentState newState =
    (case validTransitions currentState of
       None \<Rightarrow> False
     | Some transitions \<Rightarrow> map_bool transitions newState)"

text \<open>\<open>SELECT state FROM gate_sessions WHERE id = $1\<close>, shared by three methods.\<close>

definition sql_select_state :: "pg_conv \<Rightarrow> string \<Rightarrow> database \<Rightarrow> go_error + string option" where
  "sql_select_state pg sid d =
    bound pg [PUuid sid]
      (Inr (map_option sr_state (session_get (uuid_of pg sid) d)))"

text \<open>The first half of those methods: read the state, with the two ways this fails.\<close>

definition current_state ::
  "string \<Rightarrow> pg_conv \<Rightarrow> call_env \<Rightarrow> string \<Rightarrow> database \<Rightarrow> go_error + string" where
  "current_state prefix pg c sessionID d =
    (case scan_one Inr (run_query (conn_io c 0) (sql_select_state pg sessionID) d) of
       Inl err \<Rightarrow>
         if err = ErrNoRows then Inl (errorf (''session not found: '' @ sessionID))
         else Inl (errorf_w prefix err)
     | Inr st \<Rightarrow> Inr st)"

definition sql_update_state ::
  "pg_conv \<Rightarrow> string \<Rightarrow> time \<Rightarrow> string \<Rightarrow> database \<Rightarrow> go_error + (database \<times> unit)" where
  "sql_update_state pg st now sid d =
    bound pg [PText st, PTime now, PUuid sid]
      (Inr (session_upd (uuid_of pg sid)
                      (\<lambda>r. r\<lparr>sr_state := st, sr_updated_at := Some (ts_of pg now)\<rparr>) d, ()))"

definition UpdateSessionState ::
  "pg_conv \<Rightarrow> call_env \<Rightarrow> string \<Rightarrow> string \<Rightarrow> database \<Rightarrow> database \<times> go_error option" where
  "UpdateSessionState pg c sessionID newState d =
    (if \<not> map_bool validStates newState
     then (d, Some (errorf (''invalid state: '' @ newState)))
     else
      (case current_state ''failed to get current state: '' pg c sessionID d of
       Inl err \<Rightarrow> (d, Some err)
     | Inr currentState \<Rightarrow>
          (if \<not> transition_allowed currentState newState
           then (d, Some (errorf (''invalid state transition: '' @ currentState @ '' -> '' @ newState)))
           else
            exec_stmt ''failed to update session state: '' (conn_io c 1)
       (sql_update_state pg newState (go_now c) sessionID) d)))"

definition sql_mark_connected ::
  "pg_conv \<Rightarrow> time \<Rightarrow> string \<Rightarrow> string \<Rightarrow> database \<Rightarrow> go_error + (database \<times> unit)" where
  "sql_mark_connected pg now st sid d =
    bound pg [PTime now, PText st, PTime now, PUuid sid]
      (Inr (session_upd (uuid_of pg sid)
                      (\<lambda>r. r\<lparr>sr_connected_at := Some (ts_of pg now), sr_state := st,
                             sr_updated_at := Some (ts_of pg now)\<rparr>) d, ()))"

definition MarkConnected ::
  "pg_conv \<Rightarrow> call_env \<Rightarrow> string \<Rightarrow> database \<Rightarrow> database \<times> go_error option" where
  "MarkConnected pg c sessionID d =
    (case current_state ''failed to get session state: '' pg c sessionID d of
       Inl err \<Rightarrow> (d, Some err)
     | Inr currentState \<Rightarrow>
        (if currentState \<noteq> StateAuthorized
         then (d, Some (errorf (''cannot mark connected: session must be in AUTHORIZED state, current state: ''
                                @ currentState)))
         else
          exec_stmt ''failed to mark session connected: '' (conn_io c 1)
       (sql_mark_connected pg (go_now c) StateActive sessionID) d))"

definition sql_disconnect ::
  "pg_conv \<Rightarrow> string \<Rightarrow> time \<Rightarrow> string \<Rightarrow> string \<Rightarrow> database \<Rightarrow> go_error + (database \<times> unit)" where
  "sql_disconnect pg st now reason sid d =
    bound pg [PText st, PTime now, PText reason, PTime now, PUuid sid]
      (Inr (session_upd (uuid_of pg sid)
                      (\<lambda>r. r\<lparr>sr_state := st, sr_disconnected_at := Some (ts_of pg now),
                             sr_disconnect_reason := Some reason,
                             sr_updated_at := Some (ts_of pg now)\<rparr>) d, ()))"

definition DisconnectSession ::
  "pg_conv \<Rightarrow> call_env \<Rightarrow> string \<Rightarrow> string \<Rightarrow> database \<Rightarrow> database \<times> go_error option" where
  "DisconnectSession pg c sessionID reason d =
    (case current_state ''failed to get session state: '' pg c sessionID d of
       Inl err \<Rightarrow> (d, Some err)
     | Inr currentState \<Rightarrow>
        (if currentState = StateDisconnected
         then (d, Some (errorf ''session already disconnected''))
         else
          exec_stmt ''failed to disconnect session: '' (conn_io c 1)
       (sql_disconnect pg StateDisconnected (go_now c) reason sessionID) d))"

subsection \<open>Listing\<close>

text \<open>The three methods differ in the WHERE clause and in the texts of their errors.\<close>

definition sql_sessions_by_device :: "pg_conv \<Rightarrow> string \<Rightarrow> database \<Rightarrow> go_error + session_row list" where
  "sql_sessions_by_device pg did d =
    bound pg [PUuid did]
      (Inr (order_desc sr_created_at
                      (filter (\<lambda>r. sr_device_id r = uuid_of pg did) (gate_sessions d))))"

definition sql_active_sessions :: "pg_conv \<Rightarrow> string \<Rightarrow> string \<Rightarrow> database \<Rightarrow> go_error + session_row list" where
  "sql_active_sessions pg did st d =
    bound pg [PUuid did, PText st]
      (Inr (order_desc sr_created_at
                      (filter (\<lambda>r. sr_device_id r = uuid_of pg did \<and> sr_state r = st) (gate_sessions d))))"

definition sql_sessions_by_user :: "pg_conv \<Rightarrow> string \<Rightarrow> database \<Rightarrow> go_error + session_row list" where
  "sql_sessions_by_user pg uid d =
    bound pg [PUuid uid]
      (Inr (order_desc sr_created_at
                      (filter (\<lambda>r. sr_user_id r = uuid_of pg uid) (gate_sessions d))))"

definition ListSessionsByDevice ::
  "pg_conv \<Rightarrow> call_env \<Rightarrow> string \<Rightarrow> database \<Rightarrow> go_error + session list" where
  "ListSessionsByDevice pg c deviceID d =
     query_all ''failed to list sessions for device: '' ''failed to scan session row: ''
       ''error iterating sessions: '' scan_session c (sql_sessions_by_device pg deviceID) d"

definition ListActiveSessions ::
  "pg_conv \<Rightarrow> call_env \<Rightarrow> string \<Rightarrow> database \<Rightarrow> go_error + session list" where
  "ListActiveSessions pg c deviceID d =
     query_all ''failed to list active sessions: '' ''failed to scan active session row: ''
       ''error iterating active sessions: '' scan_session c (sql_active_sessions pg deviceID StateActive) d"

definition ListSessionsByUser ::
  "pg_conv \<Rightarrow> call_env \<Rightarrow> string \<Rightarrow> database \<Rightarrow> go_error + session list" where
  "ListSessionsByUser pg c userID d =
     query_all ''failed to query sessions for user: '' ''failed to scan session: ''
       ''error iterating sessions: '' scan_session c (sql_sessions_by_user pg userID) d"

subsection \<open>Cleanup and GUI metadata\<close>

text \<open>\<open>cert_expires_at < $6\<close> is not true of a NULL.\<close>

definition cert_expired :: "time \<Rightarrow> session_row \<Rightarrow> bool" where
  "cert_expired t r = (case sr_cert_expires_at r of None \<Rightarrow> False | Some e \<Rightarrow> e < t)"

definition sql_cleanup :: "pg_conv \<Rightarrow> time \<Rightarrow> database \<Rightarrow> go_error + (database \<times> unit)" where
  "sql_cleanup pg now d =
    bound pg [PText StateDisconnected, PTime now, PText ''cert_expired'', PTime now, PText StateDisconnected, PTime now]
      (Inr (d\<lparr>gate_sessions :=
                 update_rows (\<lambda>r. sr_state r \<noteq> StateDisconnected \<and> cert_expired (ts_of pg now) r)
                   (\<lambda>r. r\<lparr>sr_state := StateDisconnected, sr_disconnected_at := Some (ts_of pg now),
                          sr_disconnect_reason := Some ''cert_expired'',
                          sr_updated_at := Some (ts_of pg now)\<rparr>)
                   (gate_sessions d)\<rparr>, ()))"

definition CleanupExpiredSessions ::
  "pg_conv \<Rightarrow> call_env \<Rightarrow> database \<Rightarrow> database \<times> go_error option" where
  "CleanupExpiredSessions pg c d =
    exec_stmt ''failed to cleanup expired sessions: '' (conn_io c 0)
       (sql_cleanup pg (go_now c)) d"

definition sql_gui_start ::
  "pg_conv \<Rightarrow> string \<Rightarrow> int \<Rightarrow> int \<Rightarrow> string \<Rightarrow> time \<Rightarrow> database \<Rightarrow> go_error + (database \<times> unit)" where
  "sql_gui_start pg protocol vncPort x11DisplayPort sid dbnow d =
    bound pg [PText protocol, PInt vncPort, PInt x11DisplayPort, PUuid sid]
      (Inr (session_upd (uuid_of pg sid)
                      (\<lambda>r. r\<lparr>sr_gui_protocol := Some protocol, sr_vnc_port := Some vncPort,
                             sr_x11_display_port := Some x11DisplayPort,
                             sr_gui_session_started_at := Some dbnow\<rparr>) d, ()))"

definition UpdateSessionGUIStatus ::
  "pg_conv \<Rightarrow> call_env \<Rightarrow> string \<Rightarrow> string \<Rightarrow> int \<Rightarrow> int \<Rightarrow> database \<Rightarrow> database \<times> go_error option" where
  "UpdateSessionGUIStatus pg c sessionID protocol vncPort x11DisplayPort d =
    exec_stmt ''failed to update GUI status: '' (conn_io c 0)
       (sql_gui_start pg protocol vncPort x11DisplayPort sessionID (db_now c)) d"

definition sql_gui_end :: "pg_conv \<Rightarrow> string \<Rightarrow> time \<Rightarrow> database \<Rightarrow> go_error + (database \<times> unit)" where
  "sql_gui_end pg sid dbnow d =
    bound pg [PUuid sid]
      (Inr (session_upd (uuid_of pg sid)
                      (\<lambda>r. r\<lparr>sr_gui_protocol := None, sr_vnc_port := None,
                             sr_x11_display_port := None,
                             sr_gui_session_ended_at := Some dbnow\<rparr>) d, ()))"

definition EndGUISession ::
  "pg_conv \<Rightarrow> call_env \<Rightarrow> string \<Rightarrow> database \<Rightarrow> database \<times> go_error option" where
  "EndGUISession pg c sessionID d =
    exec_stmt ''failed to end GUI session: '' (conn_io c 0)
       (sql_gui_end pg sessionID (db_now c)) d"

end
