(* ===== verification/Session_Lifecycle.thy ===== *)
theory Session_Lifecycle
  imports Session_Service
begin

section \<open>The session lifecycle as a state machine\<close>

text \<open>
  The abstract machine that the session service implements: four phases, ordered, and the edges
  the documentation draws (REQUESTED, AUTHORIZED, ACTIVE, DISCONNECTED). \<open>row_step\<close> says how one
  call may change one row of \<open>gate_sessions\<close>; every method is shown to change each row by at
  most one such step, and each step is an edge of the machine or leaves the phase alone. The
  contract is the locale \<open>lifecycle\<close>: whatever follows from it for runs of any length is proved
  there once.
\<close>

subsection \<open>Phases\<close>

datatype phase = Requested | Authorized | Active | Disconnected

fun phase_rank :: "phase \<Rightarrow> nat" where
  "phase_rank Requested = 0"
| "phase_rank Authorized = 1"
| "phase_rank Active = 2"
| "phase_rank Disconnected = 3"

lemma phase_rank_inj: "phase_rank p = phase_rank q \<Longrightarrow> p = q"
  by (cases p; cases q) simp_all

instantiation phase :: linorder
begin

definition less_eq_phase :: "phase \<Rightarrow> phase \<Rightarrow> bool" where
  "less_eq_phase p q \<longleftrightarrow> phase_rank p \<le> phase_rank q"

definition less_phase :: "phase \<Rightarrow> phase \<Rightarrow> bool" where
  "less_phase p q \<longleftrightarrow> phase_rank p < phase_rank q"

instance
  by standard (auto simp: less_eq_phase_def less_phase_def intro: phase_rank_inj)

end

lemma phase_le_Disconnected [simp]: "p \<le> Disconnected"
  by (cases p) (simp_all add: less_eq_phase_def)

definition phase_of :: "string \<Rightarrow> phase option" where
  "phase_of s =
     (if s = StateRequested then Some Requested
      else if s = StateAuthorized then Some Authorized
      else if s = StateActive then Some Active
      else if s = StateDisconnected then Some Disconnected
      else None)"

lemma phase_of_consts [simp]:
  "phase_of StateRequested = Some Requested" "phase_of StateAuthorized = Some Authorized"
  "phase_of StateActive = Some Active" "phase_of StateDisconnected = Some Disconnected"
  by (simp_all add: phase_of_def)

lemma phase_of_Some:
  "phase_of s = Some Requested \<longleftrightarrow> s = StateRequested"
  "phase_of s = Some Authorized \<longleftrightarrow> s = StateAuthorized"
  "phase_of s = Some Active \<longleftrightarrow> s = StateActive"
  "phase_of s = Some Disconnected \<longleftrightarrow> s = StateDisconnected"
  by (auto simp: phase_of_def)

inductive phase_edge :: "phase \<Rightarrow> phase \<Rightarrow> bool" where
  authorize: "phase_edge Requested Authorized"
| reject: "phase_edge Requested Disconnected"
| connect: "phase_edge Authorized Active"
| abandon: "phase_edge Authorized Disconnected"
| finish: "phase_edge Active Disconnected"

code_pred phase_edge .

inductive_simps phase_edge_simps [simp]:
  "phase_edge Requested q" "phase_edge Authorized q" "phase_edge Active q" "phase_edge Disconnected q"

lemma phase_edge_less: "phase_edge p q \<Longrightarrow> p < q"
  by (cases rule: phase_edge.cases) (auto simp: less_phase_def)

lemma phase_edge_to_Disconnected: "p \<noteq> Disconnected \<Longrightarrow> phase_edge p Disconnected"
  by (cases p) simp_all

text \<open>The order of the phases is reachability along the edges.\<close>

lemma phase_le_iff_path: "p \<le> q \<longleftrightarrow> phase_edge\<^sup>*\<^sup>* p q"
proof
  assume "phase_edge\<^sup>*\<^sup>* p q"
  then show "p \<le> q"
    by (induction rule: rtranclp_induct) (auto dest: phase_edge_less)
next
  have "phase_edge\<^sup>*\<^sup>* Requested Active"
    by (rule converse_rtranclp_into_rtranclp [of _ _ Authorized]) auto
  moreover assume "p \<le> q"
  ultimately show "phase_edge\<^sup>*\<^sup>* p q"
    by (cases p; cases q) (auto simp: less_eq_phase_def)
qed

text \<open>The table \<open>validTransitions\<close> of the code is exactly the set of edges.\<close>

lemma transition_allowed_edge:
  "transition_allowed s t \<longleftrightarrow> (\<exists>p q. phase_of s = Some p \<and> phase_of t = Some q \<and> phase_edge p q)"
  by (auto simp: transition_allowed_def validTransitions_def map_bool_def phase_of_def)

lemma transition_allowed_cases:
  assumes "transition_allowed s t"
  obtains "s = StateRequested" "t = StateAuthorized" | "s = StateRequested" "t = StateDisconnected"
    | "s = StateAuthorized" "t = StateActive" | "s = StateAuthorized" "t = StateDisconnected"
    | "s = StateActive" "t = StateDisconnected"
proof -
  from assms obtain p q where "phase_of s = Some p" "phase_of t = Some q" "phase_edge p q"
    by (auto simp: transition_allowed_edge)
  then show thesis
    using that by (cases p; cases q) (simp_all add: phase_of_Some)
qed

lemma validStates_phase: "map_bool validStates s \<longleftrightarrow> phase_of s \<noteq> None"
  by (auto simp: validStates_def map_bool_def phase_of_def)

subsection \<open>What one call may do to one row\<close>

inductive row_step :: "session_row \<Rightarrow> session_row \<Rightarrow> bool" where
  set_state: "transition_allowed (sr_state r) st \<Longrightarrow>
     row_step r (r\<lparr>sr_state := st, sr_updated_at := Some t\<rparr>)"
| mark_connected: "sr_state r = StateAuthorized \<Longrightarrow>
     row_step r (r\<lparr>sr_connected_at := Some t, sr_state := StateActive, sr_updated_at := Some t\<rparr>)"
| disconnect: "sr_state r \<noteq> StateDisconnected \<Longrightarrow>
     row_step r (r\<lparr>sr_state := StateDisconnected, sr_disconnected_at := Some t,
                   sr_disconnect_reason := Some reason, sr_updated_at := Some t\<rparr>)"
| gui_start: "row_step r (r\<lparr>sr_gui_protocol := Some p, sr_vnc_port := Some v,
                   sr_x11_display_port := Some x, sr_gui_session_started_at := Some t\<rparr>)"
| gui_end: "row_step r (r\<lparr>sr_gui_protocol := None, sr_vnc_port := None,
                   sr_x11_display_port := None, sr_gui_session_ended_at := Some t\<rparr>)"

lemma row_step_frame:
  "row_step r r' \<Longrightarrow>
     sr_id r' = sr_id r \<and> sr_user_id r' = sr_user_id r \<and> sr_device_id r' = sr_device_id r \<and>
     sr_cert_serial r' = sr_cert_serial r \<and> sr_cert_expires_at r' = sr_cert_expires_at r \<and>
     sr_started_at r' = sr_started_at r \<and> sr_ssh_port r' = sr_ssh_port r \<and>
     sr_created_at r' = sr_created_at r"
  by (cases rule: row_step.cases) auto

lemma row_step_phase:
  assumes "row_step r r'" and "phase_of (sr_state r) = Some p"
  shows "\<exists>q. phase_of (sr_state r') = Some q \<and> (q = p \<or> phase_edge p q)"
  using assms
proof (cases rule: row_step.cases)
  case (set_state st t)
  then show ?thesis using assms(2) by (auto simp: transition_allowed_edge)
next
  case (mark_connected t)
  then show ?thesis using assms(2) by auto
next
  case (disconnect t reason)
  then show ?thesis using assms(2) phase_edge_to_Disconnected [of p] by (auto simp: phase_of_Some)
qed auto

definition fresh_row :: "session_row \<Rightarrow> bool" where
  "fresh_row r \<longleftrightarrow>
     sr_state r = StateRequested \<and> sr_ssh_port r = Some 2222 \<and> sr_cert_serial r \<noteq> None \<and>
     sr_cert_expires_at r \<noteq> None \<and> sr_connected_at r = None \<and> sr_disconnected_at r = None \<and>
     sr_disconnect_reason r = None \<and> sr_gui_protocol r = None \<and> sr_vnc_port r = None \<and>
     sr_x11_display_port r = None \<and> sr_gui_session_started_at r = None \<and>
     sr_gui_session_ended_at r = None \<and>
     sr_created_at r = Some (sr_started_at r) \<and> sr_updated_at r = Some (sr_started_at r)"

text \<open>How a call may change the row with id \<open>k\<close>: not at all, by one step, or by creating it.\<close>

definition session_change :: "string \<Rightarrow> database \<Rightarrow> database \<Rightarrow> bool" where
  "session_change k d d' \<longleftrightarrow>
     session_get k d' = session_get k d \<or>
     (\<exists>r r'. session_get k d = Some r \<and> session_get k d' = Some r' \<and> row_step r r') \<or>
     (session_get k d = None \<and> (\<exists>r'. session_get k d' = Some r' \<and> fresh_row r'))"

lemma session_change_refl [simp]: "session_change k d d"
  by (simp add: session_change_def)

lemma session_change_upd:
  assumes key: "\<And>r. sr_id (f r) = sr_id r"
    and step: "\<And>r. session_get u d = Some r \<Longrightarrow> row_step r (f r)"
  shows "session_change k d (session_upd u f d)"
proof (cases "k = u")
  case True
  then show ?thesis
    using step by (cases "session_get u d") (auto simp: session_change_def sessions.get_upd key)
next
  case False
  then show ?thesis by (simp add: session_change_def sessions.get_upd key)
qed

subsection \<open>Every method makes such a change\<close>

lemma sql_insert_session_Inr:
  assumes "sql_insert_session pg sid uid did StateRequested serial expires now 2222 d = Inr (d', row)"
  shows "d' = session_ins row d \<and> session_get (sr_id row) d = None \<and> fresh_row row \<and>
    sr_id row = uuid_of pg sid \<and> sr_device_id row \<in> dr_id ` set (devices d)"
  using assms by (auto simp: sql_insert_session_def Let_def fresh_row_def split: if_splits)

lemma sql_updates_Inr:
  "sql_update_state pg st now sid d = Inr (d', v) \<Longrightarrow>
     d' = session_upd (uuid_of pg sid)
            (\<lambda>r. r\<lparr>sr_state := st, sr_updated_at := Some (ts_of pg now)\<rparr>) d"
  "sql_mark_connected pg now st sid d = Inr (d', v) \<Longrightarrow>
     d' = session_upd (uuid_of pg sid)
            (\<lambda>r. r\<lparr>sr_connected_at := Some (ts_of pg now), sr_state := st,
                   sr_updated_at := Some (ts_of pg now)\<rparr>) d"
  "sql_disconnect pg st now reason sid d = Inr (d', v) \<Longrightarrow>
     d' = session_upd (uuid_of pg sid)
            (\<lambda>r. r\<lparr>sr_state := st, sr_disconnected_at := Some (ts_of pg now),
                   sr_disconnect_reason := Some reason, sr_updated_at := Some (ts_of pg now)\<rparr>) d"
  "sql_gui_start pg proto vp xp sid t d = Inr (d', v) \<Longrightarrow>
     d' = session_upd (uuid_of pg sid)
            (\<lambda>r. r\<lparr>sr_gui_protocol := Some proto, sr_vnc_port := Some vp,
                   sr_x11_display_port := Some xp, sr_gui_session_started_at := Some t\<rparr>) d"
  "sql_gui_end pg sid t d = Inr (d', v) \<Longrightarrow>
     d' = session_upd (uuid_of pg sid)
            (\<lambda>r. r\<lparr>sr_gui_protocol := None, sr_vnc_port := None,
                   sr_x11_display_port := None, sr_gui_session_ended_at := Some t\<rparr>) d"
  by (simp_all add: sql_update_state_def sql_mark_connected_def sql_disconnect_def
        sql_gui_start_def sql_gui_end_def)

lemma current_state_Inr:
  "current_state prefix pg c sid d = Inr st \<longleftrightarrow>
     conn_io c 0 = IoOk \<and> (\<exists>u. uuid_in pg sid = Some u) \<and>
     (\<exists>r. session_get (uuid_of pg sid) d = Some r \<and> sr_state r = st)"
proof -
  have "current_state prefix pg c sid d = Inr st \<longleftrightarrow>
      scan_one Inr (run_query (conn_io c 0) (sql_select_state pg sid) d) = Inr st"
    by (simp add: current_state_def split: sum.split)
  then show ?thesis
    by (auto simp: scan_one_Inr sql_select_state_def)
qed

lemma fst_CreateSession:
  "fst (CreateSession pg c u dv cs ce d) = fst (run_stmt (conn_io c 0)
     (sql_insert_session pg (new_uuid c) u dv StateRequested cs ce (go_now c) 2222) d)"
  by (simp add: CreateSession_def Let_def split: prod.splits sum.splits)

lemma CreateSession_change: "session_change k d (fst (CreateSession pg c u dv cs ce d))"
proof -
  have "session_change k d d'"
    if "sql_insert_session pg (new_uuid c) u dv StateRequested cs ce (go_now c) 2222 d = Inr (d', row)"
    for d' row
    using sql_insert_session_Inr [OF that]
    by (cases "k = sr_id row") (auto simp: session_change_def sessions.get_ins)
  then show ?thesis
    by (simp add: fst_CreateSession run_stmt_inv [of "session_change k d"])
qed

lemma UpdateSessionState_change: "session_change k d (fst (UpdateSessionState pg c sid st d))"
  unfolding UpdateSessionState_def
  by (auto simp: current_state_Inr split: sum.splits
        intro!: run_stmt_inv [of "session_change k d"] session_change_upd row_step.set_state
        dest!: sql_updates_Inr)

lemma MarkConnected_change: "session_change k d (fst (MarkConnected pg c sid d))"
  unfolding MarkConnected_def
  by (auto simp: current_state_Inr split: sum.splits
        intro!: run_stmt_inv [of "session_change k d"] session_change_upd row_step.mark_connected
        dest!: sql_updates_Inr)

lemma DisconnectSession_change: "session_change k d (fst (DisconnectSession pg c sid reason d))"
  unfolding DisconnectSession_def
  by (auto simp: current_state_Inr split: sum.splits
        intro!: run_stmt_inv [of "session_change k d"] session_change_upd row_step.disconnect
        dest!: sql_updates_Inr)

lemma sql_cleanup_change:
  assumes "sql_cleanup pg now d = Inr (d', v)"
  shows "session_change k d d'"
proof (cases "session_get k d")
  case None
  with assms show ?thesis
    by (auto simp: sql_cleanup_def session_change_def session_get_def find_row_update)
next
  case (Some r)
  let ?t = "ts_of pg now"
  let ?r' = "r\<lparr>sr_state := StateDisconnected, sr_disconnected_at := Some ?t,
               sr_disconnect_reason := Some ''cert_expired'', sr_updated_at := Some ?t\<rparr>"
  have d': "session_get k d' =
      Some (if sr_state r \<noteq> StateDisconnected \<and> cert_expired ?t r then ?r' else r)"
    using assms Some by (auto simp: sql_cleanup_def session_get_def find_row_update)
  show ?thesis
  proof (cases "sr_state r \<noteq> StateDisconnected \<and> cert_expired ?t r")
    case True
    then have "row_step r ?r'" by (intro row_step.disconnect) simp
    with True d' Some show ?thesis by (simp add: session_change_def)
  next
    case False
    with d' Some show ?thesis by (simp add: session_change_def if_not_P)
  qed
qed

lemma CleanupExpiredSessions_change: "session_change k d (fst (CleanupExpiredSessions pg c d))"
  unfolding CleanupExpiredSessions_def
  by (auto intro!: run_stmt_inv [of "session_change k d"] intro: sql_cleanup_change)

lemma UpdateSessionGUIStatus_change:
  "session_change k d (fst (UpdateSessionGUIStatus pg c sid proto v x d))"
  unfolding UpdateSessionGUIStatus_def
  by (auto intro!: run_stmt_inv [of "session_change k d"] session_change_upd row_step.gui_start
        dest!: sql_updates_Inr)

lemma EndGUISession_change: "session_change k d (fst (EndGUISession pg c sid d))"
  unfolding EndGUISession_def
  by (auto intro!: run_stmt_inv [of "session_change k d"] session_change_upd row_step.gui_end
        dest!: sql_updates_Inr)

text \<open>A call of the service that writes, with its surroundings.\<close>

datatype session_op =
    OpCreate string string string time
  | OpUpdateState string string
  | OpMarkConnected string
  | OpDisconnect string string
  | OpCleanup
  | OpGUIStart string string int int
  | OpGUIEnd string

fun session_call :: "pg_conv \<Rightarrow> call_env \<times> session_op \<Rightarrow> database \<Rightarrow> database \<times> go_error option" where
  "session_call pg (c, OpCreate u dv cs ce) d =
     (case CreateSession pg c u dv cs ce d of
        (d', Inl e) \<Rightarrow> (d', Some e)
      | (d', Inr _) \<Rightarrow> (d', None))"
| "session_call pg (c, OpUpdateState sid st) d = UpdateSessionState pg c sid st d"
| "session_call pg (c, OpMarkConnected sid) d = MarkConnected pg c sid d"
| "session_call pg (c, OpDisconnect sid reason) d = DisconnectSession pg c sid reason d"
| "session_call pg (c, OpCleanup) d = CleanupExpiredSessions pg c d"
| "session_call pg (c, OpGUIStart sid p v x) d = UpdateSessionGUIStatus pg c sid p v x d"
| "session_call pg (c, OpGUIEnd sid) d = EndGUISession pg c sid d"

definition session_step :: "pg_conv \<Rightarrow> call_env \<times> session_op \<Rightarrow> database \<Rightarrow> database" where
  "session_step pg x d = fst (session_call pg x d)"

lemma session_step_simps [simp]:
  "session_step pg (c, OpCreate u dv cs ce) d = fst (CreateSession pg c u dv cs ce d)"
  "session_step pg (c, OpUpdateState sid st) d = fst (UpdateSessionState pg c sid st d)"
  "session_step pg (c, OpMarkConnected sid) d = fst (MarkConnected pg c sid d)"
  "session_step pg (c, OpDisconnect sid reason) d = fst (DisconnectSession pg c sid reason d)"
  "session_step pg (c, OpCleanup) d = fst (CleanupExpiredSessions pg c d)"
  "session_step pg (c, OpGUIStart sid p v x) d = fst (UpdateSessionGUIStatus pg c sid p v x d)"
  "session_step pg (c, OpGUIEnd sid) d = fst (EndGUISession pg c sid d)"
  by (simp_all add: session_step_def split: prod.split sum.split)

lemma session_step_change: "session_change k d (session_step pg x d)"
proof -
  obtain c p where "x = (c, p)" by (cases x) auto
  then show ?thesis
    by (cases p) (simp_all add: CreateSession_change UpdateSessionState_change
      MarkConnected_change DisconnectSession_change CleanupExpiredSessions_change
      UpdateSessionGUIStatus_change EndGUISession_change)
qed

definition session_phase :: "string \<Rightarrow> database \<Rightarrow> phase option" where
  "session_phase k d = Option.bind (session_get k d) (\<lambda>r. phase_of (sr_state r))"

lemma session_change_phase:
  assumes "session_change k d d'" and "session_phase k d = Some p"
  shows "\<exists>q. session_phase k d' = Some q \<and> (q = p \<or> phase_edge p q)"
  using assms row_step_phase
  by (auto simp: session_change_def session_phase_def bind_eq_Some_conv)

subsection \<open>Runs\<close>

text \<open>
  The contract of a machine whose steps follow the edges of an order: each step keeps the status
  of an object or moves it along one edge.
\<close>

locale lifecycle =
  fixes step :: "'x \<Rightarrow> 's \<Rightarrow> 's"
    and status :: "'k \<Rightarrow> 's \<Rightarrow> ('p::linorder) option"
    and edge :: "'p \<Rightarrow> 'p \<Rightarrow> bool"
  assumes edge_less: "edge p q \<Longrightarrow> p < q"
    and step_status: "status k s = Some p \<Longrightarrow> \<exists>q. status k (step x s) = Some q \<and> (q = p \<or> edge p q)"
begin

lemma run_status:
  "status k s = Some p \<Longrightarrow> \<exists>q. status k (fold step xs s) = Some q \<and> edge\<^sup>*\<^sup>* p q"
proof (induction xs arbitrary: s p)
  case Nil
  then show ?case by simp
next
  case (Cons x xs)
  from step_status [OF Cons.prems, of x]
  obtain q where q: "status k (step x s) = Some q" "q = p \<or> edge p q" by blast
  with Cons.IH [OF q(1)] show ?case
    by (auto intro: converse_rtranclp_into_rtranclp)
qed

lemma path_le: "edge\<^sup>*\<^sup>* p q \<Longrightarrow> p \<le> q"
  by (induction rule: rtranclp_induct) (auto dest: edge_less)

lemma run_le: "status k s = Some p \<Longrightarrow> \<exists>q. status k (fold step xs s) = Some q \<and> p \<le> q"
  using run_status path_le by blast

lemma run_top:
  assumes "status k s = Some p" and "\<And>q. q \<le> p"
  shows "status k (fold step xs s) = Some p"
  using run_le [OF assms(1), of xs] assms(2) by (metis order_antisym)

text \<open>
  Along a run the status never comes back to a value it has left: what was observed between two
  equal observations is that value.
\<close>

lemma run_no_return:
  assumes "status k s = Some p" and "status k (fold step xs s) = Some q"
    and "status k (fold step ys (fold step xs s)) = Some p"
  shows "q = p"
  using run_le [OF assms(1), of xs] run_le [OF assms(2), of ys] assms(2,3) by auto

end

interpretation session_life: lifecycle "session_step pg" session_phase phase_edge for pg
  by unfold_locales (auto intro: phase_edge_less session_change_phase session_step_change)

subsection \<open>What stays true of every row and of the schema\<close>

text \<open>
  The fields that go together: a connection time only on a session that is or was ACTIVE, a
  disconnection time and reason only (and together) on a DISCONNECTED one, the GUI columns set
  and cleared together and only after a GUI start, and no NULL in a column that \<open>Scan\<close> reads
  into a plain field.
\<close>

definition row_ok :: "session_row \<Rightarrow> bool" where
  "row_ok r \<longleftrightarrow>
     phase_of (sr_state r) \<noteq> None \<and>
     (sr_connected_at r \<noteq> None \<longrightarrow> sr_state r = StateActive \<or> sr_state r = StateDisconnected) \<and>
     (sr_disconnected_at r \<noteq> None \<longrightarrow> sr_state r = StateDisconnected) \<and>
     (sr_disconnected_at r = None \<longleftrightarrow> sr_disconnect_reason r = None) \<and>
     (sr_gui_protocol r = None \<longleftrightarrow> sr_vnc_port r = None) \<and>
     (sr_gui_protocol r = None \<longleftrightarrow> sr_x11_display_port r = None) \<and>
     (sr_gui_protocol r \<noteq> None \<longrightarrow> sr_gui_session_started_at r \<noteq> None) \<and>
     sr_cert_serial r \<noteq> None \<and> sr_cert_expires_at r \<noteq> None \<and> sr_ssh_port r \<noteq> None \<and>
     sr_created_at r \<noteq> None \<and> sr_updated_at r \<noteq> None"

lemma fresh_row_ok: "fresh_row r \<Longrightarrow> row_ok r"
  by (simp add: fresh_row_def row_ok_def)

lemma row_step_ok:
  assumes "row_step r r'" and "row_ok r"
  shows "row_ok r'"
  using assms(1)
proof (cases rule: row_step.cases)
  case (set_state st t)
  from set_state(2) assms(2) show ?thesis
    by (cases rule: transition_allowed_cases) (auto simp: row_ok_def set_state(1))
next
  case (mark_connected t)
  then show ?thesis using assms(2) by (auto simp: row_ok_def)
next
  case (disconnect t reason)
  then show ?thesis using assms(2) by (auto simp: row_ok_def)
next
  case (gui_start p v x t)
  then show ?thesis using assms(2) by (auto simp: row_ok_def)
next
  case (gui_end t)
  then show ?thesis using assms(2) by (auto simp: row_ok_def)
qed

text \<open>A row that meets it is read back by \<open>Scan\<close> without an error.\<close>

lemma row_ok_scan: "row_ok r \<Longrightarrow> \<exists>s. scan_session r = Inr s"
  by (auto simp: row_ok_def scan_session_def)

definition sessions_ok :: "database \<Rightarrow> bool" where
  "sessions_ok d \<longleftrightarrow> (\<forall>k r. session_get k d = Some r \<longrightarrow> row_ok r)"

lemma sessions_ok_step: "sessions_ok d \<Longrightarrow> sessions_ok (session_step pg x d)"
  using session_step_change [of _ d pg x] fresh_row_ok row_step_ok
  unfolding sessions_ok_def session_change_def by (metis option.inject option.discI)

lemma sessions_ok_run: "sessions_ok d \<Longrightarrow> sessions_ok (fold (session_step pg) xs d)"
  by (induction xs arbitrary: d) (simp_all add: sessions_ok_step)

text \<open>The keys of the schema, and the tables the session service never touches.\<close>

definition same_other_tables :: "database \<Rightarrow> database \<Rightarrow> bool" where
  "same_other_tables d d' \<longleftrightarrow>
     devices d' = devices d \<and> gate_recordings d' = gate_recordings d \<and>
     gate_ca_keys d' = gate_ca_keys d \<and> gate_audit_log d' = gate_audit_log d"

definition schema_kept :: "database \<Rightarrow> database \<Rightarrow> bool" where
  "schema_kept d d' \<longleftrightarrow> same_other_tables d d' \<and> (schema_ok d \<longrightarrow> schema_ok d')"

lemma schema_kept_refl [simp]: "schema_kept d d"
  by (simp add: schema_kept_def same_other_tables_def)

lemma schema_kept_update:
  assumes "\<And>r. sr_id (f r) = sr_id r" and "\<And>r. sr_device_id (f r) = sr_device_id r"
  shows "schema_kept d (d\<lparr>gate_sessions := update_rows P f (gate_sessions d)\<rparr>)"
proof -
  have keys: "map sr_device_id (update_rows P f rows) = map sr_device_id rows"
    "map sr_id (update_rows P f rows) = map sr_id rows" for rows
    using assms by (simp_all add: map_key_update)
  have sets: "sr_device_id ` set (update_rows P f rows) = sr_device_id ` set rows"
    "sr_id ` set (update_rows P f rows) = sr_id ` set rows" for rows
    using arg_cong [OF keys(1) [of rows], of set] arg_cong [OF keys(2) [of rows], of set] by simp_all
  from sets keys(2) show ?thesis
    by (simp add: schema_kept_def same_other_tables_def schema_ok_def)
qed

lemma schema_kept_upd:
  assumes "\<And>r. sr_id (f r) = sr_id r" and "\<And>r. sr_device_id (f r) = sr_device_id r"
  shows "schema_kept d (session_upd k f d)"
  unfolding session_upd_def using assms by (rule schema_kept_update)

lemma schema_kept_ins:
  assumes "session_get (sr_id row) d = None" and "sr_device_id row \<in> dr_id ` set (devices d)"
  shows "schema_kept d (session_ins row d)"
  using assms
  by (auto simp: schema_kept_def same_other_tables_def schema_ok_def session_ins_def session_get_def
        find_row_None)

lemma sql_cleanup_schema: "sql_cleanup pg now d = Inr (d', v) \<Longrightarrow> schema_kept d d'"
  by (auto simp: sql_cleanup_def intro!: schema_kept_update)

lemma exec_schema:
  assumes "\<And>d' v. f d = Inr (d', v) \<Longrightarrow> schema_kept d d'"
  shows "schema_kept d (fst (run_stmt i f d))"
  using assms by (intro run_stmt_inv [of "schema_kept d"]) auto

lemma session_step_schema: "schema_kept d (session_step pg x d)"
proof -
  obtain c p where x: "x = (c, p)" by (cases x) auto
  note upd = schema_kept_upd sql_updates_Inr
  show ?thesis
  proof (cases p)
    case (OpCreate u dv cs ce)
    then show ?thesis
      by (auto simp: x fst_CreateSession dest!: sql_insert_session_Inr
            intro!: exec_schema schema_kept_ins)
  next
    case (OpUpdateState sid st)
    then show ?thesis
      by (auto simp: x UpdateSessionState_def split: sum.split intro!: exec_schema dest!: upd(2)
            intro: upd(1))
  next
    case (OpMarkConnected sid)
    then show ?thesis
      by (auto simp: x MarkConnected_def split: sum.split intro!: exec_schema dest!: upd(3)
            intro: upd(1))
  next
    case (OpDisconnect sid reason)
    then show ?thesis
      by (auto simp: x DisconnectSession_def split: sum.split intro!: exec_schema dest!: upd(4)
            intro: upd(1))
  next
    case OpCleanup
    then show ?thesis
      by (auto simp: x CleanupExpiredSessions_def intro!: exec_schema intro: sql_cleanup_schema)
  next
    case (OpGUIStart sid proto vp xp)
    then show ?thesis
      by (auto simp: x UpdateSessionGUIStatus_def intro!: exec_schema dest!: upd(5) intro: upd(1))
  next
    case (OpGUIEnd sid)
    then show ?thesis
      by (auto simp: x EndGUISession_def intro!: exec_schema dest!: upd(6) intro: upd(1))
  qed
qed

lemma session_run_schema: "schema_kept d (fold (session_step pg) xs d)"
proof (induction xs arbitrary: d)
  case (Cons x xs)
  from session_step_schema [of d pg x] Cons.IH [of "session_step pg x d"] show ?case
    by (simp add: schema_kept_def same_other_tables_def)
qed simp

end
