(* ===== verification/Session_Properties.thy ===== *)
theory Session_Properties
  imports Session_Lifecycle
begin

section \<open>Properties of the session service\<close>

text \<open>
  The properties of sessions that the rest of the system relies on, each for every database,
  every call and every way the connection can fail, and a concrete run that their witnesses use.
\<close>

subsection \<open>A concrete system for the witnesses\<close>

text \<open>
  Conversions like those PostgreSQL documents: a uuid is 36 characters, a timestamp has
  microseconds.
\<close>

definition ex_pg :: pg_conv where
  "ex_pg = \<lparr>uuid_in = (\<lambda>s. if length s = 36 then Some s else None),
            ts_in = (\<lambda>t. Some (t - t mod 1000)), text_ok = (\<lambda>s. True),
            pq_msg = (\<lambda>c. ''pq: error'')\<rparr>"

definition ex_uuid :: "char \<Rightarrow> string" where
  "ex_uuid ch = replicate 36 ch"

definition ex_call :: "time \<Rightarrow> char \<Rightarrow> call_env" where
  "ex_call t ch = \<lparr>go_now = t, db_now = t, new_uuid = ex_uuid ch, conn_io = (\<lambda>_. IoOk),
                   rows_break = None\<rparr>"

definition ex_row :: "char \<Rightarrow> string \<Rightarrow> session_row" where
  "ex_row ch st =
     \<lparr>sr_id = ex_uuid ch, sr_user_id = ex_uuid (CHR ''u''), sr_device_id = ex_uuid (CHR ''d''),
      sr_state = st, sr_cert_serial = Some ''serial'', sr_cert_expires_at = Some 7000,
      sr_started_at = 1000, sr_connected_at = None, sr_disconnected_at = None,
      sr_ssh_port = Some 2222, sr_recording_id = None, sr_disconnect_reason = None,
      sr_created_at = Some 1000, sr_updated_at = Some 1000, sr_enable_gui = Some False,
      sr_gui_protocol = None, sr_x11_display_port = None, sr_vnc_port = None,
      sr_gui_session_started_at = None, sr_gui_session_ended_at = None\<rparr>"

definition ex_device :: device_row where
  "ex_device = \<lparr>dr_id = ex_uuid (CHR ''d''), dr_device_name = ''edge'', dr_device_type = ''edge'',
     dr_state = ''APPROVED'', dr_approved_at = None, dr_decommissioned_at = None,
     dr_decommissioned_by = None, dr_daemon_version = None, dr_public_key_pem = ''key'',
     dr_created_at = None, dr_updated_at = None\<rparr>"

definition ex_db :: "session_row list \<Rightarrow> database" where
  "ex_db rows = \<lparr>devices = [ex_device], gate_sessions = rows, gate_recordings = [],
                 gate_ca_keys = [], gate_audit_log = []\<rparr>"

lemmas ex_defs = ex_pg_def ex_call_def ex_row_def ex_device_def ex_db_def

lemma ex_uuid_length [simp]: "length (ex_uuid ch) = 36"
  by (simp add: ex_uuid_def)

lemma ex_uuid_inject [simp]: "ex_uuid a = ex_uuid b \<longleftrightarrow> a = b"
  by (simp add: ex_uuid_def)

lemma ex_pg_canonical [simp]: "uuid_canonical ex_pg"
  by (simp add: uuid_canonical_def ex_pg_def)

lemma ex_pg_simps [simp]:
  "uuid_in ex_pg (ex_uuid ch) = Some (ex_uuid ch)" "uuid_of ex_pg (ex_uuid ch) = ex_uuid ch"
  "ts_in ex_pg t = Some (t - t mod 1000)" "ts_of ex_pg t = t - t mod 1000" "text_ok ex_pg s"
  by (simp_all add: ex_pg_def uuid_of_def ts_of_def)

lemma ex_call_simps [simp]:
  "go_now (ex_call t ch) = t" "db_now (ex_call t ch) = t" "new_uuid (ex_call t ch) = ex_uuid ch"
  "conn_io (ex_call t ch) n = IoOk" "rows_break (ex_call t ch) = None"
  by (simp_all add: ex_call_def)

lemma ex_row_ok: "row_ok (ex_row ch StateRequested)"
  by (simp add: row_ok_def ex_row_def)

lemma ex_db_ok: "schema_ok (ex_db [ex_row ch StateRequested])" "sessions_ok (ex_db [ex_row ch StateRequested])"
  using ex_row_ok by (auto simp: schema_ok_def sessions_ok_def session_get_def ex_db_def ex_row_def ex_device_def)

subsection \<open>The lifecycle\<close>



text \<open>
  A row that is DISCONNECTED keeps everything but its GUI columns: \<open>closed_part\<close> is the row with
  those blanked out.
\<close>

definition closed_part :: "session_row \<Rightarrow> session_row" where
  "closed_part r = r\<lparr>sr_gui_protocol := None, sr_vnc_port := None, sr_x11_display_port := None,
                     sr_gui_session_started_at := None, sr_gui_session_ended_at := None\<rparr>"

lemma row_step_closed:
  assumes "row_step r r'" and "sr_state r = StateDisconnected"
  shows "closed_part r' = closed_part r \<and> sr_state r' = StateDisconnected"
  using assms
proof (cases rule: row_step.cases)
  case (set_state st t)
  then show ?thesis using assms(2) by (auto simp: transition_allowed_edge)
qed (auto simp: closed_part_def)

lemma closed_step:
  assumes "session_get k d = Some r" and "sr_state r = StateDisconnected"
  shows "\<exists>r'. session_get k (session_step pg x d) = Some r' \<and> closed_part r' = closed_part r \<and>
           sr_state r' = StateDisconnected"
  using session_step_change [of k d pg x] assms row_step_closed
  by (auto simp: session_change_def)



text \<open>
  C4. Every run keeps the schema's keys and the agreement of each row's fields with its state, and
  every stored session can be read back: \<open>Scan\<close> never meets a NULL.
\<close>

theorem sessions_stay_wellformed:
  assumes "schema_ok d" and "sessions_ok d"
  shows "schema_ok (fold (session_step pg) calls d) \<and>
    (\<forall>r \<in> set (gate_sessions (fold (session_step pg) calls d)).
       row_ok r \<and> (\<exists>s. scan_session r = Inr s))"
proof -
  let ?d = "fold (session_step pg) calls d"
  have schema: "schema_ok ?d"
    using session_run_schema [of d pg calls] assms(1) by (simp add: schema_kept_def)
  have "row_ok r" if "r \<in> set (gate_sessions ?d)" for r
  proof -
    have "session_get (sr_id r) ?d = Some r"
      using schema that by (simp add: session_get_def schema_ok_def find_row_in_set)
    then show ?thesis
      using sessions_ok_run [OF assms(2), of pg calls] by (auto simp: sessions_ok_def)
  qed
  then show ?thesis
    using schema row_ok_scan by blast
qed

theorem sessions_stay_wellformed_witness:
  "schema_ok (fold (session_step ex_pg) [(ex_call 9000 CHR ''x'', OpCleanup)]
      (ex_db [ex_row (CHR ''s'') StateRequested])) \<and>
   list_all row_ok (gate_sessions (fold (session_step ex_pg) [(ex_call 9000 CHR ''x'', OpCleanup)]
      (ex_db [ex_row (CHR ''s'') StateRequested])))"
  using sessions_stay_wellformed [OF ex_db_ok, of ex_pg "[(ex_call 9000 CHR ''x'', OpCleanup)]"]
  unfolding list_all_iff by blast

subsection \<open>Creating and reading\<close>

lemma CreateSession_Inr:
  assumes "CreateSession pg c u dv cs ce d = (d', Inr s)"
  obtains row where "session_get (sr_id row) d = None" "d' = session_ins row d" "fresh_row row"
    "scan_session row = Inr s" "sr_id row = uuid_of pg (new_uuid c)"
    "\<exists>v. uuid_in pg (new_uuid c) = Some v" "sr_cert_serial row = Some cs"
    "sr_user_id row = uuid_of pg u" "sr_device_id row = uuid_of pg dv"
    "sr_device_id row \<in> dr_id ` set (devices d)" "sr_cert_expires_at row = Some (ts_of pg ce)"
    "sr_started_at row = ts_of pg (go_now c)"
proof -
  let ?stmt = "sql_insert_session pg (new_uuid c) u dv StateRequested cs ce (go_now c) 2222"
  from assms obtain row where row: "run_stmt (conn_io c 0) ?stmt d = (d', Inr row)"
    "scan_session row = Inr s"
    by (auto simp: CreateSession_def Let_def split: prod.splits sum.splits)
  then have ins: "?stmt d = Inr (d', row)" by (simp add: run_stmt_Inr)
  from ins have "sr_cert_serial row = Some cs \<and> sr_user_id row = uuid_of pg u \<and>
      sr_device_id row = uuid_of pg dv \<and> sr_cert_expires_at row = Some (ts_of pg ce) \<and>
      sr_started_at row = ts_of pg (go_now c) \<and> (\<exists>v. uuid_in pg (new_uuid c) = Some v)"
    by (auto simp: sql_insert_session_def Let_def split: if_splits)
  with sql_insert_session_Inr [OF ins] row(2) show thesis by (intro that) auto
qed

lemma scan_session_id: "scan_session r = Inr s \<Longrightarrow> ses_ID s = sr_id r \<and> ses_State s = sr_state r \<and>
    ses_SSHPort s = the (sr_ssh_port r) \<and> ses_CreatedAt s = the (sr_created_at r)"
  by (auto simp: scan_session_def split: option.splits)

text \<open>
  C5. A created session is REQUESTED, on port 2222, new, and reading it by any spelling of its id
  returns exactly what \<open>CreateSession\<close> returned.
\<close>

theorem create_then_get:
  assumes create: "CreateSession pg c user device serial expires d = (d', Inr s)"
    and conn: "conn_io c' 0 = IoOk"
    and spelling: "uuid_in pg sid = Some (ses_ID s)"
  shows "GetSession pg c' sid d' = Inr s \<and> ses_State s = StateRequested \<and> ses_SSHPort s = 2222 \<and>
         session_get (ses_ID s) d = None \<and> uuid_of pg device \<in> dr_id ` set (devices d)"
proof -
  from create obtain row where row: "session_get (sr_id row) d = None" "d' = session_ins row d"
    "fresh_row row" "scan_session row = Inr s" "sr_device_id row = uuid_of pg device"
    "sr_device_id row \<in> dr_id ` set (devices d)"
    by (rule CreateSession_Inr)
  note ids = scan_session_id [OF row(4)]
  have "session_get (uuid_of pg sid) d' = Some row"
    using row(1,2) ids spelling by (simp add: uuid_of_eq sessions.get_ins)
  then have "GetSession pg c' sid d' = Inr s"
    using conn spelling row(4)
    by (simp add: GetSession_def sql_select_session_def scan_one_def bound_def bind_params.simps
          param_class.simps)
  with ids row show ?thesis by (auto simp: fresh_row_def)
qed

definition ex_created :: "database \<times> (go_error + session)" where
  "ex_created = CreateSession ex_pg (ex_call 5000 CHR ''n'') (ex_uuid (CHR ''u'')) (ex_uuid (CHR ''d''))
                  ''serial'' 9000 (ex_db [])"

theorem create_then_get_witness:
  "\<exists>s. snd ex_created = Inr s \<and>
       GetSession ex_pg (ex_call 6000 CHR ''x'') (ex_uuid (CHR ''n'')) (fst ex_created) = Inr s \<and>
       ses_State s = StateRequested"
proof -
  obtain s where s: "ex_created = (fst ex_created, Inr s)" "ses_ID s = ex_uuid (CHR ''n'')"
    by (simp add: ex_created_def CreateSession_def sql_insert_session_def bound_def bind_params.simps
          param_class.simps int4_ok_def scan_session_def session_get_def Let_def ex_db_def ex_device_def)
  have cr: "CreateSession ex_pg (ex_call 5000 CHR ''n'') (ex_uuid (CHR ''u'')) (ex_uuid (CHR ''d''))
      ''serial'' 9000 (ex_db []) = (fst ex_created, Inr s)"
    using s(1) unfolding ex_created_def .
  have "GetSession ex_pg (ex_call 6000 CHR ''x'') (ex_uuid (CHR ''n'')) (fst ex_created) = Inr s \<and>
      ses_State s = StateRequested"
    using create_then_get [OF cr, of "ex_call 6000 CHR ''x''" "ex_uuid (CHR ''n'')"] s(2) by simp
  with s(1) show ?thesis by (metis snd_conv)
qed

subsection \<open>Changing the state\<close>

text \<open>
  C6. A call that returns an error has changed nothing, unless the reply of a statement was lost
  on the way back.
\<close>

theorem failed_call_changes_nothing:
  assumes "session_call pg (c, p) d = (d', Some e)"
  shows "d' = d \<or> (\<exists>n m. conn_io c n = IoLost m)"
proof (cases p)
  case (OpCreate u dv cs ce)
  let ?stmt = "sql_insert_session pg (new_uuid c) u dv StateRequested cs ce (go_now c) 2222"
  have scan: "\<exists>s. scan_session row = Inr s" if "?stmt d = Inr (d1, row)" for d1 row
    using sql_insert_session_Inr [OF that] fresh_row_ok row_ok_scan by blast
  show ?thesis
    using assms scan
    by (auto simp: OpCreate CreateSession_def Let_def run_stmt_def split: prod.splits sum.splits io.splits)
next
  case (OpUpdateState sid st)
  then show ?thesis
    using assms by (auto simp: UpdateSessionState_def split: sum.splits if_splits dest!: exec_stmt_error)
next
  case (OpMarkConnected sid)
  then show ?thesis
    using assms by (auto simp: MarkConnected_def split: sum.splits if_splits dest!: exec_stmt_error)
next
  case (OpDisconnect sid reason)
  then show ?thesis
    using assms by (auto simp: DisconnectSession_def split: sum.splits if_splits dest!: exec_stmt_error)
qed (use assms in \<open>auto simp: CleanupExpiredSessions_def UpdateSessionGUIStatus_def EndGUISession_def
        dest!: exec_stmt_error\<close>)

theorem failed_call_changes_nothing_witness:
  "fst (session_call ex_pg (ex_call 2000 CHR ''x'', OpMarkConnected (ex_uuid (CHR ''s'')))
     (ex_db [ex_row (CHR ''s'') StateRequested])) = ex_db [ex_row (CHR ''s'') StateRequested]"
proof -
  let ?d = "ex_db [ex_row (CHR ''s'') StateRequested]"
  let ?x = "(ex_call 2000 CHR ''x'', OpMarkConnected (ex_uuid (CHR ''s'')))"
  obtain e where "session_call ex_pg ?x ?d = (fst (session_call ex_pg ?x ?d), Some e)"
    by (simp add: MarkConnected_def current_state_def sql_select_state_def bound_def bind_params.simps
          param_class.simps scan_one_def session_get_def ex_db_def ex_row_def)
  from failed_call_changes_nothing [OF this] show ?thesis by simp
qed

text \<open>The outcome of reading the current state when the connection holds.\<close>

lemma current_state_eq:
  assumes "conn_io c 0 = IoOk" and "uuid_in pg sid = Some u"
  shows "current_state pre pg c sid d =
    (case session_get u d of
       None \<Rightarrow> Inl (errorf (''session not found: '' @ sid))
     | Some r \<Rightarrow> Inr (sr_state r))"
  using assms
  by (simp add: current_state_def sql_select_state_def bound_def bind_params.simps param_class.simps
        uuid_of_eq scan_one_def split: option.split)

text \<open>The connection holds and every parameter of the call converts.\<close>

definition call_ok :: "pg_conv \<Rightarrow> call_env \<Rightarrow> string list \<Rightarrow> bool" where
  "call_ok pg c texts \<longleftrightarrow>
     (\<forall>n. conn_io c n = IoOk) \<and> (\<exists>t. ts_in pg (go_now c) = Some t) \<and> (\<forall>x \<in> set texts. text_ok pg x)"



text \<open>
  \<open>MarkConnected\<close> succeeds exactly on an AUTHORIZED session, which becomes ACTIVE with its
  connection time set to the time of the call.
\<close>

theorem mark_connected_outcome:
  assumes "call_ok pg c [StateActive]" and "uuid_in pg sid = Some u" and "session_get u d = Some r"
  shows "(snd (MarkConnected pg c sid d) = None \<longleftrightarrow> phase_of (sr_state r) = Some Authorized) \<and>
    session_get u (fst (MarkConnected pg c sid d)) =
      Some (if phase_of (sr_state r) = Some Authorized
            then r\<lparr>sr_connected_at := Some (ts_of pg (go_now c)), sr_state := StateActive,
                   sr_updated_at := Some (ts_of pg (go_now c))\<rparr>
            else r)"
proof -
  have upd: "exec_stmt pre IoOk (sql_mark_connected pg (go_now c) StateActive sid) d =
      (session_upd u (\<lambda>r. r\<lparr>sr_connected_at := Some (ts_of pg (go_now c)), sr_state := StateActive,
                   sr_updated_at := Some (ts_of pg (go_now c))\<rparr>) d, None)" for pre
    using assms by (auto simp: exec_stmt_None call_ok_def sql_mark_connected_def uuid_of_eq)
  show ?thesis
    using assms by (auto simp: MarkConnected_def current_state_eq call_ok_def upd phase_of_Some
        sessions.get_upd)
qed

theorem mark_connected_outcome_witness:
  "(snd (MarkConnected ex_pg (ex_call 2000 CHR ''x'') (ex_uuid (CHR ''s''))
          (ex_db [ex_row (CHR ''s'') StateAuthorized])) = None \<longleftrightarrow>
      phase_of (sr_state (ex_row (CHR ''s'') StateAuthorized)) = Some Authorized)"
  by (rule mark_connected_outcome [THEN conjunct1, of _ _ _ "ex_uuid (CHR ''s'')"])
     (simp_all add: call_ok_def session_get_def ex_db_def ex_row_def)

lemma disconnect_eq:
  assumes "call_ok pg c [StateDisconnected, reason]" and "uuid_in pg sid = Some u"
    and "session_get u d = Some r" and "sr_state r \<noteq> StateDisconnected"
  shows "DisconnectSession pg c sid reason d =
    (session_upd u (\<lambda>r. r\<lparr>sr_state := StateDisconnected,
       sr_disconnected_at := Some (ts_of pg (go_now c)), sr_disconnect_reason := Some reason,
       sr_updated_at := Some (ts_of pg (go_now c))\<rparr>) d, None)"
proof -
  have "sql_disconnect pg StateDisconnected (go_now c) reason sid d =
      Inr (session_upd u (\<lambda>r. r\<lparr>sr_state := StateDisconnected,
         sr_disconnected_at := Some (ts_of pg (go_now c)), sr_disconnect_reason := Some reason,
         sr_updated_at := Some (ts_of pg (go_now c))\<rparr>) d, ())"
    using assms(1,2) by (auto simp: call_ok_def sql_disconnect_def uuid_of_eq)
  then show ?thesis
    using assms by (simp add: DisconnectSession_def current_state_eq call_ok_def exec_stmt_def)
qed

text \<open>
  C8. A successful \<open>DisconnectSession\<close> records state, time and reason, and any later attempt to
  disconnect the same session is refused and changes nothing.
\<close>

theorem disconnect_once:
  assumes "call_ok pg c [StateDisconnected, reason]" and "uuid_in pg sid = Some u"
    and "session_get u d = Some r" and "sr_state r \<noteq> StateDisconnected"
    and "call_ok pg c' [StateDisconnected, reason']"
  shows "let (d', e) = DisconnectSession pg c sid reason d in
    e = None \<and>
    session_get u d' = Some (r\<lparr>sr_state := StateDisconnected,
      sr_disconnected_at := Some (ts_of pg (go_now c)), sr_disconnect_reason := Some reason,
      sr_updated_at := Some (ts_of pg (go_now c))\<rparr>) \<and>
    DisconnectSession pg c' sid reason' d' = (d', Some (errorf ''session already disconnected''))"
proof -
  let ?f = "\<lambda>r. r\<lparr>sr_state := StateDisconnected,
      sr_disconnected_at := Some (ts_of pg (go_now c)), sr_disconnect_reason := Some reason,
      sr_updated_at := Some (ts_of pg (go_now c))\<rparr>"
  have first: "DisconnectSession pg c sid reason d = (session_upd u ?f d, None)"
    using assms(1-4) by (rule disconnect_eq)
  have row: "session_get u (session_upd u ?f d) = Some (?f r)"
    using assms(3) by (simp add: sessions.get_upd)
  have "DisconnectSession pg c' sid reason' (session_upd u ?f d) =
      (session_upd u ?f d, Some (errorf ''session already disconnected''))"
    using assms(2,5) row by (simp add: DisconnectSession_def current_state_eq call_ok_def)
  with first row show ?thesis by simp
qed

theorem disconnect_once_witness:
  "let (d', e) = DisconnectSession ex_pg (ex_call 2000 CHR ''x'') (ex_uuid (CHR ''s'')) ''done''
                   (ex_db [ex_row (CHR ''s'') StateActive]) in
    e = None \<and>
    session_get (ex_uuid (CHR ''s'')) d' = Some ((ex_row (CHR ''s'') StateActive)\<lparr>sr_state := StateDisconnected,
      sr_disconnected_at := Some (ts_of ex_pg (go_now (ex_call 2000 CHR ''x''))),
      sr_disconnect_reason := Some ''done'',
      sr_updated_at := Some (ts_of ex_pg (go_now (ex_call 2000 CHR ''x'')))\<rparr>) \<and>
    DisconnectSession ex_pg (ex_call 3000 CHR ''x'') (ex_uuid (CHR ''s'')) ''again'' d'
      = (d', Some (errorf ''session already disconnected''))"
  by (rule disconnect_once) (simp_all add: call_ok_def session_get_def ex_db_def ex_row_def)

subsection \<open>Cleanup of expired sessions\<close>

text \<open>
  C9. After a successful cleanup no live session holds an expired certificate; exactly the expired
  live sessions were disconnected, with reason \<open>cert_expired\<close>, and every other row is untouched. A
  second cleanup at that time or earlier finds nothing to do.
\<close>

theorem cleanup_exact:
  assumes "CleanupExpiredSessions pg c d = (d', None)"
  defines "t \<equiv> ts_of pg (go_now c)"
  shows "(\<forall>r \<in> set (gate_sessions d'). sr_state r \<noteq> StateDisconnected \<longrightarrow> \<not> cert_expired t r) \<and>
    (\<forall>k. session_get k d' =
       map_option (\<lambda>r. if sr_state r \<noteq> StateDisconnected \<and> cert_expired t r
                        then r\<lparr>sr_state := StateDisconnected, sr_disconnected_at := Some t,
                               sr_disconnect_reason := Some ''cert_expired'', sr_updated_at := Some t\<rparr>
                        else r) (session_get k d)) \<and>
    (ts_mono pg \<longrightarrow> go_now c' \<le> go_now c \<longrightarrow> fst (CleanupExpiredSessions pg c' d') = d')"
proof -
  let ?P = "\<lambda>t r. sr_state r \<noteq> StateDisconnected \<and> cert_expired t r"
  let ?f = "\<lambda>t r. r\<lparr>sr_state := StateDisconnected, sr_disconnected_at := Some t,
                  sr_disconnect_reason := Some ''cert_expired'', sr_updated_at := Some t\<rparr>"
  from assms have stmt: "sql_cleanup pg (go_now c) d = Inr (d', ())"
    by (auto simp: CleanupExpiredSessions_def exec_stmt_None)
  then have d': "d' = d\<lparr>gate_sessions := update_rows (?P t) (?f t) (gate_sessions d)\<rparr>"
    and conv: "ts_in pg (go_now c) = Some t"
    by (auto simp: sql_cleanup_def t_def ts_of_def)
  have clean: "\<not> ?P t r" if "r \<in> set (gate_sessions d')" for r
    using that by (auto simp: d' set_update_rows split: if_splits)
  have "fst (CleanupExpiredSessions pg c' d') = d'"
    if mono: "ts_mono pg" and before: "go_now c' \<le> go_now c"
  proof -
    have "d'' = d'" if "sql_cleanup pg (go_now c') d' = Inr (d'', v)" for d'' v
    proof -
      from that obtain t' where t': "ts_in pg (go_now c') = Some t'"
        by (auto simp: sql_cleanup_def)
      then have le: "t' \<le> t" using mono before conv by (auto simp: ts_mono_def)
      have "\<not> ?P t' r" if "r \<in> set (gate_sessions d')" for r
        using clean [OF that] le by (auto simp: cert_expired_def split: option.splits)
      then have "update_rows (?P t') (?f t') (gate_sessions d') = gate_sessions d'"
        by (rule update_rows_none)
      with that t' show ?thesis by (auto simp: sql_cleanup_def ts_of_def)
    qed
    then show ?thesis
      by (auto simp: CleanupExpiredSessions_def intro!: run_stmt_inv [of "\<lambda>x. x = d'"])
  qed
  moreover have "session_get k d' = map_option (\<lambda>r. if ?P t r then ?f t r else r) (session_get k d)" for k
    by (simp add: d' session_get_def find_row_update)
  ultimately show ?thesis using clean by blast
qed

theorem cleanup_exact_witness:
  "map_option sr_disconnect_reason (session_get (ex_uuid (CHR ''s''))
     (fst (CleanupExpiredSessions ex_pg (ex_call 9000 CHR ''x'') (ex_db [ex_row (CHR ''s'') StateActive]))))
   = Some (Some ''cert_expired'')"
proof -
  let ?c = "ex_call 9000 CHR ''x''"
  let ?d = "ex_db [ex_row (CHR ''s'') StateActive]"
  have "CleanupExpiredSessions ex_pg ?c ?d = (fst (CleanupExpiredSessions ex_pg ?c ?d), None)"
    by (simp add: CleanupExpiredSessions_def exec_stmt_def sql_cleanup_def bound_def bind_params.simps
          param_class.simps)
  from cleanup_exact [OF this] show ?thesis
    by (simp add: session_get_def ex_db_def ex_row_def cert_expired_def)
qed

subsection \<open>Listing\<close>

lemma scan_session_created: "scan_session r = Inr s \<Longrightarrow> sr_created_at r = Some (ses_CreatedAt s)"
  by (auto simp: scan_session_def split: option.splits)

lemma list_all2_filter:
  assumes "list_all2 R xs ys" and "\<And>x y. R x y \<Longrightarrow> P x = Q y"
  shows "list_all2 R (filter P xs) (filter Q ys)"
  using assms by (induction rule: list_all2_induct) auto

lemma scan_created_desc:
  assumes "list_all2 (\<lambda>r x. scan_session r = Inr x) (order_desc sr_created_at rows) ss"
    and "i < j" and "j < length ss"
  shows "ses_CreatedAt (ss ! j) \<le> ses_CreatedAt (ss ! i)"
proof -
  let ?rows = "order_desc sr_created_at rows"
  have len: "length ?rows = length ss" using assms(1) by (rule list_all2_lengthD)
  have at: "sr_created_at (?rows ! k) = Some (ses_CreatedAt (ss ! k))" if "k < length ss" for k
    using list_all2_nthD2 [OF assms(1) that] by (rule scan_session_created)
  have "desc_key (sr_created_at (?rows ! i)) \<le> desc_key (sr_created_at (?rows ! j))"
    using assms(2,3) len by (intro sorted_order_desc_nth) simp_all
  then show ?thesis using assms(2,3) by (simp add: at)
qed



subsection \<open>GUI metadata\<close>

lemma gui_start_eq:
  assumes "conn_io c 0 = IoOk" and "uuid_in pg sid = Some u" and "text_ok pg protocol"
    and "int4_ok vnc" and "int4_ok x11"
  shows "UpdateSessionGUIStatus pg c sid protocol vnc x11 d =
    (session_upd u (\<lambda>r. r\<lparr>sr_gui_protocol := Some protocol, sr_vnc_port := Some vnc,
       sr_x11_display_port := Some x11, sr_gui_session_started_at := Some (db_now c)\<rparr>) d, None)"
  using assms by (auto simp: UpdateSessionGUIStatus_def exec_stmt_None sql_gui_start_def uuid_of_eq)

lemma gui_end_eq:
  assumes "conn_io c 0 = IoOk" and "uuid_in pg sid = Some u"
  shows "EndGUISession pg c sid d =
    (session_upd u (\<lambda>r. r\<lparr>sr_gui_protocol := None, sr_vnc_port := None,
       sr_x11_display_port := None, sr_gui_session_ended_at := Some (db_now c)\<rparr>) d, None)"
  using assms by (auto simp: EndGUISession_def exec_stmt_None sql_gui_end_def uuid_of_eq)

text \<open>
  \<open>UpdateSessionGUIStatus\<close> makes no check of the session: it reports success for an id that
  names no session (and then changes nothing), and marks the GUI as started on a session in any
  state, DISCONNECTED included.
\<close>

theorem gui_start_unchecked:
  fixes d :: database
  assumes "conn_io c 0 = IoOk" and "uuid_in pg sid = Some u" and "text_ok pg protocol"
    and "int4_ok vnc" and "int4_ok x11"
  defines "d' \<equiv> fst (UpdateSessionGUIStatus pg c sid protocol vnc x11 d)"
  shows "snd (UpdateSessionGUIStatus pg c sid protocol vnc x11 d) = None \<and>
    (session_get u d = None \<longrightarrow> d' = d) \<and>
    (\<forall>r. session_get u d = Some r \<longrightarrow>
       (\<exists>r'. session_get u d' = Some r' \<and> sr_state r' = sr_state r \<and> sr_gui_protocol r' = Some protocol))"
proof -
  have "d' = d" if "session_get u d = None"
  proof -
    have "update_rows (\<lambda>r. sr_id r = u) f (gate_sessions d) = gate_sessions d" for f
      using that by (intro update_rows_none) (auto simp: session_get_def find_row_None)
    then show ?thesis
      using assms(1-5) by (simp add: d'_def gui_start_eq session_upd_def)
  qed
  then show ?thesis
    using assms(1-5) by (auto simp: d'_def gui_start_eq sessions.get_upd)
qed

theorem gui_start_unchecked_witness:
  "snd (UpdateSessionGUIStatus ex_pg (ex_call 2000 CHR ''x'') (ex_uuid (CHR ''q'')) ''vnc'' 5900 0
          (ex_db [ex_row (CHR ''s'') StateActive])) = None"
  by (rule gui_start_unchecked [THEN conjunct1]) (simp_all add: int4_ok_def)

end
