(* ===== verification/Daemon_Server.thy ===== *)
theory Daemon_Server
  imports Session_Properties
begin

section \<open>The daemon server\<close>

text \<open>
  \<open>internal/daemon/daemon_server.go\<close>: what a device daemon calls. Most methods only write a log
  line in this version; the two GUI notifications change the session's row. A method is a function
  to its log lines and result, with the database before and after where it touches it. The network
  listener and gRPC are inputs: the error of each, if any.
\<close>

subsection \<open>Starting\<close>

definition StartDaemonServer ::
  "(string \<Rightarrow> go_error option) \<Rightarrow> go_error option \<Rightarrow> int \<Rightarrow> string list \<times> go_error option" where
  "StartDaemonServer net_Listen serve port =
    (case net_Listen ('':'' @ itoa port) of
       Some err \<Rightarrow> ([], Some (errorf_w (''failed to listen on port '' @ itoa port @ '': '') err))
     | None \<Rightarrow>
        ([''Starting gRPC daemon server on port '' @ itoa port],
         (case serve of
            Some err \<Rightarrow> Some (errorf_w ''failed to serve gRPC: '' err)
          | None \<Rightarrow> None)))"

subsection \<open>Methods that only log\<close>

definition RegisterDaemon :: "string \<Rightarrow> string \<Rightarrow> string \<Rightarrow> string \<Rightarrow> string list \<times> (go_error + string)" where
  "RegisterDaemon deviceID deviceType daemonVersion publicKeyPEM =
    (let state = ''PENDING_APPROVAL'' in
     ([''RegisterDaemon called: deviceID='' @ deviceID @ '' type='' @ deviceType @ '' version='' @ daemonVersion,
       ''Device '' @ deviceID @ '' registered with state: '' @ state], Inr state))"

definition ReportSessionStart :: "string \<Rightarrow> int \<Rightarrow> string list \<times> go_error option" where
  "ReportSessionStart sessionID sshPort =
     ([''ReportSessionStart called: sessionID='' @ sessionID @ '' sshPort='' @ itoa sshPort], None)"

definition ReportSessionEnd :: "string \<Rightarrow> string \<Rightarrow> string list \<times> go_error option" where
  "ReportSessionEnd sessionID reason =
     ([''ReportSessionEnd called: sessionID='' @ sessionID @ '' reason='' @ reason], None)"

definition FetchPolicies :: "string \<Rightarrow> string list \<times> (go_error + (string \<rightharpoonup> 'j) list)" where
  "FetchPolicies deviceID = ([''FetchPolicies called: deviceID='' @ deviceID], Inr [])"

definition ValidateDaemonMTLS :: "string \<Rightarrow> string list \<times> go_error option" where
  "ValidateDaemonMTLS deviceID = ([], None)"

definition ApplyPolicyUpdatesToDaemon :: "string \<Rightarrow> (string \<rightharpoonup> 'j) list \<Rightarrow> string list \<times> go_error option" where
  "ApplyPolicyUpdatesToDaemon deviceID policies =
     ([''ApplyPolicyUpdatesToDaemon: deviceID='' @ deviceID @ '' policies='' @ itoa (int (length policies))], None)"

definition NotifyDaemonSessionTermination :: "string \<Rightarrow> string \<Rightarrow> string list \<times> go_error option" where
  "NotifyDaemonSessionTermination deviceID sessionID =
     ([''NotifyDaemonSessionTermination: deviceID='' @ deviceID @ '' sessionID='' @ sessionID], None)"

subsection \<open>GUI notifications\<close>

text \<open>The audit event is a log line; the details print with their keys sorted.\<close>

definition logAuditEvent :: "string \<Rightarrow> string \<Rightarrow> string \<Rightarrow> string" where
  "logAuditEvent eventType resourceID details =
     ''AUDIT: '' @ eventType @ '' | resource='' @ resourceID @ '' | details='' @ details"

definition gui_ports :: "string \<Rightarrow> int \<Rightarrow> (int \<times> int) option" where
  "gui_ports protocol port =
    (if protocol = ''vnc'' then Some (port, 0)
     else if protocol = ''x11'' then Some (0, port)
     else None)"

definition NotifyGUISessionStart ::
  "pg_conv \<Rightarrow> call_env \<Rightarrow> string \<Rightarrow> string \<Rightarrow> int \<Rightarrow> database \<Rightarrow> database \<times> string list \<times> go_error option" where
  "NotifyGUISessionStart pg c sessionID protocol port d =
    (let called = ''NotifyGUISessionStart: sessionID='' @ sessionID @ '' protocol='' @ protocol @ '' port='' @ itoa port in
     case gui_ports protocol port of
       None \<Rightarrow>
         (d, [called, ''Unknown GUI protocol: '' @ protocol],
          Some (errorf (''unsupported GUI protocol: '' @ protocol)))
     | Some (vncPort, x11DisplayPort) \<Rightarrow>
        (case UpdateSessionGUIStatus pg c sessionID protocol vncPort x11DisplayPort d of
           (d', Some err) \<Rightarrow> (d', [called, ''Failed to update GUI status: '' @ error_text err], Some err)
         | (d', None) \<Rightarrow>
             (d', [called, logAuditEvent ''gui_session_started'' sessionID
                     (''map[port:'' @ itoa port @ '' protocol:'' @ protocol @ '']'')], None)))"

definition NotifyGUISessionEnd ::
  "pg_conv \<Rightarrow> call_env \<Rightarrow> string \<Rightarrow> database \<Rightarrow> database \<times> string list \<times> go_error option" where
  "NotifyGUISessionEnd pg c sessionID d =
    (let called = ''NotifyGUISessionEnd: sessionID='' @ sessionID in
     case EndGUISession pg c sessionID d of
       (d', Some err) \<Rightarrow> (d', [called, ''Failed to end GUI session: '' @ error_text err], Some err)
     | (d', None) \<Rightarrow> (d', [called, logAuditEvent ''gui_session_ended'' sessionID ''map[]''], None))"

subsection \<open>Properties\<close>

lemma notify_start_eq:
  assumes "conn_io c 0 = IoOk" and "uuid_in pg sid = Some u" and "gui_ports proto port = Some (vnc, x11)"
    and "text_ok pg proto" and "int4_ok port"
  shows "fst (NotifyGUISessionStart pg c sid proto port d) =
      session_upd u (\<lambda>r. r\<lparr>sr_gui_protocol := Some proto, sr_vnc_port := Some vnc,
        sr_x11_display_port := Some x11, sr_gui_session_started_at := Some (db_now c)\<rparr>) d \<and>
    snd (snd (NotifyGUISessionStart pg c sid proto port d)) = None"
proof -
  have "int4_ok vnc \<and> int4_ok x11"
    using assms(3,5) by (auto simp: gui_ports_def int4_ok_def split: if_splits)
  with assms show ?thesis
    by (simp add: NotifyGUISessionStart_def gui_start_eq Let_def)
qed

lemma notify_end_eq:
  assumes "conn_io c 0 = IoOk" and "uuid_in pg sid = Some u"
  shows "fst (NotifyGUISessionEnd pg c sid d) =
      session_upd u (\<lambda>r. r\<lparr>sr_gui_protocol := None, sr_vnc_port := None,
        sr_x11_display_port := None, sr_gui_session_ended_at := Some (db_now c)\<rparr>) d"
  using assms by (simp add: NotifyGUISessionEnd_def gui_end_eq Let_def)

text \<open>
  C32. A GUI start with a protocol other than \<open>vnc\<close> and \<open>x11\<close> is refused and changes nothing. With
  one of the two, the row of the session gets protocol and port, and the port of the protocol that
  is not used becomes 0, not NULL.
\<close>

theorem gui_notification_outcome:
  assumes "conn_io c 0 = IoOk" and "uuid_in pg sid = Some u" and "text_ok pg proto" and "int4_ok port"
  shows "(proto \<notin> {''vnc'', ''x11''} \<longrightarrow>
      fst (NotifyGUISessionStart pg c sid proto port d) = d \<and>
      snd (snd (NotifyGUISessionStart pg c sid proto port d)) = Some (errorf (''unsupported GUI protocol: '' @ proto))) \<and>
    (proto \<in> {''vnc'', ''x11''} \<longrightarrow>
      snd (snd (NotifyGUISessionStart pg c sid proto port d)) = None \<and>
      (\<forall>r. session_get u d = Some r \<longrightarrow>
        session_get u (fst (NotifyGUISessionStart pg c sid proto port d)) =
          Some (r\<lparr>sr_gui_protocol := Some proto,
                  sr_vnc_port := Some (if proto = ''vnc'' then port else 0),
                  sr_x11_display_port := Some (if proto = ''vnc'' then 0 else port),
                  sr_gui_session_started_at := Some (db_now c)\<rparr>)))"
proof -
  have refused: "proto \<notin> {''vnc'', ''x11''} \<Longrightarrow> gui_ports proto port = None"
    by (simp add: gui_ports_def)
  have ports: "proto \<in> {''vnc'', ''x11''} \<Longrightarrow>
      gui_ports proto port = Some (if proto = ''vnc'' then (port, 0) else (0, port))"
    by (auto simp: gui_ports_def)
  show ?thesis
  proof (cases "proto \<in> {''vnc'', ''x11''}")
    case True
    obtain v x where vx: "gui_ports proto port = Some (v, x)" "v = (if proto = ''vnc'' then port else 0)"
      "x = (if proto = ''vnc'' then 0 else port)"
      using ports [OF True] by (cases "proto = ''vnc''") auto
    from notify_start_eq [OF assms(1,2) vx(1) assms(3,4), of d] True show ?thesis
      by (simp add: vx(2,3) sessions.get_upd)
  next
    case False
    with refused show ?thesis by (simp add: NotifyGUISessionStart_def Let_def)
  qed
qed

theorem gui_notification_outcome_witness:
  "map_option sr_vnc_port (session_get (ex_uuid (CHR ''s''))
     (fst (NotifyGUISessionStart ex_pg (ex_call 2000 CHR ''x'') (ex_uuid (CHR ''s'')) ''x11'' 10
        (ex_db [ex_row (CHR ''s'') StateActive])))) = Some (Some 0)"
proof -
  have "session_get (ex_uuid (CHR ''s'')) (ex_db [ex_row (CHR ''s'') StateActive]) = Some (ex_row (CHR ''s'') StateActive)"
    by (simp add: session_get_def ex_db_def) (simp add: ex_row_def)
  then show ?thesis
    using gui_notification_outcome [of "ex_call 2000 CHR ''x''" ex_pg "ex_uuid (CHR ''s'')" "ex_uuid (CHR ''s'')"
        "''x11''" 10 "ex_db [ex_row (CHR ''s'') StateActive]"]
    by (simp add: int4_ok_def)
qed

end
