(* ===== verification/Filepath.thy ===== *)
theory Filepath
  imports Prelude
begin

section \<open>Go's \<open>path/filepath\<close> on Unix\<close>

text \<open>
  \<open>filepath.Clean\<close> and \<open>filepath.Join\<close>, which the recording service uses to name its files:
  split at slashes, drop empty components and dots, resolve \<open>..\<close> against the component before it.
\<close>

fun split_slash :: "string \<Rightarrow> string list" where
  "split_slash [] = [[]]"
| "split_slash (ch # cs) =
     (if ch = CHR ''/'' then [] # split_slash cs
      else (case split_slash cs of [] \<Rightarrow> [[ch]] | w # ws \<Rightarrow> (ch # w) # ws))"

fun join_slash :: "string list \<Rightarrow> string" where
  "join_slash [] = []"
| "join_slash [w] = w"
| "join_slash (w # ws) = w @ CHR ''/'' # join_slash ws"

definition clean_step :: "bool \<Rightarrow> string list \<Rightarrow> string \<Rightarrow> string list" where
  "clean_step rooted out w =
     (if w = [] \<or> w = ''.'' then out
      else if w = ''..'' then
        (if out \<noteq> [] \<and> last out \<noteq> ''..'' then butlast out
         else if rooted then out else out @ [''..''])
      else out @ [w])"

definition Clean :: "string \<Rightarrow> string" where
  "Clean path =
     (if path = [] then ''.''
      else
        (let rooted = (hd path = CHR ''/'');
             out = foldl (clean_step rooted) [] (split_slash path)
         in if rooted then CHR ''/'' # join_slash out
            else if out = [] then ''.'' else join_slash out))"

text \<open>\<open>filepath.Join(a, b)\<close>: empty elements are ignored.\<close>

definition Join :: "string \<Rightarrow> string \<Rightarrow> string" where
  "Join a b = (if a \<noteq> [] then Clean (a @ CHR ''/'' # b) else if b \<noteq> [] then Clean b else [])"

lemma split_slash_nonempty [simp]: "split_slash p \<noteq> []"
  by (induction p) (auto split: list.split)

lemma split_slash_append: "split_slash (p @ CHR ''/'' # q) = split_slash p @ split_slash q"
  by (induction p) (auto split: list.split simp: neq_Nil_conv append_eq_Cons_conv)

lemma split_slash_single: "CHR ''/'' \<notin> set p \<Longrightarrow> split_slash p = [p]"
  by (induction p) auto

lemma join_slash_snoc: "out \<noteq> [] \<Longrightarrow> join_slash (out @ [w]) = join_slash out @ CHR ''/'' # w"
  by (induction out rule: join_slash.induct) auto

text \<open>The components that \<open>Clean\<close> keeps are proper names or leading \<open>..\<close>.\<close>

definition proper_word :: "string \<Rightarrow> bool" where
  "proper_word w \<longleftrightarrow> w \<noteq> [] \<and> w \<noteq> ''.'' \<and> CHR ''/'' \<notin> set w"

lemma split_slash_words: "w \<in> set (split_slash p) \<Longrightarrow> CHR ''/'' \<notin> set w"
proof (induction p arbitrary: w)
  case (Cons ch cs)
  then show ?case by (cases "split_slash cs") (auto split: if_splits)
qed simp

lemma clean_step_words:
  assumes "list_all proper_word out" and "CHR ''/'' \<notin> set w"
  shows "list_all proper_word (clean_step rooted out w)"
  using assms by (auto simp: clean_step_def proper_word_def list_all_iff dest: in_set_butlastD)

lemma clean_fold_words:
  assumes "list_all proper_word out" and "\<And>w. w \<in> set ws \<Longrightarrow> CHR ''/'' \<notin> set w"
  shows "list_all proper_word (foldl (clean_step rooted) out ws)"
  using assms by (induction ws arbitrary: out) (auto intro: clean_step_words)

lemma join_slash_words:
  assumes "list_all proper_word ws" and "ws \<noteq> []"
  shows "join_slash ws \<noteq> [] \<and> hd (join_slash ws) \<noteq> CHR ''/'' \<and> join_slash ws \<noteq> ''.''"
proof -
  from assms obtain w rest where ws: "ws = w # rest" "proper_word w" by (cases ws) auto
  then have "w \<noteq> []" "hd w \<noteq> CHR ''/''" "w \<noteq> ''.''"
    by (auto simp: proper_word_def dest: hd_in_set)
  then show ?thesis
    using ws by (cases rest) (auto simp: append_eq_Cons_conv)
qed

text \<open>
  Joining a directory and a plain file name gives the cleaned directory followed by the name: the
  file lies in that directory, whatever the directory's spelling.
\<close>

lemma Join_plain:
  assumes "dir \<noteq> []" and "CHR ''/'' \<notin> set name" and "name \<notin> {[], ''.'', ''..''}"
  shows "Join dir name =
    (if Clean dir = ''/'' then CHR ''/'' # name
     else if Clean dir = ''.'' then name
     else Clean dir @ CHR ''/'' # name)"
proof -
  define rooted where "rooted = (hd dir = CHR ''/'')"
  define out where "out = foldl (clean_step rooted) [] (split_slash dir)"
  have new: "foldl (clean_step rooted) [] (split_slash (dir @ CHR ''/'' # name)) = out @ [name]"
    using assms(2,3) by (simp add: split_slash_append split_slash_single out_def clean_step_def)
  have hd: "hd (dir @ CHR ''/'' # name) = hd dir" using assms(1) by simp
  have dir: "Clean dir = (if rooted then CHR ''/'' # join_slash out
      else if out = [] then ''.'' else join_slash out)"
    using assms(1) by (simp add: Clean_def rooted_def out_def)
  have joined: "Join dir name = (if rooted then CHR ''/'' # join_slash (out @ [name]) else join_slash (out @ [name]))"
    using assms(1) new hd by (simp add: Join_def Clean_def rooted_def)
  have words: "list_all proper_word out"
    unfolding out_def by (rule clean_fold_words) (auto dest: split_slash_words)
  show ?thesis
  proof (cases "out = []")
    case True
    then show ?thesis by (simp add: dir joined)
  next
    case False
    with join_slash_words [OF words False] show ?thesis
      by (auto simp: dir joined join_slash_snoc)
  qed
qed

end
