(* ===== verification/Recording_Service.thy ===== *)
theory Recording_Service
  imports Session_Lifecycle Filepath
begin

section \<open>The recording service\<close>

text \<open>
  \<open>internal/services/recording_service.go\<close>: recordings are rows of \<open>gate_recordings\<close>, each with
  the path of a transcript file. Every writing method takes the lock exclusively, and a call is
  one step here; \<open>Recording_Concurrency\<close> runs calls by statements. The files that exist are a set of paths; whether the operating system removes a file is an
  input of the call.
\<close>

record recording =
  rec_ID :: string
  rec_SessionID :: string
  rec_UserID :: string
  rec_DeviceID :: string
  rec_FilePath :: string
  rec_TimingPath :: "string option"
  rec_ByteSize :: "int option"
  rec_DurationSeconds :: "int option"
  rec_StartedAt :: time
  rec_CompletedAt :: "time option"
  rec_CreatedAt :: time

definition scan_recording :: "recording_row \<Rightarrow> go_error + recording" where
  "scan_recording r =
    (case rr_created_at r of
       None \<Rightarrow> Inl (scan_null 10 ''created_at''
                 ''unsupported Scan, storing driver.Value type <nil> into type *time.Time'')
     | Some created \<Rightarrow>
         Inr \<lparr>rec_ID = rr_id r, rec_SessionID = rr_session_id r, rec_UserID = rr_user_id r,
              rec_DeviceID = rr_device_id r, rec_FilePath = rr_file_path r,
              rec_TimingPath = rr_timing_path r, rec_ByteSize = rr_byte_size r,
              rec_DurationSeconds = rr_duration_seconds r, rec_StartedAt = rr_started_at r,
              rec_CompletedAt = rr_completed_at r, rec_CreatedAt = created\<rparr>)"

subsection \<open>\<open>NewRecordingService\<close>\<close>

text \<open>
  The result is the directory the service uses. Creating the directory and the ping of the
  database are inputs: the error of each, if any.
\<close>

definition NewRecordingService ::
  "(string \<Rightarrow> go_error option) \<Rightarrow> go_error option \<Rightarrow> string \<Rightarrow> go_error + string" where
  "NewRecordingService mkdirAll ping recordingDir =
    (let dir = (if recordingDir = [] then ''/var/lib/jenn-edge/recordings'' else recordingDir) in
     case mkdirAll dir of
       Some err \<Rightarrow> Inl (errorf_w ''failed to create recording directory: '' err)
     | None \<Rightarrow>
        (case ping of
           Some err \<Rightarrow> Inl (errorf_w ''failed to validate database connection: '' err)
         | None \<Rightarrow> Inr dir))"

subsection \<open>The table\<close>

definition recording_get :: "string \<Rightarrow> database \<Rightarrow> recording_row option" where
  "recording_get k d = find_row rr_id k (gate_recordings d)"

definition recording_ins :: "recording_row \<Rightarrow> database \<Rightarrow> database" where
  "recording_ins r d = d\<lparr>gate_recordings := gate_recordings d @ [r]\<rparr>"

definition recording_upd :: "string \<Rightarrow> (recording_row \<Rightarrow> recording_row) \<Rightarrow> database \<Rightarrow> database" where
  "recording_upd k f d = d\<lparr>gate_recordings := update_rows (\<lambda>r. rr_id r = k) f (gate_recordings d)\<rparr>"

definition recording_del :: "string \<Rightarrow> database \<Rightarrow> database" where
  "recording_del k d = d\<lparr>gate_recordings := delete_rows (\<lambda>r. rr_id r = k) (gate_recordings d)\<rparr>"

interpretation recordings: row_store_del rr_id recording_get recording_ins recording_upd recording_del
proof
  show "rr_id r = k" if "recording_get k s = Some r" for k s r
    using find_row_Some [of rr_id k] that by (auto simp: recording_get_def)
next
  show "recording_get k (recording_ins r s) = (if k = rr_id r then Some r else recording_get k s)"
    if "recording_get (rr_id r) s = None" for r s k
    using that by (auto simp: recording_get_def recording_ins_def split: option.split)
next
  show "recording_get k (recording_upd j f s) = (if k = j then map_option f (recording_get k s) else recording_get k s)"
    if "\<And>r. rr_id (f r) = rr_id r" for f k j s
    using that find_row_Some [of rr_id k]
    by (cases "recording_get k s") (auto simp: recording_get_def recording_upd_def find_row_update)
next
  show "recording_get k (recording_del j s) = (if k = j then None else recording_get k s)" for k j s
    by (simp add: recording_get_def recording_del_def find_row_delete)
qed

subsection \<open>\<open>CreateRecording\<close> and \<open>GetRecording\<close>\<close>

definition recording_path :: "string \<Rightarrow> string \<Rightarrow> string \<Rightarrow> string" where
  "recording_path recordingDir sessionID recordingID =
     Join recordingDir (sessionID @ ''-'' @ recordingID @ ''.cast'')"

definition sql_insert_recording ::
  "pg_conv \<Rightarrow> string \<Rightarrow> string \<Rightarrow> string \<Rightarrow> string \<Rightarrow> string \<Rightarrow> time \<Rightarrow> database \<Rightarrow>
   go_error + (database \<times> unit)" where
  "sql_insert_recording pg rid sid uid did path now d =
    bound pg [PUuid rid, PUuid sid, PUuid uid, PUuid did, PText path, PTime now, PTime now]
      (let row = \<lparr>rr_id = uuid_of pg rid, rr_session_id = uuid_of pg sid,
                  rr_user_id = uuid_of pg uid, rr_device_id = uuid_of pg did,
                  rr_file_path = path, rr_timing_path = None, rr_byte_size = None,
                  rr_duration_seconds = None, rr_started_at = ts_of pg now,
                  rr_completed_at = None, rr_created_at = Some (ts_of pg now)\<rparr>
       in if recording_get (uuid_of pg rid) d \<noteq> None
          then Inl (PqError (UniqueViolation ''gate_recordings_pkey'')
                      (pq_msg pg (UniqueViolation ''gate_recordings_pkey'')))
          else if session_get (uuid_of pg sid) d = None
          then Inl (PqError (ForeignKeyViolation ''gate_recordings_session_id_fkey'')
                      (pq_msg pg (ForeignKeyViolation ''gate_recordings_session_id_fkey'')))
          else if uuid_of pg did \<notin> dr_id ` set (devices d)
          then Inl (PqError (ForeignKeyViolation ''gate_recordings_device_id_fkey'')
                      (pq_msg pg (ForeignKeyViolation ''gate_recordings_device_id_fkey'')))
          else Inr (recording_ins row d, ()))"

definition CreateRecording ::
  "pg_conv \<Rightarrow> call_env \<Rightarrow> string \<Rightarrow> string \<Rightarrow> string \<Rightarrow> string \<Rightarrow> database \<Rightarrow>
   database \<times> (go_error + string)" where
  "CreateRecording pg c recordingDir userID deviceID sessionID d =
    (let recordingID = new_uuid c; now = go_now c;
         filePath = recording_path recordingDir sessionID recordingID in
     case run_stmt (conn_io c 0)
            (sql_insert_recording pg recordingID sessionID userID deviceID filePath now) d of
       (d', Inl err) \<Rightarrow> (d', Inl (errorf_w ''failed to create recording: '' err))
     | (d', Inr _) \<Rightarrow> (d', Inr recordingID))"

definition sql_select_recording :: "pg_conv \<Rightarrow> string \<Rightarrow> database \<Rightarrow> go_error + recording_row option" where
  "sql_select_recording pg rid d = bound pg [PUuid rid] (Inr (recording_get (uuid_of pg rid) d))"

definition GetRecording :: "pg_conv \<Rightarrow> call_env \<Rightarrow> string \<Rightarrow> database \<Rightarrow> go_error + recording" where
  "GetRecording pg c recordingID d =
    (case scan_one scan_recording (run_query (conn_io c 0) (sql_select_recording pg recordingID) d) of
       Inl err \<Rightarrow>
         if err = ErrNoRows then Inl (errorf (''recording not found: '' @ recordingID))
         else Inl (errorf_w ''failed to get recording: '' err)
     | Inr rec \<Rightarrow> Inr rec)"

subsection \<open>\<open>UpdateRecording\<close> and \<open>DeleteRecording\<close>\<close>

definition sql_update_recording ::
  "pg_conv \<Rightarrow> int \<Rightarrow> int \<Rightarrow> time \<Rightarrow> string \<Rightarrow> database \<Rightarrow> go_error + (database \<times> unit)" where
  "sql_update_recording pg byteSize durationSeconds now rid d =
    bound pg [PInt byteSize, PInt durationSeconds, PTime now, PUuid rid]
      (Inr (recording_upd (uuid_of pg rid)
         (\<lambda>r. r\<lparr>rr_byte_size := Some byteSize, rr_duration_seconds := Some durationSeconds,
                rr_completed_at := Some (ts_of pg now)\<rparr>) d, ()))"

definition UpdateRecording ::
  "pg_conv \<Rightarrow> call_env \<Rightarrow> string \<Rightarrow> int \<Rightarrow> int \<Rightarrow> database \<Rightarrow> database \<times> go_error option" where
  "UpdateRecording pg c recordingID byteSize durationSeconds d =
     exec_stmt ''failed to update recording: '' (conn_io c 0)
       (sql_update_recording pg byteSize durationSeconds (go_now c) recordingID) d"

definition sql_select_path :: "pg_conv \<Rightarrow> string \<Rightarrow> database \<Rightarrow> go_error + string option" where
  "sql_select_path pg rid d =
     bound pg [PUuid rid] (Inr (map_option rr_file_path (recording_get (uuid_of pg rid) d)))"

definition sql_delete_recording :: "pg_conv \<Rightarrow> string \<Rightarrow> database \<Rightarrow> go_error + (database \<times> unit)" where
  "sql_delete_recording pg rid d = bound pg [PUuid rid] (Inr (recording_del (uuid_of pg rid) d, ()))"

text \<open>\<open>_ = os.Remove(path)\<close>: the file is gone unless the system refuses; the error is dropped.\<close>

definition os_Remove :: "(string \<Rightarrow> bool) \<Rightarrow> string \<Rightarrow> string set \<Rightarrow> string set" where
  "os_Remove refuses path files = (if refuses path then files else files - {path})"

definition DeleteRecording ::
  "pg_conv \<Rightarrow> call_env \<Rightarrow> (string \<Rightarrow> bool) \<Rightarrow> string \<Rightarrow> database \<times> string set \<Rightarrow>
   (database \<times> string set) \<times> go_error option" where
  "DeleteRecording pg c refuses recordingID w =
    (case w of (d, files) \<Rightarrow>
      (case scan_one Inr (run_query (conn_io c 0) (sql_select_path pg recordingID) d) of
         Inl err \<Rightarrow>
           ((d, files),
            Some (if err = ErrNoRows then errorf (''recording not found: '' @ recordingID)
                  else errorf_w ''failed to get recording path: '' err))
       | Inr filePath \<Rightarrow>
          (case exec_stmt ''failed to delete recording: '' (conn_io c 1)
                  (sql_delete_recording pg recordingID) d of
             (d', Some err) \<Rightarrow> ((d', files), Some err)
           | (d', None) \<Rightarrow> ((d', os_Remove refuses filePath files), None))))"

subsection \<open>Listing\<close>

definition sql_recordings_by_session :: "pg_conv \<Rightarrow> string \<Rightarrow> database \<Rightarrow> go_error + recording_row list" where
  "sql_recordings_by_session pg sid d =
    bound pg [PUuid sid]
      (Inr (order_desc rr_created_at
         (filter (\<lambda>r. rr_session_id r = uuid_of pg sid) (gate_recordings d))))"

definition sql_recordings_by_device :: "pg_conv \<Rightarrow> string \<Rightarrow> database \<Rightarrow> go_error + recording_row list" where
  "sql_recordings_by_device pg did d =
    bound pg [PUuid did]
      (Inr (order_desc rr_created_at
         (filter (\<lambda>r. rr_device_id r = uuid_of pg did) (gate_recordings d))))"

definition ListRecordingsBySession ::
  "pg_conv \<Rightarrow> call_env \<Rightarrow> string \<Rightarrow> database \<Rightarrow> go_error + recording list" where
  "ListRecordingsBySession pg c sessionID d =
     query_all ''failed to list recordings for session: '' ''failed to scan recording row: ''
       ''error iterating recordings: '' scan_recording c (sql_recordings_by_session pg sessionID) d"

definition ListRecordingsByDevice ::
  "pg_conv \<Rightarrow> call_env \<Rightarrow> string \<Rightarrow> database \<Rightarrow> go_error + recording list" where
  "ListRecordingsByDevice pg c deviceID d =
     query_all ''failed to list recordings for device: '' ''failed to scan recording row: ''
       ''error iterating recordings: '' scan_recording c (sql_recordings_by_device pg deviceID) d"

end
