(* ===== verification/Recording_Properties.thy ===== *)
theory Recording_Properties
  imports Recording_Service Session_Properties
begin

section \<open>Properties of the recording service\<close>

text \<open>
  What a recording's row and file promise each other: where the file lies, that two recordings never
  share a file, what deleting and updating do on every branch, and what the listings return.
\<close>

subsection \<open>The path of a recording\<close>

text \<open>
  PostgreSQL accepts only hexadecimal digits, hyphens and braces as a uuid, so text it accepts
  contains no slash.
\<close>

definition uuid_text_plain :: "pg_conv \<Rightarrow> bool" where
  "uuid_text_plain pg \<longleftrightarrow> (\<forall>s u. uuid_in pg s = Some u \<longrightarrow> CHR ''/'' \<notin> set s)"

text \<open>\<open>uuid.New().String()\<close> is 36 characters and already in the canonical spelling.\<close>

definition fresh_id :: "pg_conv \<Rightarrow> string \<Rightarrow> bool" where
  "fresh_id pg u \<longleftrightarrow> uuid_in pg u = Some u \<and> length u = 36"

lemma recording_path_plain:
  assumes "dir \<noteq> []" and "CHR ''/'' \<notin> set sid" and "CHR ''/'' \<notin> set rid"
  shows "recording_path dir sid rid =
    (if Clean dir = ''/'' then CHR ''/'' # sid @ ''-'' @ rid @ ''.cast''
     else if Clean dir = ''.'' then sid @ ''-'' @ rid @ ''.cast''
     else Clean dir @ CHR ''/'' # sid @ ''-'' @ rid @ ''.cast'')"
proof -
  have "length (sid @ ''-'' @ rid @ ''.cast'') > 2" by simp
  then have "sid @ ''-'' @ rid @ ''.cast'' \<notin> {[], ''.'', ''..''}" by auto
  with assms show ?thesis unfolding recording_path_def by (subst Join_plain) auto
qed

lemma recording_path_suffix:
  assumes "dir \<noteq> []" and "CHR ''/'' \<notin> set sid" and "CHR ''/'' \<notin> set rid"
  shows "\<exists>pre. recording_path dir sid rid = pre @ rid @ ''.cast''"
proof -
  let ?tail = "sid @ ''-'' @ rid @ ''.cast''"
  have "recording_path dir sid rid \<in> {CHR ''/'' # ?tail, ?tail, Clean dir @ CHR ''/'' # ?tail}"
    using assms by (simp add: recording_path_plain)
  then consider "recording_path dir sid rid = (CHR ''/'' # sid @ ''-'') @ rid @ ''.cast''"
    | "recording_path dir sid rid = (sid @ ''-'') @ rid @ ''.cast''"
    | "recording_path dir sid rid = (Clean dir @ CHR ''/'' # sid @ ''-'') @ rid @ ''.cast''"
    by auto
  then show ?thesis by cases blast+
qed

text \<open>The id can be read off the path, so two recordings with one path are one recording.\<close>

lemma recording_path_inject:
  assumes "recording_path dir s r = recording_path dir s' r'" and "dir \<noteq> []"
    and "CHR ''/'' \<notin> set s" "CHR ''/'' \<notin> set r" "CHR ''/'' \<notin> set s'" "CHR ''/'' \<notin> set r'"
    and "length r = length r'"
  shows "r = r'"
proof -
  obtain p p' where "recording_path dir s r = p @ r @ ''.cast''" "recording_path dir s' r' = p' @ r' @ ''.cast''"
    using recording_path_suffix assms(2-6) by meson
  then have "(p @ r) @ ''.cast'' = (p' @ r') @ ''.cast''" using assms(1) by simp
  then have "p @ r = p' @ r'" by blast
  with assms(7) show ?thesis by (metis append_eq_append_conv)
qed

subsection \<open>Creating and reading\<close>

lemma CreateRecording_Inr:
  assumes "CreateRecording pg c dir u dv sid d = (d', Inr rid)"
  obtains row where "rid = new_uuid c" "d' = recording_ins row d" "recording_get (rr_id row) d = None"
    "rr_id row = uuid_of pg rid" "\<exists>v. uuid_in pg rid = Some v" "\<exists>v. uuid_in pg sid = Some v"
    "rr_session_id row = uuid_of pg sid" "rr_device_id row = uuid_of pg dv"
    "rr_file_path row = recording_path dir sid rid" "session_get (uuid_of pg sid) d \<noteq> None"
    "rr_user_id row = uuid_of pg u" "rr_byte_size row = None" "rr_completed_at row = None"
    "rr_created_at row = Some (ts_of pg (go_now c))" "rr_device_id row \<in> dr_id ` set (devices d)"
proof -
  let ?path = "recording_path dir sid (new_uuid c)"
  from assms have "sql_insert_recording pg (new_uuid c) sid u dv ?path (go_now c) d = Inr (d', ())"
    "rid = new_uuid c"
    by (auto simp: CreateRecording_def Let_def run_stmt_Inr split: prod.splits sum.splits)
  then show thesis
    using that by (auto simp: sql_insert_recording_def Let_def split: if_splits)
qed

lemma GetRecording_found:
  assumes "conn_io c 0 = IoOk" and "uuid_in pg rid = Some u" and "recording_get u d = Some r"
    and "scan_recording r = Inr x"
  shows "GetRecording pg c rid d = Inr x"
  using assms
  by (simp add: GetRecording_def sql_select_recording_def bound_def bind_params.simps param_class.simps
        uuid_of_eq scan_one_def)

lemma GetRecording_missing:
  assumes "conn_io c 0 = IoOk" and "uuid_in pg rid = Some u" and "recording_get u d = None"
  shows "GetRecording pg c rid d = Inl (errorf (''recording not found: '' @ rid))"
  using assms
  by (simp add: GetRecording_def sql_select_recording_def bound_def bind_params.simps param_class.simps
        uuid_of_eq scan_one_def)

text \<open>
  C14. A created recording can be read back by the id that was returned: it belongs to an existing
  session, has no size and no completion time yet, and its file is
  \<open>{recordingDir}/{sessionID}-{recordingID}.cast\<close> inside the recording directory.
\<close>

theorem create_recording_then_get:
  assumes created: "CreateRecording pg c dir user dev sid d = (d', Inr rid)"
    and plain: "uuid_text_plain pg" and dir: "Clean dir \<notin> {''/'', ''.''}" and conn: "conn_io c' 0 = IoOk"
  shows "\<exists>rec. GetRecording pg c' rid d' = Inr rec \<and>
    rec_FilePath rec = Clean dir @ ''/'' @ sid @ ''-'' @ rid @ ''.cast'' \<and>
    rec_SessionID rec = uuid_of pg sid \<and> session_get (rec_SessionID rec) d' \<noteq> None \<and>
    rec_ByteSize rec = None \<and> rec_CompletedAt rec = None \<and> rec_ID rec = uuid_of pg rid"
proof -
  from created obtain row where row: "d' = recording_ins row d" "recording_get (rr_id row) d = None"
    "rr_id row = uuid_of pg rid" "\<exists>v. uuid_in pg rid = Some v" "\<exists>v. uuid_in pg sid = Some v"
    "rr_session_id row = uuid_of pg sid" "rr_file_path row = recording_path dir sid rid"
    "session_get (uuid_of pg sid) d \<noteq> None" "rr_byte_size row = None" "rr_completed_at row = None"
    "rr_created_at row = Some (ts_of pg (go_now c))"
    by (rule CreateRecording_Inr)
  from row(4) obtain u where u: "uuid_in pg rid = Some u" by blast
  have get: "recording_get u d' = Some row"
    using row(1-3) u by (simp add: recordings.get_ins uuid_of_eq)
  obtain rec where rec: "scan_recording row = Inr rec" "rec_ID rec = rr_id row"
    "rec_SessionID rec = rr_session_id row" "rec_FilePath rec = rr_file_path row"
    "rec_ByteSize rec = None" "rec_CompletedAt rec = None"
    using row(9-11) by (simp add: scan_recording_def)
  have noslash: "CHR ''/'' \<notin> set sid" "CHR ''/'' \<notin> set rid"
    using plain row(4,5) by (auto simp: uuid_text_plain_def)
  have "dir \<noteq> []" using dir by (auto simp: Clean_def)
  with noslash dir have path: "rr_file_path row = Clean dir @ ''/'' @ sid @ ''-'' @ rid @ ''.cast''"
    by (simp add: row(7) recording_path_plain)
  have "session_get (uuid_of pg sid) d' \<noteq> None"
    using row(8) by (simp add: row(1) session_get_def recording_ins_def)
  then show ?thesis
    using GetRecording_found [OF conn u get rec(1)] rec path row(3,6) by auto
qed

text \<open>For the witnesses the uuid conversion also refuses a slash.\<close>

definition rec_pg :: pg_conv where
  "rec_pg = ex_pg\<lparr>uuid_in := (\<lambda>s. if length s = 36 \<and> CHR ''/'' \<notin> set s then Some s else None)\<rparr>"

lemma rec_pg_simps [simp]:
  "uuid_text_plain rec_pg" "uuid_canonical rec_pg"
  "ts_in rec_pg t = Some (t - t mod 1000)" "ts_of rec_pg t = t - t mod 1000" "text_ok rec_pg s"
  "pq_msg rec_pg k = ''pq: error''"
  by (auto simp: rec_pg_def ex_pg_def uuid_text_plain_def uuid_canonical_def ts_of_def split: if_splits)

lemma rec_pg_uuid [simp]:
  "ch \<noteq> CHR ''/'' \<Longrightarrow> uuid_in rec_pg (ex_uuid ch) = Some (ex_uuid ch)"
  "ch \<noteq> CHR ''/'' \<Longrightarrow> uuid_of rec_pg (ex_uuid ch) = ex_uuid ch"
  by (simp_all add: rec_pg_def uuid_of_def) (simp_all add: ex_uuid_def)

definition ex_recording :: "char \<Rightarrow> recording_row" where
  "ex_recording ch = \<lparr>rr_id = ex_uuid ch, rr_session_id = ex_uuid (CHR ''s''),
     rr_user_id = ex_uuid (CHR ''u''), rr_device_id = ex_uuid (CHR ''d''),
     rr_file_path = recording_path ''/rec'' (ex_uuid (CHR ''s'')) (ex_uuid ch),
     rr_timing_path = None, rr_byte_size = None, rr_duration_seconds = None, rr_started_at = 1000,
     rr_completed_at = None, rr_created_at = Some 1000\<rparr>"

definition ex_rec_db :: "recording_row list \<Rightarrow> database" where
  "ex_rec_db rows = (ex_db [ex_row (CHR ''s'') StateActive])\<lparr>gate_recordings := rows\<rparr>"

lemma Clean_rec: "Clean ''/rec'' = ''/rec''"
  by (simp add: Clean_def clean_step_def)

theorem create_recording_then_get_witness:
  "\<exists>d' rec. CreateRecording rec_pg (ex_call 5000 CHR ''r'') ''/rec'' (ex_uuid (CHR ''u''))
      (ex_uuid (CHR ''d'')) (ex_uuid (CHR ''s'')) (ex_rec_db []) = (d', Inr (ex_uuid (CHR ''r''))) \<and>
    GetRecording rec_pg (ex_call 6000 CHR ''x'') (ex_uuid (CHR ''r'')) d' = Inr rec \<and>
    rec_FilePath rec = ''/rec/'' @ ex_uuid (CHR ''s'') @ ''-'' @ ex_uuid (CHR ''r'') @ ''.cast''"
proof -
  obtain d' where d': "CreateRecording rec_pg (ex_call 5000 CHR ''r'') ''/rec'' (ex_uuid (CHR ''u''))
      (ex_uuid (CHR ''d'')) (ex_uuid (CHR ''s'')) (ex_rec_db []) = (d', Inr (ex_uuid (CHR ''r'')))"
    by (simp add: CreateRecording_def sql_insert_recording_def bound_def bind_params.simps
          param_class.simps recording_get_def session_get_def ex_rec_db_def ex_db_def ex_row_def
          ex_device_def Let_def)
  from create_recording_then_get [OF d', of "ex_call 6000 CHR ''x''"] show ?thesis
    by (auto simp: Clean_rec d')
qed

subsection \<open>Files of different recordings\<close>

text \<open>What every row of the service satisfies, for the directory the service was made with.\<close>

definition recording_row_ok :: "string \<Rightarrow> recording_row \<Rightarrow> bool" where
  "recording_row_ok dir r \<longleftrightarrow>
     length (rr_id r) = 36 \<and> CHR ''/'' \<notin> set (rr_id r) \<and> rr_created_at r \<noteq> None \<and>
     (\<exists>sid. CHR ''/'' \<notin> set sid \<and> rr_file_path r = recording_path dir sid (rr_id r))"

definition recordings_ok :: "string \<Rightarrow> database \<Rightarrow> bool" where
  "recordings_ok dir d \<longleftrightarrow>
     distinct (map rr_id (gate_recordings d)) \<and> (\<forall>r \<in> set (gate_recordings d). recording_row_ok dir r)"

datatype recording_op = RecCreate string string string | RecUpdate string int int | RecDelete string

fun recording_call ::
  "pg_conv \<Rightarrow> string \<Rightarrow> (string \<Rightarrow> bool) \<Rightarrow> call_env \<times> recording_op \<Rightarrow> database \<times> string set \<Rightarrow> database \<times> string set" where
  "recording_call pg dir refuses (c, RecCreate u dv sid) (d, files) = (fst (CreateRecording pg c dir u dv sid d), files)"
| "recording_call pg dir refuses (c, RecUpdate rid n s) (d, files) = (fst (UpdateRecording pg c rid n s d), files)"
| "recording_call pg dir refuses (c, RecDelete rid) w = fst (DeleteRecording pg c refuses rid w)"

lemma recordings_ok_ins:
  assumes "recordings_ok dir d" and "recording_get (rr_id r) d = None" and "recording_row_ok dir r"
  shows "recordings_ok dir (recording_ins r d)"
  using assms by (auto simp: recordings_ok_def recording_ins_def recording_get_def find_row_None)

lemma recordings_ok_upd:
  assumes "\<And>r. rr_id (f r) = rr_id r" and "\<And>r. recording_row_ok dir r \<Longrightarrow> recording_row_ok dir (f r)"
  shows "recordings_ok dir d \<Longrightarrow> recordings_ok dir (recording_upd k f d)"
  using assms by (auto simp: recordings_ok_def recording_upd_def map_key_update set_update_rows)

lemma recordings_ok_del: "recordings_ok dir d \<Longrightarrow> recordings_ok dir (recording_del k d)"
  by (auto simp: recordings_ok_def recording_del_def delete_rows_def distinct_map_filter)

lemma CreateRecording_ok:
  assumes "recordings_ok dir d" and "uuid_text_plain pg" and "fresh_id pg (new_uuid c)"
  shows "recordings_ok dir (fst (CreateRecording pg c dir u dv sid d))"
proof -
  let ?rid = "new_uuid c" let ?stmt = "sql_insert_recording pg ?rid sid u dv (recording_path dir sid ?rid) (go_now c)"
  have "recordings_ok dir d'" if "?stmt d = Inr (d', v)" for d' v
  proof -
    from assms(2,3) have rid: "uuid_of pg ?rid = ?rid" "length ?rid = 36" "CHR ''/'' \<notin> set ?rid"
      by (auto simp: fresh_id_def uuid_of_def uuid_text_plain_def)
    from that assms(2) have "CHR ''/'' \<notin> set sid"
      by (auto simp: sql_insert_recording_def uuid_text_plain_def)
    with that rid assms(1) show ?thesis
      by (auto simp: sql_insert_recording_def Let_def recording_row_ok_def split: if_splits
            intro!: recordings_ok_ins)
  qed
  moreover have "fst (CreateRecording pg c dir u dv sid d) = fst (run_stmt (conn_io c 0) ?stmt d)"
    by (simp add: CreateRecording_def Let_def split: prod.split sum.split)
  ultimately show ?thesis
    using assms(1) by (simp add: run_stmt_inv [of "recordings_ok dir"])
qed

lemma recording_call_ok:
  assumes "recordings_ok dir (fst w)" and "uuid_text_plain pg" and "fresh_id pg (new_uuid (fst x))"
  shows "recordings_ok dir (fst (recording_call pg dir refuses x w))"
proof -
  obtain c p d files where x: "x = (c, p)" and w: "w = (d, files)" by (cases x, cases w) auto
  show ?thesis
  proof (cases p)
    case (RecCreate u dv sid)
    then show ?thesis using assms by (simp add: x w CreateRecording_ok)
  next
    case (RecUpdate rid n s)
    have "recordings_ok dir d'" if "sql_update_recording pg n s (go_now c) rid d = Inr (d', v)" for d' v
      using that assms(1)
      by (auto simp: sql_update_recording_def w recording_row_ok_def intro!: recordings_ok_upd)
    with assms(1) show ?thesis
      by (auto simp: x w RecUpdate UpdateRecording_def intro!: run_stmt_inv [of "recordings_ok dir"])
  next
    case (RecDelete rid)
    have "recordings_ok dir d'" if "sql_delete_recording pg rid d = Inr (d', v)" for d' v
      using that assms(1) by (auto simp: sql_delete_recording_def w intro!: recordings_ok_del)
    then have "recordings_ok dir (fst (exec_stmt pre i (sql_delete_recording pg rid) d))" for pre i
      using assms(1) by (auto simp: w intro!: run_stmt_inv [of "recordings_ok dir"])
    then have *: "recordings_ok dir d'"
      if "exec_stmt pre i (sql_delete_recording pg rid) d = (d', e)" for pre i d' e
      using that by (metis fst_conv)
    show ?thesis
      using assms(1) by (auto simp: x w RecDelete DeleteRecording_def split: sum.splits prod.splits option.splits dest: *)
  qed
qed

lemma recording_run_ok:
  assumes "recordings_ok dir (fst w)" and "uuid_text_plain pg"
    and "list_all (\<lambda>x. fresh_id pg (new_uuid (fst x))) calls"
  shows "recordings_ok dir (fst (fold (recording_call pg dir refuses) calls w))"
  using assms by (induction calls arbitrary: w) (simp_all add: recording_call_ok)

lemma DeleteRecording_None:
  assumes "DeleteRecording pg c refuses rid (d, files) = ((d', files'), None)"
  obtains r where "recording_get (uuid_of pg rid) d = Some r" "d' = recording_del (uuid_of pg rid) d"
    "files' = os_Remove refuses (rr_file_path r) files"
  using assms
  by (auto simp: DeleteRecording_def scan_one_Inr sql_select_path_def exec_stmt_None sql_delete_recording_def
        split: sum.splits prod.splits option.splits)

text \<open>
  C15. After any calls of the service, deleting a recording removes its row and at most its own
  file: every other recording keeps its row, and its transcript stays on disk.
\<close>

theorem delete_spares_other_recordings:
  assumes "recordings_ok dir d0" and "uuid_text_plain pg" and "dir \<noteq> []"
    and "list_all (\<lambda>x. fresh_id pg (new_uuid (fst x))) calls"
    and run: "fold (recording_call pg dir refuses) calls (d0, files0) = (d, files)"
    and del: "DeleteRecording pg c refuses rid (d, files) = ((d', files'), None)"
    and other: "r \<in> set (gate_recordings d)" "rr_id r \<noteq> uuid_of pg rid"
  shows "r \<in> set (gate_recordings d') \<and> (rr_file_path r \<in> files \<longrightarrow> rr_file_path r \<in> files')"
proof -
  have ok: "recordings_ok dir d"
    using recording_run_ok [of dir "(d0, files0)" pg calls refuses] assms(1,2,4) run by simp
  obtain q where q: "recording_get (uuid_of pg rid) d = Some q"
      "d' = recording_del (uuid_of pg rid) d" "files' = os_Remove refuses (rr_file_path q) files"
    using del by (rule DeleteRecording_None)
  then have "q \<in> set (gate_recordings d)" and qid: "rr_id q = uuid_of pg rid"
    using find_row_Some [of rr_id "uuid_of pg rid"] by (auto simp: recording_get_def)
  with ok other(1) have "recording_row_ok dir q" "recording_row_ok dir r"
    by (auto simp: recordings_ok_def)
  then have "rr_file_path q \<noteq> rr_file_path r"
    using recording_path_inject [of dir _ "rr_id q" _ "rr_id r"] assms(3) other(2) qid
    by (metis recording_row_ok_def)
  then show ?thesis using other q(2,3) by (auto simp: recording_del_def os_Remove_def)
qed

lemma ex_uuid_plain: "ch \<noteq> CHR ''/'' \<Longrightarrow> CHR ''/'' \<notin> set (ex_uuid ch)"
  by (simp add: ex_uuid_def)

lemma ex_recording_ok: "ch \<noteq> CHR ''/'' \<Longrightarrow> recording_row_ok ''/rec'' (ex_recording ch)"
  unfolding recording_row_ok_def ex_recording_def
  using ex_uuid_plain [of ch] ex_uuid_plain [of "CHR ''s''"] by simp blast

lemma ex_rec_db_ok: "recordings_ok ''/rec'' (ex_rec_db [ex_recording (CHR ''a''), ex_recording (CHR ''b'')])"
  using ex_recording_ok [of "CHR ''a''"] ex_recording_ok [of "CHR ''b''"]
  by (simp add: recordings_ok_def ex_rec_db_def) (simp add: ex_recording_def)

theorem delete_spares_other_recordings_witness:
  "ex_recording (CHR ''b'') \<in> set (gate_recordings (fst (fst (DeleteRecording rec_pg (ex_call 2000 CHR ''x'')
      (\<lambda>_. False) (ex_uuid (CHR ''a''))
      (ex_rec_db [ex_recording (CHR ''a''), ex_recording (CHR ''b'')], {})))))"
proof -
  let ?w = "(ex_rec_db [ex_recording (CHR ''a''), ex_recording (CHR ''b'')], {})"
  let ?out = "DeleteRecording rec_pg (ex_call 2000 CHR ''x'') (\<lambda>_. False) (ex_uuid (CHR ''a'')) ?w"
  have "snd ?out = None"
    by (simp add: DeleteRecording_def sql_select_path_def sql_delete_recording_def exec_stmt_def bound_def
          bind_params.simps param_class.simps scan_one_def recording_get_def ex_rec_db_def ex_recording_def)
  then have out: "?out = ((fst (fst ?out), snd (fst ?out)), None)" by (metis prod.collapse)
  have "rr_id (ex_recording (CHR ''b'')) \<noteq> uuid_of rec_pg (ex_uuid (CHR ''a''))"
    "ex_recording (CHR ''b'') \<in> set (gate_recordings (fst ?w))"
    by (simp_all add: ex_recording_def ex_rec_db_def)
  then show ?thesis
    using delete_spares_other_recordings [OF ex_rec_db_ok _ _ _ _ out, of "[]" "{}" "ex_recording (CHR ''b'')"]
    by simp
qed

subsection \<open>Deleting\<close>

lemma delete_eq:
  assumes "conn_io c 0 = IoOk" and "uuid_in pg rid = Some u" and "recording_get u d = Some r"
  shows "DeleteRecording pg c refuses rid (d, files) =
    (case conn_io c 1 of
       IoOk \<Rightarrow> ((recording_del u d, os_Remove refuses (rr_file_path r) files), None)
     | IoFail m \<Rightarrow> ((d, files), Some (errorf_w ''failed to delete recording: '' (DriverError m)))
     | IoLost m \<Rightarrow> ((recording_del u d, files), Some (errorf_w ''failed to delete recording: '' (DriverError m))))"
  using assms
  by (simp add: DeleteRecording_def sql_select_path_def sql_delete_recording_def bound_def
        bind_params.simps param_class.simps uuid_of_eq scan_one_def exec_stmt_def run_stmt_def split: io.split)



subsection \<open>Updating\<close>

text \<open>
  C17. \<open>UpdateRecording\<close> takes the size as an \<open>int64\<close> but the column is a 32-bit \<open>INTEGER\<close>: from
  2 GiB on the update fails and the recording stays without size, duration and completion time.
  Below, it sets exactly these three fields of that recording, and reports success for an id that
  names no recording.
\<close>

theorem update_recording_outcome:
  assumes "conn_io c 0 = IoOk" and "uuid_in pg rid = Some u" and "ts_in pg (go_now c) = Some t"
    and "int4_ok seconds" and "0 \<le> bytes"
  shows "let (d', e) = UpdateRecording pg c rid bytes seconds d in
    (e = None \<longleftrightarrow> bytes < 2147483648) \<and>
    (2147483648 \<le> bytes \<longrightarrow> d' = d) \<and>
    (bytes < 2147483648 \<longrightarrow>
       (\<forall>k. recording_get k d' =
          (if k = u
           then map_option (\<lambda>r. r\<lparr>rr_byte_size := Some bytes, rr_duration_seconds := Some seconds,
                                  rr_completed_at := Some t\<rparr>) (recording_get u d)
           else recording_get k d)))"
proof -
  have ok: "int4_ok bytes \<longleftrightarrow> bytes < 2147483648"
    using assms(5) by (simp add: int4_ok_def)
  show ?thesis
  proof (cases "bytes < 2147483648")
    case True
    have "UpdateRecording pg c rid bytes seconds d =
        (recording_upd u (\<lambda>r. r\<lparr>rr_byte_size := Some bytes, rr_duration_seconds := Some seconds,
           rr_completed_at := Some t\<rparr>) d, None)"
      using assms ok True
      by (auto simp: UpdateRecording_def exec_stmt_None sql_update_recording_def uuid_of_eq ts_of_eq)
    then show ?thesis
      using True by (auto simp: recordings.get_upd)
  next
    case False
    then have "sql_update_recording pg bytes seconds (go_now c) rid d = Inl (PqError OutOfRange (pq_msg pg OutOfRange))"
      using ok by (simp add: sql_update_recording_def bound_def bind_params.simps param_class.simps)
    then show ?thesis
      using False assms(1) by (simp add: UpdateRecording_def exec_stmt_def)
  qed
qed

theorem update_recording_outcome_witness:
  "snd (UpdateRecording rec_pg (ex_call 2000 CHR ''x'') (ex_uuid (CHR ''a'')) 3000000000 60
      (ex_rec_db [ex_recording (CHR ''a'')])) \<noteq> None"
  using update_recording_outcome [of "ex_call 2000 CHR ''x''" rec_pg "ex_uuid (CHR ''a'')" "ex_uuid (CHR ''a'')"
      2000 60 3000000000 "ex_rec_db [ex_recording (CHR ''a'')]"]
  by (auto simp: int4_ok_def split: prod.splits)

subsection \<open>Listing\<close>

lemma scan_recording_fields:
  "scan_recording r = Inr x \<Longrightarrow> rec_ID x = rr_id r \<and> rr_created_at r = Some (rec_CreatedAt x)"
  by (auto simp: scan_recording_def split: option.splits)

lemma list_all2_image:
  "list_all2 (\<lambda>r x. f r = Inr x) rs xs \<Longrightarrow> x \<in> set xs \<longleftrightarrow> (\<exists>r \<in> set rs. f r = Inr x)"
  by (induction rule: list_all2_induct) auto

text \<open>
  C18. A listing by session returns exactly the recordings of the session, each as \<open>GetRecording\<close>
  returns it, newest first.
\<close>

theorem recordings_listed_as_stored:
  assumes list: "ListRecordingsBySession pg c sid d = Inr recs"
    and "recordings_ok dir d" and conn: "conn_io c' 0 = IoOk"
    and ids: "uuid_in pg (rec_ID x) = Some (rec_ID x)"
  shows "(x \<in> set recs \<longleftrightarrow> GetRecording pg c' (rec_ID x) d = Inr x \<and> rec_SessionID x = uuid_of pg sid) \<and>
    (\<forall>i j. i < j \<and> j < length recs \<longrightarrow> rec_CreatedAt (recs ! j) \<le> rec_CreatedAt (recs ! i))"
proof -
  let ?rows = "order_desc rr_created_at (filter (\<lambda>r. rr_session_id r = uuid_of pg sid) (gate_recordings d))"
  have l: "list_all2 (\<lambda>r x. scan_recording r = Inr x) ?rows recs"
    using list by (auto simp: ListRecordingsBySession_def query_all_Inr sql_recordings_by_session_def)
  have get: "GetRecording pg c' (rec_ID x) d = Inr x \<longleftrightarrow>
      (\<exists>r. recording_get (rec_ID x) d = Some r \<and> scan_recording r = Inr x)"
    using conn ids
    by (auto simp: GetRecording_def sql_select_recording_def bound_def bind_params.simps param_class.simps
          uuid_of_eq scan_one_def split: option.splits sum.splits)
  have dist: "distinct (map rr_id (gate_recordings d))" using assms(2) by (simp add: recordings_ok_def)
  have row: "recording_get (rec_ID x) d = Some r \<and> scan_recording r = Inr x \<longleftrightarrow>
      r \<in> set (gate_recordings d) \<and> scan_recording r = Inr x" for r
    using find_row_in_set [OF dist] find_row_Some [of rr_id "rec_ID x"]
    by (auto simp: recording_get_def scan_recording_fields)
  have sess: "scan_recording r = Inr x \<Longrightarrow> rec_SessionID x = rr_session_id r" for r
    by (auto simp: scan_recording_def split: option.splits)
  have "x \<in> set recs \<longleftrightarrow> (\<exists>r \<in> set ?rows. scan_recording r = Inr x)"
    using l by (rule list_all2_image)
  then have mem: "x \<in> set recs \<longleftrightarrow> GetRecording pg c' (rec_ID x) d = Inr x \<and> rec_SessionID x = uuid_of pg sid"
    using sess by (auto simp: get row)
  have len: "length ?rows = length recs" using l by (rule list_all2_lengthD)
  have "rec_CreatedAt (recs ! j) \<le> rec_CreatedAt (recs ! i)" if "i < j" "j < length recs" for i j
  proof -
    have at: "rr_created_at (?rows ! k) = Some (rec_CreatedAt (recs ! k))" if "k < length recs" for k
      using list_all2_nthD2 [OF l that] by (simp add: scan_recording_fields)
    have "desc_key (rr_created_at (?rows ! i)) \<le> desc_key (rr_created_at (?rows ! j))"
      using that len by (intro sorted_order_desc_nth) simp_all
    then show ?thesis using that by (simp add: at)
  qed
  with mem show ?thesis by blast
qed

theorem recordings_listed_as_stored_witness:
  "\<exists>recs. ListRecordingsBySession rec_pg (ex_call 1 CHR ''x'') (ex_uuid (CHR ''s''))
       (ex_rec_db [ex_recording (CHR ''a''), ex_recording (CHR ''b'')]) = Inr recs \<and>
     length recs = 2 \<and> rec_CreatedAt (recs ! 1) \<le> rec_CreatedAt (recs ! 0)"
proof -
  obtain recs where recs: "ListRecordingsBySession rec_pg (ex_call 1 CHR ''x'') (ex_uuid (CHR ''s''))
       (ex_rec_db [ex_recording (CHR ''a''), ex_recording (CHR ''b'')]) = Inr recs" "length recs = 2"
      "rec_ID (recs ! 0) = ex_uuid (CHR ''a'')"
    by (simp add: ListRecordingsBySession_def query_all_def delivered_def sql_recordings_by_session_def
        bound_def bind_params.simps param_class.simps ex_rec_db_def ex_recording_def order_desc_def
        scan_recording_def)
  from recordings_listed_as_stored [OF recs(1) ex_rec_db_ok, of "ex_call 2 CHR ''x''" "recs ! 0"] recs
  show ?thesis by auto
qed

end
