(* ===== verification/CA_Service.thy ===== *)
theory CA_Service
  imports Database Go_Time
begin

section \<open>The certificate authority\<close>

text \<open>
  \<open>internal/services/ca_service.go\<close>: the newest CA key that has not expired is loaded at startup,
  and certificates are issued and checked with it. PEM decoding and everything of
  \<open>golang.org/x/crypto/ssh\<close> is third-party code: the record \<open>ssh_lib\<close> of its functions and
  constants is a parameter, and what the code relies on of it is named below as hypotheses.
  Certificate fields keep their widths: serial and validity are \<open>uint64\<close>, the type is \<open>uint32\<close>.
\<close>

unbundle bit_operations_syntax

subsection \<open>The SSH library\<close>

record ssh_public_key =
  spk_Type :: string
  spk_Blob :: string

record ssh_signer =
  sgn_Public :: ssh_public_key
  sgn_Secret :: string

record certificate =
  crt_Nonce :: string
  crt_Key :: ssh_public_key
  crt_Serial :: "64 word"
  crt_CertType :: "32 word"
  crt_KeyId :: string
  crt_ValidPrincipals :: "string list"
  crt_ValidAfter :: "64 word"
  crt_ValidBefore :: "64 word"
  crt_Extensions :: "string \<rightharpoonup> string"
  crt_SignatureKey :: "ssh_public_key option"
  crt_Signature :: "string option"

datatype authorized_key = AuthCert certificate | AuthPlain ssh_public_key

record ssh_lib =
  pem_Decode :: "string \<Rightarrow> bool"
  ParsePrivateKey :: "string \<Rightarrow> go_error + ssh_signer"
  SignCert :: "string \<Rightarrow> ssh_signer \<Rightarrow> certificate \<Rightarrow> go_error + certificate"
  MarshalAuthorizedKey :: "certificate \<Rightarrow> string"
  ParseAuthorizedKey :: "string \<Rightarrow> go_error + authorized_key"
  KeyAlgoED25519 :: string
  UserCert :: "32 word"

text \<open>Documented: \<open>SignCert\<close> sets the nonce, the signature key and the signature, nothing else.\<close>

definition signs_only :: "ssh_lib \<Rightarrow> bool" where
  "signs_only lib \<longleftrightarrow>
     (\<forall>rand k c c'. SignCert lib rand k c = Inr c' \<longrightarrow>
        (\<exists>n sig. c' = c\<lparr>crt_Nonce := n, crt_SignatureKey := Some (sgn_Public k), crt_Signature := Some sig\<rparr>))"

text \<open>Documented: parsing a marshalled certificate gives that certificate.\<close>

definition reads_back :: "ssh_lib \<Rightarrow> certificate \<Rightarrow> bool" where
  "reads_back lib c \<longleftrightarrow> ParseAuthorizedKey lib (MarshalAuthorizedKey lib c) = Inr (AuthCert c)"

subsection \<open>Loading the key\<close>

record CAService =
  ca_privateKey :: "string option"
  ca_publicKey :: "string option"

definition validateKeyFormat :: "ssh_lib \<Rightarrow> string \<Rightarrow> go_error option" where
  "validateKeyFormat lib keyPEM =
    (if \<not> pem_Decode lib keyPEM then Some (errorf ''failed to decode PEM block'')
     else
      (case ParsePrivateKey lib keyPEM of
         Inl err \<Rightarrow> Some (errorf_w ''failed to parse private key: '' err)
       | Inr pk \<Rightarrow>
          (if spk_Type (sgn_Public pk) \<noteq> KeyAlgoED25519 lib
           then Some (errorf (''key is not Ed25519 (got '' @ spk_Type (sgn_Public pk) @ '')''))
           else None)))"

definition key_active :: "time \<Rightarrow> ca_key_row \<Rightarrow> bool" where
  "key_active now r = (case kr_expires_at r of None \<Rightarrow> True | Some e \<Rightarrow> now < e)"

definition sql_active_key :: "time \<Rightarrow> database \<Rightarrow> go_error + ca_key_row option" where
  "sql_active_key now d =
    (case order_desc kr_created_at (filter (key_active now) (gate_ca_keys d)) of
       [] \<Rightarrow> Inr None
     | row # _ \<Rightarrow> Inr (Some row))"

definition loadActiveKey :: "ssh_lib \<Rightarrow> call_env \<Rightarrow> database \<Rightarrow> CAService \<Rightarrow> CAService \<times> go_error option" where
  "loadActiveKey lib c d s =
    (case scan_one (\<lambda>r. Inr (kr_private_key_pem_encrypted r, kr_public_key_pem r))
            (run_query (conn_io c 0) (sql_active_key (db_now c)) d) of
       Inl err \<Rightarrow>
         (s, Some (if err = ErrNoRows then errorf ''no active CA key found in database''
                   else errorf_w ''failed to query CA key: '' err))
     | Inr (privatePEM, publicPEM) \<Rightarrow>
        (let privKey = privatePEM in
         case validateKeyFormat lib privKey of
           Some err \<Rightarrow> (s, Some (errorf_w ''invalid CA private key format: '' err))
         | None \<Rightarrow> (s\<lparr>ca_privateKey := Some privKey, ca_publicKey := Some publicPEM\<rparr>, None)))"

definition NewCAService :: "ssh_lib \<Rightarrow> call_env \<Rightarrow> database \<Rightarrow> go_error + CAService" where
  "NewCAService lib c d =
    (case loadActiveKey lib c d \<lparr>ca_privateKey = None, ca_publicKey = None\<rparr> of
       (service, Some err) \<Rightarrow> Inl err
     | (service, None) \<Rightarrow> Inr service)"

text \<open>\<open>GetPublicKey\<close> returns a copy; a nil slice copies to an empty one.\<close>

definition GetPublicKey :: "CAService \<Rightarrow> string" where
  "GetPublicKey s = (case ca_publicKey s of None \<Rightarrow> [] | Some k \<Rightarrow> k)"

subsection \<open>Issuing\<close>

text \<open>
  What a call draws from its surroundings: the four random bytes, the clock at its three readings
  (in the order of the code), and the randomness of the signature.
\<close>

type_synonym nonce = "8 word \<times> 8 word \<times> 8 word \<times> 8 word"

record issue_env =
  iss_nonce :: "go_error + nonce"
  iss_now_serial :: time
  iss_now_after :: time
  iss_now_before :: time
  iss_rand :: string

text \<open>\<open>binary.BigEndian.Uint32\<close>\<close>

definition BigEndian_Uint32 :: "nonce \<Rightarrow> 32 word" where
  "BigEndian_Uint32 b =
    (case b of (b0, b1, b2, b3) \<Rightarrow>
       ucast b3 OR push_bit 8 (ucast b2) OR push_bit 16 (ucast b1) OR push_bit 24 (ucast b0))"

definition cert_serial :: "time \<Rightarrow> nonce \<Rightarrow> 64 word" where
  "cert_serial now nonce = push_bit 32 (unix64 now) OR ucast (BigEndian_Uint32 nonce)"

definition cert_extensions :: "string \<rightharpoonup> string" where
  "cert_extensions =
     [''permit-X11-forwarding'' \<mapsto> [], ''permit-agent-forwarding'' \<mapsto> [],
      ''permit-port-forwarding'' \<mapsto> [], ''permit-pty'' \<mapsto> [], ''permit-user-rc'' \<mapsto> []]"

definition cert_template ::
  "ssh_lib \<Rightarrow> issue_env \<Rightarrow> nonce \<Rightarrow> ssh_signer \<Rightarrow> string \<Rightarrow> string \<Rightarrow> int \<Rightarrow> certificate" where
  "cert_template lib e nonce pk userID deviceID durationMinutes =
    \<lparr>crt_Nonce = [], crt_Key = sgn_Public pk, crt_Serial = cert_serial (iss_now_serial e) nonce,
     crt_CertType = UserCert lib, crt_KeyId = userID, crt_ValidPrincipals = [userID, deviceID],
     crt_ValidAfter = unix64 (iss_now_after e),
     crt_ValidBefore = unix64 (iss_now_before e + minutes durationMinutes),
     crt_Extensions = cert_extensions, crt_SignatureKey = None, crt_Signature = None\<rparr>"

definition GenerateCertificate ::
  "ssh_lib \<Rightarrow> issue_env \<Rightarrow> CAService \<Rightarrow> string \<Rightarrow> string \<Rightarrow> int \<Rightarrow> go_error + string" where
  "GenerateCertificate lib e s userID deviceID durationMinutes =
    (if durationMinutes \<le> 0 \<or> 525600 < durationMinutes
     then Inl (errorf (''durationMinutes must be between 1 and 525600, got '' @ itoa durationMinutes))
     else
      (case ca_privateKey s of
         None \<Rightarrow> Inl (errorf ''CA private key not loaded'')
       | Some key \<Rightarrow>
      (case ParsePrivateKey lib key of
         Inl err \<Rightarrow> Inl (errorf_w ''failed to parse CA private key: '' err)
       | Inr pk \<Rightarrow>
      (case iss_nonce e of
         Inl err \<Rightarrow> Inl (errorf_w ''failed to generate serial nonce: '' err)
       | Inr nonce \<Rightarrow>
      (case SignCert lib (iss_rand e) pk (cert_template lib e nonce pk userID deviceID durationMinutes) of
         Inl err \<Rightarrow> Inl (errorf_w ''failed to sign certificate: '' err)
       | Inr cert \<Rightarrow>
          (let certBytes = MarshalAuthorizedKey lib cert in
           if certBytes = [] then Inl (errorf ''failed to marshal certificate'') else Inr certBytes))))))"

subsection \<open>Checking\<close>

definition window_text :: "certificate \<Rightarrow> 64 word \<Rightarrow> string" where
  "window_text cert now =
     ''(valid '' @ itoa (uint (crt_ValidAfter cert)) @ ''-'' @ itoa (uint (crt_ValidBefore cert)) @
     '', now '' @ itoa (uint now) @ '')''"

definition VerifyCertificate :: "ssh_lib \<Rightarrow> time \<Rightarrow> string \<Rightarrow> go_error + string list" where
  "VerifyCertificate lib time_now cert =
    (case ParseAuthorizedKey lib cert of
       Inl err \<Rightarrow> Inl (errorf_w ''failed to parse certificate: '' err)
     | Inr (AuthPlain _) \<Rightarrow> Inl (errorf ''provided key is not a certificate'')
     | Inr (AuthCert sshCert) \<Rightarrow>
        (if crt_CertType sshCert \<noteq> UserCert lib
         then Inl (errorf (''certificate type must be UserCert, got '' @ itoa (uint (crt_CertType sshCert))))
         else
          (let now = unix64 time_now in
           if now < crt_ValidAfter sshCert
           then Inl (errorf (''certificate not yet valid '' @ window_text sshCert now))
           else if crt_ValidBefore sshCert < now
           then Inl (errorf (''certificate expired '' @ window_text sshCert now))
           else Inr (crt_ValidPrincipals sshCert))))"

end
