(* ===== verification/CA_Properties.thy ===== *)
theory CA_Properties
  imports CA_Service
begin

section \<open>Properties of the certificate authority\<close>

text \<open>
  Which key is loaded, what an issued certificate says and for how long it is accepted, what its
  serial number identifies, and what the check does not look at.
\<close>

subsection \<open>The key\<close>

lemma sql_active_key_Some:
  assumes "sql_active_key now d = Inr (Some r)"
  shows "r \<in> set (gate_ca_keys d) \<and> key_active now r \<and>
    (\<forall>q \<in> set (gate_ca_keys d). key_active now q \<longrightarrow> desc_key (kr_created_at r) \<le> desc_key (kr_created_at q))"
proof -
  let ?rows = "filter (key_active now) (gate_ca_keys d)"
  from assms obtain rest where rows: "order_desc kr_created_at ?rows = r # rest"
    by (auto simp: sql_active_key_def split: list.splits)
  have "sorted (map (\<lambda>q. desc_key (kr_created_at q)) (r # rest))"
    using sorted_order_desc [of kr_created_at ?rows] by (simp add: rows)
  then have le: "desc_key (kr_created_at r) \<le> desc_key (kr_created_at q)" if "q \<in> set (r # rest)" for q
    using that by auto
  have set: "set (r # rest) = set ?rows"
    using set_order_desc [of kr_created_at ?rows] by (simp add: rows)
  have "r \<in> set ?rows" using set by (metis list.set_intros(1))
  then show ?thesis using le set by auto
qed

lemma sql_active_key_None:
  "sql_active_key now d = Inr None \<longleftrightarrow> (\<forall>r \<in> set (gate_ca_keys d). \<not> key_active now r)"
proof -
  let ?rows = "filter (key_active now) (gate_ca_keys d)"
  have "order_desc kr_created_at ?rows = [] \<longleftrightarrow> ?rows = []"
    by (metis length_0_conv length_order_desc)
  then show ?thesis
    by (cases "order_desc kr_created_at ?rows") (simp_all add: sql_active_key_def filter_empty_conv)
qed

lemma NewCAService_newest:
  assumes "conn_io c 0 = IoOk" and "NewCAService lib c d = Inr s"
  shows "\<exists>r \<in> set (gate_ca_keys d). key_active (db_now c) r \<and>
    ca_privateKey s = Some (kr_private_key_pem_encrypted r) \<and> GetPublicKey s = kr_public_key_pem r \<and>
    (\<exists>pk. ParsePrivateKey lib (kr_private_key_pem_encrypted r) = Inr pk \<and>
          spk_Type (sgn_Public pk) = KeyAlgoED25519 lib) \<and>
    (\<forall>q \<in> set (gate_ca_keys d). key_active (db_now c) q \<longrightarrow>
       desc_key (kr_created_at r) \<le> desc_key (kr_created_at q))"
proof -
  obtain r where r: "sql_active_key (db_now c) d = Inr (Some r)"
    "s = \<lparr>ca_privateKey = Some (kr_private_key_pem_encrypted r), ca_publicKey = Some (kr_public_key_pem r)\<rparr>"
    "validateKeyFormat lib (kr_private_key_pem_encrypted r) = None"
    using assms
    by (auto simp: NewCAService_def loadActiveKey_def scan_one_Inr Let_def
          split: prod.splits sum.splits option.splits)
  from r(3) obtain pk where "ParsePrivateKey lib (kr_private_key_pem_encrypted r) = Inr pk"
    "spk_Type (sgn_Public pk) = KeyAlgoED25519 lib"
    by (auto simp: validateKeyFormat_def split: if_splits sum.splits)
  with sql_active_key_Some [OF r(1)] r(2) show ?thesis by (auto simp: GetPublicKey_def)
qed

lemma NewCAService_none:
  assumes "conn_io c 0 = IoOk" and "\<forall>r \<in> set (gate_ca_keys d). \<not> key_active (db_now c) r"
  shows "NewCAService lib c d = Inl (errorf ''no active CA key found in database'')"
  using assms by (simp add: NewCAService_def loadActiveKey_def scan_one_def flip: sql_active_key_None)

text \<open>
  C24. The service starts only with an Ed25519 key that the database holds and that has not
  expired, and no unexpired key is newer; when every key has expired (or there is none) it does not
  start.
\<close>

theorem newest_active_key_loaded:
  assumes "conn_io c 0 = IoOk"
  shows "(\<forall>s. NewCAService lib c d = Inr s \<longrightarrow>
      (\<exists>r \<in> set (gate_ca_keys d). key_active (db_now c) r \<and>
         ca_privateKey s = Some (kr_private_key_pem_encrypted r) \<and> GetPublicKey s = kr_public_key_pem r \<and>
         (\<exists>pk. ParsePrivateKey lib (kr_private_key_pem_encrypted r) = Inr pk \<and>
               spk_Type (sgn_Public pk) = KeyAlgoED25519 lib) \<and>
         (\<forall>q \<in> set (gate_ca_keys d). key_active (db_now c) q \<longrightarrow>
            desc_key (kr_created_at r) \<le> desc_key (kr_created_at q)))) \<and>
    ((\<forall>r \<in> set (gate_ca_keys d). \<not> key_active (db_now c) r) \<longrightarrow>
       NewCAService lib c d = Inl (errorf ''no active CA key found in database''))"
  using NewCAService_newest [OF assms, of lib d] NewCAService_none [OF assms, of d lib] by blast

subsection \<open>A concrete library for the witnesses\<close>

definition ex_key :: ssh_public_key where
  "ex_key = \<lparr>spk_Type = ''ssh-ed25519'', spk_Blob = ''ca''\<rparr>"

definition ex_signed :: "certificate \<Rightarrow> certificate" where
  "ex_signed c = c\<lparr>crt_Nonce := ''n'', crt_SignatureKey := Some ex_key, crt_Signature := Some ''sig''\<rparr>"

text \<open>A library that knows one certificate, the one its argument is.\<close>

definition ex_lib :: "certificate \<Rightarrow> ssh_lib" where
  "ex_lib known = \<lparr>pem_Decode = (\<lambda>_. True),
     ParsePrivateKey = (\<lambda>s. Inr \<lparr>sgn_Public = ex_key, sgn_Secret = s\<rparr>),
     SignCert = (\<lambda>_ k c. Inr (c\<lparr>crt_Nonce := ''n'', crt_SignatureKey := Some (sgn_Public k), crt_Signature := Some ''sig''\<rparr>)),
     MarshalAuthorizedKey = (\<lambda>_. ''cert''), ParseAuthorizedKey = (\<lambda>_. Inr (AuthCert known)),
     KeyAlgoED25519 = ''ssh-ed25519'', UserCert = 1\<rparr>"

definition ex_issue :: "time \<Rightarrow> issue_env" where
  "ex_issue t = \<lparr>iss_nonce = Inr (1, 2, 3, 4), iss_now_serial = t, iss_now_after = t,
     iss_now_before = t, iss_rand = ''r''\<rparr>"

definition ex_ca :: CAService where
  "ex_ca = \<lparr>ca_privateKey = Some ''key'', ca_publicKey = Some ''pub''\<rparr>"

definition ex_ca_row :: ca_key_row where
  "ex_ca_row = \<lparr>kr_id = ''1'', kr_key_type = ''ed25519'', kr_public_key_pem = ''pub'',
     kr_private_key_pem_encrypted = ''key'', kr_key_serial = ''1'', kr_rotated_at = None,
     kr_expires_at = Some 5, kr_created_at = Some 1\<rparr>"

definition ex_keys_db :: database where
  "ex_keys_db = \<lparr>devices = [], gate_sessions = [], gate_recordings = [], gate_ca_keys = [ex_ca_row], gate_audit_log = []\<rparr>"

lemma ex_lib_signs [simp]: "signs_only (ex_lib k)"
  by (auto simp: signs_only_def ex_lib_def)

theorem newest_active_key_loaded_witness:
  "NewCAService (ex_lib undefined) \<lparr>go_now = 9, db_now = 9, new_uuid = [], conn_io = (\<lambda>_. IoOk), rows_break = None\<rparr>
     ex_keys_db = Inl (errorf ''no active CA key found in database'')"
  using newest_active_key_loaded [of "\<lparr>go_now = 9, db_now = 9, new_uuid = [], conn_io = (\<lambda>_. IoOk), rows_break = None\<rparr>"
    "ex_lib undefined" ex_keys_db]
  by (simp add: ex_keys_db_def ex_ca_row_def key_active_def)

subsection \<open>Issued certificates\<close>

lemma signs_onlyD:
  assumes "signs_only lib" and "SignCert lib rand k c = Inr c'"
  obtains n sig where
    "c' = c\<lparr>crt_Nonce := n, crt_SignatureKey := Some (sgn_Public k), crt_Signature := Some sig\<rparr>"
  using assms unfolding signs_only_def by blast

lemma GenerateCertificate_Inr:
  assumes "GenerateCertificate lib e s user dev m = Inr bytes" and "signs_only lib"
  obtains key pk nonce n sig where "1 \<le> m" "m \<le> 525600" "ca_privateKey s = Some key"
    "ParsePrivateKey lib key = Inr pk" "iss_nonce e = Inr nonce" "bytes \<noteq> []"
    "bytes = MarshalAuthorizedKey lib ((cert_template lib e nonce pk user dev m)
       \<lparr>crt_Nonce := n, crt_SignatureKey := Some (sgn_Public pk), crt_Signature := Some sig\<rparr>)"
proof -
  from assms(1) obtain key pk nonce cert where g: "1 \<le> m" "m \<le> 525600" "ca_privateKey s = Some key"
    "ParsePrivateKey lib key = Inr pk" "iss_nonce e = Inr nonce"
    "SignCert lib (iss_rand e) pk (cert_template lib e nonce pk user dev m) = Inr cert"
    "bytes = MarshalAuthorizedKey lib cert" "bytes \<noteq> []"
    by (auto simp: GenerateCertificate_def Let_def split: if_splits option.splits sum.splits)
  with assms(2) obtain n sig where "cert = (cert_template lib e nonce pk user dev m)
      \<lparr>crt_Nonce := n, crt_SignatureKey := Some (sgn_Public pk), crt_Signature := Some sig\<rparr>"
    by (elim signs_onlyD)
  with g show thesis by (intro that) auto
qed

text \<open>The clock of the call stays in the range of a \<open>uint64\<close>, a year of lifetime included.\<close>

definition clock_ok :: "issue_env \<Rightarrow> bool" where
  "clock_ok e \<longleftrightarrow> 0 \<le> iss_now_after e \<and> iss_now_after e \<le> iss_now_before e \<and>
     Unix (iss_now_before e) + 525600 * 60 < 2 ^ 64"

lemma template_window:
  assumes "clock_ok e" and "1 \<le> m" and "m \<le> 525600"
  shows "uint (crt_ValidAfter (cert_template lib e nonce pk user dev m)) = Unix (iss_now_after e)"
    and "uint (crt_ValidBefore (cert_template lib e nonce pk user dev m)) = Unix (iss_now_before e) + 60 * m"
proof -
  have now: "0 \<le> iss_now_before e" "Unix (iss_now_after e) \<le> Unix (iss_now_before e)"
    using assms(1) by (auto simp: clock_ok_def intro: Unix_mono)
  have m: "minutes m = (60 * m) * second" using assms(2,3) by (simp add: minutes_exact)
  have end_at: "Unix (iss_now_before e + minutes m) = Unix (iss_now_before e) + 60 * m"
    unfolding m by (rule Unix_add_seconds)
  have "0 \<le> iss_now_before e + minutes m" using now(1) assms(2) by (simp add: m second_def)
  then show "uint (crt_ValidBefore (cert_template lib e nonce pk user dev m)) = Unix (iss_now_before e) + 60 * m"
    using assms by (simp add: cert_template_def uint_unix64 end_at clock_ok_def)
  show "uint (crt_ValidAfter (cert_template lib e nonce pk user dev m)) = Unix (iss_now_after e)"
    using assms now by (simp add: cert_template_def uint_unix64 clock_ok_def)
qed

text \<open>
  C25. A duration outside 1..525600 minutes is refused; otherwise what is issued names user and
  device, is valid from the time of the call for exactly the minutes asked (no 64-bit wrap-around
  at any allowed duration), is signed by the CA, and certifies the CA's own public key: it is the
  same key for every user, and its holder must have the CA's private key.
\<close>

theorem issued_certificate:
  assumes "signs_only lib" and "clock_ok e"
  shows "(m < 1 \<or> 525600 < m \<longrightarrow> (\<exists>t. GenerateCertificate lib e s user dev m = Inl (errorf t))) \<and>
    (\<forall>bytes. GenerateCertificate lib e s user dev m = Inr bytes \<longrightarrow>
      (\<exists>cert key pk. bytes = MarshalAuthorizedKey lib cert \<and> ca_privateKey s = Some key \<and>
         ParsePrivateKey lib key = Inr pk \<and>
         crt_KeyId cert = user \<and> crt_ValidPrincipals cert = [user, dev] \<and> crt_CertType cert = UserCert lib \<and>
         uint (crt_ValidAfter cert) = Unix (iss_now_after e) \<and>
         uint (crt_ValidBefore cert) = Unix (iss_now_before e) + 60 * m \<and>
         crt_SignatureKey cert = Some (sgn_Public pk) \<and> crt_Key cert = sgn_Public pk))"
proof -
  have "\<exists>t. GenerateCertificate lib e s user dev m = Inl (errorf t)" if "m < 1 \<or> 525600 < m"
    using that by (auto simp: GenerateCertificate_def)
  moreover have "\<exists>cert key pk. bytes = MarshalAuthorizedKey lib cert \<and> ca_privateKey s = Some key \<and>
         ParsePrivateKey lib key = Inr pk \<and>
         crt_KeyId cert = user \<and> crt_ValidPrincipals cert = [user, dev] \<and> crt_CertType cert = UserCert lib \<and>
         uint (crt_ValidAfter cert) = Unix (iss_now_after e) \<and>
         uint (crt_ValidBefore cert) = Unix (iss_now_before e) + 60 * m \<and>
         crt_SignatureKey cert = Some (sgn_Public pk) \<and> crt_Key cert = sgn_Public pk"
    if "GenerateCertificate lib e s user dev m = Inr bytes" for bytes
  proof -
    from that assms(1) obtain key pk nonce n sig where g: "1 \<le> m" "m \<le> 525600"
      "ca_privateKey s = Some key" "ParsePrivateKey lib key = Inr pk"
      and b: "bytes = MarshalAuthorizedKey lib ((cert_template lib e nonce pk user dev m)
         \<lparr>crt_Nonce := n, crt_SignatureKey := Some (sgn_Public pk), crt_Signature := Some sig\<rparr>)"
      by (rule GenerateCertificate_Inr)
    let ?cert = "(cert_template lib e nonce pk user dev m)
         \<lparr>crt_Nonce := n, crt_SignatureKey := Some (sgn_Public pk), crt_Signature := Some sig\<rparr>"
    have "crt_KeyId ?cert = user" "crt_ValidPrincipals ?cert = [user, dev]"
      "crt_CertType ?cert = UserCert lib" "crt_Key ?cert = sgn_Public pk"
      by (simp_all add: cert_template_def)
    with b g template_window [OF assms(2) g(1,2)] show ?thesis
      by (intro exI [of _ ?cert] exI [of _ key] exI [of _ pk]) simp
  qed
  ultimately show ?thesis by blast
qed

lemma ex_clock: "clock_ok (ex_issue (1700000000 * second))"
  by (simp add: clock_ok_def ex_issue_def Unix_def second_def)

theorem issued_certificate_witness:
  "\<exists>t. GenerateCertificate (ex_lib undefined) (ex_issue (1700000000 * second)) ex_ca ''ann'' ''edge'' 525601 = Inl (errorf t)"
  using issued_certificate [of "ex_lib undefined", OF _ ex_clock, of 525601 ex_ca "''ann''" "''edge''"] by simp

text \<open>
  C26. Issuing and checking agree: with a duration in range and a working library the certificate is
  issued, and it is accepted, with its two principals, exactly from the second it was issued through
  the last second of its lifetime, both ends included; later it is refused as expired.
\<close>

theorem issue_then_verify:
  assumes lib: "ca_privateKey s = Some key" "ParsePrivateKey lib key = Inr pk" "iss_nonce e = Inr nonce"
      "SignCert lib (iss_rand e) pk (cert_template lib e nonce pk user dev m) = Inr cert"
      "MarshalAuthorizedKey lib cert \<noteq> []" "reads_back lib cert" "signs_only lib"
    and clock: "clock_ok e" and m: "1 \<le> m" "m \<le> 525600"
    and now: "0 \<le> t" "Unix t < 2 ^ 64"
  shows "\<exists>bytes. GenerateCertificate lib e s user dev m = Inr bytes \<and>
    (VerifyCertificate lib t bytes = Inr [user, dev] \<longleftrightarrow>
      Unix (iss_now_after e) \<le> Unix t \<and> Unix t \<le> Unix (iss_now_before e) + 60 * m) \<and>
    (Unix (iss_now_before e) + 60 * m < Unix t \<longrightarrow>
      (\<exists>w. VerifyCertificate lib t bytes = Inl (errorf (''certificate expired '' @ w))))"
proof -
  let ?bytes = "MarshalAuthorizedKey lib cert" and ?t = "cert_template lib e nonce pk user dev m"
  have gen: "GenerateCertificate lib e s user dev m = Inr ?bytes"
    using lib m by (simp add: GenerateCertificate_def Let_def)
  from lib(7,4) obtain n sig where
    cert: "cert = ?t\<lparr>crt_Nonce := n, crt_SignatureKey := Some (sgn_Public pk), crt_Signature := Some sig\<rparr>"
    by (elim signs_onlyD)
  have parse: "ParseAuthorizedKey lib ?bytes = Inr (AuthCert cert)"
    using lib(6) by (simp add: reads_back_def)
  have fields: "crt_CertType cert = UserCert lib" "crt_ValidPrincipals cert = [user, dev]"
    "crt_ValidAfter cert = crt_ValidAfter ?t" "crt_ValidBefore cert = crt_ValidBefore ?t"
    by (simp_all add: cert) (simp_all add: cert_template_def)
  have less: "unix64 t < crt_ValidAfter cert \<longleftrightarrow> Unix t < Unix (iss_now_after e)"
    "crt_ValidBefore cert < unix64 t \<longleftrightarrow> Unix (iss_now_before e) + 60 * m < Unix t"
    using template_window [OF clock m] now by (simp_all add: fields word_less_def uint_unix64)
  have order: "Unix (iss_now_after e) \<le> Unix (iss_now_before e)"
    using clock by (auto simp: clock_ok_def intro: Unix_mono)
  have "VerifyCertificate lib t ?bytes = Inr [user, dev] \<longleftrightarrow>
      Unix (iss_now_after e) \<le> Unix t \<and> Unix t \<le> Unix (iss_now_before e) + 60 * m"
    by (auto simp: VerifyCertificate_def parse less fields(1,2) Let_def)
  moreover have "\<exists>w. VerifyCertificate lib t ?bytes = Inl (errorf (''certificate expired '' @ w))"
    if "Unix (iss_now_before e) + 60 * m < Unix t"
    using that order m(1) by (auto simp: VerifyCertificate_def parse less fields(1,2) Let_def)
  ultimately show ?thesis using gen by blast
qed

definition ex_cert :: certificate where
  "ex_cert = ex_signed (cert_template (ex_lib undefined) (ex_issue (1700000000 * second)) (1, 2, 3, 4)
     \<lparr>sgn_Public = ex_key, sgn_Secret = ''key''\<rparr> ''ann'' ''edge'' 60)"

lemma ex_lib_cert:
  "SignCert (ex_lib k) r p (cert_template (ex_lib k) (ex_issue (1700000000 * second)) (1, 2, 3, 4)
     \<lparr>sgn_Public = ex_key, sgn_Secret = ''key''\<rparr> ''ann'' ''edge'' 60) =
     Inr (ex_cert\<lparr>crt_SignatureKey := Some (sgn_Public p)\<rparr>)"
  "ParsePrivateKey (ex_lib k) ''key'' = Inr \<lparr>sgn_Public = ex_key, sgn_Secret = ''key''\<rparr>"
  "reads_back (ex_lib ex_cert) ex_cert" "MarshalAuthorizedKey (ex_lib k) ex_cert \<noteq> []"
  by (simp_all add: ex_lib_def ex_cert_def ex_signed_def cert_template_def reads_back_def)

theorem issue_then_verify_witness:
  "\<exists>bytes. GenerateCertificate (ex_lib ex_cert) (ex_issue (1700000000 * second)) ex_ca ''ann'' ''edge'' 60 = Inr bytes \<and>
     VerifyCertificate (ex_lib ex_cert) (1700003600 * second) bytes = Inr [''ann'', ''edge''] \<and>
     VerifyCertificate (ex_lib ex_cert) (1700003601 * second) bytes \<noteq> Inr [''ann'', ''edge'']"
proof -
  let ?p = "\<lparr>sgn_Public = ex_key, sgn_Secret = ''key''\<rparr>"
  have same: "ex_cert\<lparr>crt_SignatureKey := Some (sgn_Public ?p)\<rparr> = ex_cert"
    by (simp add: ex_cert_def ex_signed_def)
  have facts: "ca_privateKey ex_ca = Some ''key''" "iss_nonce (ex_issue (1700000000 * second)) = Inr (1, 2, 3, 4)"
    by (simp_all add: ex_ca_def ex_issue_def)
  note sign = ex_lib_cert(1) [of ex_cert _ ?p, unfolded same]
  have times: "Unix (iss_now_after (ex_issue (1700000000 * second))) = 1700000000"
    "Unix (iss_now_before (ex_issue (1700000000 * second))) = 1700000000"
    "Unix (1700003600 * second) = 1700003600" "Unix (1700003601 * second) = 1700003601"
    by (simp_all add: ex_issue_def Unix_def second_def)
  have pos: "0 \<le> 1700003600 * second" "0 \<le> 1700003601 * second" by (simp_all add: second_def)
  note at = issue_then_verify [OF facts(1) ex_lib_cert(2) facts(2) sign ex_lib_cert(4,3) ex_lib_signs ex_clock]
  have m: "(1::int) \<le> 60" "(60::int) \<le> 525600" by simp_all
  show ?thesis
    using at [OF m pos(1)] at [OF m pos(2)] by (auto simp: times)
qed

text \<open>
  C27. The check looks at the type, the validity window and the principals only: two texts whose
  certificates agree on these are judged alike, so a certificate with a signature of any other key,
  or with none, is accepted like one the CA issued.
\<close>

theorem verify_ignores_signature:
  assumes "ParseAuthorizedKey lib genuine = Inr (AuthCert cert)"
    and "ParseAuthorizedKey lib forged = Inr (AuthCert cert')"
    and "crt_CertType cert' = crt_CertType cert" and "crt_ValidPrincipals cert' = crt_ValidPrincipals cert"
    and "crt_ValidAfter cert' = crt_ValidAfter cert" and "crt_ValidBefore cert' = crt_ValidBefore cert"
  shows "VerifyCertificate lib t forged = VerifyCertificate lib t genuine"
  using assms by (simp add: VerifyCertificate_def window_text_def Let_def)

definition ex_forged :: certificate where
  "ex_forged = ex_cert\<lparr>crt_SignatureKey := None, crt_Signature := None,
     crt_Key := \<lparr>spk_Type = ''ssh-rsa'', spk_Blob = ''attacker''\<rparr>, crt_Serial := 0\<rparr>"

definition forge_lib :: ssh_lib where
  "forge_lib = (ex_lib ex_cert)\<lparr>ParseAuthorizedKey :=
     (\<lambda>s. Inr (AuthCert (if s = ''cert'' then ex_cert else ex_forged)))\<rparr>"

theorem verify_ignores_signature_witness:
  "VerifyCertificate forge_lib (1700003600 * second) ''forged'' = VerifyCertificate forge_lib (1700003600 * second) ''cert''"
  by (rule verify_ignores_signature [where cert = ex_cert and cert' = ex_forged])
     (simp_all add: forge_lib_def ex_forged_def)

subsection \<open>Serial numbers\<close>

lemma be32_bits:
  "bit (BigEndian_Uint32 (b0, b1, b2, b3)) i \<longleftrightarrow>
     (if i < 8 then bit b3 i else if i < 16 then bit b2 (i - 8)
      else if i < 24 then bit b1 (i - 16) else i < 32 \<and> bit b0 (i - 24))"
  by (auto simp: BigEndian_Uint32_def bit_simps dest: bit_imp_le_length)

lemma be32_inject: "BigEndian_Uint32 n = BigEndian_Uint32 n' \<longleftrightarrow> n = n'"
proof
  assume eq: "BigEndian_Uint32 n = BigEndian_Uint32 n'"
  obtain b0 b1 b2 b3 where n: "n = (b0, b1, b2, b3)" by (cases n)
  obtain c0 c1 c2 c3 where n': "n' = (c0, c1, c2, c3)" by (cases n')
  have bits: "bit (BigEndian_Uint32 n) i = bit (BigEndian_Uint32 n') i" for i using eq by simp
  have "bit b3 i = bit c3 i" "bit b2 i = bit c2 i" "bit b1 i = bit c1 i" "bit b0 i = bit c0 i" if "i < 8" for i
    using bits [of i] bits [of "i + 8"] bits [of "i + 16"] bits [of "i + 24"] that
    by (simp_all add: n n' be32_bits)
  then show "n = n'" by (auto simp: n n' intro!: bit_word_eqI)
qed simp

lemma serial_bits:
  "bit (cert_serial t n) i \<longleftrightarrow>
     (if i < 32 then bit (BigEndian_Uint32 n) i else i < 64 \<and> bit (unix64 t) (i - 32))"
  by (auto simp: cert_serial_def bit_simps dest: bit_imp_le_length)

text \<open>
  C28. Until the year 2106 the serial number identifies the second of issue and the four random
  bytes: two certificates share a serial only if both agree.
\<close>

theorem serial_identifies_issue:
  assumes "0 \<le> s" "Unix s < 2 ^ 32" and "0 \<le> t" "Unix t < 2 ^ 32"
  shows "cert_serial s n = cert_serial t n' \<longleftrightarrow> Unix s = Unix t \<and> n = n'"
proof
  assume eq: "cert_serial s n = cert_serial t n'"
  have bits: "bit (cert_serial s n) i = bit (cert_serial t n') i" for i using eq by simp
  have "bit (BigEndian_Uint32 n) i = bit (BigEndian_Uint32 n') i" if "i < 32" for i
    using bits [of i] that by (simp add: serial_bits)
  then have "BigEndian_Uint32 n = BigEndian_Uint32 n'" by (intro bit_word_eqI) simp
  then have "n = n'" by (simp add: be32_inject)
  have low: "bit (unix64 s) i = bit (unix64 t) i" if "i < 32" for i
    using bits [of "i + 32"] that by (simp add: serial_bits)
  have "take_bit 32 (unix64 s) = take_bit 32 (unix64 t)"
    by (rule bit_word_eqI) (auto simp: bit_simps low)
  then have "uint (take_bit 32 (unix64 s)) = uint (take_bit 32 (unix64 t))" by simp
  then have "take_bit 32 (Unix s) = take_bit 32 (Unix t)"
    using assms by (simp add: unsigned_take_bit_eq uint_unix64)
  moreover have "0 \<le> Unix s" "0 \<le> Unix t"
    using assms by (simp_all add: Unix_def second_def pos_imp_zdiv_nonneg_iff)
  ultimately have "Unix s = Unix t" using assms by (simp add: take_bit_int_eq_self)
  with \<open>n = n'\<close> show "Unix s = Unix t \<and> n = n'" by simp
qed (auto simp: cert_serial_def unix64_def)

theorem serial_identifies_issue_witness:
  "cert_serial (1700000000 * second) (1, 2, 3, 4) \<noteq> cert_serial (1700000001 * second) (1, 2, 3, 4)"
proof -
  have "0 \<le> 1700000000 * second" "Unix (1700000000 * second) < 2 ^ 32"
    "0 \<le> 1700000001 * second" "Unix (1700000001 * second) < 2 ^ 32"
    "Unix (1700000000 * second) \<noteq> Unix (1700000001 * second)"
    by (simp_all add: Unix_def second_def)
  then show ?thesis
    using serial_identifies_issue [of "1700000000 * second" "1700000001 * second"] by simp
qed

end
