(* ===== verification/Policy_Service.thy ===== *)
theory Policy_Service
  imports Prelude
begin

section \<open>The policy service\<close>

text \<open>
  \<open>internal/services/policy_service.go\<close>: permissions of a user on a device, in a map whose key is
  \<open>user:device\<close>. The writing methods take the lock exclusively and the reading one shares it;
  here each method is one step, and \<open>Policy_Concurrency\<close> runs them by statements. Policies are stored by pointer and never changed in place.
\<close>

subsection \<open>A store that is written by key\<close>

text \<open>
  What the service relies on of its cache: a write to a key is what the next read of that key sees
  and no other key's. From that alone, a sequence of writes acts like its last write per key.
\<close>

locale keyed_store =
  fixes look :: "'s \<Rightarrow> 'k \<Rightarrow> 'v option"
    and put :: "'k \<Rightarrow> 'v \<Rightarrow> 's \<Rightarrow> 's"
  assumes look_put: "look (put k v s) j = (if j = k then Some v else look s j)"
begin

definition puts :: "('k \<times> 'v) list \<Rightarrow> 's \<Rightarrow> 's" where
  "puts kvs s = fold (\<lambda>(k, v). put k v) kvs s"

lemma look_puts:
  "look (puts kvs s) j = (case map_of (rev kvs) j of Some v \<Rightarrow> Some v | None \<Rightarrow> look s j)"
proof (induction kvs arbitrary: s)
  case (Cons kv kvs)
  obtain k v where kv: "kv = (k, v)" by (cases kv) auto
  have "look (puts (kv # kvs) s) j = look (puts kvs (put k v s)) j"
    by (simp add: puts_def kv)
  also have "\<dots> = (case map_of (rev kvs) j of Some v \<Rightarrow> Some v | None \<Rightarrow> look (put k v s) j)"
    by (rule Cons.IH)
  finally show ?case
    by (auto simp: kv look_put map_add_def split: option.split)
qed (simp add: puts_def)

lemma look_puts_absent:
  assumes "j \<notin> fst ` set kvs"
  shows "look (puts kvs s) j = look s j"
proof -
  have "map_of (rev kvs) j = None" using assms by (simp add: map_of_eq_None_iff)
  then show ?thesis by (simp add: look_puts)
qed

lemma look_puts_twice: "look (puts kvs (puts kvs s)) j = look (puts kvs s) j"
  by (simp add: look_puts split: option.split)

end

subsection \<open>The service\<close>

record Policy =
  pol_Permissions :: "string list"

record AccessPolicy =
  ap_PrincipalType :: string
  ap_PrincipalId :: string
  ap_TargetType :: string
  ap_TargetId :: string
  ap_Permissions :: "string list"

type_synonym policy_cache = "string \<rightharpoonup> Policy"

definition NewPolicyService :: policy_cache where
  "NewPolicyService = Map.empty"

definition policy_key :: "string \<Rightarrow> string \<Rightarrow> string" where
  "policy_key userID deviceID = userID @ '':'' @ deviceID"

text \<open>The loop over the permissions, with its early return.\<close>

fun permits_gui :: "string list \<Rightarrow> bool" where
  "permits_gui [] = False"
| "permits_gui (perm # perms) = (if perm = ''gate.gui.access'' then True else permits_gui perms)"

definition CanAccessGUI :: "policy_cache \<Rightarrow> string \<Rightarrow> string \<Rightarrow> bool" where
  "CanAccessGUI cache userID deviceID =
    (case cache (policy_key userID deviceID) of
       None \<Rightarrow> False
     | Some policy \<Rightarrow> permits_gui (pol_Permissions policy))"

definition cache_put :: "string \<Rightarrow> Policy \<Rightarrow> policy_cache \<Rightarrow> policy_cache" where
  "cache_put key policy cache = cache(key \<mapsto> policy)"

definition SetPolicy :: "string \<Rightarrow> string \<Rightarrow> string list \<Rightarrow> policy_cache \<Rightarrow> policy_cache" where
  "SetPolicy userID deviceID permissions cache =
     cache_put (policy_key userID deviceID) \<lparr>pol_Permissions = permissions\<rparr> cache"

definition user_device_policy :: "AccessPolicy \<Rightarrow> bool" where
  "user_device_policy policy \<longleftrightarrow> ap_PrincipalType policy = ''user'' \<and> ap_TargetType policy = ''device''"

fun sync_loop :: "AccessPolicy list \<Rightarrow> policy_cache \<times> int \<Rightarrow> policy_cache \<times> int" where
  "sync_loop [] acc = acc"
| "sync_loop (policy # policies) (cache, count) =
    sync_loop policies
      (if user_device_policy policy
       then (cache_put (policy_key (ap_PrincipalId policy) (ap_TargetId policy))
               \<lparr>pol_Permissions = ap_Permissions policy\<rparr> cache, count + 1)
       else (cache, count))"

definition SyncPolicies :: "AccessPolicy list \<Rightarrow> policy_cache \<Rightarrow> policy_cache \<times> (go_error + int)" where
  "SyncPolicies policies cache =
    (case sync_loop policies (cache, 0) of (cache', count) \<Rightarrow> (cache', Inr count))"

interpretation policy_store: keyed_store "\<lambda>s. s" cache_put
  by unfold_locales (simp add: cache_put_def)

lemma permits_gui_iff: "permits_gui perms \<longleftrightarrow> ''gate.gui.access'' \<in> set perms"
  by (induction perms) auto

text \<open>A sync is the sequence of writes of its user-device policies.\<close>

definition sync_entry :: "AccessPolicy \<Rightarrow> string \<times> Policy" where
  "sync_entry p = (policy_key (ap_PrincipalId p) (ap_TargetId p), \<lparr>pol_Permissions = ap_Permissions p\<rparr>)"

lemma sync_loop_puts:
  "sync_loop ps (cache, n) =
     (policy_store.puts (map sync_entry (filter user_device_policy ps)) cache,
      n + int (length (filter user_device_policy ps)))"
  by (induction ps arbitrary: cache n) (auto simp: policy_store.puts_def sync_entry_def)

lemma SyncPolicies_puts:
  "SyncPolicies ps cache =
     (policy_store.puts (map sync_entry (filter user_device_policy ps)) cache,
      Inr (int (length (filter user_device_policy ps))))"
  by (simp add: SyncPolicies_def sync_loop_puts)

subsection \<open>Properties\<close>

text \<open>
  The abstract policy: what a user may do on a device is what the last policy of the list for that
  user and that device says, and what held before when there is none.
\<close>

definition last_policy :: "string \<Rightarrow> string \<Rightarrow> AccessPolicy list \<Rightarrow> AccessPolicy option" where
  "last_policy user device ps =
     List.find (\<lambda>p. user_device_policy p \<and> ap_PrincipalId p = user \<and> ap_TargetId p = device) (rev ps)"

lemma policy_key_inject:
  assumes "CHR '':'' \<notin> set u" and "CHR '':'' \<notin> set u'"
  shows "policy_key u d = policy_key u' d' \<longleftrightarrow> u = u' \<and> d = d'"
proof
  assume eq: "policy_key u d = policy_key u' d'"
  have "takeWhile (\<lambda>c. c \<noteq> CHR '':'') (policy_key v e) = v" if "CHR '':'' \<notin> set v" for v e
    using that by (induction v) (auto simp: policy_key_def)
  from this [OF assms(1), of d] this [OF assms(2), of d'] eq have "u = u'" by simp
  with eq show "u = u' \<and> d = d'" by (simp add: policy_key_def)
qed (simp add: policy_key_def)

lemma map_of_entries:
  assumes "CHR '':'' \<notin> set user"
    and "\<And>p. p \<in> set ps \<Longrightarrow> user_device_policy p \<Longrightarrow> CHR '':'' \<notin> set (ap_PrincipalId p)"
  shows "map_of (map sync_entry (filter user_device_policy ps)) (policy_key user device) =
    map_option (\<lambda>p. \<lparr>pol_Permissions = ap_Permissions p\<rparr>)
      (List.find (\<lambda>p. user_device_policy p \<and> ap_PrincipalId p = user \<and> ap_TargetId p = device) ps)"
  using assms(2)
proof (induction ps)
  case (Cons p ps)
  show ?case
  proof (cases "user_device_policy p")
    case True
    with Cons.prems [of p] have "CHR '':'' \<notin> set (ap_PrincipalId p)" by simp
    with assms(1) True Cons show ?thesis
      by (simp add: sync_entry_def policy_key_inject)
  next
    case False
    with Cons show ?thesis by simp
  qed
qed simp

lemma access_after_sync:
  assumes "CHR '':'' \<notin> set user"
    and "\<And>p. p \<in> set ps \<Longrightarrow> user_device_policy p \<Longrightarrow> CHR '':'' \<notin> set (ap_PrincipalId p)"
  shows "CanAccessGUI (fst (SyncPolicies ps cache)) user device =
      (case last_policy user device ps of
         Some p \<Rightarrow> ''gate.gui.access'' \<in> set (ap_Permissions p)
       | None \<Rightarrow> CanAccessGUI cache user device)"
proof -
  have "map_of (rev (map sync_entry (filter user_device_policy ps))) (policy_key user device) =
      map_option (\<lambda>p. \<lparr>pol_Permissions = ap_Permissions p\<rparr>) (last_policy user device ps)"
    using map_of_entries [of user "rev ps" device] assms
    by (simp add: last_policy_def rev_map rev_filter)
  then show ?thesis
    by (simp add: SyncPolicies_puts CanAccessGUI_def policy_store.look_puts permits_gui_iff split: option.split)
qed

text \<open>
  C20. As long as user ids contain no colon, the service implements the abstract policy: after a
  sync a user may open the GUI of a device exactly when the last policy for that pair lists
  \<open>gate.gui.access\<close>, and pairs the sync does not mention keep what they had (a sync never revokes
  by omission). The count is the number of user-device policies in the list.
\<close>

theorem policy_sync_spec:
  assumes "CHR '':'' \<notin> set user"
    and "\<And>p. p \<in> set ps \<Longrightarrow> user_device_policy p \<Longrightarrow> CHR '':'' \<notin> set (ap_PrincipalId p)"
  shows "CanAccessGUI (fst (SyncPolicies ps cache)) user device =
      (case last_policy user device ps of
         Some p \<Rightarrow> ''gate.gui.access'' \<in> set (ap_Permissions p)
       | None \<Rightarrow> CanAccessGUI cache user device) \<and>
    snd (SyncPolicies ps cache) =
      Inr (int (card {i. i < length ps \<and> ap_PrincipalType (ps ! i) = ''user'' \<and> ap_TargetType (ps ! i) = ''device''}))"
  using access_after_sync [of user ps cache device] assms
  by (simp add: SyncPolicies_puts length_filter_conv_card user_device_policy_def)

definition ex_policy :: "string \<Rightarrow> string \<Rightarrow> string list \<Rightarrow> AccessPolicy" where
  "ex_policy u d perms = \<lparr>ap_PrincipalType = ''user'', ap_PrincipalId = u, ap_TargetType = ''device'',
     ap_TargetId = d, ap_Permissions = perms\<rparr>"

theorem policy_sync_spec_witness:
  "CanAccessGUI (fst (SyncPolicies [ex_policy ''ann'' ''edge'' [''gate.gui.access''],
       ex_policy ''bob'' ''edge'' [''gate.ssh''], ex_policy ''ann'' ''edge'' [''gate.ssh'']] NewPolicyService))
     ''ann'' ''edge'' = False"
proof -
  let ?ps = "[ex_policy ''ann'' ''edge'' [''gate.gui.access''],
       ex_policy ''bob'' ''edge'' [''gate.ssh''], ex_policy ''ann'' ''edge'' [''gate.ssh'']]"
  have "CHR '':'' \<notin> set (ap_PrincipalId p)" if "p \<in> set ?ps" for p
    using that by (auto simp: ex_policy_def)
  then show ?thesis
    using policy_sync_spec [of "''ann''" ?ps NewPolicyService "''edge''"]
    by (simp add: last_policy_def ex_policy_def user_device_policy_def)
qed

text \<open>
  Syncing a list in batches gives the cache of syncing it at once and the counts add up, and
  repeating a sync changes nothing.
\<close>

lemma policy_sync_batches:
  "fst (SyncPolicies qs (fst (SyncPolicies ps cache))) = fst (SyncPolicies (ps @ qs) cache) \<and>
   snd (SyncPolicies (ps @ qs) cache) =
     (case (snd (SyncPolicies ps cache), snd (SyncPolicies qs cache)) of
        (Inr m, Inr n) \<Rightarrow> Inr (m + n) | (Inl e, _) \<Rightarrow> Inl e | (_, Inl e) \<Rightarrow> Inl e) \<and>
   fst (SyncPolicies ps (fst (SyncPolicies ps cache))) = fst (SyncPolicies ps cache)"
  using policy_store.look_puts_twice [of "map sync_entry (filter user_device_policy ps)" cache]
  by (simp add: SyncPolicies_puts policy_store.puts_def fun_eq_iff)

text \<open>
  The colon is also allowed inside ids, and then the key does not tell the pairs apart: a
  policy set for user \<open>a:b\<close> on device \<open>c\<close> decides what user \<open>a\<close> may do on device \<open>b:c\<close>.
\<close>

theorem policy_key_confusion:
  "CanAccessGUI (SetPolicy (a @ '':'' @ b) c perms cache) a (b @ '':'' @ c) =
     (''gate.gui.access'' \<in> set perms)"
  by (simp add: CanAccessGUI_def SetPolicy_def cache_put_def policy_key_def permits_gui_iff)

end
