(* ===== verification/Handlers.thy ===== *)
theory Handlers
  imports Daemon_Server Recording_Properties CA_Properties Policy_Service
begin

section \<open>The HTTP handlers\<close>

text \<open>
  \<open>internal/handlers/handlers.go\<close> with the request and response types of \<open>internal/models\<close>. A
  handler is a function from the request (its path parameter and the outcome of binding its body or
  query, which is gin's work) and the state of the services to a response: a status and a body.
  The methods of the services are those of the theories above.
\<close>

subsection \<open>Requests and responses\<close>

record IssueCertRequest =
  icr_DeviceID :: string
  icr_DurationMinutes :: int
  icr_EnableGUI :: bool

record ListSessionsRequest =
  lsr_UserID :: string
  lsr_DeviceID :: string
  lsr_State :: string
  lsr_Limit :: int
  lsr_Offset :: int

record ApproveDeviceRequest =
  adr_ApproverID :: string

record DecommissionDeviceRequest =
  ddr_DecommissionerID :: string
  ddr_Reason :: string

record ReportSessionStartRequest =
  rss_SessionID :: string
  rss_SSHPort :: int

record ReportSessionEndRequest =
  rse_SessionID :: string
  rse_Reason :: string

record IssueCertResponse =
  icp_CertPEM :: string
  icp_KeyPEM :: string
  icp_ExpiresAt :: string
  icp_SessionID :: string
  icp_SSHPort :: int
  icp_GUIAvailable :: bool
  icp_VNCPort :: "int option"
  icp_X11Display :: "string option"

record SessionInfo =
  si_ID :: string
  si_UserID :: string
  si_DeviceID :: string
  si_State :: string
  si_CertSerial :: "string option"
  si_CertExpiresAt :: "time option"
  si_StartedAt :: "time option"
  si_ConnectedAt :: "time option"
  si_DisconnectedAt :: "time option"
  si_DisconnectReason :: "string option"
  si_RecordingID :: "string option"
  si_CreatedAt :: time

record ListSessionsResponse =
  lsp_Sessions :: "SessionInfo list"
  lsp_Total :: int
  lsp_Limit :: int
  lsp_Offset :: int

record RecordingInfo =
  ri_ID :: string
  ri_SessionID :: string
  ri_UserID :: string
  ri_DeviceID :: string
  ri_FilePath :: string
  ri_ByteSize :: "int option"
  ri_DurationSeconds :: "int option"
  ri_StartedAt :: time
  ri_CompletedAt :: "time option"
  ri_CreatedAt :: time

record DeviceInfo =
  di_ID :: string
  di_DeviceName :: string
  di_DeviceType :: "string option"
  di_State :: string
  di_DaemonVersion :: "string option"
  di_ApprovedAt :: "time option"
  di_DecommissionedAt :: "time option"
  di_IsOrphaned :: bool
  di_CreatedAt :: time

record ListPendingDevicesResponse =
  lpd_Devices :: "DeviceInfo list"
  lpd_Total :: int

record ErrorResponse =
  er_Error :: string
  er_Code :: string
  er_Message :: string

record HealthResponse =
  hr_Status :: string
  hr_Version :: string
  hr_Database :: string

record ApproveDeviceResponse =
  adp_DeviceID :: string
  adp_State :: string
  adp_PoliciesSynced :: bool

record DecommissionDeviceResponse =
  ddp_DeviceID :: string
  ddp_SessionsTerminated :: int
  ddp_RecordingsDeleted :: int
  ddp_AuditLogged :: bool

record SessionStatusResponse =
  ssr_SessionID :: string
  ssr_State :: string
  ssr_SSHActive :: bool
  ssr_GUIActive :: bool
  ssr_GUIProtocol :: "string option"
  ssr_GUIPort :: "int option"
  ssr_SSHPort :: int
  ssr_StartedAt :: string
  ssr_UpdatedAt :: string

datatype body =
    ErrorBody ErrorResponse
  | HealthBody HealthResponse
  | CertBody IssueCertResponse
  | SessionsBody ListSessionsResponse
  | SessionBody SessionInfo
  | StatusBody SessionStatusResponse
  | RecordingBody RecordingInfo
  | DevicesBody ListPendingDevicesResponse
  | ApproveBody ApproveDeviceResponse
  | DecommissionBody DecommissionDeviceResponse
  | ReportBody string
  | SyncBody bool int

type_synonym response = "int \<times> body"

definition error_body :: "string \<Rightarrow> string \<Rightarrow> body" where
  "error_body err msg = ErrorBody \<lparr>er_Error = err, er_Code = [], er_Message = msg\<rparr>"

text \<open>The services behind the handlers.\<close>

record gate =
  gt_db :: database
  gt_ca :: CAService
  gt_policies :: policy_cache

subsection \<open>Routes\<close>

datatype route_handler =
    RHealth | RIssueCert | RListSessions | RGetSession | RSessionStatus | RGetRecording
  | RListPendingDevices | RApproveDevice | RDecommissionDevice | RSyncAccessPolicies
  | RReportSessionStart | RReportSessionEnd | RTerminalBridge

definition RegisterRoutes :: "((string \<times> string) \<times> route_handler) list" where
  "RegisterRoutes =
     [((''GET'', ''/health''), RHealth),
      ((''POST'', ''/api/v1/gate'' @ ''/cert/issue''), RIssueCert),
      ((''GET'', ''/api/v1/gate'' @ ''/sessions''), RListSessions),
      ((''GET'', ''/api/v1/gate'' @ ''/sessions/:session_id''), RGetSession),
      ((''GET'', ''/api/v1/gate'' @ ''/sessions/:session_id/status''), RSessionStatus),
      ((''GET'', ''/api/v1/gate'' @ ''/recordings/:recording_id''), RGetRecording),
      ((''GET'', ''/admin/gate'' @ ''/pending-devices''), RListPendingDevices),
      ((''POST'', ''/admin/gate'' @ ''/devices/:device_id/approve''), RApproveDevice),
      ((''POST'', ''/admin/gate'' @ ''/devices/:device_id/decommission''), RDecommissionDevice),
      ((''POST'', ''/api/v1/policies'' @ ''/sync''), RSyncAccessPolicies),
      ((''POST'', ''/api/v1/gate'' @ ''/sessions/:session_id/start''), RReportSessionStart),
      ((''POST'', ''/api/v1/gate'' @ ''/sessions/:session_id/end''), RReportSessionEnd),
      ((''GET'', ''/ws/gate/:session_id''), RTerminalBridge)]"

definition RegisterWebSocketRoutes :: "((string \<times> string) \<times> route_handler) list" where
  "RegisterWebSocketRoutes = [((''GET'', ''/ws/gate/:session_id''), RTerminalBridge)]"

text \<open>gin panics on a route that is registered twice; the table has none.\<close>

lemma routes_distinct: "distinct (map fst RegisterRoutes)"
  by (simp add: RegisterRoutes_def)

text \<open>
  The keys a request's context holds when its handler runs: the router of \<open>main\<close> has no middleware
  that sets any.
\<close>

definition router_keys :: "string \<rightharpoonup> string" where
  "router_keys = Map.empty"

definition GetString :: "(string \<rightharpoonup> string) \<Rightarrow> string \<Rightarrow> string" where
  "GetString keys k = (case keys k of None \<Rightarrow> [] | Some v \<Rightarrow> v)"

subsection \<open>Health and certificates\<close>

definition Health :: "go_error option \<Rightarrow> response" where
  "Health ping =
    (let dbStatus = (case ping of Some err \<Rightarrow> ''unhealthy: '' @ error_text err | None \<Rightarrow> ''healthy'') in
     if dbStatus \<noteq> ''healthy''
     then (503, HealthBody \<lparr>hr_Status = ''unhealthy'', hr_Version = [], hr_Database = dbStatus\<rparr>)
     else (200, HealthBody \<lparr>hr_Status = ''healthy'', hr_Version = ''3.0.0'', hr_Database = ''healthy''\<rparr>))"

text \<open>
  The surroundings of one certificate request: those of \<open>GenerateCertificate\<close>, the clock at its two
  later readings and the local zone.
\<close>

record request_env =
  rq_issue :: issue_env
  rq_now_expires :: time
  rq_now_session :: time
  rq_zone :: int

definition IssueCert ::
  "ssh_lib \<Rightarrow> request_env \<Rightarrow> (string \<rightharpoonup> string) \<Rightarrow> go_error + IssueCertRequest \<Rightarrow> gate \<Rightarrow> response" where
  "IssueCert lib e keys bind g =
    (case bind of
       Inl err \<Rightarrow> (400, error_body ''invalid request'' (error_text err))
     | Inr req0 \<Rightarrow>
        (let req = (if icr_DurationMinutes req0 = 0 then req0\<lparr>icr_DurationMinutes := 60\<rparr> else req0);
             userID = GetString keys ''user_id'' in
         if userID = [] then (401, error_body ''missing user_id'' [])
         else
          (case GenerateCertificate lib (rq_issue e) (gt_ca g) userID (icr_DeviceID req) (icr_DurationMinutes req) of
             Inl err \<Rightarrow> (500, error_body ''failed to generate certificate'' (error_text err))
           | Inr certBytes \<Rightarrow>
              (let guiAvailable = icr_EnableGUI req;
                   vncPort = (if icr_EnableGUI req then Some 5900 else None);
                   expiresAt = rq_now_expires e + minutes (icr_DurationMinutes req);
                   sessionID = ''session-'' @ format_stamp (rq_zone e) (rq_now_session e) in
               (200, CertBody \<lparr>icp_CertPEM = certBytes, icp_KeyPEM = [],
                       icp_ExpiresAt = format_RFC3339 (rq_zone e) expiresAt, icp_SessionID = sessionID,
                       icp_SSHPort = 2222, icp_GUIAvailable = guiAvailable, icp_VNCPort = vncPort,
                       icp_X11Display = None\<rparr>)))))"

subsection \<open>Sessions and recordings\<close>

definition ListSessions :: "go_error + ListSessionsRequest \<Rightarrow> response" where
  "ListSessions bind =
    (case bind of
       Inl err \<Rightarrow> (400, error_body ''invalid query parameters'' (error_text err))
     | Inr req \<Rightarrow>
         (200, SessionsBody \<lparr>lsp_Sessions = [], lsp_Total = 0, lsp_Limit = lsr_Limit req, lsp_Offset = lsr_Offset req\<rparr>))"

definition session_info :: "session \<Rightarrow> SessionInfo" where
  "session_info s =
    \<lparr>si_ID = ses_ID s, si_UserID = ses_UserID s, si_DeviceID = ses_DeviceID s, si_State = ses_State s,
     si_CertSerial = Some (ses_CertSerial s), si_CertExpiresAt = Some (ses_CertExpiresAt s),
     si_StartedAt = Some (ses_StartedAt s), si_ConnectedAt = ses_ConnectedAt s,
     si_DisconnectedAt = ses_DisconnectedAt s, si_DisconnectReason = ses_DisconnectReason s,
     si_RecordingID = ses_RecordingID s, si_CreatedAt = ses_CreatedAt s\<rparr>"

definition h_GetSession :: "pg_conv \<Rightarrow> call_env \<Rightarrow> string \<Rightarrow> gate \<Rightarrow> response" where
  "h_GetSession pg c sessionID g =
    (case GetSession pg c sessionID (gt_db g) of
       Inl err \<Rightarrow>
         if err = ErrNoRows then (404, error_body ''session not found'' [])
         else (500, error_body ''failed to get session'' (error_text err))
     | Inr s \<Rightarrow> (200, SessionBody (session_info s)))"

definition session_status :: "session \<Rightarrow> SessionStatusResponse" where
  "session_status s =
    (let guiActive = (case ses_GUIProtocol s of None \<Rightarrow> False | Some p \<Rightarrow> p \<noteq> []);
         guiPort = (if guiActive then
                      (if ses_GUIProtocol s = Some ''vnc'' then ses_VNCPort s
                       else if ses_GUIProtocol s = Some ''x11'' then ses_X11DisplayPort s else None)
                    else None) in
     \<lparr>ssr_SessionID = ses_ID s, ssr_State = ses_State s, ssr_SSHActive = True, ssr_GUIActive = guiActive,
      ssr_GUIProtocol = ses_GUIProtocol s, ssr_GUIPort = guiPort, ssr_SSHPort = ses_SSHPort s,
      ssr_StartedAt = format_RFC3339 0 (ses_StartedAt s), ssr_UpdatedAt = format_RFC3339 0 (ses_UpdatedAt s)\<rparr>)"

definition SessionStatus :: "pg_conv \<Rightarrow> call_env \<Rightarrow> string \<Rightarrow> gate \<Rightarrow> response" where
  "SessionStatus pg c sessionID g =
    (case GetSession pg c sessionID (gt_db g) of
       Inl err \<Rightarrow>
         if err = ErrNoRows then (404, error_body ''session not found'' [])
         else (500, error_body ''failed to get session'' (error_text err))
     | Inr s \<Rightarrow> (200, StatusBody (session_status s)))"

definition recording_info :: "recording \<Rightarrow> RecordingInfo" where
  "recording_info r =
    \<lparr>ri_ID = rec_ID r, ri_SessionID = rec_SessionID r, ri_UserID = rec_UserID r, ri_DeviceID = rec_DeviceID r,
     ri_FilePath = rec_FilePath r, ri_ByteSize = rec_ByteSize r, ri_DurationSeconds = rec_DurationSeconds r,
     ri_StartedAt = rec_StartedAt r, ri_CompletedAt = rec_CompletedAt r, ri_CreatedAt = rec_CreatedAt r\<rparr>"

definition h_GetRecording :: "pg_conv \<Rightarrow> call_env \<Rightarrow> string \<Rightarrow> gate \<Rightarrow> response" where
  "h_GetRecording pg c recordingID g =
    (case GetRecording pg c recordingID (gt_db g) of
       Inl err \<Rightarrow>
         if err = ErrNoRows then (404, error_body ''recording not found'' [])
         else (500, error_body ''failed to get recording'' (error_text err))
     | Inr r \<Rightarrow> (200, RecordingBody (recording_info r)))"

subsection \<open>Devices, daemon reports and policies\<close>

definition ListPendingDevices :: response where
  "ListPendingDevices = (200, DevicesBody \<lparr>lpd_Devices = [], lpd_Total = 0\<rparr>)"

definition ApproveDevice :: "string \<Rightarrow> go_error + ApproveDeviceRequest \<Rightarrow> response" where
  "ApproveDevice deviceID bind =
    (case bind of
       Inl err \<Rightarrow> (400, error_body ''invalid request'' (error_text err))
     | Inr req \<Rightarrow>
         (200, ApproveBody \<lparr>adp_DeviceID = deviceID, adp_State = ''APPROVED'', adp_PoliciesSynced = False\<rparr>))"

definition DecommissionDevice :: "string \<Rightarrow> go_error + DecommissionDeviceRequest \<Rightarrow> response" where
  "DecommissionDevice deviceID bind =
    (case bind of
       Inl err \<Rightarrow> (400, error_body ''invalid request'' (error_text err))
     | Inr req \<Rightarrow>
         (200, DecommissionBody \<lparr>ddp_DeviceID = deviceID, ddp_SessionsTerminated = 0,
                  ddp_RecordingsDeleted = 0, ddp_AuditLogged = False\<rparr>))"

definition h_ReportSessionStart :: "string \<Rightarrow> go_error + ReportSessionStartRequest \<Rightarrow> response" where
  "h_ReportSessionStart sessionID bind =
    (case bind of
       Inl err \<Rightarrow> (400, error_body ''invalid request'' (error_text err))
     | Inr req \<Rightarrow> (200, ReportBody ''recorded''))"

definition h_ReportSessionEnd :: "string \<Rightarrow> go_error + ReportSessionEndRequest \<Rightarrow> response" where
  "h_ReportSessionEnd sessionID bind =
    (case bind of
       Inl err \<Rightarrow> (400, error_body ''invalid request'' (error_text err))
     | Inr req \<Rightarrow> (200, ReportBody ''acknowledged''))"

definition SyncAccessPolicies :: "go_error + AccessPolicy list \<Rightarrow> gate \<Rightarrow> gate \<times> response" where
  "SyncAccessPolicies bind g =
    (case bind of
       Inl err \<Rightarrow> (g, (400, error_body ''invalid request body'' (error_text err)))
     | Inr policies \<Rightarrow>
        (case SyncPolicies policies (gt_policies g) of
           (cache, Inl err) \<Rightarrow> (g\<lparr>gt_policies := cache\<rparr>, (500, error_body ''failed to sync policies'' (error_text err)))
         | (cache, Inr syncedCount) \<Rightarrow> (g\<lparr>gt_policies := cache\<rparr>, (200, SyncBody True syncedCount))))"

subsection \<open>Looking up by id\<close>

text \<open>
  What the three lookup handlers rely on of a service: how it answers for an id that names no row,
  and that the sentinel \<open>sql.ErrNoRows\<close> never comes out of it. \<open>answer\<close> is the body the handlers share.
\<close>

locale row_lookup =
  fixes get :: "pg_conv \<Rightarrow> call_env \<Rightarrow> string \<Rightarrow> database \<Rightarrow> go_error + 'a"
    and stored :: "string \<Rightarrow> database \<Rightarrow> 'row option"
    and not_found :: "string \<Rightarrow> string"
  assumes no_sentinel: "get pg c k d \<noteq> Inl ErrNoRows"
    and get_missing: "conn_io c 0 = IoOk \<Longrightarrow> uuid_in pg k = Some u \<Longrightarrow> stored u d = None \<Longrightarrow>
      get pg c k d = Inl (errorf (not_found k))"
begin

definition answer :: "string \<Rightarrow> string \<Rightarrow> ('a \<Rightarrow> body) \<Rightarrow> pg_conv \<Rightarrow> call_env \<Rightarrow> string \<Rightarrow> database \<Rightarrow> response" where
  "answer missing failed render pg c k d =
    (case get pg c k d of
       Inl err \<Rightarrow>
         if err = ErrNoRows then (404, error_body missing [])
         else (500, error_body failed (error_text err))
     | Inr x \<Rightarrow> (200, render x))"

lemma answer_status: "fst (answer missing failed render pg c k d) = 200 \<or> fst (answer missing failed render pg c k d) = 500"
  using no_sentinel by (auto simp: answer_def split: sum.split)

lemma answer_not_404: "fst (answer missing failed render pg c k d) \<noteq> 404"
  using answer_status [of missing failed render pg c k d] by auto

lemma answer_missing:
  assumes "conn_io c 0 = IoOk" and "uuid_in pg k = Some u" and "stored u d = None"
  shows "answer missing failed render pg c k d = (500, error_body failed (not_found k))"
  by (simp add: answer_def get_missing [OF assms])

end

interpretation session_lookup: row_lookup GetSession session_get "\<lambda>k. ''session not found: '' @ k"
proof
  show "GetSession pg c k d \<noteq> Inl ErrNoRows" for pg c k d
    by (auto simp: GetSession_def split: sum.splits)
next
  show "GetSession pg c k d = Inl (errorf (''session not found: '' @ k))"
    if "conn_io c 0 = IoOk" "uuid_in pg k = Some u" "session_get u d = None" for pg c k d u
    using that by (simp add: GetSession_def sql_select_session_def bound_def bind_params.simps
        param_class.simps uuid_of_eq scan_one_def)
qed

interpretation recording_lookup: row_lookup GetRecording recording_get "\<lambda>k. ''recording not found: '' @ k"
proof
  show "GetRecording pg c k d \<noteq> Inl ErrNoRows" for pg c k d
    by (auto simp: GetRecording_def split: sum.splits)
qed (rule GetRecording_missing)

lemma lookup_handlers:
  "h_GetSession pg c k g = session_lookup.answer ''session not found'' ''failed to get session''
     (\<lambda>s. SessionBody (session_info s)) pg c k (gt_db g)"
  "SessionStatus pg c k g = session_lookup.answer ''session not found'' ''failed to get session''
     (\<lambda>s. StatusBody (session_status s)) pg c k (gt_db g)"
  "h_GetRecording pg c k g = recording_lookup.answer ''recording not found'' ''failed to get recording''
     (\<lambda>r. RecordingBody (recording_info r)) pg c k (gt_db g)"
  by (simp_all add: h_GetSession_def SessionStatus_def h_GetRecording_def session_lookup.answer_def
      recording_lookup.answer_def)

end
