(* ===== verification/Config.thy ===== *)
theory Config
  imports Strconv
begin

section \<open>Configuration, database connection and migrations\<close>

text \<open>
  \<open>internal/config/config.go\<close>, \<open>internal/db/db.go\<close> and \<open>internal/migrations/runner.go\<close>. The
  environment is a map of variables. Opening and pinging a database, and the steps of the
  migration library, are third-party code and enter as inputs: the error of each, if any.
\<close>

subsection \<open>\<open>Load\<close>\<close>

type_synonym environ = "string \<rightharpoonup> string"

definition Version :: string where "Version = ''v3.1.0''"

record Config =
  cfg_DBHost :: string
  cfg_DBPort :: int
  cfg_DBName :: string
  cfg_DBUser :: string
  cfg_DBPassword :: string
  cfg_SSLMode :: string
  cfg_HTTPPort :: int
  cfg_LogLevel :: string
  cfg_RecordingDir :: string

definition getEnvOrDefault :: "environ \<Rightarrow> string \<Rightarrow> string \<Rightarrow> string" where
  "getEnvOrDefault env key defaultValue = (case env key of Some val \<Rightarrow> val | None \<Rightarrow> defaultValue)"

definition Load :: "environ \<Rightarrow> go_error + Config" where
  "Load env =
    (let cfg = \<lparr>cfg_DBHost = getEnvOrDefault env ''JENNGATE_DB_HOST'' ''localhost'',
                cfg_DBPort = 0,
                cfg_DBName = getEnvOrDefault env ''JENNGATE_DB_NAME'' ''jenngate'',
                cfg_DBUser = getEnvOrDefault env ''JENNGATE_DB_USER'' ''jenngate'',
                cfg_DBPassword = [],
                cfg_SSLMode = getEnvOrDefault env ''JENNGATE_DB_SSLMODE'' ''require'',
                cfg_HTTPPort = 8081,
                cfg_LogLevel = getEnvOrDefault env ''JENNGATE_LOG_LEVEL'' ''info'',
                cfg_RecordingDir = getEnvOrDefault env ''JENNGATE_RECORDING_DIR'' ''/var/lib/jenngate/recordings''\<rparr>
     in
     case Atoi (getEnvOrDefault env ''JENNGATE_DB_PORT'' ''5432'') of
       Inl err \<Rightarrow> Inl (errorf_w ''invalid JENNGATE_DB_PORT: '' err)
     | Inr port \<Rightarrow>
       (if port < 1 \<or> 65535 < port
        then Inl (errorf (''JENNGATE_DB_PORT must be between 1 and 65535, got '' @ itoa port))
        else
         (case Atoi (getEnvOrDefault env ''JENNGATE_HTTP_PORT'' ''8081'') of
            Inl err \<Rightarrow> Inl (errorf_w ''invalid JENNGATE_HTTP_PORT: '' err)
          | Inr httpPort \<Rightarrow>
            (if httpPort < 1 \<or> 65535 < httpPort
             then Inl (errorf (''JENNGATE_HTTP_PORT must be between 1 and 65535, got '' @ itoa httpPort))
             else
              (case env ''JENNGATE_DB_PASSWORD'' of
                 None \<Rightarrow> Inl (errorf ''JENNGATE_DB_PASSWORD environment variable is required'')
               | Some dbPassword \<Rightarrow>
                   Inr (cfg\<lparr>cfg_DBPort := port, cfg_HTTPPort := httpPort, cfg_DBPassword := dbPassword\<rparr>))))))"

definition Config_String :: "Config \<Rightarrow> string" where
  "Config_String c =
     ''Config{DBHost:'' @ cfg_DBHost c @ '' DBPort:'' @ itoa (cfg_DBPort c) @ '' DBName:'' @ cfg_DBName c @
     '' DBUser:'' @ cfg_DBUser c @ '' SSLMode:'' @ cfg_SSLMode c @ '' DBPassword:*** HTTPPort:'' @
     itoa (cfg_HTTPPort c) @ '' LogLevel:'' @ cfg_LogLevel c @ '' RecordingDir:'' @ cfg_RecordingDir c @ ''}''"

subsection \<open>\<open>InitDB\<close>, \<open>Close\<close>, \<open>RunMigrations\<close>\<close>

definition conn_string :: "Config \<Rightarrow> string" where
  "conn_string cfg =
     ''postgresql://'' @ cfg_DBUser cfg @ '':'' @ cfg_DBPassword cfg @ ''@'' @ cfg_DBHost cfg @ '':'' @
     itoa (cfg_DBPort cfg) @ ''/'' @ cfg_DBName cfg @ ''?sslmode='' @ cfg_SSLMode cfg @ ''&connect_timeout=10''"

record pool =
  pool_dsn :: string
  pool_MaxOpenConns :: nat
  pool_MaxIdleConns :: nat

definition InitDB :: "(string \<Rightarrow> go_error option) \<Rightarrow> (string \<Rightarrow> go_error option) \<Rightarrow> Config \<Rightarrow> go_error + pool" where
  "InitDB sql_Open ping cfg =
    (let connString = conn_string cfg in
     case sql_Open connString of
       Some err \<Rightarrow> Inl (errorf_w ''failed to open database: '' err)
     | None \<Rightarrow>
        (case ping connString of
           Some err \<Rightarrow> Inl (errorf_w ''failed to ping database: '' err)
         | None \<Rightarrow> Inr \<lparr>pool_dsn = connString, pool_MaxOpenConns = 10, pool_MaxIdleConns = 5\<rparr>))"

text \<open>\<open>db.Close\<close>: a nil handle is fine; the handle's own \<open>Close\<close> is an input.\<close>

definition Close :: "(pool \<Rightarrow> go_error option) \<Rightarrow> pool option \<Rightarrow> go_error option" where
  "Close handle_Close handle =
    (case handle of
       None \<Rightarrow> None
     | Some p \<Rightarrow> map_option (errorf_w ''failed to close database: '') (handle_Close p))"

datatype up_result = UpDone | UpNoChange | UpFailed go_error

definition RunMigrations :: "(string \<Rightarrow> string \<Rightarrow> go_error option) \<Rightarrow> (string \<Rightarrow> up_result) \<Rightarrow> string \<Rightarrow> go_error option" where
  "RunMigrations migrate_New up dbURL =
    (case migrate_New ''file://migrations'' dbURL of
       Some err \<Rightarrow> Some (errorf_w ''failed to initialize migrations: '' err)
     | None \<Rightarrow>
        (case up dbURL of
           UpFailed err \<Rightarrow> Some (errorf_w ''failed to run migrations: '' err)
         | _ \<Rightarrow> None))"

subsection \<open>Properties\<close>

definition ports_valid :: "Config \<Rightarrow> bool" where
  "ports_valid c \<longleftrightarrow> 1 \<le> cfg_DBPort c \<and> cfg_DBPort c \<le> 65535 \<and> 1 \<le> cfg_HTTPPort c \<and> cfg_HTTPPort c \<le> 65535"

text \<open>The environment that describes a configuration.\<close>

definition env_of :: "Config \<Rightarrow> environ" where
  "env_of c =
     [''JENNGATE_DB_HOST'' \<mapsto> cfg_DBHost c, ''JENNGATE_DB_PORT'' \<mapsto> itoa (cfg_DBPort c),
      ''JENNGATE_DB_NAME'' \<mapsto> cfg_DBName c, ''JENNGATE_DB_USER'' \<mapsto> cfg_DBUser c,
      ''JENNGATE_DB_PASSWORD'' \<mapsto> cfg_DBPassword c, ''JENNGATE_DB_SSLMODE'' \<mapsto> cfg_SSLMode c,
      ''JENNGATE_HTTP_PORT'' \<mapsto> itoa (cfg_HTTPPort c), ''JENNGATE_LOG_LEVEL'' \<mapsto> cfg_LogLevel c,
      ''JENNGATE_RECORDING_DIR'' \<mapsto> cfg_RecordingDir c]"

text \<open>
  C22. Every configuration with ports in 1..65535 can be written into the environment and is loaded
  back exactly; one with a port outside that range is refused.
\<close>

theorem config_env_roundtrip:
  assumes "- (2 ^ 63) \<le> cfg_DBPort c" "cfg_DBPort c < 2 ^ 63"
    and "- (2 ^ 63) \<le> cfg_HTTPPort c" "cfg_HTTPPort c < 2 ^ 63"
  shows "if ports_valid c then Load (env_of c) = Inr c else (\<exists>e. Load (env_of c) = Inl e)"
proof -
  have env: "getEnvOrDefault (env_of c) ''JENNGATE_DB_HOST'' x = cfg_DBHost c"
    "getEnvOrDefault (env_of c) ''JENNGATE_DB_PORT'' x = itoa (cfg_DBPort c)"
    "getEnvOrDefault (env_of c) ''JENNGATE_DB_NAME'' x = cfg_DBName c"
    "getEnvOrDefault (env_of c) ''JENNGATE_DB_USER'' x = cfg_DBUser c"
    "getEnvOrDefault (env_of c) ''JENNGATE_DB_SSLMODE'' x = cfg_SSLMode c"
    "getEnvOrDefault (env_of c) ''JENNGATE_HTTP_PORT'' x = itoa (cfg_HTTPPort c)"
    "getEnvOrDefault (env_of c) ''JENNGATE_LOG_LEVEL'' x = cfg_LogLevel c"
    "getEnvOrDefault (env_of c) ''JENNGATE_RECORDING_DIR'' x = cfg_RecordingDir c"
    "env_of c ''JENNGATE_DB_PASSWORD'' = Some (cfg_DBPassword c)" for x
    by (simp_all add: getEnvOrDefault_def env_of_def)
  have atoi: "Atoi (itoa (cfg_DBPort c)) = Inr (cfg_DBPort c)" "Atoi (itoa (cfg_HTTPPort c)) = Inr (cfg_HTTPPort c)"
    using assms by (simp_all add: Atoi_itoa)
  show ?thesis
    by (auto simp: Load_def Let_def env atoi ports_valid_def)
qed

definition ex_config :: Config where
  "ex_config = \<lparr>cfg_DBHost = ''db'', cfg_DBPort = 5432, cfg_DBName = ''gate'', cfg_DBUser = ''u'',
     cfg_DBPassword = ''p'', cfg_SSLMode = ''disable'', cfg_HTTPPort = 8081, cfg_LogLevel = ''info'',
     cfg_RecordingDir = ''/rec''\<rparr>"

theorem config_env_roundtrip_witness: "Load (env_of ex_config) = Inr ex_config"
  using config_env_roundtrip [of ex_config] by (simp add: ports_valid_def ex_config_def)

lemma Load_Inr:
  assumes "Load env = Inr c"
  shows "Atoi (getEnvOrDefault env ''JENNGATE_DB_PORT'' ''5432'') = Inr (cfg_DBPort c) \<and>
    Atoi (getEnvOrDefault env ''JENNGATE_HTTP_PORT'' ''8081'') = Inr (cfg_HTTPPort c) \<and> ports_valid c \<and>
    env ''JENNGATE_DB_PASSWORD'' = Some (cfg_DBPassword c) \<and>
    cfg_SSLMode c = getEnvOrDefault env ''JENNGATE_DB_SSLMODE'' ''require''"
  using assms unfolding Load_def Let_def
  by (auto simp: ports_valid_def split: sum.splits if_split_asm option.splits)

text \<open>
  A configuration that loads has both ports in range, the password from the environment (a set
  but empty one included) and every unset variable at its default; without the password variable
  nothing loads.
\<close>

theorem config_load_sound:
  assumes "Load env = Inr c"
  shows "ports_valid c \<and> env ''JENNGATE_DB_PASSWORD'' = Some (cfg_DBPassword c) \<and>
    (env ''JENNGATE_DB_PORT'' = None \<longrightarrow> cfg_DBPort c = 5432) \<and>
    (env ''JENNGATE_HTTP_PORT'' = None \<longrightarrow> cfg_HTTPPort c = 8081) \<and>
    (env ''JENNGATE_DB_SSLMODE'' = None \<longrightarrow> cfg_SSLMode c = ''require'') \<and>
    (\<forall>port. env ''JENNGATE_DB_PORT'' = Some port \<longrightarrow> Atoi port = Inr (cfg_DBPort c))"
proof -
  have defaults: "Atoi ''5432'' = Inr 5432" "Atoi ''8081'' = Inr 8081"
    by (simp_all add: Atoi_def ParseInt_def ParseUint_def is_digit_def digit_val_def uint_cutoff_def maxUint64_def)
  show ?thesis
    using Load_Inr [OF assms] defaults by (auto simp: getEnvOrDefault_def)
qed

lemma Load_ex_config: "Load (env_of ex_config) = Inr ex_config"
proof -
  have "- (2 ^ 63) \<le> cfg_DBPort ex_config" "cfg_DBPort ex_config < 2 ^ 63"
    "- (2 ^ 63) \<le> cfg_HTTPPort ex_config" "cfg_HTTPPort ex_config < 2 ^ 63"
    by (simp_all add: ex_config_def)
  then show ?thesis
    by (simp add: Load_def Let_def getEnvOrDefault_def env_of_def Atoi_itoa) (simp add: ex_config_def)
qed

theorem config_load_sound_witness: "ports_valid ex_config"
  using config_load_sound [OF Load_ex_config] by simp

text \<open>Fields that hold none of the delimiters that end them in the connection string.\<close>

definition dsn_plain :: "Config \<Rightarrow> bool" where
  "dsn_plain c \<longleftrightarrow> CHR '':'' \<notin> set (cfg_DBUser c) \<and> CHR ''@'' \<notin> set (cfg_DBPassword c) \<and>
     CHR '':'' \<notin> set (cfg_DBHost c) \<and> CHR ''?'' \<notin> set (cfg_DBName c)"

lemma delimiter_split:
  assumes "a @ ch # x = b @ ch # y" and "ch \<notin> set a" and "ch \<notin> set b"
  shows "a = b \<and> x = y"
  using assms
proof (induction a arbitrary: b)
  case Nil
  then show ?case by (cases b) auto
next
  case (Cons c a)
  then show ?case by (cases b) auto
qed

lemma port_no_slash:
  assumes "1 \<le> p"
  shows "CHR ''/'' \<notin> set (itoa p)"
  using assms digits10_digits [of "CHR ''/''" "nat p"] by (auto simp: itoa_def is_digit_def)

lemma conn_string_determines:
  assumes "conn_string c = conn_string c'" and "dsn_plain c" and "dsn_plain c'"
    and "ports_valid c" and "ports_valid c'"
  shows "cfg_DBUser c = cfg_DBUser c' \<and> cfg_DBPassword c = cfg_DBPassword c' \<and> cfg_DBHost c = cfg_DBHost c' \<and>
    cfg_DBPort c = cfg_DBPort c' \<and> cfg_DBName c = cfg_DBName c' \<and> cfg_SSLMode c = cfg_SSLMode c'"
proof -
  let ?dsn = "\<lambda>c. cfg_DBUser c @ CHR '':'' # cfg_DBPassword c @ CHR ''@'' # cfg_DBHost c @ CHR '':'' #
      itoa (cfg_DBPort c) @ CHR ''/'' # cfg_DBName c @ CHR ''?'' # ''sslmode='' @ cfg_SSLMode c @ ''&connect_timeout=10''"
  have "?dsn c = ?dsn c'" using assms(1) by (simp add: conn_string_def)
  from delimiter_split [OF this] assms(2,3) have user: "cfg_DBUser c = cfg_DBUser c'"
    and rest: "cfg_DBPassword c @ CHR ''@'' # cfg_DBHost c @ CHR '':'' # itoa (cfg_DBPort c) @ CHR ''/'' #
        cfg_DBName c @ CHR ''?'' # ''sslmode='' @ cfg_SSLMode c @ ''&connect_timeout=10'' =
      cfg_DBPassword c' @ CHR ''@'' # cfg_DBHost c' @ CHR '':'' # itoa (cfg_DBPort c') @ CHR ''/'' #
        cfg_DBName c' @ CHR ''?'' # ''sslmode='' @ cfg_SSLMode c' @ ''&connect_timeout=10''"
    by (simp_all add: dsn_plain_def)
  from delimiter_split [OF rest] assms(2,3) have pw: "cfg_DBPassword c = cfg_DBPassword c'"
    and rest: "cfg_DBHost c @ CHR '':'' # itoa (cfg_DBPort c) @ CHR ''/'' #
        cfg_DBName c @ CHR ''?'' # ''sslmode='' @ cfg_SSLMode c @ ''&connect_timeout=10'' =
      cfg_DBHost c' @ CHR '':'' # itoa (cfg_DBPort c') @ CHR ''/'' #
        cfg_DBName c' @ CHR ''?'' # ''sslmode='' @ cfg_SSLMode c' @ ''&connect_timeout=10''"
    by (simp_all add: dsn_plain_def)
  from delimiter_split [OF rest] assms(2,3) have host: "cfg_DBHost c = cfg_DBHost c'"
    and rest: "itoa (cfg_DBPort c) @ CHR ''/'' # cfg_DBName c @ CHR ''?'' # ''sslmode='' @ cfg_SSLMode c @ ''&connect_timeout=10'' =
      itoa (cfg_DBPort c') @ CHR ''/'' # cfg_DBName c' @ CHR ''?'' # ''sslmode='' @ cfg_SSLMode c' @ ''&connect_timeout=10''"
    by (simp_all add: dsn_plain_def)
  have ports: "1 \<le> cfg_DBPort c" "1 \<le> cfg_DBPort c'" using assms(4,5) by (simp_all add: ports_valid_def)
  from delimiter_split [OF rest] ports have port: "itoa (cfg_DBPort c) = itoa (cfg_DBPort c')"
    and rest: "cfg_DBName c @ CHR ''?'' # ''sslmode='' @ cfg_SSLMode c @ ''&connect_timeout=10'' =
      cfg_DBName c' @ CHR ''?'' # ''sslmode='' @ cfg_SSLMode c' @ ''&connect_timeout=10''"
    by (simp_all add: port_no_slash)
  from delimiter_split [OF rest] assms(2,3) have name: "cfg_DBName c = cfg_DBName c'" "cfg_SSLMode c = cfg_SSLMode c'"
    by (simp_all add: dsn_plain_def)
  have "cfg_DBPort c = cfg_DBPort c'" using port ports by (simp add: itoa_def)
  with user pw host name show ?thesis by simp
qed

text \<open>
  C23. The connection string is not escaped. It determines user, password, host, port, name and SSL
  mode as long as no field holds the delimiter that ends it; otherwise it need not: text after an
  \<open>@\<close> in the password reads the same as text before an \<open>@\<close> in the host. What is logged of a
  configuration does not depend on the password.
\<close>

theorem conn_string_unescaped:
  "(conn_string c = conn_string c' \<and> dsn_plain c \<and> dsn_plain c' \<and> ports_valid c \<and> ports_valid c' \<longrightarrow>
      c = c'\<lparr>cfg_HTTPPort := cfg_HTTPPort c, cfg_LogLevel := cfg_LogLevel c, cfg_RecordingDir := cfg_RecordingDir c\<rparr>) \<and>
   conn_string (c\<lparr>cfg_DBPassword := p @ ''@'' @ x, cfg_DBHost := h\<rparr>) =
     conn_string (c\<lparr>cfg_DBPassword := p, cfg_DBHost := x @ ''@'' @ h\<rparr>) \<and>
   Config_String (c\<lparr>cfg_DBPassword := p\<rparr>) = Config_String (c\<lparr>cfg_DBPassword := x\<rparr>)"
proof -
  have "c = c'\<lparr>cfg_HTTPPort := cfg_HTTPPort c, cfg_LogLevel := cfg_LogLevel c, cfg_RecordingDir := cfg_RecordingDir c\<rparr>"
    if "conn_string c = conn_string c'" "dsn_plain c" "dsn_plain c'" "ports_valid c" "ports_valid c'"
    using conn_string_determines [OF that] by (cases c; cases c') simp
  then show ?thesis by (simp add: conn_string_def Config_String_def)
qed

theorem conn_string_unescaped_witness:
  "conn_string (ex_config\<lparr>cfg_DBPassword := ''a@b'', cfg_DBHost := ''h''\<rparr>) =
     conn_string (ex_config\<lparr>cfg_DBPassword := ''a'', cfg_DBHost := ''b@h''\<rparr>)"
  using conn_string_unescaped [where c = ex_config and p = "''a''" and x = "''b''" and h = "''h''"] by simp

end
