(* ===== verification/Startup.thy ===== *)
theory Startup
  imports Handlers Config
begin

section \<open>Startup\<close>

text \<open>
  \<open>cmd/jenngate/main.go\<close>: the steps from the environment to the running server, each of which ends
  the process when it fails. \<open>log.Fatal\<close> exits without running deferred calls, so the database
  handle that \<open>main\<close> means to close on return stays open then. What the outside does is the record
  \<open>start_env\<close>; the database it holds is the one after the migrations.
\<close>

record start_env =
  st_env :: environ
  st_sql_Open :: "string \<Rightarrow> go_error option"
  st_ping :: "string \<Rightarrow> go_error option"
  st_migrate_New :: "string \<Rightarrow> string \<Rightarrow> go_error option"
  st_up :: "string \<Rightarrow> up_result"
  st_lib :: ssh_lib
  st_ca_call :: call_env
  st_db :: database
  st_MkdirAll :: "string \<Rightarrow> go_error option"
  st_rec_ping :: "go_error option"

text \<open>
  The service objects as \<open>main\<close> builds and passes them; what a service keeps in the database is the
  \<open>gate\<close> of the handlers' theory, here it is the handle they hold. A mutex starts unlocked.
\<close>

record SessionService =
  sse_db :: pool

record RecordingService =
  rse_db :: pool
  rse_recordingDir :: string

record Handlers_struct =
  hd_caService :: CAService
  hd_sessionService :: SessionService
  hd_recordingService :: RecordingService
  hd_policyService :: policy_cache
  hd_db :: pool

record DaemonServer =
  ds_sessionService :: SessionService
  ds_recordingService :: RecordingService
  ds_db :: pool

definition NewSessionService :: "pool \<Rightarrow> SessionService" where
  "NewSessionService db = \<lparr>sse_db = db\<rparr>"

definition NewHandlers ::
  "CAService \<Rightarrow> SessionService \<Rightarrow> RecordingService \<Rightarrow> policy_cache \<Rightarrow> pool \<Rightarrow> Handlers_struct" where
  "NewHandlers caService sessionService recordingService policyService db =
     \<lparr>hd_caService = caService, hd_sessionService = sessionService, hd_recordingService = recordingService,
      hd_policyService = policyService, hd_db = db\<rparr>"

definition NewDaemonServer :: "SessionService \<Rightarrow> RecordingService \<Rightarrow> pool \<Rightarrow> DaemonServer" where
  "NewDaemonServer sessionService recordingService db =
     \<lparr>ds_sessionService = sessionService, ds_recordingService = recordingService, ds_db = db\<rparr>"

text \<open>
  The process either died with a message, with or without an open database handle, or reached
  \<open>router.Run\<close>: the handlers with their routes, the HTTP address, the daemon server and its port, and
  the state of the services.
\<close>

record serving =
  srv_gate :: gate
  srv_handlers :: Handlers_struct
  srv_routes :: "((string \<times> string) \<times> route_handler) list"
  srv_addr :: string
  srv_daemon :: DaemonServer
  srv_daemonPort :: int

datatype main_result = Fatal string bool | Serving serving

definition main_conn_string :: "Config \<Rightarrow> string" where
  "main_conn_string cfg =
     ''postgresql://'' @ cfg_DBUser cfg @ '':'' @ cfg_DBPassword cfg @ ''@'' @ cfg_DBHost cfg @ '':'' @
     itoa (cfg_DBPort cfg) @ ''/'' @ cfg_DBName cfg @ ''?sslmode='' @ cfg_SSLMode cfg"

definition main :: "start_env \<Rightarrow> main_result" where
  "main e =
    (case Load (st_env e) of
       Inl err \<Rightarrow> Fatal (''Failed to load config:'' @ error_text err) False
     | Inr cfg \<Rightarrow>
    (case InitDB (st_sql_Open e) (st_ping e) cfg of
       Inl err \<Rightarrow> Fatal (''Failed to initialize database:'' @ error_text err) False
     | Inr database \<Rightarrow>
    (case RunMigrations (st_migrate_New e) (st_up e) (main_conn_string cfg) of
       Some err \<Rightarrow> Fatal (''Failed to run migrations:'' @ error_text err) True
     | None \<Rightarrow>
    (case NewCAService (st_lib e) (st_ca_call e) (st_db e) of
       Inl err \<Rightarrow> Fatal (''Failed to initialize CA service:'' @ error_text err) True
     | Inr caService \<Rightarrow>
    (case NewRecordingService (st_MkdirAll e) (st_rec_ping e) (cfg_RecordingDir cfg) of
       Inl err \<Rightarrow> Fatal (''Failed to initialize recording service:'' @ error_text err) True
     | Inr recordingDir \<Rightarrow>
       (let sessionSvc = NewSessionService database;
            recordingSvc = \<lparr>rse_db = database, rse_recordingDir = recordingDir\<rparr>;
            policySvc = NewPolicyService in
        if GetPublicKey caService = []
        then Fatal ''CA public key is not available'' True
        else Serving
          \<lparr>srv_gate = \<lparr>gt_db = st_db e, gt_ca = caService, gt_policies = policySvc\<rparr>,
           srv_handlers = NewHandlers caService sessionSvc recordingSvc policySvc database,
           srv_routes = RegisterRoutes, srv_addr = '':'' @ itoa (cfg_HTTPPort cfg),
           srv_daemon = NewDaemonServer sessionSvc recordingSvc database, srv_daemonPort = 9090\<rparr>))))))"

lemma InitDB_Inr:
  "InitDB op pg cfg = Inr p \<longleftrightarrow> op (conn_string cfg) = None \<and> pg (conn_string cfg) = None \<and>
     p = \<lparr>pool_dsn = conn_string cfg, pool_MaxOpenConns = 10, pool_MaxIdleConns = 5\<rparr>"
  by (auto simp: InitDB_def Let_def split: option.splits)

lemma RunMigrations_None:
  "RunMigrations mn up url = None \<longleftrightarrow> mn ''file://migrations'' url = None \<and> (\<forall>err. up url \<noteq> UpFailed err)"
  by (auto simp: RunMigrations_def split: option.splits up_result.splits)

lemma main_Serving:
  "main e = Serving s \<longleftrightarrow>
    (\<exists>cfg ca dir p. Load (st_env e) = Inr cfg \<and> InitDB (st_sql_Open e) (st_ping e) cfg = Inr p \<and>
       RunMigrations (st_migrate_New e) (st_up e) (main_conn_string cfg) = None \<and>
       NewCAService (st_lib e) (st_ca_call e) (st_db e) = Inr ca \<and>
       NewRecordingService (st_MkdirAll e) (st_rec_ping e) (cfg_RecordingDir cfg) = Inr dir \<and>
       GetPublicKey ca \<noteq> [] \<and>
       s = \<lparr>srv_gate = \<lparr>gt_db = st_db e, gt_ca = ca, gt_policies = NewPolicyService\<rparr>,
            srv_handlers = NewHandlers ca (NewSessionService p) \<lparr>rse_db = p, rse_recordingDir = dir\<rparr> NewPolicyService p,
            srv_routes = RegisterRoutes, srv_addr = '':'' @ itoa (cfg_HTTPPort cfg),
            srv_daemon = NewDaemonServer (NewSessionService p) \<lparr>rse_db = p, rse_recordingDir = dir\<rparr> p,
            srv_daemonPort = 9090\<rparr>)"
  by (auto simp: main_def Let_def split: sum.splits option.splits)

text \<open>Both connection strings name the same database.\<close>

lemma conn_strings_agree: "conn_string cfg = main_conn_string cfg @ ''&connect_timeout=10''"
  by (simp add: conn_string_def main_conn_string_def)

end
