(* ===== verification/RWMutex.thy ===== *)
theory RWMutex
  imports Main
begin

section \<open>Methods under a read-write lock\<close>

text \<open>
  The three services guard their methods with a \<open>sync.RWMutex\<close>: a method takes it with \<open>Lock\<close> or
  \<open>RLock\<close> at its start and gives it back by \<open>defer\<close> when it returns. This theory is that discipline
  for any methods: a call runs statement by statement between taking and giving back the lock, and
  the statements of calls that hold it together interleave. The theories of the services give the
  statements of their methods and which methods take the lock exclusively.
\<close>

subsection \<open>Goroutines and the lock\<close>

text \<open>\<open>'c\<close> calls, \<open>'l\<close> the point a running call has reached with its local variables, \<open>'r\<close> results.\<close>

datatype ('c, 'l, 'r) goroutine =
    Idle
  | Waiting 'c
  | Running 'c 'l
  | Returning 'c 'r

text \<open>The log is for the proofs: the calls that ran their last statement, in that order.\<close>

record ('s, 'c, 'l, 'r) monitor =
  mon_data :: 's
  mon_readers :: "nat set"
  mon_writer :: "nat option"
  mon_pc :: "nat \<Rightarrow> ('c, 'l, 'r) goroutine"
  mon_log :: "('c \<times> 'r) list"

text \<open>
  \<open>start c\<close> is the first statement of the call, \<open>act l s\<close> runs the statement at \<open>l\<close> and gives the
  next point or the result, and \<open>excl c\<close> says that the call uses \<open>Lock\<close>. A pending \<open>Lock\<close> of Go also
  holds back later readers; the model allows them, so it has every schedule of the code.
\<close>

inductive monitor_step ::
  "('c \<Rightarrow> 'l) \<Rightarrow> ('l \<Rightarrow> 's \<Rightarrow> 's \<times> ('l + 'r)) \<Rightarrow> ('c \<Rightarrow> bool) \<Rightarrow>
   ('s, 'c, 'l, 'r) monitor \<Rightarrow> ('s, 'c, 'l, 'r) monitor \<Rightarrow> bool" for start act excl where
  call: "mon_pc s i = Idle \<Longrightarrow>
     monitor_step start act excl s (s\<lparr>mon_pc := (mon_pc s)(i := Waiting c)\<rparr>)"
| rlock: "mon_pc s i = Waiting c \<Longrightarrow> \<not> excl c \<Longrightarrow> mon_writer s = None \<Longrightarrow>
     monitor_step start act excl s
       (s\<lparr>mon_pc := (mon_pc s)(i := Running c (start c)), mon_readers := insert i (mon_readers s)\<rparr>)"
| lock: "mon_pc s i = Waiting c \<Longrightarrow> excl c \<Longrightarrow> mon_writer s = None \<Longrightarrow> mon_readers s = {} \<Longrightarrow>
     monitor_step start act excl s
       (s\<lparr>mon_pc := (mon_pc s)(i := Running c (start c)), mon_writer := Some i\<rparr>)"
| more: "mon_pc s i = Running c l \<Longrightarrow> act l (mon_data s) = (s', Inl l') \<Longrightarrow>
     monitor_step start act excl s (s\<lparr>mon_data := s', mon_pc := (mon_pc s)(i := Running c l')\<rparr>)"
| finish: "mon_pc s i = Running c l \<Longrightarrow> act l (mon_data s) = (s', Inr r) \<Longrightarrow>
     monitor_step start act excl s
       (s\<lparr>mon_data := s', mon_pc := (mon_pc s)(i := Returning c r), mon_log := mon_log s @ [(c, r)]\<rparr>)"
| unlock: "mon_pc s i = Returning c r \<Longrightarrow>
     monitor_step start act excl s
       (s\<lparr>mon_pc := (mon_pc s)(i := Idle), mon_readers := mon_readers s - {i},
          mon_writer := (if mon_writer s = Some i then None else mon_writer s)\<rparr>)"

definition monitor_init :: "'s \<Rightarrow> ('s, 'c, 'l, 'r) monitor" where
  "monitor_init d =
     \<lparr>mon_data = d, mon_readers = {}, mon_writer = None, mon_pc = (\<lambda>_. Idle), mon_log = []\<rparr>"

inductive monitor_reach ::
  "('c \<Rightarrow> 'l) \<Rightarrow> ('l \<Rightarrow> 's \<Rightarrow> 's \<times> ('l + 'r)) \<Rightarrow> ('c \<Rightarrow> bool) \<Rightarrow> 's \<Rightarrow>
   ('s, 'c, 'l, 'r) monitor \<Rightarrow> bool" for start act excl d where
  init: "monitor_reach start act excl d (monitor_init d)"
| step: "monitor_reach start act excl d s \<Longrightarrow> monitor_step start act excl s t \<Longrightarrow>
     monitor_reach start act excl d t"

lemma monitor_init_simps [simp]:
  "mon_data (monitor_init d) = d" "mon_readers (monitor_init d) = {}"
  "mon_writer (monitor_init d) = None" "mon_pc (monitor_init d) = (\<lambda>_. Idle)"
  "mon_log (monitor_init d) = []"
  by (simp_all add: monitor_init_def)

text \<open>The call a goroutine is inside of: it holds the lock.\<close>

fun in_call :: "('c, 'l, 'r) goroutine \<Rightarrow> 'c option" where
  "in_call (Running c _) = Some c"
| "in_call (Returning c _) = Some c"
| "in_call _ = None"

definition shares :: "('c \<Rightarrow> bool) \<Rightarrow> ('c, 'l, 'r) goroutine \<Rightarrow> bool" where
  "shares excl g \<longleftrightarrow> (case in_call g of None \<Rightarrow> False | Some c \<Rightarrow> \<not> excl c)"

definition owns :: "('c \<Rightarrow> bool) \<Rightarrow> ('c, 'l, 'r) goroutine \<Rightarrow> bool" where
  "owns excl g \<longleftrightarrow> (case in_call g of None \<Rightarrow> False | Some c \<Rightarrow> excl c)"

lemma holds_simps [simp]:
  "shares excl Idle = False" "shares excl (Waiting c) = False"
  "shares excl (Running c l) = (\<not> excl c)" "shares excl (Returning c r) = (\<not> excl c)"
  "owns excl Idle = False" "owns excl (Waiting c) = False"
  "owns excl (Running c l) = excl c" "owns excl (Returning c r) = excl c"
  by (simp_all add: shares_def owns_def)

text \<open>The lock's bookkeeping agrees with the goroutines, and a writer excludes readers.\<close>

definition lock_inv :: "('c \<Rightarrow> bool) \<Rightarrow> ('s, 'c, 'l, 'r) monitor \<Rightarrow> bool" where
  "lock_inv excl s \<longleftrightarrow>
     (\<forall>i. i \<in> mon_readers s \<longleftrightarrow> shares excl (mon_pc s i)) \<and>
     (\<forall>i. mon_writer s = Some i \<longleftrightarrow> owns excl (mon_pc s i)) \<and>
     (mon_writer s = None \<or> mon_readers s = {})"

lemma lock_inv_step:
  "monitor_step start act excl s t \<Longrightarrow> lock_inv excl s \<Longrightarrow> lock_inv excl t"
proof (induction rule: monitor_step.induct)
  case (lock s i c)
  then have "\<not> owns excl (mon_pc s j)" for j by (auto simp: lock_inv_def)
  with lock show ?case by (auto simp: lock_inv_def)
next
  case (unlock s i c r)
  show ?case
  proof (cases "mon_writer s = Some i")
    case True
    with unlock have "owns excl (mon_pc s j) \<Longrightarrow> j = i" for j
      by (metis lock_inv_def option.inject)
    with True unlock show ?thesis by (auto simp: lock_inv_def)
  next
    case False
    with unlock show ?thesis by (auto simp: lock_inv_def)
  qed
qed (auto simp: lock_inv_def)

lemma lock_inv_init: "lock_inv excl (monitor_init d)"
  by (simp add: lock_inv_def)

lemma reach_lock_inv: "monitor_reach start act excl d s \<Longrightarrow> lock_inv excl s"
  by (induction rule: monitor_reach.induct) (auto intro: lock_inv_step lock_inv_init)

lemma owner_alone:
  assumes "lock_inv excl s" and "in_call (mon_pc s i) = Some c" and "excl c"
    and "in_call (mon_pc s j) = Some c'"
  shows "j = i"
proof -
  have "owns excl (mon_pc s i)" using assms(2,3) by (simp add: owns_def)
  then have w: "mon_writer s = Some i" "mon_readers s = {}"
    using assms(1) by (auto simp: lock_inv_def)
  from assms(4) have "owns excl (mon_pc s j) \<or> shares excl (mon_pc s j)"
    by (simp add: owns_def shares_def)
  with assms(1) w show ?thesis by (metis empty_iff lock_inv_def option.inject)
qed

text \<open>An invariant of the data, of the points reached and of the calls made.\<close>

lemma reach_invariant:
  assumes "monitor_reach start act excl d s" and "D d" and "\<And>c. L c (start c)"
    and "\<And>c l s s' l'. D s \<Longrightarrow> L c l \<Longrightarrow> act l s = (s', Inl l') \<Longrightarrow> D s' \<and> L c l'"
    and "\<And>c l s s' r. D s \<Longrightarrow> L c l \<Longrightarrow> act l s = (s', Inr r) \<Longrightarrow> D s'"
  shows "D (mon_data s) \<and> (\<forall>i c l. mon_pc s i = Running c l \<longrightarrow> L c l)"
  using assms(1)
proof (induction rule: monitor_reach.induct)
  case init
  show ?case using assms(2) by simp
next
  case (step s t)
  have IH: "D (mon_data s)" "\<And>i c l. mon_pc s i = Running c l \<Longrightarrow> L c l"
    using step.IH by blast+
  from step.hyps(2) show ?case
  proof (cases rule: monitor_step.cases)
    case (more i c l s' l')
    with IH assms(4) [OF IH(1) IH(2) more(3)] show ?thesis by auto
  next
    case (finish i c l s' r)
    with IH assms(5) [OF IH(1) IH(2) finish(3)] show ?thesis by auto
  qed (use IH assms(3) in auto)
qed

subsection \<open>Calls that run on their own\<close>

inductive completes :: "('l \<Rightarrow> 's \<Rightarrow> 's \<times> ('l + 'r)) \<Rightarrow> 'l \<Rightarrow> 's \<Rightarrow> 's \<Rightarrow> 'r \<Rightarrow> bool" for act where
  last_one: "act l s = (s', Inr r) \<Longrightarrow> completes act l s s' r"
| one_more: "act l s = (s', Inl l') \<Longrightarrow> completes act l' s' s'' r \<Longrightarrow> completes act l s s'' r"

lemma completes_determ:
  "completes act l s s' r \<Longrightarrow> completes act l s s'' q \<Longrightarrow> s'' = s' \<and> q = r"
proof (induction arbitrary: s'' q rule: completes.induct)
  case (last_one l s s' r)
  from last_one.prems show ?case
  proof cases
    case last_one
    with \<open>act l s = (s', Inr r)\<close> show ?thesis by simp
  next
    case one_more
    with \<open>act l s = (s', Inr r)\<close> show ?thesis by simp
  qed
next
  case (one_more l s s' l' t r)
  from one_more.prems show ?case
  proof cases
    case last_one
    with \<open>act l s = (s', Inl l')\<close> show ?thesis by simp
  next
    case (one_more u k)
    with \<open>act l s = (s', Inl l')\<close> have "completes act l' s' s'' q" by simp
    then show ?thesis by (rule one_more.IH)
  qed
qed

text \<open>A history of whole calls, one after the other, with the results they would have.\<close>

fun replay :: "('c \<Rightarrow> 's \<Rightarrow> 's \<times> 'r) \<Rightarrow> 's \<Rightarrow> ('c \<times> 'r) list \<Rightarrow> 's option" where
  "replay meth s [] = Some s"
| "replay meth s ((c, r) # h) = (if snd (meth c s) = r then replay meth (fst (meth c s)) h else None)"

definition effects :: "('c \<Rightarrow> 's \<Rightarrow> 's \<times> 'r) \<Rightarrow> ('c \<times> 'r) list \<Rightarrow> 's \<Rightarrow> 's" where
  "effects meth h s = fold (\<lambda>(c, _) s. fst (meth c s)) h s"

lemma effects_append: "effects meth (h @ h') s = effects meth h' (effects meth h s)"
  by (simp add: effects_def)

lemma effects_Cons: "effects meth (x # h) s = effects meth h (fst (meth (fst x) s))"
  by (simp add: effects_def split_beta)

lemma replay_append:
  "replay meth s (h @ [(c, r)]) =
     (case replay meth s h of None \<Rightarrow> None
      | Some s' \<Rightarrow> if snd (meth c s') = r then Some (fst (meth c s')) else None)"
  by (induction h arbitrary: s) auto

lemma replay_effects: "replay meth s h = Some s' \<Longrightarrow> s' = effects meth h s"
  by (induction h arbitrary: s) (auto simp: effects_def split: if_splits)

lemma replay_result:
  "replay meth s h = Some s' \<Longrightarrow> n < length h \<Longrightarrow> h ! n = (c, r) \<Longrightarrow>
     snd (meth c (effects meth (take n h) s)) = r"
proof (induction h arbitrary: s n)
  case (Cons a h)
  obtain c' r' where a: "a = (c', r')" by (cases a) auto
  show ?case
  proof (cases n)
    case 0
    with Cons.prems a show ?thesis by (simp add: effects_def split: if_splits)
  next
    case (Suc k)
    with Cons.prems a Cons.IH [of "fst (meth c' s)" k] show ?thesis
      by (simp add: effects_def split: if_splits)
  qed
qed simp

subsection \<open>Every call can return\<close>

text \<open>Methods whose calls end: each statement leads to a point that is nearer to the end.\<close>

locale rw_monitor =
  fixes start :: "'c \<Rightarrow> 'l"
    and act :: "'l \<Rightarrow> 's \<Rightarrow> 's \<times> ('l + 'r)"
    and excl :: "'c \<Rightarrow> bool"
    and cost :: "'l \<Rightarrow> nat"
  assumes act_cost: "act l s = (s', Inl l') \<Longrightarrow> cost l' < cost l"
begin

text \<open>How far a goroutine is from being idle, and all of them together.\<close>

fun steps_left :: "('c, 'l, 'r) goroutine \<Rightarrow> nat" where
  "steps_left Idle = 0"
| "steps_left (Waiting c) = cost (start c) + 3"
| "steps_left (Running c l) = cost l + 2"
| "steps_left (Returning c r) = 1"

definition busy :: "(nat \<Rightarrow> ('c, 'l, 'r) goroutine) \<Rightarrow> nat set" where
  "busy pc = {i. pc i \<noteq> Idle}"

definition work_left :: "(nat \<Rightarrow> ('c, 'l, 'r) goroutine) \<Rightarrow> nat" where
  "work_left pc = (\<Sum>i \<in> busy pc. steps_left (pc i))"

lemma busy_upd: "finite (busy pc) \<Longrightarrow> finite (busy (pc(i := g)))"
  by (rule finite_subset [of _ "insert i (busy pc)"]) (auto simp: busy_def)

lemma work_left_less:
  assumes "finite (busy pc)" and "steps_left g < steps_left (pc i)"
  shows "work_left (pc(i := g)) < work_left pc"
proof -
  have i: "i \<in> busy pc" using assms(2) by (cases "pc i") (auto simp: busy_def)
  have "work_left (pc(i := g)) = (\<Sum>j \<in> busy pc. steps_left ((pc(i := g)) j))"
    unfolding work_left_def using assms(1) i by (intro sum.mono_neutral_left) (auto simp: busy_def)
  also have "\<dots> < (\<Sum>j \<in> busy pc. steps_left (pc j))"
    using assms i by (intro sum_strict_mono_ex1) auto
  finally show ?thesis by (simp add: work_left_def)
qed

lemma reach_busy_finite: "monitor_reach start act excl d s \<Longrightarrow> finite (busy (mon_pc s))"
proof (induction rule: monitor_reach.induct)
  case init
  show ?case by (simp add: busy_def)
next
  case (step s t)
  from step.hyps(2) step.IH show ?case
    by (cases rule: monitor_step.cases) (simp_all add: busy_upd del: fun_upd_apply)
qed

text \<open>A goroutine that holds the lock can go on, and when none holds it a waiting one can take it.\<close>

abbreviation goes_on :: "('s, 'c, 'l, 'r) monitor \<Rightarrow> nat \<Rightarrow> bool" where
  "goes_on s i \<equiv> \<exists>t g. monitor_step start act excl s t \<and> mon_pc t = (mon_pc s)(i := g) \<and>
     steps_left g < steps_left (mon_pc s i)"

lemma holder_goes_on:
  assumes "in_call (mon_pc s i) = Some c"
  shows "goes_on s i"
proof (cases "mon_pc s i")
  case (Running c l)
  obtain s' x where "act l (mon_data s) = (s', x)" by fastforce
  then show ?thesis
    using monitor_step.more [of s i c l act s'] monitor_step.finish [of s i c l act s'] Running act_cost
    by (cases x) fastforce+
next
  case (Returning c r)
  from monitor_step.unlock [of s i c r start act excl, OF Returning] Returning show ?thesis by fastforce
qed (use assms in simp_all)

lemma waiting_gets_lock:
  assumes "lock_inv excl s" and "\<And>j. in_call (mon_pc s j) = None" and "mon_pc s i = Waiting c"
  shows "goes_on s i"
proof -
  have "mon_writer s = None" "mon_readers s = {}"
    using assms(1,2) by (auto simp: lock_inv_def owns_def shares_def)
  then show ?thesis
    using monitor_step.lock [of s i c excl start act] monitor_step.rlock [of s i c excl start act] assms(3)
    by (cases "excl c") fastforce+
qed

lemma some_call_goes_on:
  assumes "lock_inv excl s" and "busy (mon_pc s) \<noteq> {}"
  shows "\<exists>i. goes_on s i"
proof (cases "\<exists>j. in_call (mon_pc s j) \<noteq> None")
  case True
  then show ?thesis using holder_goes_on by fast
next
  case False
  from assms(2) obtain i where "mon_pc s i \<noteq> Idle" by (auto simp: busy_def)
  moreover have "in_call (mon_pc s i) = None" using False by blast
  ultimately obtain c where "mon_pc s i = Waiting c" by (cases "mon_pc s i") simp_all
  with False show ?thesis using waiting_gets_lock [OF assms(1), of i c] by blast
qed

lemma all_can_return:
  assumes "monitor_reach start act excl d s"
  shows "\<exists>t. (monitor_step start act excl)\<^sup>*\<^sup>* s t \<and> (\<forall>i. mon_pc t i = Idle) \<and>
    mon_readers t = {} \<and> mon_writer t = None"
  using assms
proof (induction "work_left (mon_pc s)" arbitrary: s rule: less_induct)
  case less
  note inv = reach_lock_inv [OF less.prems]
  show ?case
  proof (cases "busy (mon_pc s) = {}")
    case True
    then have idle: "mon_pc s i = Idle" for i by (auto simp: busy_def)
    then have "mon_readers s = {}" "mon_writer s = None" using inv by (auto simp: lock_inv_def)
    with idle show ?thesis by blast
  next
    case False
    from some_call_goes_on [OF inv this] obtain t i g where t: "monitor_step start act excl s t"
      "mon_pc t = (mon_pc s)(i := g)" "steps_left g < steps_left (mon_pc s i)" by blast
    then have "work_left (mon_pc t) < work_left (mon_pc s)"
      using work_left_less reach_busy_finite [OF less.prems] by simp
    from less.hyps [OF this monitor_reach.step [OF less.prems t(1)]] t(1) show ?thesis
      by (meson converse_rtranclp_into_rtranclp)
  qed
qed

end

subsection \<open>When the readers only read\<close>

text \<open>
  If the calls that share the lock change nothing (\<open>reading\<close> holds at each of their points), then
  interleaving them is not seen: the log replays as whole calls, one after the other, with the
  results they returned. \<open>meth\<close> is the method as one step.
\<close>

locale rw_atomic = rw_monitor start act excl cost
  for start :: "'c \<Rightarrow> 'l"
    and act :: "'l \<Rightarrow> 's \<Rightarrow> 's \<times> ('l + 'r)"
    and excl :: "'c \<Rightarrow> bool"
    and cost :: "'l \<Rightarrow> nat" +
  fixes reading :: "'l \<Rightarrow> bool"
    and meth :: "'c \<Rightarrow> 's \<Rightarrow> 's \<times> 'r"
  assumes reading_start: "\<not> excl c \<Longrightarrow> reading (start c)"
    and reading_act: "reading l \<Longrightarrow> act l s = (s', x) \<Longrightarrow> s' = s"
    and reading_next: "reading l \<Longrightarrow> act l s = (s', Inl l') \<Longrightarrow> reading l'"
    and meth_completes: "completes act (start c) s (fst (meth c s)) (snd (meth c s))"
begin

lemma completes_meth: "completes act (start c) s s' r \<Longrightarrow> meth c s = (s', r)"
  using completes_determ [OF meth_completes] by (metis prod.collapse)

definition readers_read :: "('s, 'c, 'l, 'r) monitor \<Rightarrow> bool" where
  "readers_read s \<longleftrightarrow> (\<forall>i c l. mon_pc s i = Running c l \<longrightarrow> \<not> excl c \<longrightarrow> reading l)"

definition no_writer_runs :: "('s, 'c, 'l, 'r) monitor \<Rightarrow> bool" where
  "no_writer_runs s \<longleftrightarrow> (\<forall>i c l. mon_pc s i = Running c l \<longrightarrow> \<not> excl c)"

lemma readers_read_step:
  "monitor_step start act excl s t \<Longrightarrow> readers_read s \<Longrightarrow> readers_read t"
  by (induction rule: monitor_step.induct)
     (auto simp: readers_read_def split: if_splits intro: reading_start reading_next)

lemma reach_readers_read: "monitor_reach start act excl d s \<Longrightarrow> readers_read s"
proof (induction rule: monitor_reach.induct)
  case init
  show ?case by (simp add: readers_read_def)
qed (rule readers_read_step)

text \<open>\<open>b\<close> is the data after the calls of the log; the running calls all started on it.\<close>

definition sequential :: "'s \<Rightarrow> 's \<Rightarrow> ('s, 'c, 'l, 'r) monitor \<Rightarrow> bool" where
  "sequential d b s \<longleftrightarrow> replay meth d (mon_log s) = Some b \<and> (no_writer_runs s \<longrightarrow> mon_data s = b) \<and>
     (\<forall>i c l s' r. mon_pc s i = Running c l \<longrightarrow> completes act l (mon_data s) s' r \<longrightarrow>
        completes act (start c) b s' r)"

text \<open>A statement of a call changes the data only when no other call holds the lock.\<close>

lemma act_alone:
  assumes "lock_inv excl s" and "readers_read s" and "mon_pc s i = Running c l"
    and "act l (mon_data s) = (s', x)"
  shows "s' = mon_data s \<or> excl c \<and> (\<forall>j. in_call (mon_pc s j) \<noteq> None \<longrightarrow> j = i)"
proof (cases "excl c")
  case True
  with assms(1,3) have "in_call (mon_pc s j) = Some c' \<Longrightarrow> j = i" for j c'
    using owner_alone [of excl s i c j c'] by simp
  with True show ?thesis by auto
next
  case False
  with assms show ?thesis by (metis reading_act readers_read_def)
qed

lemma sequential_act_more:
  assumes "lock_inv excl s" and "readers_read s" and "sequential d b s"
    and pc: "mon_pc s i = Running c l" and a: "act l (mon_data s) = (s', Inl l')"
  shows "sequential d b (s\<lparr>mon_data := s', mon_pc := (mon_pc s)(i := Running c l')\<rparr>)"
proof -
  have own: "completes act l' s' s'' r \<Longrightarrow> completes act (start c) b s'' r" for s'' r
    using assms(3) pc completes.one_more [of act l "mon_data s", OF a] by (auto simp: sequential_def)
  have data: "s' = mon_data s \<or> (excl c \<and> (\<forall>j. in_call (mon_pc s j) \<noteq> None \<longrightarrow> j = i))"
    using act_alone [OF assms(1,2) pc a] .
  have w: "no_writer_runs (s\<lparr>mon_data := s', mon_pc := (mon_pc s)(i := Running c l')\<rparr>) \<Longrightarrow>
      \<not> excl c \<and> no_writer_runs s"
    using pc unfolding no_writer_runs_def by simp (metis goroutine.inject(2))
  have others: "completes act (start c') b s'' r"
    if "j \<noteq> i" "mon_pc s j = Running c' k" "completes act k s' s'' r" for j c' k s'' r
    using data that assms(3) by (force simp: sequential_def)
  show ?thesis
    unfolding sequential_def
    using assms(3) w data own others by (auto simp: sequential_def)
qed

lemma sequential_act_finish:
  assumes "lock_inv excl s" and "readers_read s" and "sequential d b s"
    and pc: "mon_pc s i = Running c l" and a: "act l (mon_data s) = (s', Inr r)"
  shows "sequential d s'
    (s\<lparr>mon_data := s', mon_pc := (mon_pc s)(i := Returning c r), mon_log := mon_log s @ [(c, r)]\<rparr>)"
proof -
  have "completes act (start c) b s' r"
    using assms(3) pc completes.last_one [of act l "mon_data s", OF a] by (auto simp: sequential_def)
  then have meth: "meth c b = (s', r)" by (rule completes_meth)
  have data: "s' = mon_data s \<or> (excl c \<and> (\<forall>j. in_call (mon_pc s j) \<noteq> None \<longrightarrow> j = i))"
    using act_alone [OF assms(1,2) pc a] .
  have others: "completes act (start c') s' s'' q"
    if "j \<noteq> i" "mon_pc s j = Running c' k" "completes act k s' s'' q" for j c' k s'' q
  proof -
    have s': "s' = mon_data s" using data that by auto
    have "\<not> excl f" if m: "mon_pc s m = Running f p" for m f p
    proof
      assume "excl f"
      then have "i = m" "j = m"
        using owner_alone [OF assms(1), of m f] pc m \<open>mon_pc s j = Running c' k\<close> by simp_all
      with \<open>j \<noteq> i\<close> show False by simp
    qed
    then have "mon_data s = b" using assms(3) by (auto simp: sequential_def no_writer_runs_def)
    with that s' assms(3) show ?thesis by (auto simp: sequential_def)
  qed
  show ?thesis
    unfolding sequential_def
    using assms(3) meth data others by (auto simp: sequential_def replay_append)
qed

lemma sequential_take:
  assumes "sequential d b s" and "no_writer_runs s"
  shows "sequential d b (s\<lparr>mon_pc := (mon_pc s)(i := Running c (start c)), mon_readers := R, mon_writer := w\<rparr>)"
  using assms by (auto simp: sequential_def)

lemma sequential_outside:
  assumes "sequential d b s" and "\<And>c l. mon_pc s i \<noteq> Running c l" and "\<And>c l. g \<noteq> Running c l"
  shows "sequential d b (s\<lparr>mon_pc := (mon_pc s)(i := g), mon_readers := R, mon_writer := w\<rparr>)"
proof -
  have run: "((mon_pc s)(i := g)) j = Running c l \<longleftrightarrow> mon_pc s j = Running c l" for j c l
    using assms(2,3) by auto
  show ?thesis
    using assms(1) by (simp add: sequential_def no_writer_runs_def run del: fun_upd_apply)
qed

lemma sequential_step:
  assumes "monitor_step start act excl s t" and "lock_inv excl s" and "readers_read s"
    and "sequential d b s"
  shows "\<exists>b'. sequential d b' t"
  using assms(1)
proof (cases rule: monitor_step.cases)
  case (call i c)
  with sequential_outside [OF assms(4), where i = i and g = "Waiting c" and R = "mon_readers s" and w = "mon_writer s"] show ?thesis
    by (intro exI [of _ b]) simp
next
  case (rlock i c)
  have "no_writer_runs s"
    using assms(2) rlock(4) unfolding no_writer_runs_def lock_inv_def by (metis holds_simps(7) option.distinct(1))
  from sequential_take [OF assms(4) this, where i = i and c = c and R = "insert i (mon_readers s)" and w = "mon_writer s"] rlock(1) show ?thesis
    by (intro exI [of _ b]) simp
next
  case (lock i c)
  have "no_writer_runs s"
    using assms(2) lock(4) unfolding no_writer_runs_def lock_inv_def by (metis holds_simps(7) option.distinct(1))
  from sequential_take [OF assms(4) this, where i = i and c = c and R = "mon_readers s" and w = "Some i"] lock(1) show ?thesis
    by (intro exI [of _ b]) simp
next
  case (more i c l s' l')
  from sequential_act_more [OF assms(2-4) more(2,3)] more(1) show ?thesis by blast
next
  case (finish i c l s' r)
  from sequential_act_finish [OF assms(2-4) finish(2,3)] finish(1) show ?thesis by blast
next
  case (unlock i c r)
  with sequential_outside [OF assms(4), where i = i and g = Idle and R = "mon_readers s - {i}"
        and w = "if mon_writer s = Some i then None else mon_writer s"] show ?thesis
    by (intro exI [of _ b]) simp
qed

lemma reach_sequential:
  assumes "monitor_reach start act excl d s"
  shows "\<exists>b. sequential d b s"
  using assms
proof (induction rule: monitor_reach.induct)
  case init
  have "sequential d d (monitor_init d)" by (simp add: sequential_def)
  then show ?case ..
next
  case (step s t)
  from step.IH obtain b where "sequential d b s" ..
  from sequential_step [OF step.hyps(2) reach_lock_inv [OF step.hyps(1)] reach_readers_read [OF step.hyps(1)] this]
  show ?case .
qed

lemma linearizable:
  assumes "monitor_reach start act excl d s"
  shows "\<exists>b. replay meth d (mon_log s) = Some b \<and> (mon_writer s = None \<longrightarrow> mon_data s = b)"
proof -
  have "no_writer_runs s" if "mon_writer s = None"
    using reach_lock_inv [OF assms] that unfolding no_writer_runs_def lock_inv_def
    by (metis holds_simps(7) option.distinct(1))
  with reach_sequential [OF assms] show ?thesis by (auto simp: sequential_def)
qed

text \<open>A call made while nobody else is there runs as \<open>completes\<close> says.\<close>

definition solo :: "('c, 'l, 'r) goroutine \<Rightarrow> nat \<Rightarrow> ('c, 'l, 'r) goroutine" where
  "solo g = (\<lambda>_. Idle)(0 := g)"

lemma solo_simps [simp]: "solo g 0 = g" "(solo g)(0 := g') = solo g'"
  by (simp_all add: solo_def)

lemma solo_Idle: "solo Idle = (\<lambda>_. Idle)"
  by (simp add: solo_def fun_eq_iff)

abbreviation at_rest :: "'s \<Rightarrow> ('c \<times> 'r) list \<Rightarrow> ('s, 'c, 'l, 'r) monitor" where
  "at_rest b h \<equiv> \<lparr>mon_data = b, mon_readers = {}, mon_writer = None, mon_pc = solo Idle, mon_log = h\<rparr>"

lemma run_alone:
  assumes "completes act l b b' r"
    and "monitor_reach start act excl d
      \<lparr>mon_data = b, mon_readers = R, mon_writer = w, mon_pc = solo (Running c l), mon_log = h\<rparr>"
  shows "monitor_reach start act excl d
      \<lparr>mon_data = b', mon_readers = R, mon_writer = w, mon_pc = solo (Returning c r), mon_log = h @ [(c, r)]\<rparr>"
  using assms
proof (induction rule: completes.induct)
  case (last_one l s s' r)
  from monitor_reach.step [OF last_one.prems monitor_step.finish [of _ 0]] last_one.hyps
  show ?case by simp
next
  case (one_more l s s' l' s'' r)
  from monitor_reach.step [OF one_more.prems monitor_step.more [of _ 0]] one_more.hyps
  have "monitor_reach start act excl d
      \<lparr>mon_data = s', mon_readers = R, mon_writer = w, mon_pc = solo (Running c l'), mon_log = h\<rparr>"
    by simp
  then show ?case by (rule one_more.IH)
qed

lemma call_alone:
  assumes "monitor_reach start act excl d (at_rest b h)" and "meth c b = (b', r)"
  shows "monitor_reach start act excl d (at_rest b' (h @ [(c, r)]))"
proof -
  let ?st = "\<lambda>b R w g h. \<lparr>mon_data = b, mon_readers = R, mon_writer = w, mon_pc = solo g, mon_log = h\<rparr>"
  have wait: "monitor_reach start act excl d (?st b {} None (Waiting c) h)"
    using monitor_reach.step [OF assms(1) monitor_step.call [of _ 0]] by simp
  obtain R w where run: "monitor_reach start act excl d (?st b R w (Running c (start c)) h)"
    and R: "R = {} \<or> R = {0}" and w: "w = None \<or> w = Some 0"
  proof (cases "excl c")
    case True
    from monitor_reach.step [OF wait monitor_step.lock [of _ 0]] True
    have "monitor_reach start act excl d (?st b {} (Some 0) (Running c (start c)) h)" by simp
    then show thesis by (rule that) simp_all
  next
    case False
    from monitor_reach.step [OF wait monitor_step.rlock [of _ 0]] False
    have "monitor_reach start act excl d (?st b {0} None (Running c (start c)) h)" by simp
    then show thesis by (rule that) simp_all
  qed
  have "completes act (start c) b b' r" using meth_completes [of c b] assms(2) by simp
  from run_alone [OF this run]
  have "monitor_reach start act excl d (?st b' R w (Returning c r) (h @ [(c, r)]))" .
  from monitor_reach.step [OF this monitor_step.unlock [of _ 0]] R w
  show ?thesis by auto
qed

text \<open>The histories the code can produce are the sequential ones.\<close>

lemma histories:
  "(\<exists>s. monitor_reach start act excl d s \<and> mon_writer s = None \<and> mon_log s = h \<and> mon_data s = b) \<longleftrightarrow>
   replay meth d h = Some b"
proof
  assume "\<exists>s. monitor_reach start act excl d s \<and> mon_writer s = None \<and> mon_log s = h \<and> mon_data s = b"
  then show "replay meth d h = Some b" using linearizable by fastforce
next
  assume "replay meth d h = Some b"
  then have "monitor_reach start act excl d (at_rest b h)"
  proof (induction h arbitrary: b rule: rev_induct)
    case Nil
    then show ?case using monitor_reach.init [of start act excl d] by (simp add: monitor_init_def solo_Idle)
  next
    case (snoc x h)
    obtain c r where x: "x = (c, r)" by (cases x) auto
    with snoc.prems obtain a where "replay meth d h = Some a" "meth c a = (b, r)"
      by (auto simp: replay_append prod_eq_iff split: option.splits if_splits)
    with call_alone [OF snoc.IH] show ?case by (simp add: x)
  qed
  then show "\<exists>s. monitor_reach start act excl d s \<and> mon_writer s = None \<and> mon_log s = h \<and> mon_data s = b"
    by (intro exI [of _ "at_rest b h"]) simp
qed

text \<open>What a caller was answered is what its method answers after the calls logged before it.\<close>

lemma answers:
  assumes "monitor_reach start act excl d s" and "n < length (mon_log s)" and "mon_log s ! n = (c, r)"
  shows "r = snd (meth c (effects meth (take n (mon_log s)) d))"
  using linearizable [OF assms(1)] replay_result [OF _ assms(2,3), of meth d] by blast

lemma data_between_calls:
  assumes "monitor_reach start act excl d s" and "mon_writer s = None"
  shows "mon_data s = effects meth (mon_log s) d"
  using linearizable [OF assms(1)] assms(2) replay_effects [of meth d "mon_log s"] by auto

end

end
