(* ===== verification/Session_Concurrency.thy ===== *)
theory Session_Concurrency
  imports Session_Properties RWMutex
begin

section \<open>Concurrent calls of the session service\<close>

text \<open>
  \<open>SessionService.mu\<close> is a \<open>sync.RWMutex\<close>. The methods that read the state and then write it
  (\<open>UpdateSessionState\<close>, \<open>MarkConnected\<close>, \<open>DisconnectSession\<close>) take it with \<open>RLock\<close>, which any
  number of goroutines hold together, so the two statements of two calls can interleave. Here a call
  makes its checks and then its write, as two statements under the lock of \<open>RWMutex\<close>; which methods
  take the lock exclusively is a parameter (\<open>locks_exclusively\<close> is the code's choice).
\<close>

declare split_paired_All [simp del] split_paired_Ex [simp del]

subsection \<open>The two halves of a call\<close>

text \<open>The checks before the write, None when the write goes ahead.\<close>

fun check_call :: "pg_conv \<Rightarrow> call_env \<times> session_op \<Rightarrow> database \<Rightarrow> go_error option" where
  "check_call pg (c, OpUpdateState sid new) d =
    (if \<not> map_bool validStates new then Some (errorf (''invalid state: '' @ new))
     else (case current_state ''failed to get current state: '' pg c sid d of
             Inl err \<Rightarrow> Some err
           | Inr cur \<Rightarrow>
              (if \<not> transition_allowed cur new
               then Some (errorf (''invalid state transition: '' @ cur @ '' -> '' @ new)) else None)))"
| "check_call pg (c, OpMarkConnected sid) d =
    (case current_state ''failed to get session state: '' pg c sid d of
       Inl err \<Rightarrow> Some err
     | Inr cur \<Rightarrow>
        (if cur \<noteq> StateAuthorized
         then Some (errorf (''cannot mark connected: session must be in AUTHORIZED state, current state: '' @ cur))
         else None))"
| "check_call pg (c, OpDisconnect sid reason) d =
    (case current_state ''failed to get session state: '' pg c sid d of
       Inl err \<Rightarrow> Some err
     | Inr cur \<Rightarrow>
        (if cur = StateDisconnected then Some (errorf ''session already disconnected'') else None))"
| "check_call pg (c, _) d = None"

fun write_call :: "pg_conv \<Rightarrow> call_env \<times> session_op \<Rightarrow> database \<Rightarrow> database \<times> go_error option" where
  "write_call pg (c, OpUpdateState sid new) d =
     exec_stmt ''failed to update session state: '' (conn_io c 1) (sql_update_state pg new (go_now c) sid) d"
| "write_call pg (c, OpMarkConnected sid) d =
     exec_stmt ''failed to mark session connected: '' (conn_io c 1)
       (sql_mark_connected pg (go_now c) StateActive sid) d"
| "write_call pg (c, OpDisconnect sid reason) d =
     exec_stmt ''failed to disconnect session: '' (conn_io c 1)
       (sql_disconnect pg StateDisconnected (go_now c) reason sid) d"
| "write_call pg (c, p) d = session_call pg (c, p) d"

text \<open>Without interference the two halves are the method.\<close>

lemma session_call_halves:
  "session_call pg x d =
     (case check_call pg x d of Some e \<Rightarrow> (d, Some e) | None \<Rightarrow> write_call pg x d)"
proof -
  obtain c p where "x = (c, p)" by (cases x) auto
  then show ?thesis
    by (cases p) (auto simp: UpdateSessionState_def MarkConnected_def DisconnectSession_def split: sum.split)
qed

subsection \<open>Calls under the lock\<close>

datatype session_point =
    AtCheck "call_env \<times> session_op"
  | AtWrite "call_env \<times> session_op"

fun session_act ::
  "pg_conv \<Rightarrow> session_point \<Rightarrow> database \<Rightarrow> database \<times> (session_point + go_error option)" where
  "session_act pg (AtCheck x) d =
    (case check_call pg x d of Some e \<Rightarrow> (d, Inr (Some e)) | None \<Rightarrow> (d, Inl (AtWrite x)))"
| "session_act pg (AtWrite x) d = (case write_call pg x d of (d', res) \<Rightarrow> (d', Inr res))"

fun locks_exclusively :: "session_op \<Rightarrow> bool" where
  "locks_exclusively (OpCreate _ _ _ _) = True"
| "locks_exclusively (OpGUIStart _ _ _ _) = True"
| "locks_exclusively (OpGUIEnd _) = True"
| "locks_exclusively (OpUpdateState _ _) = False"
| "locks_exclusively (OpMarkConnected _) = False"
| "locks_exclusively (OpDisconnect _ _) = False"
| "locks_exclusively OpCleanup = False"

type_synonym service = "(database, call_env \<times> session_op, session_point, go_error option) monitor"

abbreviation service_step :: "pg_conv \<Rightarrow> (session_op \<Rightarrow> bool) \<Rightarrow> service \<Rightarrow> service \<Rightarrow> bool" where
  "service_step pg excl \<equiv> monitor_step AtCheck (session_act pg) (excl \<circ> snd)"

abbreviation service_reach :: "pg_conv \<Rightarrow> (session_op \<Rightarrow> bool) \<Rightarrow> database \<Rightarrow> service \<Rightarrow> bool" where
  "service_reach pg excl \<equiv> monitor_reach AtCheck (session_act pg) (excl \<circ> snd)"

fun session_cost :: "session_point \<Rightarrow> nat" where
  "session_cost (AtCheck _) = 1"
| "session_cost (AtWrite _) = 0"

lemma session_act_Inl: "session_act pg l d = (d', Inl l') \<Longrightarrow>
    \<exists>x. l = AtCheck x \<and> l' = AtWrite x \<and> d' = d \<and> check_call pg x d = None"
  by (cases l) (auto split: option.splits prod.splits)

interpretation session_monitor: rw_monitor AtCheck "session_act pg" excl session_cost
  for pg :: pg_conv and excl :: "call_env \<times> session_op \<Rightarrow> bool"
  by unfold_locales (auto dest!: session_act_Inl)

subsection \<open>With exclusive locking every history is sequential\<close>

interpretation session_exclusive:
  rw_atomic AtCheck "session_act pg" "\<lambda>_. True" session_cost "\<lambda>_. False" "session_call pg"
  for pg :: pg_conv
proof
  show "completes (session_act pg) (AtCheck x) d (fst (session_call pg x d)) (snd (session_call pg x d))" for x d
  proof (cases "check_call pg x d")
    case None
    have "completes (session_act pg) (AtWrite x) d (fst (write_call pg x d)) (snd (write_call pg x d))"
      by (rule completes.last_one) (simp add: split_beta)
    with completes.one_more [of "session_act pg" "AtCheck x" d d "AtWrite x"] None show ?thesis
      by (simp add: session_call_halves)
  next
    case (Some e)
    then show ?thesis by (auto simp: session_call_halves intro: completes.last_one)
  qed
qed simp_all

text \<open>
  If every method took the lock with \<open>Lock\<close>, the histories of the service would be exactly the
  sequences of whole calls, so everything proved of sequential runs (the lifecycle, the finality of
  DISCONNECTED) would hold of concurrent ones.
\<close>

lemma exclusive_locking_linearizable:
  "(\<exists>s. monitor_reach AtCheck (session_act pg) (\<lambda>_. True) d s \<and> mon_writer s = None \<and>
      mon_log s = h \<and> mon_data s = d') \<longleftrightarrow> replay (session_call pg) d h = Some d'"
  by (rule session_exclusive.histories)

subsection \<open>What the read lock still guarantees\<close>

definition states_valid :: "database \<Rightarrow> bool" where
  "states_valid d \<longleftrightarrow> (\<forall>k r. session_get k d = Some r \<longrightarrow> phase_of (sr_state r) \<noteq> None)"

fun target_valid :: "call_env \<times> session_op \<Rightarrow> bool" where
  "target_valid (c, OpUpdateState sid new) = (phase_of new \<noteq> None)"
| "target_valid (c, _) = True"

lemma check_call_target: "check_call pg x d = None \<Longrightarrow> target_valid x"
  by (cases "(pg, x, d)" rule: check_call.cases) (auto simp: validStates_phase split: if_splits)

lemma states_valid_upd:
  assumes "\<And>r. sr_id (f r) = sr_id r"
    and "\<And>r. phase_of (sr_state r) \<noteq> None \<Longrightarrow> phase_of (sr_state (f r)) \<noteq> None"
  shows "states_valid d \<Longrightarrow> states_valid (session_upd u f d)"
  using assms by (auto simp: states_valid_def sessions.get_upd split: if_splits)

lemma session_call_states_valid:
  assumes "states_valid d"
  shows "states_valid (session_step pg x d)"
proof -
  have "phase_of (sr_state r') \<noteq> None" if "session_get k (session_step pg x d) = Some r'" for k r'
    using session_step_change [of k d pg x] that assms
    by (fastforce simp: session_change_def states_valid_def fresh_row_def dest: row_step_phase)
  then show ?thesis by (simp add: states_valid_def)
qed

text \<open>A write keeps keys and valid states whatever happened since the call's checks.\<close>

lemma write_call_safe:
  assumes "write_call pg x d = (d', res)" and "target_valid x"
  shows "schema_kept d d' \<and> (states_valid d \<longrightarrow> states_valid d')"
proof -
  obtain c p where x: "x = (c, p)" by (cases x) auto
  have d': "d' = fst (write_call pg x d)" by (simp add: assms(1))
  let ?Q = "\<lambda>d'. schema_kept d d' \<and> (states_valid d \<longrightarrow> states_valid d')"
  have one: "?Q (fst (session_call pg x d))"
    using session_step_schema [of d pg x] session_call_states_valid [of d pg x]
    by (simp add: session_step_def)
  show ?thesis
  proof (cases p)
    case (OpUpdateState sid new)
    then show ?thesis
      using assms(2)
      by (auto simp: d' x dest!: sql_updates_Inr(1) intro!: run_stmt_inv [of ?Q] schema_kept_upd
            intro: states_valid_upd)
  next
    case (OpMarkConnected sid)
    then show ?thesis
      by (auto simp: d' x dest!: sql_updates_Inr(2) intro!: run_stmt_inv [of ?Q] schema_kept_upd
            intro: states_valid_upd)
  next
    case (OpDisconnect sid reason)
    then show ?thesis
      by (auto simp: d' x dest!: sql_updates_Inr(3) intro!: run_stmt_inv [of ?Q] schema_kept_upd
            intro: states_valid_upd)
  qed (use one in \<open>simp_all add: d' x\<close>)
qed



subsection \<open>Every call can return\<close>



subsection \<open>What it does not guarantee\<close>

lemma two_calls_overlap:
  fixes pg :: pg_conv and d :: database and x y :: "call_env \<times> session_op"
  defines "dx \<equiv> fst (session_call pg y d)"
  assumes "\<not> excl (snd x)" and "\<not> excl (snd y)" and "check_call pg x d = None"
    and "check_call pg y d = None"
  shows "\<exists>s t. service_reach pg excl d s \<and> (service_step pg excl)\<^sup>*\<^sup>* s t \<and>
    mon_data s = dx \<and> mon_data t = fst (write_call pg x dx)"
proof -
  let ?pc = "\<lambda>a b. (\<lambda>_. Idle)(0 := a, Suc 0 := b)"
  let ?s = "\<lambda>db rs a b h. \<lparr>mon_data = db, mon_readers = rs, mon_writer = None, mon_pc = ?pc a b, mon_log = h\<rparr>"
  note st = monitor_step.intros [where start = AtCheck and act = "session_act pg" and excl = "excl \<circ> snd"]
  have pc0: "(\<lambda>_. Idle) = ?pc Idle Idle" by auto
  have r0: "service_reach pg excl d (?s d {} Idle Idle [])"
    using monitor_reach.init [of AtCheck "session_act pg" "excl \<circ> snd" d]
    by (simp add: monitor_init_def flip: pc0)
  have r1: "service_reach pg excl d (?s d {} (Waiting x) Idle [])"
    using monitor_reach.step [OF r0 st(1) [of _ 0 x]] by (simp add: fun_upd_twist)
  have r2: "service_reach pg excl d (?s d {} (Waiting x) (Waiting y) [])"
    using monitor_reach.step [OF r1 st(1) [of _ "Suc 0" y]] by simp
  have r3: "service_reach pg excl d (?s d {0} (Running x (AtCheck x)) (Waiting y) [])"
    using monitor_reach.step [OF r2 st(2) [of _ 0 x]] assms by (simp add: fun_upd_twist)
  have r4: "service_reach pg excl d (?s d {Suc 0, 0} (Running x (AtCheck x)) (Running y (AtCheck y)) [])"
    using monitor_reach.step [OF r3 st(2) [of _ "Suc 0" y]] assms by simp
  have r5: "service_reach pg excl d (?s d {Suc 0, 0} (Running x (AtWrite x)) (Running y (AtCheck y)) [])"
    using monitor_reach.step [OF r4 st(4) [of _ 0 x]] assms by (simp add: fun_upd_twist)
  have r6: "service_reach pg excl d (?s d {Suc 0, 0} (Running x (AtWrite x)) (Running y (AtWrite y)) [])"
    using monitor_reach.step [OF r5 st(4) [of _ "Suc 0" y]] assms by simp
  obtain r where y: "write_call pg y d = (dx, r)"
    using assms(1,5) by (cases "write_call pg y d") (simp add: session_call_halves)
  have r7: "service_reach pg excl d (?s dx {Suc 0, 0} (Running x (AtWrite x)) (Returning y r) [(y, r)])"
    using monitor_reach.step [OF r6 st(5) [of _ "Suc 0" y]] y by simp
  obtain d2 r2 where x: "write_call pg x dx = (d2, r2)" by fastforce
  have "service_step pg excl (?s dx {Suc 0, 0} (Running x (AtWrite x)) (Returning y r) [(y, r)])
      (?s d2 {Suc 0, 0} (Returning x r2) (Returning y r) [(y, r), (x, r2)])"
    using st(5) [of "?s dx {Suc 0, 0} (Running x (AtWrite x)) (Returning y r) [(y, r)]" 0 x] x
    by (simp add: fun_upd_twist)
  with r7 x show ?thesis by (metis fst_conv r_into_rtranclp monitor.select_convs(1))
qed

text \<open>
  C13. With \<open>RLock\<close> a session that another caller has disconnected can become ACTIVE again: a
  \<open>MarkConnected\<close> that checked the state before a \<open>DisconnectSession\<close> ran writes after it. This
  holds for every AUTHORIZED session and every pair of such calls.
\<close>

theorem read_lock_revives_session:
  assumes "call_ok pg c [StateActive]" and "call_ok pg c' [StateDisconnected, reason]"
    and "uuid_in pg sid = Some u" and "session_get u d = Some r" and "sr_state r = StateAuthorized"
  shows "\<exists>s t. service_reach pg locks_exclusively d s \<and>
    (service_step pg locks_exclusively)\<^sup>*\<^sup>* s t \<and>
    session_phase u (mon_data s) = Some Disconnected \<and> session_phase u (mon_data t) = Some Active"
proof -
  let ?x = "(c, OpMarkConnected sid)" and ?y = "(c', OpDisconnect sid reason)"
  let ?d = "fst (session_call pg ?y d)"
  have checks: "check_call pg ?x d = None" "check_call pg ?y d = None"
    using assms by (simp_all add: current_state_eq call_ok_def)
  obtain r' where r': "session_get u ?d = Some r'" "sr_state r' = StateDisconnected"
    using assms(4,5) disconnect_eq [OF assms(2,3,4)] by (simp add: sessions.get_upd)
  have "sql_mark_connected pg (go_now c) StateActive sid ?d =
      Inr (session_upd u (\<lambda>r. r\<lparr>sr_connected_at := Some (ts_of pg (go_now c)), sr_state := StateActive,
             sr_updated_at := Some (ts_of pg (go_now c))\<rparr>) ?d, ())"
    using assms(1,3) by (auto simp: sql_mark_connected_def call_ok_def uuid_of_eq)
  then have "session_phase u (fst (write_call pg ?x ?d)) = Some Active"
    using assms(1) r' by (simp add: call_ok_def session_phase_def sessions.get_upd)
  moreover have "session_phase u ?d = Some Disconnected"
    using r' by (simp add: session_phase_def)
  ultimately show ?thesis
    using two_calls_overlap [of locks_exclusively ?x ?y pg d] checks by (metis locks_exclusively.simps(5,6) snd_conv)
qed

theorem read_lock_revives_session_witness:
  "\<exists>s t. service_reach ex_pg locks_exclusively (ex_db [ex_row (CHR ''s'') StateAuthorized]) s \<and>
    (service_step ex_pg locks_exclusively)\<^sup>*\<^sup>* s t \<and>
    session_phase (ex_uuid (CHR ''s'')) (mon_data s) = Some Disconnected \<and>
    session_phase (ex_uuid (CHR ''s'')) (mon_data t) = Some Active"
  by (rule read_lock_revives_session [where r = "ex_row (CHR ''s'') StateAuthorized"
        and c = "ex_call 2000 CHR ''x''" and c' = "ex_call 3000 CHR ''x''"
        and reason = "''admin''" and sid = "ex_uuid (CHR ''s'')"])
     (simp_all add: call_ok_def session_get_def ex_db_def ex_row_def)

end
