(* ===== verification/Gate.thy ===== *)
theory Gate
  imports Startup Session_Concurrency
begin

section \<open>The whole service\<close>

text \<open>
  All operations that change state, on one world: the database, the loaded key and the policies of
  the services (\<open>gate\<close>), and the transcript files. An event is a call of the session service, of the
  recording service, a GUI report of a daemon, or a policy sync over HTTP; the requests that only
  read are functions of the world and change nothing.
\<close>

record world =
  w_gate :: gate
  w_files :: "string set"

datatype gate_event =
    EvSession call_env session_op
  | EvRecording call_env recording_op
  | EvGUIStart call_env string string int
  | EvGUIEnd call_env string
  | EvSyncPolicies "go_error + AccessPolicy list"

definition with_db :: "database \<Rightarrow> world \<Rightarrow> world" where
  "with_db d w = w\<lparr>w_gate := (w_gate w)\<lparr>gt_db := d\<rparr>\<rparr>"

definition world_db :: "world \<Rightarrow> database" where
  "world_db w = gt_db (w_gate w)"

fun gate_step :: "pg_conv \<Rightarrow> string \<Rightarrow> (string \<Rightarrow> bool) \<Rightarrow> gate_event \<Rightarrow> world \<Rightarrow> world" where
  "gate_step pg dir refuses (EvSession c p) w = with_db (session_step pg (c, p) (world_db w)) w"
| "gate_step pg dir refuses (EvRecording c p) w =
    (case recording_call pg dir refuses (c, p) (world_db w, w_files w) of
       (d, files) \<Rightarrow> (with_db d w)\<lparr>w_files := files\<rparr>)"
| "gate_step pg dir refuses (EvGUIStart c sid proto port) w =
     with_db (fst (NotifyGUISessionStart pg c sid proto port (world_db w))) w"
| "gate_step pg dir refuses (EvGUIEnd c sid) w =
     with_db (fst (NotifyGUISessionEnd pg c sid (world_db w))) w"
| "gate_step pg dir refuses (EvSyncPolicies bind) w =
     w\<lparr>w_gate := fst (SyncAccessPolicies bind (w_gate w))\<rparr>"

lemma world_db_simps [simp]:
  "world_db (with_db d w) = d" "world_db (w\<lparr>w_files := fs\<rparr>) = world_db w"
  "gt_ca (w_gate (with_db d w)) = gt_ca (w_gate w)"
  by (simp_all add: world_db_def with_db_def)

lemma world_db_sync [simp]:
  "world_db (w\<lparr>w_gate := fst (SyncAccessPolicies bind (w_gate w))\<rparr>) = world_db w"
  "gt_ca (fst (SyncAccessPolicies bind g)) = gt_ca g"
  by (auto simp: world_db_def SyncAccessPolicies_def split: sum.split prod.split)

subsection \<open>A GUI report is a call of the session service\<close>

lemma NotifyGUISessionStart_step:
  obtains "fst (NotifyGUISessionStart pg c sid proto port d) = d"
  | v x where "fst (NotifyGUISessionStart pg c sid proto port d) = session_step pg (c, OpGUIStart sid proto v x) d"
proof (cases "gui_ports proto port")
  case None
  then show ?thesis by (intro that(1)) (simp add: NotifyGUISessionStart_def Let_def)
next
  case (Some vx)
  obtain v x where vx: "vx = (v, x)" by (cases vx)
  show ?thesis
    by (rule that(2) [of v x])
       (simp add: NotifyGUISessionStart_def Let_def Some vx split: prod.split option.split)
qed

lemma NotifyGUISessionEnd_step:
  "fst (NotifyGUISessionEnd pg c sid d) = session_step pg (c, OpGUIEnd sid) d"
  by (simp add: NotifyGUISessionEnd_def Let_def split: prod.split option.split)

declare session_step_simps [simp del]

subsection \<open>What the recording service keeps of the other tables\<close>

definition recordings_step_ok :: "database \<Rightarrow> database \<Rightarrow> bool" where
  "recordings_step_ok d d' \<longleftrightarrow>
     gate_sessions d' = gate_sessions d \<and> devices d' = devices d \<and> gate_ca_keys d' = gate_ca_keys d \<and>
     gate_audit_log d' = gate_audit_log d \<and> (schema_ok d \<longrightarrow> schema_ok d')"

lemma recordings_step_refl [simp]: "recordings_step_ok d d"
  by (simp add: recordings_step_ok_def)

lemma recordings_step_ins:
  assumes "recording_get (rr_id r) d = None" and "session_get (rr_session_id r) d \<noteq> None"
    and "rr_device_id r \<in> dr_id ` set (devices d)"
  shows "recordings_step_ok d (recording_ins r d)"
proof -
  have "rr_session_id r \<in> sr_id ` set (gate_sessions d)"
    using assms(2) by (auto simp: session_get_def find_row_None)
  then show ?thesis
    using assms(1,3)
    by (auto simp: recordings_step_ok_def schema_ok_def recording_ins_def recording_get_def find_row_None)
qed

lemma recordings_step_upd:
  assumes "\<And>r. rr_id (f r) = rr_id r" "\<And>r. rr_session_id (f r) = rr_session_id r"
    "\<And>r. rr_device_id (f r) = rr_device_id r"
  shows "recordings_step_ok d (recording_upd k f d)"
  using assms
  by (auto simp: recordings_step_ok_def schema_ok_def recording_upd_def map_key_update set_update_rows image_image)

lemma recordings_step_del: "recordings_step_ok d (recording_del k d)"
  by (auto simp: recordings_step_ok_def schema_ok_def recording_del_def delete_rows_def distinct_map_filter)

lemma recordings_step_exec:
  assumes "\<And>d' v. f d = Inr (d', v) \<Longrightarrow> recordings_step_ok d d'"
  shows "recordings_step_ok d (fst (run_stmt i f d))"
  using assms by (intro run_stmt_inv [of "recordings_step_ok d"]) auto

lemma recording_call_step: "recordings_step_ok d (fst (recording_call pg dir refuses (c, p) (d, files)))"
proof (cases p)
  case (RecCreate u dv sid)
  let ?stmt = "sql_insert_recording pg (new_uuid c) sid u dv (recording_path dir sid (new_uuid c)) (go_now c)"
  have "fst (CreateRecording pg c dir u dv sid d) = fst (run_stmt (conn_io c 0) ?stmt d)"
    by (simp add: CreateRecording_def Let_def split: prod.split sum.split)
  moreover have "recordings_step_ok d d'" if "?stmt d = Inr (d', v)" for d' v
    using that by (auto simp: sql_insert_recording_def Let_def split: if_splits intro!: recordings_step_ins)
  ultimately show ?thesis
    by (simp add: RecCreate recordings_step_exec)
next
  case (RecUpdate rid n s)
  have "recordings_step_ok d d'" if "sql_update_recording pg n s (go_now c) rid d = Inr (d', v)" for d' v
    using that by (auto simp: sql_update_recording_def intro!: recordings_step_upd)
  then show ?thesis
    by (auto simp: RecUpdate UpdateRecording_def intro!: recordings_step_exec)
next
  case (RecDelete rid)
  have "recordings_step_ok d (fst (exec_stmt pre i (sql_delete_recording pg rid) d))" for pre i
    by (auto simp: sql_delete_recording_def intro!: recordings_step_exec recordings_step_del)
  then have "recordings_step_ok d d'" if "exec_stmt pre i (sql_delete_recording pg rid) d = (d', e)" for pre i d' e
    using that by (metis fst_conv)
  then show ?thesis
    by (auto simp: RecDelete DeleteRecording_def split: sum.splits prod.splits option.splits)
qed

subsection \<open>The invariant of the whole\<close>

definition world_ok :: "string \<Rightarrow> world \<Rightarrow> bool" where
  "world_ok dir w \<longleftrightarrow> schema_ok (world_db w) \<and> sessions_ok (world_db w) \<and> recordings_ok dir (world_db w)"

fun event_ok :: "pg_conv \<Rightarrow> gate_event \<Rightarrow> bool" where
  "event_ok pg (EvRecording c p) = fresh_id pg (new_uuid c)"
| "event_ok pg _ = True"

lemma session_step_world:
  assumes "world_ok dir w"
  shows "world_ok dir (with_db (session_step pg x (world_db w)) w)"
  using assms session_step_schema [of "world_db w" pg x] sessions_ok_step [of "world_db w" pg x]
  by (auto simp: world_ok_def schema_kept_def same_other_tables_def recordings_ok_def)

lemma gate_step_ok:
  assumes "world_ok dir w" and "uuid_text_plain pg" and "event_ok pg ev"
  shows "world_ok dir (gate_step pg dir refuses ev w)"
proof (cases ev)
  case (EvSession c p)
  then show ?thesis using assms(1) by (simp add: session_step_world)
next
  case (EvRecording c p)
  obtain d files where call: "recording_call pg dir refuses (c, p) (world_db w, w_files w) = (d, files)"
    by fastforce
  have "recordings_step_ok (world_db w) d"
    using recording_call_step [of "world_db w" pg dir refuses c p "w_files w"] by (simp add: call)
  moreover have "recordings_ok dir d"
    using recording_call_ok [of dir "(world_db w, w_files w)" pg "(c, p)" refuses] assms
    by (simp add: call EvRecording world_ok_def)
  ultimately show ?thesis
    using assms(1)
    by (simp add: EvRecording call world_ok_def recordings_step_ok_def sessions_ok_def session_get_def)
next
  case (EvGUIStart c sid proto port)
  have same: "with_db (world_db w) w = w" by (simp add: with_db_def world_db_def)
  show ?thesis
    by (rule NotifyGUISessionStart_step [of pg c sid proto port "world_db w"])
       (simp_all add: EvGUIStart same assms(1) session_step_world)
next
  case (EvGUIEnd c sid)
  then show ?thesis using assms(1) by (simp add: NotifyGUISessionEnd_step session_step_world)
next
  case (EvSyncPolicies bind)
  then show ?thesis using assms(1) by (simp add: world_ok_def)
qed

text \<open>Devices, CA keys and the audit log, and the loaded key, are written by no event.\<close>

definition untouched :: "world \<Rightarrow> world \<Rightarrow> bool" where
  "untouched w w' \<longleftrightarrow> devices (world_db w') = devices (world_db w) \<and>
     gate_ca_keys (world_db w') = gate_ca_keys (world_db w) \<and>
     gate_audit_log (world_db w') = gate_audit_log (world_db w) \<and> gt_ca (w_gate w') = gt_ca (w_gate w)"

lemma session_step_untouched: "untouched w (with_db (session_step pg x (world_db w)) w)"
  using session_step_schema [of "world_db w" pg x]
  by (simp add: untouched_def schema_kept_def same_other_tables_def)

lemma gate_step_untouched: "untouched w (gate_step pg dir refuses ev w)"
proof (cases ev)
  case (EvRecording c p)
  obtain d files where call: "recording_call pg dir refuses (c, p) (world_db w, w_files w) = (d, files)"
    by fastforce
  have "recordings_step_ok (world_db w) d"
    using recording_call_step [of "world_db w" pg dir refuses c p "w_files w"] by (simp add: call)
  then show ?thesis
    by (simp add: EvRecording call untouched_def recordings_step_ok_def)
next
  case (EvGUIStart c sid proto port)
  have same: "with_db (world_db w) w = w" by (simp add: with_db_def world_db_def)
  show ?thesis
    by (rule NotifyGUISessionStart_step [of pg c sid proto port "world_db w"])
       (simp_all add: EvGUIStart same session_step_untouched, simp add: untouched_def)
qed (simp_all add: session_step_untouched NotifyGUISessionEnd_step, simp add: untouched_def)

text \<open>A session never disappears and moves along the lifecycle, whatever event comes.\<close>

lemma gate_step_session:
  assumes "session_phase k (world_db w) = Some p"
  shows "\<exists>q. session_phase k (world_db (gate_step pg dir refuses ev w)) = Some q \<and> (q = p \<or> phase_edge p q)"
proof -
  have step: "\<exists>q. session_phase k (session_step pg x (world_db w)) = Some q \<and> (q = p \<or> phase_edge p q)" for x
    using session_change_phase [OF session_step_change assms] .
  show ?thesis
  proof (cases ev)
    case (EvRecording c r)
    obtain d files where call: "recording_call pg dir refuses (c, r) (world_db w, w_files w) = (d, files)"
      by fastforce
    have "gate_sessions d = gate_sessions (world_db w)"
      using recording_call_step [of "world_db w" pg dir refuses c r "w_files w"] by (simp add: call recordings_step_ok_def)
    then show ?thesis using assms by (simp add: EvRecording call session_phase_def session_get_def)
  next
    case (EvGUIStart c sid proto port)
    show ?thesis
      by (rule NotifyGUISessionStart_step [of pg c sid proto port "world_db w"])
         (use assms step in \<open>simp_all add: EvGUIStart\<close>)
  qed (use assms step in \<open>simp_all add: NotifyGUISessionEnd_step\<close>)
qed

interpretation gate_life: lifecycle "gate_step pg dir refuses" "\<lambda>k w. session_phase k (world_db w)" phase_edge
  for pg dir refuses
  by unfold_locales (auto intro: phase_edge_less gate_step_session)

lemma gate_run_ok:
  assumes "world_ok dir w" and "uuid_text_plain pg" and "list_all (event_ok pg) evs"
  shows "world_ok dir (fold (gate_step pg dir refuses) evs w)"
  using assms by (induction evs arbitrary: w) (simp_all add: gate_step_ok)

lemma gate_run_untouched: "untouched w (fold (gate_step pg dir refuses) evs w)"
proof (induction evs arbitrary: w)
  case (Cons ev evs)
  from gate_step_untouched [of w pg dir refuses ev] Cons.IH [of "gate_step pg dir refuses ev w"]
  show ?case by (simp add: untouched_def)
qed (simp add: untouched_def)

end
