(* ===== verification/Http.thy ===== *)
theory Http
  imports Gate
begin

section \<open>The HTTP interface as a whole\<close>

text \<open>
  A request that gin has matched to a route, with the parameters of its path and the outcome of
  binding its body or query, and the handler \<open>RegisterRoutes\<close> names for it. Matching and binding are
  gin's; the WebSocket endpoint is the theory \<open>Terminal\<close>.
\<close>

datatype http_request =
    GetHealth "go_error option"
  | PostCertIssue "go_error + IssueCertRequest"
  | GetSessions "go_error + ListSessionsRequest"
  | GetSessionById string
  | GetSessionStatus string
  | GetRecordingById string
  | GetPendingDevices
  | PostApprove string "go_error + ApproveDeviceRequest"
  | PostDecommission string "go_error + DecommissionDeviceRequest"
  | PostPoliciesSync "go_error + AccessPolicy list"
  | PostSessionStart string "go_error + ReportSessionStartRequest"
  | PostSessionEnd string "go_error + ReportSessionEndRequest"

text \<open>The route of a request, in the table of the router.\<close>

fun route_of :: "http_request \<Rightarrow> route_handler" where
  "route_of (GetHealth _) = RHealth"
| "route_of (PostCertIssue _) = RIssueCert"
| "route_of (GetSessions _) = RListSessions"
| "route_of (GetSessionById _) = RGetSession"
| "route_of (GetSessionStatus _) = RSessionStatus"
| "route_of (GetRecordingById _) = RGetRecording"
| "route_of GetPendingDevices = RListPendingDevices"
| "route_of (PostApprove _ _) = RApproveDevice"
| "route_of (PostDecommission _ _) = RDecommissionDevice"
| "route_of (PostPoliciesSync _) = RSyncAccessPolicies"
| "route_of (PostSessionStart _ _) = RReportSessionStart"
| "route_of (PostSessionEnd _ _) = RReportSessionEnd"

text \<open>\<open>keys\<close> is what middleware put into the request's context.\<close>

fun serve ::
  "pg_conv \<Rightarrow> ssh_lib \<Rightarrow> call_env \<Rightarrow> request_env \<Rightarrow> (string \<rightharpoonup> string) \<Rightarrow> http_request \<Rightarrow> gate \<Rightarrow> gate \<times> response" where
  "serve pg lib c e keys (GetHealth ping) g = (g, Health ping)"
| "serve pg lib c e keys (PostCertIssue bind) g = (g, IssueCert lib e keys bind g)"
| "serve pg lib c e keys (GetSessions bind) g = (g, ListSessions bind)"
| "serve pg lib c e keys (GetSessionById sid) g = (g, h_GetSession pg c sid g)"
| "serve pg lib c e keys (GetSessionStatus sid) g = (g, SessionStatus pg c sid g)"
| "serve pg lib c e keys (GetRecordingById rid) g = (g, h_GetRecording pg c rid g)"
| "serve pg lib c e keys GetPendingDevices g = (g, ListPendingDevices)"
| "serve pg lib c e keys (PostApprove did bind) g = (g, ApproveDevice did bind)"
| "serve pg lib c e keys (PostDecommission did bind) g = (g, DecommissionDevice did bind)"
| "serve pg lib c e keys (PostPoliciesSync bind) g = SyncAccessPolicies bind g"
| "serve pg lib c e keys (PostSessionStart sid bind) g = (g, h_ReportSessionStart sid bind)"
| "serve pg lib c e keys (PostSessionEnd sid bind) g = (g, h_ReportSessionEnd sid bind)"

lemma routes_served: "\<exists>p. (p, route_of req) \<in> set RegisterRoutes"
  by (cases req) (auto simp: RegisterRoutes_def)

text \<open>Serving a request is an event of the whole service, or no event.\<close>

lemma serve_event:
  "(w\<lparr>w_gate := fst (serve pg lib c e keys req (w_gate w))\<rparr>) =
     (case req of PostPoliciesSync bind \<Rightarrow> gate_step pg dir refuses (EvSyncPolicies bind) w | _ \<Rightarrow> w)"
  by (cases req) simp_all

lemma lookup_status:
  "fst (h_GetSession pg c k g) \<in> {200, 500}" "fst (SessionStatus pg c k g) \<in> {200, 500}"
  "fst (h_GetRecording pg c k g) \<in> {200, 500}"
  using session_lookup.answer_status recording_lookup.answer_status
  unfolding lookup_handlers by blast+

lemma serve_status: "fst (snd (serve pg lib c e keys req g)) \<in> {200, 400, 401, 500, 503}"
proof (cases req)
  case (GetSessionById sid)
  then show ?thesis using lookup_status(1) [of pg c sid g] by auto
next
  case (GetSessionStatus sid)
  then show ?thesis using lookup_status(2) [of pg c sid g] by auto
next
  case (GetRecordingById rid)
  then show ?thesis using lookup_status(3) [of pg c rid g] by auto
qed (auto simp: Health_def IssueCert_def ListSessions_def ListPendingDevices_def ApproveDevice_def
       DecommissionDevice_def h_ReportSessionStart_def h_ReportSessionEnd_def SyncAccessPolicies_def Let_def
       split: sum.split prod.split option.split)

text \<open>
  C34. The HTTP interface can change nothing but the cached policies, and those only by a well-formed
  policy sync: whoever sends whatever requests, no session, recording, device, CA key or audit entry
  is created, changed or removed. A start or end report of a daemon and the approval or
  decommissioning of a device are acknowledged with 200 for every id, known or not.
\<close>

theorem http_changes_only_policies:
  "let w' = fold (\<lambda>(c, e, keys, req) g. fst (serve pg lib c e keys req g)) reqs g in
     gt_db w' = gt_db g \<and> gt_ca w' = gt_ca g \<and>
     gt_policies w' = fold (\<lambda>(c, e, keys, req) cache.
       case req of PostPoliciesSync (Inr ps) \<Rightarrow> fst (SyncPolicies ps cache) | _ \<Rightarrow> cache) reqs (gt_policies g) \<and>
     fst (snd (serve pg lib c e keys (PostSessionStart sid (Inr r1)) g)) = 200 \<and>
     fst (snd (serve pg lib c e keys (PostSessionEnd sid (Inr r2)) g)) = 200 \<and>
     fst (snd (serve pg lib c e keys (PostApprove sid (Inr r3)) g)) = 200 \<and>
     fst (snd (serve pg lib c e keys (PostDecommission sid (Inr r4)) g)) = 200 \<and>
     fst (snd (serve pg lib c e keys req g)) \<in> {200, 400, 401, 500, 503}"
proof -
  have step: "gt_db (fst (serve pg lib c e keys req g)) = gt_db g \<and> gt_ca (fst (serve pg lib c e keys req g)) = gt_ca g \<and>
      gt_policies (fst (serve pg lib c e keys req g)) =
        (case req of PostPoliciesSync (Inr ps) \<Rightarrow> fst (SyncPolicies ps (gt_policies g)) | _ \<Rightarrow> gt_policies g)" for c e keys req g
    by (cases req) (auto simp: SyncAccessPolicies_def SyncPolicies_def split: sum.split prod.split)
  have "gt_db (fold (\<lambda>(c, e, keys, req) g. fst (serve pg lib c e keys req g)) reqs g) = gt_db g \<and>
      gt_ca (fold (\<lambda>(c, e, keys, req) g. fst (serve pg lib c e keys req g)) reqs g) = gt_ca g \<and>
      gt_policies (fold (\<lambda>(c, e, keys, req) g. fst (serve pg lib c e keys req g)) reqs g) =
        fold (\<lambda>(c, e, keys, req) cache. case req of PostPoliciesSync (Inr ps) \<Rightarrow> fst (SyncPolicies ps cache) | _ \<Rightarrow> cache)
          reqs (gt_policies g)"
    by (induction reqs arbitrary: g) (simp_all add: step split_beta)
  moreover have "fst (snd (serve pg lib c e keys (PostSessionStart sid (Inr r1)) g)) = 200"
    "fst (snd (serve pg lib c e keys (PostSessionEnd sid (Inr r2)) g)) = 200"
    "fst (snd (serve pg lib c e keys (PostApprove sid (Inr r3)) g)) = 200"
    "fst (snd (serve pg lib c e keys (PostDecommission sid (Inr r4)) g)) = 200"
    by (simp_all add: h_ReportSessionStart_def h_ReportSessionEnd_def ApproveDevice_def DecommissionDevice_def)
  ultimately show ?thesis using serve_status by (simp add: Let_def)
qed

end
