(* ===== verification/Policy_Concurrency.thy ===== *)
theory Policy_Concurrency
  imports Policy_Service RWMutex
begin

section \<open>Concurrent calls of the policy service\<close>

text \<open>
  \<open>CanAccessGUI\<close> holds \<open>PolicyService.mu\<close> with \<open>RLock\<close>, \<open>SetPolicy\<close> and \<open>SyncPolicies\<close> hold it with
  \<open>Lock\<close>. A sync writes the cache once per policy, so the cache passes through states in which part
  of a list is in force; here the methods run statement by statement under the lock.
\<close>

subsection \<open>The methods by statements\<close>

datatype policy_op =
    OpCanAccess string string
  | OpSetPolicy string string "string list"
  | OpSyncPolicies "AccessPolicy list"

datatype policy_answer = Access bool | Stored | Synced "go_error + int"

text \<open>The point a call has reached: for a sync, the policies to come and the count so far.\<close>

datatype policy_point =
    AtAccess string string
  | AtStore string string "string list"
  | AtSync "AccessPolicy list" int

fun policy_start :: "policy_op \<Rightarrow> policy_point" where
  "policy_start (OpCanAccess u d) = AtAccess u d"
| "policy_start (OpSetPolicy u d perms) = AtStore u d perms"
| "policy_start (OpSyncPolicies ps) = AtSync ps 0"

fun policy_act :: "policy_point \<Rightarrow> policy_cache \<Rightarrow> policy_cache \<times> (policy_point + policy_answer)" where
  "policy_act (AtAccess u d) cache = (cache, Inr (Access (CanAccessGUI cache u d)))"
| "policy_act (AtStore u d perms) cache = (SetPolicy u d perms cache, Inr Stored)"
| "policy_act (AtSync [] count) cache = (cache, Inr (Synced (Inr count)))"
| "policy_act (AtSync (policy # policies) count) cache =
    (if user_device_policy policy
     then (cache_put (policy_key (ap_PrincipalId policy) (ap_TargetId policy))
             \<lparr>pol_Permissions = ap_Permissions policy\<rparr> cache, Inl (AtSync policies (count + 1)))
     else (cache, Inl (AtSync policies count)))"

fun policy_excl :: "policy_op \<Rightarrow> bool" where
  "policy_excl (OpCanAccess _ _) = False"
| "policy_excl (OpSetPolicy _ _ _) = True"
| "policy_excl (OpSyncPolicies _) = True"

text \<open>The methods as one step.\<close>

fun policy_call :: "policy_op \<Rightarrow> policy_cache \<Rightarrow> policy_cache \<times> policy_answer" where
  "policy_call (OpCanAccess u d) cache = (cache, Access (CanAccessGUI cache u d))"
| "policy_call (OpSetPolicy u d perms) cache = (SetPolicy u d perms cache, Stored)"
| "policy_call (OpSyncPolicies ps) cache =
    (case SyncPolicies ps cache of (cache', n) \<Rightarrow> (cache', Synced n))"

abbreviation policy_reach ::
  "policy_cache \<Rightarrow> (policy_cache, policy_op, policy_point, policy_answer) monitor \<Rightarrow> bool" where
  "policy_reach \<equiv> monitor_reach policy_start policy_act policy_excl"

fun policy_cost :: "policy_point \<Rightarrow> nat" where
  "policy_cost (AtSync ps _) = length ps"
| "policy_cost _ = 0"

fun only_reads :: "policy_point \<Rightarrow> bool" where
  "only_reads (AtAccess _ _) = True"
| "only_reads _ = False"

lemma sync_completes:
  "completes policy_act (AtSync ps n) cache (fst (sync_loop ps (cache, n))) (Synced (Inr (snd (sync_loop ps (cache, n)))))"
proof (induction ps arbitrary: n cache)
  case Nil
  show ?case by (rule completes.last_one) simp
next
  case (Cons p ps)
  obtain cache' n' where p: "policy_act (AtSync (p # ps) n) cache = (cache', Inl (AtSync ps n'))"
    by (cases "user_device_policy p") auto
  then have "sync_loop (p # ps) (cache, n) = sync_loop ps (cache', n')"
    by (auto split: if_splits)
  with completes.one_more [OF p Cons.IH [of n' cache']] show ?case by (simp only:)
qed

interpretation policy_monitor:
  rw_atomic policy_start policy_act policy_excl policy_cost only_reads policy_call
proof
  show "policy_cost l' < policy_cost l" if "policy_act l s = (s', Inl l')" for l s s' l'
    using that by (cases "(l, s)" rule: policy_act.cases) (auto split: if_splits)
next
  show "only_reads (policy_start c)" if "\<not> policy_excl c" for c
    using that by (cases c) simp_all
next
  show "s' = s" if "only_reads l" "policy_act l s = (s', x)" for l s s' x
    using that by (cases l) simp_all
next
  show "only_reads l'" if "only_reads l" "policy_act l s = (s', Inl l')" for l s s' l'
    using that by (cases l) simp_all
next
  show "completes policy_act (policy_start c) s (fst (policy_call c s)) (snd (policy_call c s))" for c s
    by (cases c) (auto simp: SyncPolicies_def split_beta intro: completes.last_one sync_completes)
qed

subsection \<open>What callers see\<close>

text \<open>The calls that return are exactly those of the sequences of whole calls.\<close>

lemma policy_histories:
  "(\<exists>s. policy_reach cache s \<and> mon_writer s = None \<and> mon_log s = h \<and> mon_data s = cache') \<longleftrightarrow>
   replay policy_call cache h = Some cache'"
  by (rule policy_monitor.histories)

text \<open>The policies a history of calls has put in force, in order.\<close>

fun policies_of :: "policy_op \<Rightarrow> AccessPolicy list" where
  "policies_of (OpCanAccess _ _) = []"
| "policies_of (OpSetPolicy u d perms) =
    [\<lparr>ap_PrincipalType = ''user'', ap_PrincipalId = u, ap_TargetType = ''device'', ap_TargetId = d,
      ap_Permissions = perms\<rparr>]"
| "policies_of (OpSyncPolicies ps) = ps"

definition in_force :: "(policy_op \<times> policy_answer) list \<Rightarrow> AccessPolicy list" where
  "in_force h = concat (map (policies_of \<circ> fst) h)"

lemma policy_call_sync: "fst (policy_call c cache) = fst (SyncPolicies (policies_of c) cache)"
  by (cases c) (simp_all add: SyncPolicies_def SetPolicy_def user_device_policy_def split_beta)

lemma effects_in_force: "effects policy_call h cache = fst (SyncPolicies (in_force h) cache)"
proof (induction h arbitrary: cache)
  case Nil
  show ?case by (simp add: effects_def in_force_def SyncPolicies_def)
next
  case (Cons x h)
  have "effects policy_call (x # h) cache = effects policy_call h (fst (policy_call (fst x) cache))"
    by (simp add: effects_def split_beta)
  with Cons.IH show ?case
    by (simp add: policy_call_sync policy_sync_batches in_force_def)
qed



end
