(* ===== verification/Recording_Concurrency.thy ===== *)
theory Recording_Concurrency
  imports Recording_Properties RWMutex
begin

section \<open>Concurrent calls of the recording service\<close>

text \<open>
  The writing methods of \<open>RecordingService\<close> hold \<open>mu\<close> with \<open>Lock\<close>, \<open>GetRecording\<close> and the listings
  hold it with \<open>RLock\<close>. \<open>DeleteRecording\<close> reads the path, deletes the row and removes the file, so in
  between there is a file without a row; here the methods run statement by statement under the lock.
\<close>

declare split_paired_All [simp del] split_paired_Ex [simp del]

subsection \<open>The methods by statements\<close>

datatype recording_method =
    CallCreate string string string
  | CallUpdate string int int
  | CallDelete string
  | CallGet string
  | CallListBySession string
  | CallListByDevice string

datatype recording_answer =
    AnswerId "go_error + string"
  | AnswerErr "go_error option"
  | AnswerRecording "go_error + recording"
  | AnswerList "go_error + recording list"

datatype recording_point =
    AtCall "call_env \<times> recording_method"
  | AtDeleteRow call_env string string
  | AtRemoveFile string

text \<open>The path of the file that \<open>DeleteRecording\<close> reads first, with its two errors.\<close>

definition path_to_delete :: "pg_conv \<Rightarrow> call_env \<Rightarrow> string \<Rightarrow> database \<Rightarrow> go_error + string" where
  "path_to_delete pg c recordingID d =
    (case scan_one Inr (run_query (conn_io c 0) (sql_select_path pg recordingID) d) of
       Inl err \<Rightarrow> Inl (if err = ErrNoRows then errorf (''recording not found: '' @ recordingID)
                       else errorf_w ''failed to get recording path: '' err)
     | Inr filePath \<Rightarrow> Inr filePath)"

type_synonym recording_world = "database \<times> string set"

fun recording_act ::
  "pg_conv \<Rightarrow> string \<Rightarrow> (string \<Rightarrow> bool) \<Rightarrow> recording_point \<Rightarrow> recording_world \<Rightarrow>
   recording_world \<times> (recording_point + recording_answer)" where
  "recording_act pg dir refuses (AtCall (c, CallCreate u dv sid)) (d, files) =
    (case CreateRecording pg c dir u dv sid d of (d', res) \<Rightarrow> ((d', files), Inr (AnswerId res)))"
| "recording_act pg dir refuses (AtCall (c, CallUpdate rid n secs)) (d, files) =
    (case UpdateRecording pg c rid n secs d of (d', e) \<Rightarrow> ((d', files), Inr (AnswerErr e)))"
| "recording_act pg dir refuses (AtCall (c, CallDelete rid)) (d, files) =
    (case path_to_delete pg c rid d of
       Inl err \<Rightarrow> ((d, files), Inr (AnswerErr (Some err)))
     | Inr filePath \<Rightarrow> ((d, files), Inl (AtDeleteRow c rid filePath)))"
| "recording_act pg dir refuses (AtCall (c, CallGet rid)) (d, files) =
    ((d, files), Inr (AnswerRecording (GetRecording pg c rid d)))"
| "recording_act pg dir refuses (AtCall (c, CallListBySession sid)) (d, files) =
    ((d, files), Inr (AnswerList (ListRecordingsBySession pg c sid d)))"
| "recording_act pg dir refuses (AtCall (c, CallListByDevice did)) (d, files) =
    ((d, files), Inr (AnswerList (ListRecordingsByDevice pg c did d)))"
| "recording_act pg dir refuses (AtDeleteRow c rid filePath) (d, files) =
    (case exec_stmt ''failed to delete recording: '' (conn_io c 1) (sql_delete_recording pg rid) d of
       (d', Some err) \<Rightarrow> ((d', files), Inr (AnswerErr (Some err)))
     | (d', None) \<Rightarrow> ((d', files), Inl (AtRemoveFile filePath)))"
| "recording_act pg dir refuses (AtRemoveFile filePath) (d, files) =
    ((d, os_Remove refuses filePath files), Inr (AnswerErr None))"

fun recording_excl :: "call_env \<times> recording_method \<Rightarrow> bool" where
  "recording_excl (c, CallCreate _ _ _) = True"
| "recording_excl (c, CallUpdate _ _ _) = True"
| "recording_excl (c, CallDelete _) = True"
| "recording_excl (c, CallGet _) = False"
| "recording_excl (c, CallListBySession _) = False"
| "recording_excl (c, CallListByDevice _) = False"

text \<open>The methods as one step.\<close>

fun recording_method_call ::
  "pg_conv \<Rightarrow> string \<Rightarrow> (string \<Rightarrow> bool) \<Rightarrow> call_env \<times> recording_method \<Rightarrow> recording_world \<Rightarrow>
   recording_world \<times> recording_answer" where
  "recording_method_call pg dir refuses (c, CallCreate u dv sid) (d, files) =
    (case CreateRecording pg c dir u dv sid d of (d', res) \<Rightarrow> ((d', files), AnswerId res))"
| "recording_method_call pg dir refuses (c, CallUpdate rid n secs) (d, files) =
    (case UpdateRecording pg c rid n secs d of (d', e) \<Rightarrow> ((d', files), AnswerErr e))"
| "recording_method_call pg dir refuses (c, CallDelete rid) w =
    (case DeleteRecording pg c refuses rid w of (w', e) \<Rightarrow> (w', AnswerErr e))"
| "recording_method_call pg dir refuses (c, CallGet rid) (d, files) =
    ((d, files), AnswerRecording (GetRecording pg c rid d))"
| "recording_method_call pg dir refuses (c, CallListBySession sid) (d, files) =
    ((d, files), AnswerList (ListRecordingsBySession pg c sid d))"
| "recording_method_call pg dir refuses (c, CallListByDevice did) (d, files) =
    ((d, files), AnswerList (ListRecordingsByDevice pg c did d))"

abbreviation recording_reach where
  "recording_reach pg dir refuses \<equiv> monitor_reach AtCall (recording_act pg dir refuses) recording_excl"

fun recording_cost :: "recording_point \<Rightarrow> nat" where
  "recording_cost (AtCall _) = 2"
| "recording_cost (AtDeleteRow _ _ _) = 1"
| "recording_cost (AtRemoveFile _) = 0"

fun recording_reads :: "recording_point \<Rightarrow> bool" where
  "recording_reads (AtCall x) = (\<not> recording_excl x)"
| "recording_reads _ = False"

lemma delete_completes:
  "completes (recording_act pg dir refuses) (AtCall (c, CallDelete rid)) w
     (fst (DeleteRecording pg c refuses rid w)) (AnswerErr (snd (DeleteRecording pg c refuses rid w)))"
proof -
  obtain d files where w: "w = (d, files)" by (cases w) auto
  show ?thesis
  proof (cases "path_to_delete pg c rid d")
    case (Inl err)
    then have "DeleteRecording pg c refuses rid w = ((d, files), Some err)"
      by (auto simp: DeleteRecording_def path_to_delete_def w split: sum.splits)
    with Inl show ?thesis by (auto simp: w intro: completes.last_one)
  next
    case (Inr filePath)
    then have del: "DeleteRecording pg c refuses rid w =
        (case exec_stmt ''failed to delete recording: '' (conn_io c 1) (sql_delete_recording pg rid) d of
           (d', Some err) \<Rightarrow> ((d', files), Some err)
         | (d', None) \<Rightarrow> ((d', os_Remove refuses filePath files), None))"
      by (simp add: DeleteRecording_def path_to_delete_def w split: sum.splits)
    have "completes (recording_act pg dir refuses) (AtDeleteRow c rid filePath) w
        (fst (DeleteRecording pg c refuses rid w)) (AnswerErr (snd (DeleteRecording pg c refuses rid w)))"
    proof (cases "exec_stmt ''failed to delete recording: '' (conn_io c 1) (sql_delete_recording pg rid) d")
      case (Pair d' e)
      show ?thesis
      proof (cases e)
        case None
        have "completes (recording_act pg dir refuses) (AtRemoveFile filePath) (d', files)
            (d', os_Remove refuses filePath files) (AnswerErr None)"
          by (rule completes.last_one) simp
        with completes.one_more [of "recording_act pg dir refuses" "AtDeleteRow c rid filePath" w] Pair None del
        show ?thesis by (simp add: w)
      next
        case (Some err)
        with Pair del show ?thesis by (auto simp: w intro: completes.last_one)
      qed
    qed
    with completes.one_more [of "recording_act pg dir refuses" "AtCall (c, CallDelete rid)" w w
        "AtDeleteRow c rid filePath"] Inr
    show ?thesis by (simp add: w)
  qed
qed

interpretation recording_monitor:
  rw_atomic AtCall "recording_act pg dir refuses" recording_excl recording_cost recording_reads
    "recording_method_call pg dir refuses"
  for pg :: pg_conv and dir :: string and refuses :: "string \<Rightarrow> bool"
proof
  show "recording_cost l' < recording_cost l" if "recording_act pg dir refuses l s = (s', Inl l')" for l s s' l'
    using that by (cases "(pg, dir, refuses, l, s)" rule: recording_act.cases)
      (auto split: sum.splits prod.splits option.splits)
next
  show "recording_reads (AtCall x)" if "\<not> recording_excl x" for x
    using that by simp
next
  show "s' = s" if "recording_reads l" "recording_act pg dir refuses l s = (s', x)" for l s s' x
    using that by (cases "(pg, dir, refuses, l, s)" rule: recording_act.cases) simp_all
next
  show "recording_reads l'" if "recording_reads l" "recording_act pg dir refuses l s = (s', Inl l')" for l s s' l'
    using that by (cases "(pg, dir, refuses, l, s)" rule: recording_act.cases) simp_all
next
  show "completes (recording_act pg dir refuses) (AtCall x) s
      (fst (recording_method_call pg dir refuses x s)) (snd (recording_method_call pg dir refuses x s))" for x s
  proof (cases "(pg, dir, refuses, x, s)" rule: recording_method_call.cases)
    case (3 pg' dir' refuses' c rid w)
    then show ?thesis using delete_completes [of pg dir refuses c rid s] by (simp add: split_beta)
  qed (auto simp: split_beta intro!: completes.last_one)
qed

subsection \<open>What callers see\<close>

text \<open>The calls that return are exactly those of the sequences of whole calls.\<close>

lemma recording_histories:
  "(\<exists>s. recording_reach pg dir refuses w s \<and> mon_writer s = None \<and> mon_log s = h \<and> mon_data s = w') \<longleftrightarrow>
   replay (recording_method_call pg dir refuses) w h = Some w'"
  by (rule recording_monitor.histories)

text \<open>A recording that does not exist comes into being only by a creation that drew its id.\<close>

fun may_create :: "pg_conv \<Rightarrow> string \<Rightarrow> call_env \<times> recording_method \<Rightarrow> bool" where
  "may_create pg k (c, CallCreate _ _ _) = (uuid_of pg (new_uuid c) = k)"
| "may_create pg k (c, _) = False"

lemma CreateRecording_absent:
  assumes "recording_get k d = None" and "uuid_of pg (new_uuid c) \<noteq> k"
  shows "recording_get k (fst (CreateRecording pg c dir u dv sid d)) = None"
proof -
  let ?P = "\<lambda>d. recording_get k d = None"
  have "fst (CreateRecording pg c dir u dv sid d) = fst (run_stmt (conn_io c 0)
      (sql_insert_recording pg (new_uuid c) sid u dv (recording_path dir sid (new_uuid c)) (go_now c)) d)"
    by (simp add: CreateRecording_def Let_def split: prod.split sum.split)
  then show ?thesis
    using assms
    by (auto simp: sql_insert_recording_def Let_def recordings.get_ins split: if_splits
        intro!: run_stmt_inv [of ?P])
qed

lemma UpdateRecording_absent:
  "recording_get k d = None \<Longrightarrow> recording_get k (fst (UpdateRecording pg c rid n secs d)) = None"
  by (auto simp: UpdateRecording_def sql_update_recording_def recordings.get_upd
      intro!: run_stmt_inv [of "\<lambda>d. recording_get k d = None"])

lemma delete_stmt_absent:
  "recording_get k d = None \<Longrightarrow> exec_stmt pre i (sql_delete_recording pg rid) d = (d', e) \<Longrightarrow>
     recording_get k d' = None"
  using run_stmt_inv [of "\<lambda>d. recording_get k d = None" d "sql_delete_recording pg rid" i]
  by (auto simp: sql_delete_recording_def recordings.get_del exec_stmt_def split: prod.splits sum.splits)

lemma DeleteRecording_absent:
  "recording_get k (fst w) = None \<Longrightarrow> recording_get k (fst (fst (DeleteRecording pg c refuses rid w))) = None"
  by (auto simp: DeleteRecording_def split: prod.splits sum.splits option.splits dest: delete_stmt_absent)

lemma method_absent:
  assumes "recording_get k (fst w) = None" and "\<not> may_create pg k x"
  shows "recording_get k (fst (fst (recording_method_call pg dir refuses x w))) = None"
  using assms
  by (cases "(pg, dir, refuses, x, w)" rule: recording_method_call.cases)
     (auto simp: split_beta CreateRecording_absent UpdateRecording_absent DeleteRecording_absent)

lemma effects_absent:
  assumes "recording_get k (fst w) = None" and "\<And>x. x \<in> set h \<Longrightarrow> \<not> may_create pg k (fst x)"
  shows "recording_get k (fst (effects (recording_method_call pg dir refuses) h w)) = None"
  using assms by (induction h arbitrary: w) (simp_all add: effects_def split_beta method_absent)

lemma GetRecording_Inr: "GetRecording pg c rid d = Inr rec \<Longrightarrow> recording_get (uuid_of pg rid) d \<noteq> None"
  by (auto simp: GetRecording_def sql_select_recording_def scan_one_Inr split: sum.splits if_splits)

text \<open>
  C19. Whatever calls run at the same time, once \<open>DeleteRecording\<close> has reported success for a
  recording, no later \<open>GetRecording\<close> returns it, unless a \<open>CreateRecording\<close> in between drew the very
  same UUID.
\<close>

theorem deleted_recording_stays_deleted:
  assumes "recording_reach pg dir refuses w s" and "m < n" and "n < length (mon_log s)"
    and "mon_log s ! m = ((c, CallDelete rid), AnswerErr None)"
    and "mon_log s ! n = ((c', CallGet rid), AnswerRecording (Inr rec))"
  shows "\<exists>k. m < k \<and> k < n \<and> may_create pg (uuid_of pg rid) (fst (mon_log s ! k))"
proof (rule ccontr)
  assume none: "\<not> ?thesis"
  let ?run = "effects (recording_method_call pg dir refuses)"
  let ?between = "drop (Suc m) (take n (mon_log s))"
  obtain d files where b: "?run (take m (mon_log s)) w = (d, files)" by fastforce
  have "snd (recording_method_call pg dir refuses (c, CallDelete rid) (d, files)) = AnswerErr None"
    using recording_monitor.answers [OF assms(1) _ assms(4)] assms(2,3) by (simp add: b)
  then obtain w' where w': "DeleteRecording pg c refuses rid (d, files) = (w', None)"
    by (auto simp: split_beta prod_eq_iff)
  then have "recording_get (uuid_of pg rid) (fst w') = None"
    by (cases w') (auto elim!: DeleteRecording_None simp: recordings.get_del)
  moreover have "may_create pg k (fst x) \<Longrightarrow> k \<noteq> uuid_of pg rid" if "x \<in> set ?between" for x k
  proof -
    from that obtain i where i: "i < length ?between" "x = ?between ! i" by (metis in_set_conv_nth)
    then have "Suc m + i < n" by simp
    moreover have "x = mon_log s ! (Suc m + i)"
      using i assms(2,3) by (simp add: nth_drop)
    ultimately have x: "x = mon_log s ! (Suc m + i)" "Suc m + i < n" by simp_all
    with x none show "may_create pg k (fst x) \<Longrightarrow> k \<noteq> uuid_of pg rid" by fastforce
  qed
  ultimately have "recording_get (uuid_of pg rid) (fst (?run ?between w')) = None"
    by (intro effects_absent) auto
  moreover have split: "take n (mon_log s) = take m (mon_log s) @ mon_log s ! m # ?between"
    using id_take_nth_drop [of m "take n (mon_log s)"] assms(2,3) by simp
  have "?run (take n (mon_log s)) w = ?run ?between w'"
    by (subst split) (simp add: effects_append effects_Cons b assms(4) w')
  moreover have "AnswerRecording (Inr rec) =
      snd (recording_method_call pg dir refuses (c', CallGet rid) (?run (take n (mon_log s)) w))"
    using recording_monitor.answers [OF assms(1,3,5)] .
  ultimately show False
    by (cases "?run ?between w'") (auto dest: GetRecording_Inr [OF sym])
qed

theorem deleted_recording_stays_deleted_witness:
  "\<exists>s rec. recording_reach rec_pg ''/rec'' (\<lambda>_. False) (ex_rec_db [ex_recording (CHR ''a'')], {}) s \<and>
     snd (mon_log s ! 0) = AnswerErr None \<and> snd (mon_log s ! 2) = AnswerRecording (Inr rec) \<and>
     (\<exists>k. 0 < k \<and> k < 2 \<and> may_create rec_pg (ex_uuid (CHR ''a'')) (fst (mon_log s ! k)))"
proof -
  let ?a = "ex_uuid (CHR ''a'')" and ?c = "ex_call 5000 CHR ''a''"
  let ?w = "(ex_rec_db [ex_recording (CHR ''a'')], {}) :: recording_world"
  let ?call = "recording_method_call rec_pg ''/rec'' (\<lambda>_. False)"
  let ?create = "CallCreate (ex_uuid (CHR ''u'')) (ex_uuid (CHR ''d'')) (ex_uuid (CHR ''s''))"
  have del: "?call (?c, CallDelete ?a) ?w = ((ex_rec_db [], {}), AnswerErr None)"
    by (simp add: DeleteRecording_def sql_select_path_def sql_delete_recording_def exec_stmt_def bound_def
        bind_params.simps param_class.simps recording_get_def recording_del_def scan_one_def
        os_Remove_def ex_rec_db_def ex_recording_def delete_rows_def)
  obtain d' where new: "?call (?c, ?create) (ex_rec_db [], {}) = ((d', {}), AnswerId (Inr ?a))"
    and row: "recording_get ?a d' = Some ((ex_recording (CHR ''a''))\<lparr>rr_started_at := 5000, rr_created_at := Some 5000\<rparr>)"
    by (simp add: CreateRecording_def sql_insert_recording_def bound_def bind_params.simps
          param_class.simps recording_get_def session_get_def ex_rec_db_def ex_db_def ex_row_def
          ex_device_def Let_def recording_ins_def ex_recording_def)
  obtain rec where get: "GetRecording rec_pg ?c ?a d' = Inr rec"
    using row by (simp add: GetRecording_def sql_select_recording_def bound_def bind_params.simps
        param_class.simps scan_one_def scan_recording_def ex_recording_def)
  let ?h = "[((?c, CallDelete ?a), AnswerErr None), ((?c, ?create), AnswerId (Inr ?a)),
      ((?c, CallGet ?a), AnswerRecording (Inr rec))]"
  have "replay ?call ?w ?h = Some (d', {})"
    using del new get by simp
  then obtain s where s: "recording_reach rec_pg ''/rec'' (\<lambda>_. False) ?w s" "mon_log s = ?h"
    using recording_histories [of rec_pg "''/rec''" "\<lambda>_. False" ?w ?h] by blast
  from deleted_recording_stays_deleted [OF s(1), of 0 2 ?c ?a ?c rec] s show ?thesis
    by (intro exI [of _ s] exI [of _ rec]) simp
qed

end
