(* ===== verification/Schema.thy ===== *)
theory Schema
  imports Prelude
begin

section \<open>The migrations as programs\<close>

text \<open>
  \<open>migrations/*.sql\<close> build and remove the tables. Here a schema is its tables with their columns and
  its indexes, each file is a list of statements, and a statement can fail, in which case the file has
  no effect (PostgreSQL runs it as one transaction). Migration 002 writes the columns of
  \<open>ADD COLUMN\<close> and \<open>DROP COLUMN\<close> as a parenthesised list; PostgreSQL has no such form, other
  databases do, so whether it is accepted is a parameter, \<open>paren\<close>.
\<close>

subsection \<open>Schemas\<close>

datatype sql_type = UUID | TEXT | TIMESTAMP | INTEGER | BOOLEAN | JSONB

datatype sql_default = NoDefault | GenRandomUuid | CurrentTimestamp | DefaultInt int | DefaultBool bool

record column =
  col_name :: string
  col_type :: sql_type
  col_not_null :: bool
  col_default :: sql_default
  col_primary :: bool
  col_references :: "string option"

text \<open>The forms of column definition that the files use.\<close>

definition nullable :: "string \<Rightarrow> sql_type \<Rightarrow> column" where
  "nullable n t = \<lparr>col_name = n, col_type = t, col_not_null = False, col_default = NoDefault,
     col_primary = False, col_references = None\<rparr>"

definition not_null :: "string \<Rightarrow> sql_type \<Rightarrow> column" where
  "not_null n t = (nullable n t)\<lparr>col_not_null := True\<rparr>"

definition with_default :: "string \<Rightarrow> sql_type \<Rightarrow> sql_default \<Rightarrow> column" where
  "with_default n t v = (nullable n t)\<lparr>col_default := v\<rparr>"

definition uuid_key :: "string \<Rightarrow> column" where
  "uuid_key n = (not_null n UUID)\<lparr>col_default := GenRandomUuid, col_primary := True\<rparr>"

definition foreign_key :: "string \<Rightarrow> string \<Rightarrow> column" where
  "foreign_key n table = (not_null n UUID)\<lparr>col_references := Some table\<rparr>"

record schema =
  sc_tables :: "(string \<times> column list) list"
  sc_indexes :: "(string \<times> string) list"
  sc_comments :: "(string \<times> string) list"

definition empty_schema :: schema where
  "empty_schema = \<lparr>sc_tables = [], sc_indexes = [], sc_comments = []\<rparr>"

subsection \<open>Statements\<close>

datatype ddl =
    CreateTable string "column list"
  | CreateIndex string string "string list"
  | AddColumns string "column list"
  | CommentOnTable string string
  | DropTable string
  | DropIndex string
  | DropColumns string "string list"

datatype ddl_error =
    SyntaxError | DuplicateTable string | UndefinedTable string | UndefinedColumn string
  | DuplicateColumn string | DuplicateIndex string | DependentTable string

definition columns :: "schema \<Rightarrow> string \<Rightarrow> column list option" where
  "columns s t = map_of (sc_tables s) t"

text \<open>A table that a column of the list refers to and that does not exist, if any.\<close>

definition missing_reference :: "schema \<Rightarrow> string \<Rightarrow> column list \<Rightarrow> string option" where
  "missing_reference s t cols =
     List.find (\<lambda>r. r \<noteq> t \<and> columns s r = None) (List.map_filter col_references cols)"

text \<open>Another table with a foreign key to \<open>t\<close>, if any: \<open>DROP TABLE\<close> refuses to orphan it.\<close>

definition dependent :: "schema \<Rightarrow> string \<Rightarrow> string option" where
  "dependent s t = map_option fst
     (List.find (\<lambda>(u, cols). u \<noteq> t \<and> t \<in> set (List.map_filter col_references cols)) (sc_tables s))"

definition update_table :: "string \<Rightarrow> (column list \<Rightarrow> column list) \<Rightarrow> schema \<Rightarrow> schema" where
  "update_table t f s =
     s\<lparr>sc_tables := map (\<lambda>(u, cols). (u, if u = t then f cols else cols)) (sc_tables s)\<rparr>"

text \<open>The columns of \<open>ALTER TABLE ... ADD COLUMN\<close>, one after the other.\<close>

definition clash :: "column list \<Rightarrow> column list \<Rightarrow> string option" where
  "clash old new = List.find (\<lambda>n. n \<in> col_name ` set old) (map col_name new)"

definition absent :: "column list \<Rightarrow> string list \<Rightarrow> string option" where
  "absent cols names = List.find (\<lambda>n. n \<notin> col_name ` set cols) names"

fun ddl_exec :: "bool \<Rightarrow> ddl \<Rightarrow> schema \<Rightarrow> ddl_error + schema" where
  "ddl_exec paren (CreateTable t cols) s =
    (if columns s t \<noteq> None then Inl (DuplicateTable t)
     else (case missing_reference s t cols of
             Some u \<Rightarrow> Inl (UndefinedTable u)
           | None \<Rightarrow> Inr (s\<lparr>sc_tables := (t, cols) # sc_tables s\<rparr>)))"
| "ddl_exec paren (CreateIndex i t names) s =
    (if i \<in> fst ` set (sc_indexes s) then Inl (DuplicateIndex i)
     else (case columns s t of
             None \<Rightarrow> Inl (UndefinedTable t)
           | Some cols \<Rightarrow>
              (case absent cols names of
                 Some n \<Rightarrow> Inl (UndefinedColumn n)
               | None \<Rightarrow> Inr (s\<lparr>sc_indexes := (i, t) # sc_indexes s\<rparr>))))"
| "ddl_exec paren (AddColumns t new) s =
    (if \<not> paren then Inl SyntaxError
     else (case columns s t of
             None \<Rightarrow> Inl (UndefinedTable t)
           | Some cols \<Rightarrow>
              (case clash cols new of
                 Some n \<Rightarrow> Inl (DuplicateColumn n)
               | None \<Rightarrow> Inr (update_table t (\<lambda>cols. cols @ new) s))))"
| "ddl_exec paren (CommentOnTable t remark) s =
    (if columns s t = None then Inl (UndefinedTable t)
     else Inr (s\<lparr>sc_comments := (t, remark) # filter (\<lambda>c. fst c \<noteq> t) (sc_comments s)\<rparr>))"
| "ddl_exec paren (DropTable t) s =
    (case dependent s t of
       Some u \<Rightarrow> Inl (DependentTable u)
     | None \<Rightarrow> Inr (s\<lparr>sc_tables := filter (\<lambda>x. fst x \<noteq> t) (sc_tables s),
                       sc_indexes := filter (\<lambda>x. snd x \<noteq> t) (sc_indexes s),
                       sc_comments := filter (\<lambda>x. fst x \<noteq> t) (sc_comments s)\<rparr>))"
| "ddl_exec paren (DropIndex i) s = Inr (s\<lparr>sc_indexes := filter (\<lambda>x. fst x \<noteq> i) (sc_indexes s)\<rparr>)"
| "ddl_exec paren (DropColumns t names) s =
    (if \<not> paren then Inl SyntaxError
     else if columns s t = None then Inl (UndefinedTable t)
     else Inr (update_table t (filter (\<lambda>c. col_name c \<notin> set names)) s))"

text \<open>A file, as one transaction.\<close>

fun run_file :: "bool \<Rightarrow> ddl list \<Rightarrow> schema \<Rightarrow> ddl_error + schema" where
  "run_file paren [] s = Inr s"
| "run_file paren (c # cs) s =
    (case ddl_exec paren c s of Inl e \<Rightarrow> Inl e | Inr s' \<Rightarrow> run_file paren cs s')"

text \<open>Pending files in order, up to the first that fails.\<close>

fun run_files :: "bool \<Rightarrow> ddl list list \<Rightarrow> schema \<Rightarrow> schema \<times> ddl_error option" where
  "run_files paren [] s = (s, None)"
| "run_files paren (f # fs) s =
    (case run_file paren f s of Inl e \<Rightarrow> (s, Some e) | Inr s' \<Rightarrow> run_files paren fs s')"

subsection \<open>The files\<close>

definition init_schema_up :: "ddl list" where
  "init_schema_up =
    [CreateTable ''devices''
       [uuid_key ''id'', not_null ''device_name'' TEXT, not_null ''device_type'' TEXT,
        not_null ''state'' TEXT, nullable ''approved_at'' TIMESTAMP,
        nullable ''decommissioned_at'' TIMESTAMP, nullable ''decommissioned_by'' TEXT,
        nullable ''daemon_version'' TEXT, not_null ''public_key_pem'' TEXT,
        with_default ''created_at'' TIMESTAMP CurrentTimestamp,
        with_default ''updated_at'' TIMESTAMP CurrentTimestamp],
     CreateIndex ''idx_devices_state'' ''devices'' [''state''],
     CreateTable ''gate_sessions''
       [uuid_key ''id'', not_null ''user_id'' UUID, foreign_key ''device_id'' ''devices'',
        not_null ''state'' TEXT, nullable ''cert_serial'' TEXT, nullable ''cert_expires_at'' TIMESTAMP,
        not_null ''started_at'' TIMESTAMP, nullable ''connected_at'' TIMESTAMP,
        nullable ''disconnected_at'' TIMESTAMP, with_default ''ssh_port'' INTEGER (DefaultInt 2222),
        nullable ''recording_id'' UUID, nullable ''disconnect_reason'' TEXT,
        with_default ''created_at'' TIMESTAMP CurrentTimestamp,
        with_default ''updated_at'' TIMESTAMP CurrentTimestamp],
     CreateIndex ''idx_gate_sessions_user_device'' ''gate_sessions'' [''user_id'', ''device_id''],
     CreateIndex ''idx_gate_sessions_state'' ''gate_sessions'' [''state''],
     CreateTable ''gate_recordings''
       [uuid_key ''id'', foreign_key ''session_id'' ''gate_sessions'', not_null ''user_id'' UUID,
        foreign_key ''device_id'' ''devices'', not_null ''file_path'' TEXT, nullable ''timing_path'' TEXT,
        nullable ''byte_size'' INTEGER, nullable ''duration_seconds'' INTEGER,
        not_null ''started_at'' TIMESTAMP, nullable ''completed_at'' TIMESTAMP,
        with_default ''created_at'' TIMESTAMP CurrentTimestamp],
     CreateIndex ''idx_gate_recordings_user_device'' ''gate_recordings'' [''user_id'', ''device_id''],
     CreateTable ''gate_ca_keys''
       [uuid_key ''id'', not_null ''key_type'' TEXT, not_null ''public_key_pem'' TEXT,
        not_null ''private_key_pem_encrypted'' TEXT, not_null ''key_serial'' TEXT,
        nullable ''rotated_at'' TIMESTAMP, nullable ''expires_at'' TIMESTAMP,
        with_default ''created_at'' TIMESTAMP CurrentTimestamp],
     CreateTable ''gate_audit_log''
       [uuid_key ''id'', not_null ''event_type'' TEXT, nullable ''actor_id'' TEXT,
        nullable ''actor_type'' TEXT, nullable ''resource_type'' TEXT, nullable ''resource_id'' TEXT,
        nullable ''details'' JSONB, with_default ''created_at'' TIMESTAMP CurrentTimestamp],
     CreateIndex ''idx_gate_audit_log_resource'' ''gate_audit_log'' [''resource_type'', ''resource_id''],
     CreateIndex ''idx_gate_audit_log_event_type'' ''gate_audit_log'' [''event_type'']]"

definition init_schema_down :: "ddl list" where
  "init_schema_down = [DropTable ''gate_audit_log'', DropTable ''gate_ca_keys'',
     DropTable ''gate_recordings'', DropTable ''gate_sessions'', DropTable ''devices'']"

definition gui_columns :: "column list" where
  "gui_columns =
    [with_default ''enable_gui'' BOOLEAN (DefaultBool False), nullable ''gui_protocol'' TEXT,
     nullable ''x11_display_port'' INTEGER, nullable ''vnc_port'' INTEGER,
     nullable ''gui_session_started_at'' TIMESTAMP, nullable ''gui_session_ended_at'' TIMESTAMP]"

definition gui_fields_up :: "ddl list" where
  "gui_fields_up =
    [AddColumns ''gate_sessions'' gui_columns,
     CreateIndex ''idx_sessions_gui_protocol'' ''gate_sessions'' [''gui_protocol''],
     CommentOnTable ''gate_audit_log'' (''Event types: device_approved, device_decommissioned, '' @
       ''session_started, session_ended, gui_session_started, gui_session_ended, orphan_cleanup, policy_synced'')]"

definition gui_fields_down :: "ddl list" where
  "gui_fields_down =
    [DropIndex ''idx_sessions_gui_protocol'',
     DropColumns ''gate_sessions'' [''enable_gui'', ''gui_protocol'', ''x11_display_port'', ''vnc_port'',
       ''gui_session_started_at'', ''gui_session_ended_at'']]"

text \<open>The schema the services are written for: both files, with the list accepted.\<close>

definition migrated :: schema where
  "migrated = fst (run_files True [init_schema_up, gui_fields_up] empty_schema)"

lemmas ddl_defs = columns_def missing_reference_def dependent_def update_table_def clash_def absent_def
lemmas column_defs = nullable_def not_null_def with_default_def uuid_key_def foreign_key_def
lemmas file_defs = init_schema_up_def init_schema_down_def gui_columns_def gui_fields_up_def gui_fields_down_def

subsection \<open>What the files leave\<close>

lemma migrated_sessions:
  "columns migrated ''gate_sessions'' = Some
       [uuid_key ''id'', not_null ''user_id'' UUID, foreign_key ''device_id'' ''devices'',
        not_null ''state'' TEXT, nullable ''cert_serial'' TEXT, nullable ''cert_expires_at'' TIMESTAMP,
        not_null ''started_at'' TIMESTAMP, nullable ''connected_at'' TIMESTAMP,
        nullable ''disconnected_at'' TIMESTAMP, with_default ''ssh_port'' INTEGER (DefaultInt 2222),
        nullable ''recording_id'' UUID, nullable ''disconnect_reason'' TEXT,
        with_default ''created_at'' TIMESTAMP CurrentTimestamp,
        with_default ''updated_at'' TIMESTAMP CurrentTimestamp,
     with_default ''enable_gui'' BOOLEAN (DefaultBool False), nullable ''gui_protocol'' TEXT,
     nullable ''x11_display_port'' INTEGER, nullable ''vnc_port'' INTEGER,
     nullable ''gui_session_started_at'' TIMESTAMP, nullable ''gui_session_ended_at'' TIMESTAMP]"
  by code_simp

lemma migrated_recordings:
  "columns migrated ''gate_recordings'' = Some
     [uuid_key ''id'', foreign_key ''session_id'' ''gate_sessions'', not_null ''user_id'' UUID,
      foreign_key ''device_id'' ''devices'', not_null ''file_path'' TEXT, nullable ''timing_path'' TEXT,
      nullable ''byte_size'' INTEGER, nullable ''duration_seconds'' INTEGER,
      not_null ''started_at'' TIMESTAMP, nullable ''completed_at'' TIMESTAMP,
      with_default ''created_at'' TIMESTAMP CurrentTimestamp]"
  by code_simp

lemma migrated_ca_keys:
  "columns migrated ''gate_ca_keys'' = Some
     [uuid_key ''id'', not_null ''key_type'' TEXT, not_null ''public_key_pem'' TEXT,
      not_null ''private_key_pem_encrypted'' TEXT, not_null ''key_serial'' TEXT,
      nullable ''rotated_at'' TIMESTAMP, nullable ''expires_at'' TIMESTAMP,
      with_default ''created_at'' TIMESTAMP CurrentTimestamp]"
  by code_simp

subsection \<open>Up and down\<close>

definition gate_tables :: "string list" where
  "gate_tables = [''devices'', ''gate_sessions'', ''gate_recordings'', ''gate_ca_keys'', ''gate_audit_log'']"

definition gate_indexes :: "string list" where
  "gate_indexes = [''idx_devices_state'', ''idx_gate_sessions_user_device'', ''idx_gate_sessions_state'',
     ''idx_gate_recordings_user_device'', ''idx_gate_audit_log_resource'',
     ''idx_gate_audit_log_event_type'', ''idx_sessions_gui_protocol'']"

text \<open>A database that has nothing of the service yet; it may hold other tables.\<close>

definition without_gate :: "schema \<Rightarrow> bool" where
  "without_gate s \<longleftrightarrow>
     (\<forall>x \<in> set (sc_tables s). fst x \<notin> set gate_tables \<and>
        (\<forall>r \<in> set (List.map_filter col_references (snd x)). r \<notin> set gate_tables)) \<and>
     (\<forall>x \<in> set (sc_indexes s). fst x \<notin> set gate_indexes \<and> snd x \<notin> set gate_tables) \<and>
     (\<forall>x \<in> set (sc_comments s). fst x \<notin> set gate_tables)"

lemma without_gate_columns:
  "without_gate s \<Longrightarrow> t \<in> set gate_tables \<Longrightarrow> map_of (sc_tables s) t = None"
  by (force simp: without_gate_def map_of_eq_None_iff)

lemma without_gate_index:
  "without_gate s \<Longrightarrow> i \<in> set gate_indexes \<Longrightarrow> i \<notin> fst ` set (sc_indexes s)"
  by (force simp: without_gate_def)

lemma without_gate_kept:
  assumes "without_gate s"
  shows "t \<in> set gate_tables \<Longrightarrow> filter (\<lambda>x. fst x \<noteq> t) (sc_tables s) = sc_tables s"
    and "t \<in> set gate_tables \<Longrightarrow> filter (\<lambda>x. snd x \<noteq> t) (sc_indexes s) = sc_indexes s"
    and "t \<in> set gate_tables \<Longrightarrow> filter (\<lambda>x. fst x \<noteq> t) (sc_comments s) = sc_comments s"
    and "i \<in> set gate_indexes \<Longrightarrow> filter (\<lambda>x. fst x \<noteq> i) (sc_indexes s) = sc_indexes s"
    and "t \<in> set gate_tables \<Longrightarrow> map (\<lambda>(u, cols). (u, if u = t then f cols else cols)) (sc_tables s) = sc_tables s"
    and "t \<in> set gate_tables \<Longrightarrow>
      List.find (\<lambda>(u, cols). u \<noteq> t \<and> t \<in> set (List.map_filter col_references cols)) (sc_tables s) = None"
  using assms by (auto simp: without_gate_def filter_id_conv find_None_iff intro!: map_idI)

text \<open>The tables and indexes that a file creates, newest first.\<close>

definition tables_of :: "ddl list \<Rightarrow> (string \<times> column list) list" where
  "tables_of cs = rev (List.map_filter (\<lambda>c. case c of CreateTable t cols \<Rightarrow> Some (t, cols) | _ \<Rightarrow> None) cs)"

definition indexes_of :: "ddl list \<Rightarrow> (string \<times> string) list" where
  "indexes_of cs = rev (List.map_filter (\<lambda>c. case c of CreateIndex i t _ \<Rightarrow> Some (i, t) | _ \<Rightarrow> None) cs)"

definition after_init :: "schema \<Rightarrow> schema" where
  "after_init s = s\<lparr>sc_tables := tables_of init_schema_up @ sc_tables s,
     sc_indexes := indexes_of init_schema_up @ sc_indexes s\<rparr>"

lemma gate_names [simp]:
  "''devices'' \<in> set gate_tables" "''gate_sessions'' \<in> set gate_tables" "''gate_recordings'' \<in> set gate_tables"
  "''gate_ca_keys'' \<in> set gate_tables" "''gate_audit_log'' \<in> set gate_tables"
  "''idx_devices_state'' \<in> set gate_indexes" "''idx_gate_sessions_user_device'' \<in> set gate_indexes"
  "''idx_gate_sessions_state'' \<in> set gate_indexes" "''idx_gate_recordings_user_device'' \<in> set gate_indexes"
  "''idx_gate_audit_log_resource'' \<in> set gate_indexes" "''idx_gate_audit_log_event_type'' \<in> set gate_indexes"
  "''idx_sessions_gui_protocol'' \<in> set gate_indexes"
  by (simp_all add: gate_tables_def gate_indexes_def)

lemma init_up:
  assumes "without_gate s"
  shows "run_file paren init_schema_up s = Inr (after_init s)"
  by (simp add: after_init_def tables_of_def indexes_of_def init_schema_up_def ddl_defs column_defs
      List.map_filter_simps without_gate_columns [OF assms] without_gate_index [OF assms])

lemma gui_up:
  assumes "without_gate s"
  shows "\<exists>s2. run_file True gui_fields_up (after_init s) = Inr s2 \<and>
    run_file True gui_fields_down s2 =
      Inr ((after_init s)\<lparr>sc_comments := (''gate_audit_log'', snd (hd (sc_comments s2))) # sc_comments s\<rparr>)"
  using without_gate_index [OF assms gate_names(12)]
  by (simp add: after_init_def tables_of_def indexes_of_def file_defs ddl_defs column_defs
      List.map_filter_simps without_gate_columns [OF assms] without_gate_kept [OF assms] image_iff)

lemma init_down:
  assumes "without_gate s"
  shows "run_file paren init_schema_down ((after_init s)\<lparr>sc_comments := (''gate_audit_log'', r) # sc_comments s\<rparr>) = Inr s"
  by (simp add: after_init_def tables_of_def indexes_of_def file_defs ddl_defs column_defs
      List.map_filter_simps without_gate_kept [OF assms])

text \<open>
  C40. On a database that has nothing of the service, whatever else it holds, the four files run up
  and down without an error and give the database back: no drop meets a table that still refers to
  the dropped one. That needs a database that accepts column lists in \<open>ALTER TABLE\<close>; on PostgreSQL
  the upgrade stops with a syntax error in the second file and leaves the tables of the first one,
  without the GUI columns.
\<close>

theorem migrations_up_and_down:
  assumes "without_gate s"
  shows "run_files True [init_schema_up, gui_fields_up, gui_fields_down, init_schema_down] s = (s, None) \<and>
    (\<exists>s1. run_files False [init_schema_up, gui_fields_up] s = (s1, Some SyntaxError) \<and>
       columns s1 ''gate_recordings'' = columns migrated ''gate_recordings'' \<and>
       map_option (\<lambda>cols. cols @ gui_columns) (columns s1 ''gate_sessions'') = columns migrated ''gate_sessions'')"
proof -
  obtain s2 where s2: "run_file True gui_fields_up (after_init s) = Inr s2"
    "run_file True gui_fields_down s2 =
      Inr ((after_init s)\<lparr>sc_comments := (''gate_audit_log'', snd (hd (sc_comments s2))) # sc_comments s\<rparr>)"
    using gui_up [OF assms] by blast
  have "run_files True [init_schema_up, gui_fields_up, gui_fields_down, init_schema_down] s = (s, None)"
    using s2 by (simp add: init_up [OF assms] init_down [OF assms])
  moreover have "run_file False gui_fields_up (after_init s) = Inl SyntaxError"
    by (simp add: gui_fields_up_def)
  then have "run_files False [init_schema_up, gui_fields_up] s = (after_init s, Some SyntaxError)"
    by (simp add: init_up [OF assms])
  moreover have "columns (after_init s) ''gate_recordings'' = columns migrated ''gate_recordings''"
    unfolding migrated_recordings
    by (simp add: columns_def after_init_def tables_of_def init_schema_up_def List.map_filter_simps)
  moreover have "map_option (\<lambda>cols. cols @ gui_columns) (columns (after_init s) ''gate_sessions'') =
      columns migrated ''gate_sessions''"
    unfolding migrated_sessions
    by (simp add: columns_def after_init_def tables_of_def init_schema_up_def gui_columns_def
        List.map_filter_simps)
  ultimately show ?thesis by blast
qed

theorem migrations_up_and_down_witness:
  "run_files True [init_schema_up, gui_fields_up, gui_fields_down, init_schema_down]
     (empty_schema\<lparr>sc_tables := [(''users'', [uuid_key ''id''])]\<rparr>) =
     (empty_schema\<lparr>sc_tables := [(''users'', [uuid_key ''id''])]\<rparr>, None)"
proof -
  have "without_gate (empty_schema\<lparr>sc_tables := [(''users'', [uuid_key ''id''])]\<rparr>)"
    by (simp add: without_gate_def empty_schema_def gate_tables_def List.map_filter_simps column_defs)
  then show ?thesis using migrations_up_and_down by blast
qed

end
