(* ===== verification/Schema_Types.thy ===== *)
theory Schema_Types
  imports Schema Recording_Service CA_Service
begin

section \<open>The SQL statements against the schema\<close>

text \<open>
  Which columns each statement of the services names, and the Go type that is bound to or scanned
  from each. A statement is typed when the columns exist with types that fit; a nullable column read
  into a field that is not a pointer is typed, and is where \<open>Scan\<close> can still fail. The records of
  \<open>Database\<close> and the scans of the services are shown to be what these tables and statements give.
\<close>

subsection \<open>Go types and column types\<close>

datatype go_type = GoString | GoInt | GoInt64 | GoTime | GoBool | GoPtr go_type

fun fits :: "go_type \<Rightarrow> sql_type \<Rightarrow> bool" where
  "fits GoString t = (t = UUID \<or> t = TEXT)"
| "fits GoInt t = (t = INTEGER)"
| "fits GoInt64 t = (t = INTEGER)"
| "fits GoTime t = (t = TIMESTAMP)"
| "fits GoBool t = (t = BOOLEAN)"
| "fits (GoPtr g) t = fits g t"

fun takes_null :: "go_type \<Rightarrow> bool" where
  "takes_null (GoPtr _) = True"
| "takes_null _ = False"

text \<open>What a statement puts into a column or compares it with.\<close>

datatype sql_source = Param go_type | NullLiteral | NowCall

fun source_fits :: "sql_source \<Rightarrow> column \<Rightarrow> bool" where
  "source_fits (Param g) c = fits g (col_type c)"
| "source_fits NullLiteral c = (\<not> col_not_null c)"
| "source_fits NowCall c = (col_type c = TIMESTAMP)"

type_synonym fields = "(string \<times> go_type) list"
type_synonym sources = "(string \<times> sql_source) list"

datatype sql_stmt =
    Select string fields sources "string list"    \<comment> \<open>table, list, WHERE, ORDER BY\<close>
  | Insert string sources fields                  \<comment> \<open>table, values, RETURNING\<close>
  | Update string sources sources                 \<comment> \<open>table, SET, WHERE\<close>
  | Delete string sources                         \<comment> \<open>table, WHERE\<close>

definition column_of :: "column list \<Rightarrow> string \<Rightarrow> column option" where
  "column_of cols n = List.find (\<lambda>c. col_name c = n) cols"

definition fields_typed :: "column list \<Rightarrow> fields \<Rightarrow> bool" where
  "fields_typed cols fs \<longleftrightarrow>
     list_all (\<lambda>(n, g). case column_of cols n of None \<Rightarrow> False | Some c \<Rightarrow> fits g (col_type c)) fs"

definition sources_typed :: "column list \<Rightarrow> sources \<Rightarrow> bool" where
  "sources_typed cols ss \<longleftrightarrow>
     list_all (\<lambda>(n, v). case column_of cols n of None \<Rightarrow> False | Some c \<Rightarrow> source_fits v c) ss"

text \<open>An INSERT must give every column that is NOT NULL and has no default.\<close>

definition values_complete :: "column list \<Rightarrow> sources \<Rightarrow> bool" where
  "values_complete cols ss \<longleftrightarrow>
     list_all (\<lambda>c. col_not_null c \<and> col_default c = NoDefault \<longrightarrow> col_name c \<in> fst ` set ss) cols"

fun stmt_typed :: "schema \<Rightarrow> sql_stmt \<Rightarrow> bool" where
  "stmt_typed s (Select t fs ws os) =
    (case columns s t of None \<Rightarrow> False | Some cols \<Rightarrow>
       fields_typed cols fs \<and> sources_typed cols ws \<and> list_all (\<lambda>n. column_of cols n \<noteq> None) os)"
| "stmt_typed s (Insert t vs fs) =
    (case columns s t of None \<Rightarrow> False | Some cols \<Rightarrow>
       sources_typed cols vs \<and> values_complete cols vs \<and> fields_typed cols fs)"
| "stmt_typed s (Update t vs ws) =
    (case columns s t of None \<Rightarrow> False | Some cols \<Rightarrow> sources_typed cols vs \<and> sources_typed cols ws)"
| "stmt_typed s (Delete t ws) =
    (case columns s t of None \<Rightarrow> False | Some cols \<Rightarrow> sources_typed cols ws)"

text \<open>The nullable columns that are read into fields that cannot hold NULL.\<close>

definition null_fields :: "column list \<Rightarrow> fields \<Rightarrow> string list" where
  "null_fields cols fs = map fst (filter (\<lambda>(n, g). \<not> takes_null g \<and>
     (case column_of cols n of None \<Rightarrow> False | Some c \<Rightarrow> \<not> col_not_null c)) fs)"

subsection \<open>The statements of the services\<close>

definition session_fields :: fields where
  "session_fields =
    [(''id'', GoString), (''user_id'', GoString), (''device_id'', GoString), (''state'', GoString),
     (''cert_serial'', GoString), (''cert_expires_at'', GoTime), (''started_at'', GoTime),
     (''connected_at'', GoPtr GoTime), (''disconnected_at'', GoPtr GoTime), (''ssh_port'', GoInt),
     (''recording_id'', GoPtr GoString), (''disconnect_reason'', GoPtr GoString),
     (''gui_protocol'', GoPtr GoString), (''x11_display_port'', GoPtr GoInt), (''vnc_port'', GoPtr GoInt),
     (''gui_session_started_at'', GoPtr GoTime), (''gui_session_ended_at'', GoPtr GoTime),
     (''created_at'', GoTime), (''updated_at'', GoTime)]"

definition session_statements :: "(string \<times> sql_stmt) list" where
  "session_statements =
    [(''CreateSession'', Insert ''gate_sessions''
        [(''id'', Param GoString), (''user_id'', Param GoString), (''device_id'', Param GoString),
         (''state'', Param GoString), (''cert_serial'', Param GoString), (''cert_expires_at'', Param GoTime),
         (''started_at'', Param GoTime), (''ssh_port'', Param GoInt), (''created_at'', Param GoTime),
         (''updated_at'', Param GoTime)] session_fields),
     (''GetSession'', Select ''gate_sessions'' session_fields [(''id'', Param GoString)] []),
     (''UpdateSessionState'', Select ''gate_sessions'' [(''state'', GoString)] [(''id'', Param GoString)] []),
     (''UpdateSessionState'', Update ''gate_sessions'' [(''state'', Param GoString), (''updated_at'', Param GoTime)]
        [(''id'', Param GoString)]),
     (''MarkConnected'', Select ''gate_sessions'' [(''state'', GoString)] [(''id'', Param GoString)] []),
     (''MarkConnected'', Update ''gate_sessions''
        [(''connected_at'', Param GoTime), (''state'', Param GoString), (''updated_at'', Param GoTime)]
        [(''id'', Param GoString)]),
     (''DisconnectSession'', Select ''gate_sessions'' [(''state'', GoString)] [(''id'', Param GoString)] []),
     (''DisconnectSession'', Update ''gate_sessions''
        [(''state'', Param GoString), (''disconnected_at'', Param GoTime), (''disconnect_reason'', Param GoString),
         (''updated_at'', Param GoTime)] [(''id'', Param GoString)]),
     (''ListSessionsByDevice'', Select ''gate_sessions'' session_fields [(''device_id'', Param GoString)] [''created_at'']),
     (''ListActiveSessions'', Select ''gate_sessions'' session_fields
        [(''device_id'', Param GoString), (''state'', Param GoString)] [''created_at'']),
     (''ListSessionsByUser'', Select ''gate_sessions'' session_fields [(''user_id'', Param GoString)] [''created_at'']),
     (''CleanupExpiredSessions'', Update ''gate_sessions''
        [(''state'', Param GoString), (''disconnected_at'', Param GoTime), (''disconnect_reason'', Param GoString),
         (''updated_at'', Param GoTime)] [(''state'', Param GoString), (''cert_expires_at'', Param GoTime)]),
     (''UpdateSessionGUIStatus'', Update ''gate_sessions''
        [(''gui_protocol'', Param GoString), (''vnc_port'', Param GoInt), (''x11_display_port'', Param GoInt),
         (''gui_session_started_at'', NowCall)] [(''id'', Param GoString)]),
     (''EndGUISession'', Update ''gate_sessions''
        [(''gui_protocol'', NullLiteral), (''vnc_port'', NullLiteral), (''x11_display_port'', NullLiteral),
         (''gui_session_ended_at'', NowCall)] [(''id'', Param GoString)])]"

definition recording_fields :: fields where
  "recording_fields =
    [(''id'', GoString), (''session_id'', GoString), (''user_id'', GoString), (''device_id'', GoString),
     (''file_path'', GoString), (''timing_path'', GoPtr GoString), (''byte_size'', GoPtr GoInt64),
     (''duration_seconds'', GoPtr GoInt), (''started_at'', GoTime), (''completed_at'', GoPtr GoTime),
     (''created_at'', GoTime)]"

definition recording_statements :: "(string \<times> sql_stmt) list" where
  "recording_statements =
    [(''CreateRecording'', Insert ''gate_recordings''
        [(''id'', Param GoString), (''session_id'', Param GoString), (''user_id'', Param GoString),
         (''device_id'', Param GoString), (''file_path'', Param GoString), (''started_at'', Param GoTime),
         (''created_at'', Param GoTime)] []),
     (''GetRecording'', Select ''gate_recordings'' recording_fields [(''id'', Param GoString)] []),
     (''UpdateRecording'', Update ''gate_recordings''
        [(''byte_size'', Param GoInt64), (''duration_seconds'', Param GoInt), (''completed_at'', Param GoTime)]
        [(''id'', Param GoString)]),
     (''DeleteRecording'', Select ''gate_recordings'' [(''file_path'', GoString)] [(''id'', Param GoString)] []),
     (''DeleteRecording'', Delete ''gate_recordings'' [(''id'', Param GoString)]),
     (''ListRecordingsBySession'', Select ''gate_recordings'' recording_fields [(''session_id'', Param GoString)] [''created_at'']),
     (''ListRecordingsByDevice'', Select ''gate_recordings'' recording_fields [(''device_id'', Param GoString)] [''created_at''])]"

definition ca_key_fields :: fields where
  "ca_key_fields = [(''private_key_pem_encrypted'', GoString), (''public_key_pem'', GoString)]"

definition ca_statements :: "(string \<times> sql_stmt) list" where
  "ca_statements =
    [(''loadActiveKey'', Select ''gate_ca_keys'' ca_key_fields [(''expires_at'', NullLiteral), (''expires_at'', NowCall)] [''created_at''])]"

definition service_statements :: "(string \<times> sql_stmt) list" where
  "service_statements = session_statements @ recording_statements @ ca_statements"

definition ill_typed :: "schema \<Rightarrow> (string \<times> sql_stmt) list \<Rightarrow> string list" where
  "ill_typed s sts = map fst (filter (\<lambda>(m, st). \<not> stmt_typed s st) sts)"

subsection \<open>Scanning a row of values\<close>

datatype sql_value = VNull | VUuid string | VText string | VInt int | VTime time | VBool bool | VJson string

fun has_type :: "sql_value \<Rightarrow> sql_type \<Rightarrow> bool" where
  "has_type VNull t = True"
| "has_type (VUuid _) t = (t = UUID)"
| "has_type (VText _) t = (t = TEXT)"
| "has_type (VInt _) t = (t = INTEGER)"
| "has_type (VTime _) t = (t = TIMESTAMP)"
| "has_type (VBool _) t = (t = BOOLEAN)"
| "has_type (VJson _) t = (t = JSONB)"

definition conforms :: "column list \<Rightarrow> (string \<rightharpoonup> sql_value) \<Rightarrow> bool" where
  "conforms cols row \<longleftrightarrow> list_all (\<lambda>c. case row (col_name c) of
     None \<Rightarrow> False | Some v \<Rightarrow> has_type v (col_type c) \<and> (col_not_null c \<longrightarrow> v \<noteq> VNull)) cols"

text \<open>
  \<open>database/sql\<close> converts each value to its target; the texts are those of its errors for NULL. A
  value of another kind is an error too, with the value's kind in its text.
\<close>

fun null_text :: "go_type \<Rightarrow> string" where
  "null_text GoString = ''converting NULL to string is unsupported''"
| "null_text GoInt = ''converting NULL to int is unsupported''"
| "null_text GoInt64 = ''converting NULL to int64 is unsupported''"
| "null_text GoTime = ''unsupported Scan, storing driver.Value type <nil> into type *time.Time''"
| "null_text GoBool = ''sql/driver: couldn'' @ [CHR 0x27] @ ''t convert <nil> (<nil>) into type bool''"
| "null_text (GoPtr g) = []"

fun scans :: "go_type \<Rightarrow> sql_value \<Rightarrow> bool" where
  "scans GoString v = (case v of VUuid _ \<Rightarrow> True | VText _ \<Rightarrow> True | _ \<Rightarrow> False)"
| "scans GoInt v = (case v of VInt _ \<Rightarrow> True | _ \<Rightarrow> False)"
| "scans GoInt64 v = (case v of VInt _ \<Rightarrow> True | _ \<Rightarrow> False)"
| "scans GoTime v = (case v of VTime _ \<Rightarrow> True | _ \<Rightarrow> False)"
| "scans GoBool v = (case v of VBool _ \<Rightarrow> True | _ \<Rightarrow> False)"
| "scans (GoPtr g) v = (v = VNull \<or> scans g v)"

datatype scan_problem = NullInto nat string string | WrongKind nat string | NoSuchColumn nat string

fun scan_failure :: "nat \<Rightarrow> fields \<Rightarrow> (string \<rightharpoonup> sql_value) \<Rightarrow> scan_problem option" where
  "scan_failure i [] row = None"
| "scan_failure i ((n, g) # fs) row =
    (case row n of
       None \<Rightarrow> Some (NoSuchColumn i n)
     | Some v \<Rightarrow>
        (if scans g v then scan_failure (Suc i) fs row
         else if v = VNull then Some (NullInto i n (null_text g))
         else Some (WrongKind i n)))"

text \<open>A typed scan of a row of the table fails only on a NULL of a column the types announce.\<close>

lemma column_of_Some: "column_of cols n = Some c \<Longrightarrow> c \<in> set cols \<and> col_name c = n"
  by (auto simp: column_of_def find_Some_iff)

lemma typed_value_scans: "has_type v t \<Longrightarrow> fits g t \<Longrightarrow> v \<noteq> VNull \<Longrightarrow> scans g v"
proof (induction g)
  case (GoPtr g)
  then show ?case by simp
qed (cases v; auto)+

lemma scan_failure_typed:
  assumes "conforms cols row" and "fields_typed cols fs" and "scan_failure i fs row = Some p"
  shows "\<exists>j n g. p = NullInto j n (null_text g) \<and> (n, g) \<in> set fs \<and> n \<in> set (null_fields cols fs)"
  using assms(2,3)
proof (induction fs arbitrary: i)
  case (Cons f fs)
  obtain n g where f: "f = (n, g)" by (cases f) auto
  from Cons.prems(1) f obtain c where c: "column_of cols n = Some c" "fits g (col_type c)"
    by (auto simp: fields_typed_def split: option.splits)
  with assms(1) obtain v where v: "row n = Some v" "has_type v (col_type c)" "col_not_null c \<longrightarrow> v \<noteq> VNull"
    using column_of_Some [OF c(1)] by (fastforce simp: conforms_def list_all_iff split: option.splits)
  show ?case
  proof (cases "scans g v")
    case True
    with Cons v f have "\<exists>j n g. p = NullInto j n (null_text g) \<and> (n, g) \<in> set fs \<and> n \<in> set (null_fields cols fs)"
      by (auto simp: fields_typed_def)
    then show ?thesis by (auto simp: null_fields_def)
  next
    case False
    with typed_value_scans [OF v(2) c(2)] have null: "v = VNull" by blast
    with False have "\<not> takes_null g" by (cases g) simp_all
    with null False Cons.prems(2) v c f show ?thesis by (auto simp: null_fields_def)
  qed
qed simp

subsection \<open>The rows of the model\<close>

definition orNull :: "('a \<Rightarrow> sql_value) \<Rightarrow> 'a option \<Rightarrow> sql_value" where
  "orNull f x = (case x of None \<Rightarrow> VNull | Some y \<Rightarrow> f y)"

definition session_values :: "session_row \<Rightarrow> (string \<rightharpoonup> sql_value)" where
  "session_values r = map_of
    [(''id'', VUuid (sr_id r)), (''user_id'', VUuid (sr_user_id r)), (''device_id'', VUuid (sr_device_id r)),
     (''state'', VText (sr_state r)), (''cert_serial'', orNull VText (sr_cert_serial r)),
     (''cert_expires_at'', orNull VTime (sr_cert_expires_at r)), (''started_at'', VTime (sr_started_at r)),
     (''connected_at'', orNull VTime (sr_connected_at r)), (''disconnected_at'', orNull VTime (sr_disconnected_at r)),
     (''ssh_port'', orNull VInt (sr_ssh_port r)), (''recording_id'', orNull VUuid (sr_recording_id r)),
     (''disconnect_reason'', orNull VText (sr_disconnect_reason r)),
     (''created_at'', orNull VTime (sr_created_at r)), (''updated_at'', orNull VTime (sr_updated_at r)),
     (''enable_gui'', orNull VBool (sr_enable_gui r)), (''gui_protocol'', orNull VText (sr_gui_protocol r)),
     (''x11_display_port'', orNull VInt (sr_x11_display_port r)), (''vnc_port'', orNull VInt (sr_vnc_port r)),
     (''gui_session_started_at'', orNull VTime (sr_gui_session_started_at r)),
     (''gui_session_ended_at'', orNull VTime (sr_gui_session_ended_at r))]"

definition recording_values :: "recording_row \<Rightarrow> (string \<rightharpoonup> sql_value)" where
  "recording_values r = map_of
    [(''id'', VUuid (rr_id r)), (''session_id'', VUuid (rr_session_id r)), (''user_id'', VUuid (rr_user_id r)),
     (''device_id'', VUuid (rr_device_id r)), (''file_path'', VText (rr_file_path r)),
     (''timing_path'', orNull VText (rr_timing_path r)), (''byte_size'', orNull VInt (rr_byte_size r)),
     (''duration_seconds'', orNull VInt (rr_duration_seconds r)), (''started_at'', VTime (rr_started_at r)),
     (''completed_at'', orNull VTime (rr_completed_at r)), (''created_at'', orNull VTime (rr_created_at r))]"

definition ca_key_values :: "ca_key_row \<Rightarrow> (string \<rightharpoonup> sql_value)" where
  "ca_key_values r = map_of
    [(''id'', VUuid (kr_id r)), (''key_type'', VText (kr_key_type r)), (''public_key_pem'', VText (kr_public_key_pem r)),
     (''private_key_pem_encrypted'', VText (kr_private_key_pem_encrypted r)),
     (''key_serial'', VText (kr_key_serial r)), (''rotated_at'', orNull VTime (kr_rotated_at r)),
     (''expires_at'', orNull VTime (kr_expires_at r)), (''created_at'', orNull VTime (kr_created_at r))]"

lemma orNull_type [simp]: "(\<And>x. has_type (f x) t) \<Longrightarrow> has_type (orNull f y) t"
  by (simp add: orNull_def split: option.split)

lemma rows_conform:
  "conforms (the (columns migrated ''gate_sessions'')) (session_values r)"
  "conforms (the (columns migrated ''gate_recordings'')) (recording_values q)"
  "conforms (the (columns migrated ''gate_ca_keys'')) (ca_key_values k)"
  unfolding migrated_sessions migrated_recordings migrated_ca_keys
  by (simp_all add: conforms_def column_defs session_values_def recording_values_def ca_key_values_def)

lemma scans_orNull [simp]: "(\<And>x. scans g (f x)) \<Longrightarrow> scans (GoPtr g) (orNull f y)"
  by (simp add: orNull_def split: option.split)

lemma scans_values [simp]:
  "scans GoString (VUuid s)" "scans GoString (VText s)" "scans GoInt (VInt j)" "scans GoInt64 (VInt j)"
  "scans GoTime (VTime u)"
  by simp_all

lemma scans_orNull_iff [simp]:
  "scans GoString (orNull VText y) \<longleftrightarrow> y \<noteq> None" "scans GoTime (orNull VTime z) \<longleftrightarrow> z \<noteq> None"
  "scans GoInt (orNull VInt i) \<longleftrightarrow> i \<noteq> None"
  "orNull VText y = VNull \<longleftrightarrow> y = None" "orNull VTime z = VNull \<longleftrightarrow> z = None"
  "orNull VInt i = VNull \<longleftrightarrow> i = None"
  by (cases y; cases z; cases i; simp add: orNull_def)+

declare scans.simps [simp del]

lemma scan_session_failure:
  "scan_failure 0 session_fields (session_values r) =
     (if sr_cert_serial r = None then Some (NullInto 4 ''cert_serial'' (null_text GoString))
      else if sr_cert_expires_at r = None then Some (NullInto 5 ''cert_expires_at'' (null_text GoTime))
      else if sr_ssh_port r = None then Some (NullInto 9 ''ssh_port'' (null_text GoInt))
      else if sr_created_at r = None then Some (NullInto 17 ''created_at'' (null_text GoTime))
      else if sr_updated_at r = None then Some (NullInto 18 ''updated_at'' (null_text GoTime))
      else None)"
  unfolding session_fields_def session_values_def
  by (simp cong: if_cong del: null_text.simps not_None_eq)

lemma scan_recording_failure:
  "scan_failure 0 recording_fields (recording_values q) =
     (if rr_created_at q = None then Some (NullInto 10 ''created_at'' (null_text GoTime)) else None)"
  unfolding recording_fields_def recording_values_def
  by (simp cong: if_cong del: null_text.simps not_None_eq)

text \<open>The error that \<open>Scan\<close> returns for a NULL.\<close>

fun scan_error :: "scan_problem \<Rightarrow> go_error option" where
  "scan_error (NullInto i n why) = Some (scan_null i n why)"
| "scan_error _ = None"

lemma null_fields_migrated:
  "null_fields (the (columns migrated ''gate_sessions'')) session_fields =
     [''cert_serial'', ''cert_expires_at'', ''ssh_port'', ''created_at'', ''updated_at'']"
  "null_fields (the (columns migrated ''gate_recordings'')) recording_fields = [''created_at'']"
  by code_simp+


text \<open>
  On PostgreSQL only the first file takes effect, and then the methods that read or write the GUI
  columns name columns that do not exist: no session can be created or read.
\<close>

lemma postgres_ill_typed:
  "ill_typed (fst (run_files False [init_schema_up, gui_fields_up] empty_schema)) service_statements =
     [''CreateSession'', ''GetSession'', ''ListSessionsByDevice'', ''ListActiveSessions'',
      ''ListSessionsByUser'', ''UpdateSessionGUIStatus'', ''EndGUISession'']"
  by code_simp

subsection \<open>The model type that no code uses\<close>

text \<open>
  \<open>models.Session\<close> is referenced nowhere. Its fields, under the names their columns would have, are
  those of the table but for two that no migration creates.
\<close>

definition models_Session :: fields where
  "models_Session =
    [(''id'', GoString), (''user_id'', GoString), (''device_id'', GoString), (''state'', GoString),
     (''cert_serial'', GoString), (''cert_expires_at'', GoTime), (''started_at'', GoTime),
     (''connected_at'', GoPtr GoTime), (''disconnected_at'', GoPtr GoTime), (''terminated_at'', GoPtr GoTime),
     (''ssh_port'', GoInt), (''proxy_chain'', GoString), (''recording_id'', GoPtr GoString),
     (''disconnect_reason'', GoPtr GoString), (''enable_gui'', GoBool), (''gui_protocol'', GoPtr GoString),
     (''x11_display_port'', GoPtr GoInt), (''vnc_port'', GoPtr GoInt),
     (''gui_session_started_at'', GoPtr GoTime), (''gui_session_ended_at'', GoPtr GoTime),
     (''created_at'', GoTime), (''updated_at'', GoTime)]"

lemma models_Session_columns:
  "filter (\<lambda>f. \<not> fields_typed (the (columns migrated ''gate_sessions'')) [f]) models_Session =
     [(''terminated_at'', GoPtr GoTime), (''proxy_chain'', GoString)]"
  by code_simp

end
