(* ===== verification/Spec2Isabelle.thy ===== *)
theory Spec2Isabelle
  imports Terminal_Streams Http Policy_Concurrency Recording_Concurrency Schema_Types
begin

text \<open>
  JennGate is a Go service that issues SSH certificates and keeps track of remote access sessions and
  their recordings. This library models its Go code, component by component, and proves what the
  rest of the system may rely on.

  The parts and how they interact. \<open>cmd/jenngate/main.go\<close> reads the configuration from the
  environment, connects to PostgreSQL, runs the migrations, builds the services and starts the
  HTTP router and the daemon server. The HTTP handlers (\<open>internal/handlers\<close>) call the certificate
  authority, the session, recording and policy services (\<open>internal/services\<close>); the daemon server
  (\<open>internal/daemon\<close>) calls the session service; the session, recording and CA services keep their
  state in tables of the database (\<open>migrations\<close>), the policy service in memory. The WebSocket terminal
  is a loop of its own.

  The theories, in the order they build on each other:
  \<^item> \<open>Prelude\<close>: Go's errors with \<open>fmt.Errorf\<close> wrapping, decimal printing, \<open>ORDER BY created_at
    DESC\<close>, rows by primary key, and the table contract as locales (\<open>row_store\<close>, \<open>row_store_del\<close>).
  \<^item> \<open>Database\<close>: the tables as lists of rows, parameter conversion, one statement and its failures
    (\<open>run_stmt\<close>, \<open>run_query\<close>), scanning of results.
  \<^item> \<open>Schema\<close>, \<open>Schema_Types\<close>: \<open>migrations/*.sql\<close> as programs that build and remove tables and
    indexes, and the columns and Go types of every statement of the services checked against them.
  \<^item> \<open>RWMutex\<close>: goroutines that run methods statement by statement under a \<open>sync.RWMutex\<close>, for any
    methods: \<open>monitor_step\<close> and the runs \<open>monitor_reach\<close>, that a call can always return (locale
    \<open>rw_monitor\<close>), and that calls under exclusive locking act as if one at a time (\<open>rw_atomic\<close>).
  \<^item> \<open>Session_Service\<close>, \<open>Session_Lifecycle\<close>, \<open>Session_Properties\<close>, \<open>Session_Concurrency\<close>:
    \<open>session_service.go\<close>. The methods as functions of the database; the lifecycle as an abstract
    machine that sequences of calls refine (the locale \<open>lifecycle\<close>) and the row invariant; the
    properties of the methods; and calls that interleave, as an instance of \<open>RWMutex\<close> with the
    locking the code has and, for comparison, with exclusive locking.
  \<^item> \<open>Filepath\<close>, \<open>Recording_Service\<close>, \<open>Recording_Properties\<close>, \<open>Recording_Concurrency\<close>:
    \<open>filepath.Join\<close> and \<open>recording_service.go\<close>, on the database and the set of transcript files, first
    call by call, then with interleaved calls.
  \<^item> \<open>Policy_Service\<close>, \<open>Policy_Concurrency\<close>: \<open>policy_service.go\<close>, with the locale \<open>keyed_store\<close> for
    its cache, call by call and with interleaved calls.
  \<^item> \<open>Strconv\<close>, \<open>Go_Time\<close>: \<open>strconv.Atoi\<close>, \<open>strconv.Quote\<close>, Unix time, durations and the two
    layouts of \<open>time.Format\<close> the code uses, with the calendar proved against a count of days.
  \<^item> \<open>Config\<close>: \<open>config.go\<close>, \<open>db.go\<close> and \<open>migrations/runner.go\<close>.
  \<^item> \<open>CA_Service\<close>, \<open>CA_Properties\<close>: \<open>ca_service.go\<close> with serial numbers and validity as 64-bit words.
  \<^item> \<open>Terminal\<close>, \<open>Terminal_Streams\<close>: \<open>websocket.go\<close>, a run over the timed events of a client that
    falls silent, and over the endless events of one that does not.
  \<^item> \<open>Daemon_Server\<close>: \<open>daemon_server.go\<close>.
  \<^item> \<open>Handlers\<close>, \<open>Startup\<close>: \<open>handlers.go\<close> with \<open>internal/models\<close> (the locale \<open>row_lookup\<close> is what the
    handlers that fetch one row share), and \<open>main.go\<close>.
  \<^item> \<open>Gate\<close>: every operation that changes state as an event on one world, with the invariant of the
    whole.
  \<^item> \<open>Http\<close>: a request on any route as one datatype, and the dispatch to its handler.
  \<^item> this theory: the properties that span components.

  How state and operations correspond. A Go struct is a record with the struct's fields (prefixed), a
  table row a record with the columns, nullable columns being options. A method keeps its name and
  becomes a function from its arguments, its surroundings (\<open>call_env\<close>: the clock, the server's
  clock, the random uuid, how the connection behaves at each statement) and the state to the new
  state and the result; an error is a value of \<open>go_error\<close>. The SQL of a method is a definition
  \<open>sql_...\<close> of its own. Handlers that share a method's name are prefixed \<open>h_\<close>.

  What the properties show. For sessions: every run follows the lifecycle, DISCONNECTED is final, rows
  stay well-formed, each method on every branch, the listings, and what concurrent calls keep and
  what they do not. For recordings: round trip, files of different recordings never mixed up, the
  branches of delete and update, and that a deleted recording stays deleted under any interleaving.
  For policies: the abstract policy they implement, and that an answer given while other calls run is
  that of the policies in force between two calls. For the schema: the up migrations build the tables
  the services' statements are typed against, and the down migrations remove them again. For
  certificates: which key is loaded, the content and lifetime of what is issued,
  acceptance exactly within the window, and the identity of serial numbers. For the rest: the
  configuration round trip, the terminal's answers and when it ever ends, which routes of the HTTP
  interface change state, and the flows from the daemon to the status page and from the environment
  to the running server.

  Bounds. No fuel is used: the loops of the code run over a list, except the terminal's, which on an
  endless client is the partial function \<open>terminal_run\<close>, None exactly when it never returns. \<open>INTEGER\<close>
  columns hold 32 bits, \<open>int\<close> is read by \<open>Atoi\<close> in 64 bits, certificate times are \<open>uint64\<close>; the
  serial number keeps 32 bits of the Unix time, which is enough until 2106; dates are printed in
  fixed width for the years 1 to 9999.

  Outside the model, as parameters: PostgreSQL's conversions of uuid, timestamp and text and its error
  texts (\<open>pg_conv\<close>), the SSH and PEM libraries (\<open>ssh_lib\<close>), the WebSocket connection, gin's
  binding of requests and JSON encoding, the migration library and the network. Hypotheses on them
  are named and state documented behaviour: \<open>uuid_text_plain\<close>, \<open>fresh_id\<close>, \<open>ts_mono\<close> (which holds
  while the server's zone keeps its offset), \<open>signs_only\<close>, \<open>reads_back\<close>, \<open>close_is_final\<close>. Whether
  a database accepts the parenthesised column lists of migration 002 is the parameter \<open>paren\<close>. Not
  modelled: log output other than the daemon's and the terminal's, the protocol file (nothing is
  generated from it) and the test helpers.
\<close>

section \<open>Properties that span components\<close>

subsection \<open>Runs of the whole service\<close>

lemma GetSession_row:
  assumes "conn_io c 0 = IoOk" and "uuid_in pg sid = Some u" and "session_get u d = Some r"
  shows "GetSession pg c sid d = (case scan_session r of Inl e \<Rightarrow> Inl (errorf_w ''failed to get session: '' e) | Inr s \<Rightarrow> Inr s)"
proof -
  have "scan_session r \<noteq> Inl ErrNoRows"
    by (auto simp: scan_session_def scan_null_def split: option.split)
  then show ?thesis
    using assms
    by (auto simp: GetSession_def sql_select_session_def bound_def bind_params.simps param_class.simps
          uuid_of_eq scan_one_def split: sum.split)
qed


definition ex_world :: world where
  "ex_world = \<lparr>w_gate = \<lparr>gt_db = ex_rec_db [ex_recording (CHR ''a''), ex_recording (CHR ''b'')],
     gt_ca = ex_ca, gt_policies = NewPolicyService\<rparr>, w_files = {}\<rparr>"

lemma ex_world_ok: "world_ok ''/rec'' ex_world"
proof -
  have "schema_ok (world_db ex_world)"
    by (simp add: schema_ok_def world_db_def ex_world_def ex_rec_db_def ex_db_def)
       (simp add: ex_recording_def ex_row_def ex_device_def)
  moreover have "row_ok (ex_row (CHR ''s'') StateActive)"
    by (simp add: row_ok_def ex_row_def)
  then have "sessions_ok (world_db ex_world)"
    by (simp add: sessions_ok_def session_get_def world_db_def ex_world_def ex_rec_db_def ex_db_def)
  moreover have "recordings_ok ''/rec'' (world_db ex_world)"
    using ex_rec_db_ok by (simp add: world_db_def ex_world_def)
  ultimately show ?thesis by (simp add: world_ok_def)
qed


subsection \<open>What a client sees of a row that is missing\<close>

text \<open>
  C33. The two session handlers and the recording handler never answer 404: they compare the
  service's error with \<open>sql.ErrNoRows\<close>, but the services replace that error. An id that names no
  row is answered with status 500 and the service's text.
\<close>

theorem missing_rows_are_server_errors:
  "fst (h_GetSession pg c sid g) \<noteq> 404 \<and> fst (SessionStatus pg c sid g) \<noteq> 404 \<and>
   fst (h_GetRecording pg c sid g) \<noteq> 404 \<and>
   (conn_io c 0 = IoOk \<and> uuid_in pg sid = Some u \<and> session_get u (gt_db g) = None \<longrightarrow>
      h_GetSession pg c sid g = (500, error_body ''failed to get session'' (''session not found: '' @ sid)) \<and>
      SessionStatus pg c sid g = (500, error_body ''failed to get session'' (''session not found: '' @ sid))) \<and>
   (conn_io c 0 = IoOk \<and> uuid_in pg sid = Some u \<and> recording_get u (gt_db g) = None \<longrightarrow>
      h_GetRecording pg c sid g = (500, error_body ''failed to get recording'' (''recording not found: '' @ sid)))"
  unfolding lookup_handlers
  by (simp add: session_lookup.answer_not_404 recording_lookup.answer_not_404
      session_lookup.answer_missing recording_lookup.answer_missing)

theorem missing_rows_are_server_errors_witness:
  "h_GetSession ex_pg (ex_call 1 CHR ''x'') (ex_uuid (CHR ''q''))
     \<lparr>gt_db = ex_db [], gt_ca = ex_ca, gt_policies = NewPolicyService\<rparr> =
   (500, error_body ''failed to get session'' (''session not found: '' @ ex_uuid (CHR ''q'')))"
  using missing_rows_are_server_errors [of ex_pg "ex_call 1 CHR ''x''" "ex_uuid (CHR ''q'')"
      "\<lparr>gt_db = ex_db [], gt_ca = ex_ca, gt_policies = NewPolicyService\<rparr>" "ex_uuid (CHR ''q'')"]
  by (simp add: session_get_def ex_db_def)

subsection \<open>Issuing a certificate\<close>


definition ex_request :: request_env where
  "ex_request = \<lparr>rq_issue = ex_issue (1700000000 * second), rq_now_expires = 1700000000 * second,
     rq_now_session = 1700000000 * second, rq_zone = 0\<rparr>"

definition ex_gate :: gate where
  "ex_gate = \<lparr>gt_db = ex_db [], gt_ca = ex_ca, gt_policies = NewPolicyService\<rparr>"


text \<open>
  C36. The session id in the answer is the wall-clock second, so for the years 1 to 9999 two answers
  carry the same id exactly when they were made in the same second, whoever asked for whatever
  device.
\<close>

theorem session_id_is_the_second:
  assumes "IssueCert lib e keys bind g = (200, CertBody r)" and "IssueCert lib' e' keys' bind' g' = (200, CertBody r')"
    and "rq_zone e = rq_zone e'"
    and "in_layout_range (rq_zone e) (rq_now_session e)" and "in_layout_range (rq_zone e') (rq_now_session e')"
  shows "icp_SessionID r = icp_SessionID r' \<longleftrightarrow> Unix (rq_now_session e) = Unix (rq_now_session e')"
proof -
  have id: "icp_SessionID r = ''session-'' @ format_stamp (rq_zone e) (rq_now_session e)"
    if "IssueCert lib e keys bind g = (200, CertBody r)" for lib e keys bind g r
    using that by (auto simp: IssueCert_def Let_def error_body_def split: sum.splits if_splits)
  show ?thesis
    using assms(3-5) format_stamp_inject [of "rq_zone e" "rq_now_session e" "rq_now_session e'"]
    by (simp add: id [OF assms(1)] id [OF assms(2)])
qed

lemma ex_request_range: "in_layout_range 0 (1700000000 * second)" "in_layout_range 0 (1700000000 * second + 1)"
  by (intro in_layout_rangeI; simp add: Unix_def second_def)+

theorem session_id_is_the_second_witness:
  "\<exists>r r'. IssueCert (ex_lib ex_cert) ex_request [''user_id'' \<mapsto> ''ann'']
      (Inr \<lparr>icr_DeviceID = ''edge'', icr_DurationMinutes = 0, icr_EnableGUI = True\<rparr>) ex_gate = (200, CertBody r) \<and>
    IssueCert (ex_lib ex_cert) (ex_request\<lparr>rq_now_session := 1700000000 * second + 1\<rparr>) [''user_id'' \<mapsto> ''bob'']
      (Inr \<lparr>icr_DeviceID = ''dock'', icr_DurationMinutes = 0, icr_EnableGUI = False\<rparr>) ex_gate = (200, CertBody r') \<and>
    icp_SessionID r = icp_SessionID r'"
proof -
  have gen: "GenerateCertificate (ex_lib ex_cert) (rq_issue ex_request) (gt_ca ex_gate) u dv 60 = Inr ''cert''" for u dv
    by (simp add: GenerateCertificate_def ex_lib_def ex_request_def ex_issue_def ex_gate_def ex_ca_def)
  obtain r where r: "IssueCert (ex_lib ex_cert) ex_request [''user_id'' \<mapsto> ''ann'']
      (Inr \<lparr>icr_DeviceID = ''edge'', icr_DurationMinutes = 0, icr_EnableGUI = True\<rparr>) ex_gate = (200, CertBody r)"
    using gen by (simp add: IssueCert_def GetString_def Let_def)
  obtain r' where r': "IssueCert (ex_lib ex_cert) (ex_request\<lparr>rq_now_session := 1700000000 * second + 1\<rparr>) [''user_id'' \<mapsto> ''bob'']
      (Inr \<lparr>icr_DeviceID = ''dock'', icr_DurationMinutes = 0, icr_EnableGUI = False\<rparr>) ex_gate = (200, CertBody r')"
    using gen by (simp add: IssueCert_def GetString_def Let_def)
  have "Unix (1700000000 * second) = Unix (1700000000 * second + 1)" by (simp add: Unix_def second_def)
  then show ?thesis
    using session_id_is_the_second [OF r r'] r r' ex_request_range by (auto simp: ex_request_def)
qed

subsection \<open>A GUI session from the daemon to the status page\<close>

text \<open>
  C37. When a daemon reports a GUI server on a session, the status endpoint shows the GUI as active
  with that protocol and port, and after the daemon reported its end as inactive without a port; the
  session's state is the same throughout.
\<close>

theorem gui_status_end_to_end:
  fixes g :: gate
  assumes conn: "conn_io c 0 = IoOk" "conn_io c' 0 = IoOk" "conn_io q 0 = IoOk"
    and sid: "uuid_in pg sid = Some u" and row: "session_get u (gt_db g) = Some r" "row_ok r"
    and proto: "proto \<in> {''vnc'', ''x11''}" "text_ok pg proto" and port: "int4_ok port"
  defines "started \<equiv> g\<lparr>gt_db := fst (NotifyGUISessionStart pg c sid proto port (gt_db g))\<rparr>"
  defines "ended \<equiv> g\<lparr>gt_db := fst (NotifyGUISessionEnd pg c' sid (gt_db started))\<rparr>"
  shows "\<exists>b b'. SessionStatus pg q sid started = (200, StatusBody b) \<and>
      ssr_GUIActive b \<and> ssr_GUIProtocol b = Some proto \<and> ssr_GUIPort b = Some port \<and> ssr_State b = sr_state r \<and>
    SessionStatus pg q sid ended = (200, StatusBody b') \<and>
      \<not> ssr_GUIActive b' \<and> ssr_GUIProtocol b' = None \<and> ssr_GUIPort b' = None \<and> ssr_State b' = sr_state r"
proof -
  obtain v x where vx: "gui_ports proto port = Some (v, x)" "proto = ''vnc'' \<Longrightarrow> v = port" "proto = ''x11'' \<Longrightarrow> x = port"
    using proto(1) by (auto simp: gui_ports_def)
  let ?r1 = "r\<lparr>sr_gui_protocol := Some proto, sr_vnc_port := Some v, sr_x11_display_port := Some x,
      sr_gui_session_started_at := Some (db_now c)\<rparr>"
  let ?r2 = "?r1\<lparr>sr_gui_protocol := None, sr_vnc_port := None, sr_x11_display_port := None,
      sr_gui_session_ended_at := Some (db_now c')\<rparr>"
  have get: "session_get u (gt_db started) = Some ?r1"
    using notify_start_eq [OF conn(1) sid vx(1) proto(2) port, of "gt_db g"] row(1)
    by (simp add: started_def sessions.get_upd)
  then have get': "session_get u (gt_db ended) = Some ?r2"
    using notify_end_eq [OF conn(2) sid, of "gt_db started"] by (simp add: ended_def sessions.get_upd)
  from row(2) have "row_ok ?r1" "row_ok ?r2" by (auto simp: row_ok_def)
  then obtain s s' where scans: "scan_session ?r1 = Inr s" "scan_session ?r2 = Inr s'"
    using row_ok_scan by blast
  have "ses_GUIProtocol s = Some proto" "ses_VNCPort s = Some v" "ses_X11DisplayPort s = Some x"
    "ses_State s = sr_state r" "ses_GUIProtocol s' = None" "ses_State s' = sr_state r"
    using scans by (auto simp: scan_session_def split: option.splits)
  then have "ssr_GUIActive (session_status s)" "ssr_GUIProtocol (session_status s) = Some proto"
      "ssr_GUIPort (session_status s) = Some port" "ssr_State (session_status s) = sr_state r"
      "\<not> ssr_GUIActive (session_status s')" "ssr_GUIProtocol (session_status s') = None"
      "ssr_GUIPort (session_status s') = None" "ssr_State (session_status s') = sr_state r"
    using proto(1) vx(2,3) by (auto simp: session_status_def Let_def)
  moreover have "GetSession pg q sid (gt_db started) = Inr s" "GetSession pg q sid (gt_db ended) = Inr s'"
    by (simp_all only: GetSession_row [OF conn(3) sid get] GetSession_row [OF conn(3) sid get'] scans sum.case)
  ultimately show ?thesis
    by (intro exI [of _ "session_status s"] exI [of _ "session_status s'"]) (simp add: SessionStatus_def)
qed

theorem gui_status_end_to_end_witness:
  "\<exists>b. SessionStatus ex_pg (ex_call 9 CHR ''x'') (ex_uuid (CHR ''s''))
     (ex_gate\<lparr>gt_db := fst (NotifyGUISessionStart ex_pg (ex_call 8 CHR ''x'') (ex_uuid (CHR ''s'')) ''vnc'' 5901
        (ex_db [ex_row (CHR ''s'') StateActive]))\<rparr>) = (200, StatusBody b) \<and> ssr_GUIPort b = Some 5901"
proof -
  let ?g = "ex_gate\<lparr>gt_db := ex_db [ex_row (CHR ''s'') StateActive]\<rparr>"
  have row: "session_get (ex_uuid (CHR ''s'')) (gt_db ?g) = Some (ex_row (CHR ''s'') StateActive)"
    "row_ok (ex_row (CHR ''s'') StateActive)"
    by (simp_all add: session_get_def ex_db_def row_ok_def) (simp_all add: ex_row_def)
  from gui_status_end_to_end [OF _ _ _ _ row, of "ex_call 8 CHR ''x''" "ex_call 8 CHR ''x''" "ex_call 9 CHR ''x''"
      ex_pg "ex_uuid (CHR ''s'')" "''vnc''" 5901]
  show ?thesis by (auto simp: int4_ok_def)
qed

subsection \<open>From the environment to the server\<close>


definition ex_start :: start_env where
  "ex_start = \<lparr>st_env = env_of ex_config, st_sql_Open = (\<lambda>_. None), st_ping = (\<lambda>_. None),
     st_migrate_New = (\<lambda>_ _. None), st_up = (\<lambda>_. UpNoChange), st_lib = ex_lib undefined,
     st_ca_call = ex_call 3 CHR ''x'', st_db = ex_keys_db, st_MkdirAll = (\<lambda>_. None), st_rec_ping = None\<rparr>"


end
